(* ===== verification/Aio_Prelude.thy ===== *)
theory Aio_Prelude
  imports Main "HOL-Library.Word" "HOL-Library.State_Monad"
begin

unbundle bit_operations_syntax

text \<open>
  Shared vocabulary of the development: the machine types of the C code at their widths, the
  Linux error numbers the driver returns, the collections of rewrite rules the component
  theories fill, and generic facts on lists, words and C strings.

  A C value of type \<^verbatim>\<open>__u8\<close>, \<^verbatim>\<open>uint16_t\<close>, \<^verbatim>\<open>__u32\<close>, \<^verbatim>\<open>size_t\<close> or a pointer is a word of that width.
  A C \<^verbatim>\<open>int\<close> or \<^verbatim>\<open>long\<close> that only holds a status is an \<^typ>\<open>int\<close>.
\<close>

section \<open>Machine types\<close>

type_synonym u8 = "8 word"
type_synonym u16 = "16 word"
type_synonym u32 = "32 word"
type_synonym u64 = "64 word"

text \<open>Kernel virtual addresses of a 64-bit target.\<close>

type_synonym addr = "64 word"

section \<open>Error numbers\<close>

text \<open>The values of \<^verbatim>\<open>include/uapi/asm-generic/errno*.h\<close> for the names the code uses.\<close>

abbreviation (input) EPERM :: int where "EPERM \<equiv> 1"
abbreviation (input) EIO :: int where "EIO \<equiv> 5"
abbreviation (input) ENOMEM :: int where "ENOMEM \<equiv> 12"
abbreviation (input) EINVAL :: int where "EINVAL \<equiv> 22"
abbreviation (input) EALREADY :: int where "EALREADY \<equiv> 114"
abbreviation (input) ECANCELED :: int where "ECANCELED \<equiv> 125"

section \<open>Collections\<close>

named_theorems io_simps \<open>effect of one bus or lock primitive on the state\<close>
named_theorems style_defs \<open>definitions of the enable, disable and interrupt functions\<close>
named_theorems step_simps \<open>evaluation of one statement of the wait-queue machine\<close>

section \<open>Running a state computation\<close>

lemma case_prod_run [simp]:
  "(case run_state m s of (a, s') \<Rightarrow> f a s') = f (fst (run_state m s)) (snd (run_state m s))"
  by (simp add: case_prod_beta)

text \<open>Reading one field of the state and writing the whole state back.\<close>

definition gets :: "('s \<Rightarrow> 'a) \<Rightarrow> ('s, 'a) state" where
  "gets f = State (\<lambda>s. (f s, s))"

definition modify :: "('s \<Rightarrow> 's) \<Rightarrow> ('s, unit) state" where
  "modify f = State (\<lambda>s. ((), f s))"

lemma run_state_gets [simp]: "run_state (gets f) s = (f s, s)"
  by (simp add: gets_def)

lemma run_state_modify [simp]: "run_state (modify f) s = ((), f s)"
  by (simp add: modify_def)

section \<open>Searching a table\<close>

text \<open>
  \<^verbatim>\<open>for (i = 0; i < n; i++) if (P(tab[i])) { ...; break; }\<close>: the index of the first hit.
\<close>

fun first_index :: "('a \<Rightarrow> bool) \<Rightarrow> 'a list \<Rightarrow> nat option" where
  "first_index P [] = None"
| "first_index P (x # xs) = (if P x then Some 0 else map_option Suc (first_index P xs))"

lemma first_index_None_iff: "first_index P xs = None \<longleftrightarrow> (\<forall>x \<in> set xs. \<not> P x)"
  by (induction xs) auto

lemma first_index_SomeD:
  "first_index P xs = Some i \<Longrightarrow> i < length xs \<and> P (xs ! i) \<and> (\<forall>j < i. \<not> P (xs ! j))"
proof (induction xs arbitrary: i)
  case Nil
  then show ?case by simp
next
  case (Cons x xs)
  show ?case
  proof (cases "P x")
    case True
    with Cons.prems show ?thesis by simp
  next
    case False
    with Cons.prems obtain k where k: "first_index P xs = Some k" "i = Suc k" by auto
    have "j = 0 \<or> (\<exists>m. j = Suc m)" for j by (cases j) auto
    with Cons.IH [OF k(1)] k(2) False show ?thesis
      by (auto simp: less_Suc_eq_0_disj)
  qed
qed

lemma first_index_distinct:
  "distinct (map f xs) \<Longrightarrow> i < length xs \<Longrightarrow> first_index (\<lambda>x. f x = f (xs ! i)) xs = Some i"
proof (induction xs arbitrary: i)
  case Nil
  then show ?case by simp
next
  case (Cons x xs)
  then show ?case
    by (cases i) (auto simp: rev_image_eqI)
qed

section \<open>C strings and fixed-size character buffers\<close>

text \<open>
  A \<^verbatim>\<open>const char *\<close> is the list of its characters before the terminator. A \<^verbatim>\<open>char[n]\<close> is a list
  of \<^verbatim>\<open>n\<close> characters, the terminator being \<open>CHR 0x00\<close>. A copy that would leave the buffer is
  \<open>None\<close>.
\<close>

abbreviation (input) NUL :: char where "NUL \<equiv> CHR 0x00"

definition strcpy :: "char list \<Rightarrow> string \<Rightarrow> char list option" where
  "strcpy buf s =
     (if length s < length buf then Some (s @ [NUL] @ drop (length s + 1) buf) else None)"

text \<open>\<^verbatim>\<open>strncpy\<close>: exactly \<open>n\<close> characters are written, padded with terminators, none if \<open>s\<close> is longer.\<close>

definition strncpy :: "char list \<Rightarrow> string \<Rightarrow> nat \<Rightarrow> char list option" where
  "strncpy buf s n =
     (if n \<le> length buf
      then Some (take n s @ replicate (n - length s) NUL @ drop n buf) else None)"

text \<open>The string a buffer holds, if it is terminated.\<close>

definition c_string :: "char list \<Rightarrow> string option" where
  "c_string buf = (if NUL \<in> set buf then Some (takeWhile (\<lambda>c. c \<noteq> NUL) buf) else None)"

fun is_prefix :: "string \<Rightarrow> string \<Rightarrow> bool" where
  "is_prefix [] ys = True"
| "is_prefix (x # xs) [] = False"
| "is_prefix (x # xs) (y # ys) = (x = y \<and> is_prefix xs ys)"

text \<open>Whether \<^verbatim>\<open>strstr(hay, needle)\<close> is not \<^verbatim>\<open>NULL\<close>.\<close>

fun strstr :: "string \<Rightarrow> string \<Rightarrow> bool" where
  "strstr [] needle = (needle = [])"
| "strstr (c # cs) needle = (is_prefix needle (c # cs) \<or> strstr cs needle)"

lemma length_strcpy: "strcpy buf s = Some buf' \<Longrightarrow> length buf' = length buf"
  by (auto simp: strcpy_def split: if_splits)

lemma length_strncpy: "strncpy buf s n = Some buf' \<Longrightarrow> length buf' = length buf"
  by (auto simp: strncpy_def split: if_splits)

lemma takeWhile_stop: "z \<notin> set s \<Longrightarrow> takeWhile (\<lambda>c. c \<noteq> z) (s @ z # r) = s"
  by (induction s) auto

lemma c_string_strcpy:
  "strcpy buf s = Some buf' \<Longrightarrow> NUL \<notin> set s \<Longrightarrow> c_string buf' = Some s"
  by (auto simp: strcpy_def c_string_def takeWhile_stop split: if_splits)

lemma c_string_strncpy:
  assumes "strncpy buf s n = Some buf'" and "NUL \<notin> set s" and "length s < n"
  shows "c_string buf' = Some s"
proof -
  from assms(3) obtain k where "n - length s = Suc k" by (cases "n - length s") auto
  with assms show ?thesis
    by (auto simp: strncpy_def c_string_def takeWhile_stop split: if_splits)
qed

section \<open>Words\<close>

lemma and_mask_idem: "(x AND m) AND m = x AND (m :: 'a::len word)"
  by (simp add: and.assoc)

lemma and_4_eq_0: "(x AND 4 = 0) = (\<not> bit x 2)" for x :: "'a::len word"
  using and_exp_eq_0_iff_not_bit [of x 2] by simp

lemma and_128_eq_0: "(x AND 128 = 0) = (\<not> bit x 7)" for x :: "'a::len word"
  using and_exp_eq_0_iff_not_bit [of x 7] by simp

lemma ucast_ucast_u8 [simp]: "ucast (ucast (x :: u8) :: u32) = x"
  by (rule bit_word_eqI) (auto simp: bit_simps)

lemma ucast_ucast_u16 [simp]: "ucast (ucast (x :: u16) :: u32) = x"
  by (rule bit_word_eqI) (auto simp: bit_simps)

end
