(* ===== verification/Driver_Types.thy ===== *)
theory Driver_Types
  imports Aio_Prelude
begin

text \<open>
  The data of the kernel module: the names of the functions the descriptor table points to, the
  device descriptor and the per-card context (\<^verbatim>\<open>include/accesio_pci_ids.h\<close> and the head of
  \<^verbatim>\<open>module/accesio_pci.c\<close>), the ioctl structures (\<^verbatim>\<open>include/accesio_pci_ioctl.h\<close>), and the
  state the handlers run on.

  A C function pointer is the name of the function it points to; \<^verbatim>\<open>NULL\<close> is \<open>None\<close>. Names that the
  header \<^verbatim>\<open>#define\<close>s to another function are abbreviations of that function, as in the code.
\<close>

section \<open>Function pointers\<close>

text \<open>\<^verbatim>\<open>irqreturn_t\<close>.\<close>

datatype irqreturn = IRQ_NONE | IRQ_HANDLED

text \<open>The functions of type \<^verbatim>\<open>irq_handler_t\<close> that the header declares.\<close>

datatype irq_handler =
    Isr_pci_1 | Isr_pci_2 | Isr_pci_3 | Isr_pci_4 | Isr_pci_5 | Isr_pci_6 | Isr_pci_7
  | Isr_pci_8 | Isr_pci_9 | Isr_pci_10 | Isr_pci_12 | Isr_pci_13
  | Isr_pcie_1 | Isr_pcie_2 | Isr_pcie_3 | Isr_pcie_4 | Isr_pcie_6 | Isr_pcie_7 | Isr_pcie_8
  | Isr_adio16f

abbreviation Isr_pcie_5 :: irq_handler where "Isr_pcie_5 \<equiv> Isr_pcie_4"

text \<open>The functions of type \<^verbatim>\<open>register_operation_t\<close> that the header declares.\<close>

datatype register_operation_fn =
    Enable_pci_1 | Enable_pci_2 | Enable_pci_3 | Enable_pci_4 | Enable_pci_5 | Enable_pci_6
  | Enable_pci_7 | Enable_pci_8 | Enable_pci_9 | Enable_pci_10 | Enable_pci_12 | Enable_pci_13
  | Enable_pcie_1 | Enable_pcie_2 | Enable_pcie_3 | Enable_pcie_4 | Enable_pcie_6
  | Enable_pcie_7 | Enable_pcie_8 | Enable_adio16f
  | Disable_pci_1 | Disable_pci_2 | Disable_pci_3 | Disable_pci_4 | Disable_pci_5
  | Disable_pci_6 | Disable_pci_8 | Disable_pci_9 | Disable_pci_10 | Disable_pci_12
  | Disable_pci_13
  | Disable_pcie_1 | Disable_pcie_2 | Disable_pcie_3 | Disable_pcie_4 | Disable_pcie_5
  | Disable_pcie_6 | Disable_pcie_8 | Disable_adio16f

abbreviation Disable_pci_7 :: register_operation_fn where "Disable_pci_7 \<equiv> Disable_pci_6"
abbreviation Enable_pcie_5 :: register_operation_fn where "Enable_pcie_5 \<equiv> Enable_pcie_4"
abbreviation Disable_pcie_7 :: register_operation_fn where "Disable_pcie_7 \<equiv> Disable_pcie_6"

section \<open>Descriptor and context\<close>

text \<open>\<^verbatim>\<open>struct accesio_pci_device_descriptor\<close>.\<close>

record accesio_pci_device_descriptor =
  pid :: u32
  name :: string
  isr :: "irq_handler option"
  init_fn :: "register_operation_fn option"
  test_latched :: "register_operation_fn option"
  enable :: "register_operation_fn option"
  disable :: "register_operation_fn option"
  clear :: "register_operation_fn option"
  has_dma :: bool

text \<open>
  \<^verbatim>\<open>struct accesio_pci_device_context\<close>, the fields the handlers use. \<open>bar_bases\<close> holds the values
  of the six pointers, \<open>bar_bases_addr\<close> the address of the array itself inside the context.
\<close>

record accesio_pci_device_context =
  descriptor :: accesio_pci_device_descriptor
  default_bar :: nat
  bar_bases_addr :: addr
  bar_bases :: "addr list"
  waiting_for_irq :: int
  irq_cancelled :: int

section \<open>Structures of the ioctl interface\<close>

abbreviation PCI_STD_NUM_BARS :: nat where "PCI_STD_NUM_BARS \<equiv> 6"

text \<open>\<^verbatim>\<open>struct accesio_pci_card_descriptor\<close>.\<close>

record accesio_pci_card_descriptor =
  device_id :: u16
  port_base :: u64
  port_size :: u64
  name_size :: u64
  card_name :: "char list"
  bars :: "u64 list"

text \<open>
  \<^verbatim>\<open>struct accesio_pci_register_io_context\<close>. The union \<open>data\<close> is its four bytes read as a
  little-endian \<^verbatim>\<open>uint32_t\<close>; \<open>byte\<close> and \<open>word\<close> are its low 8 and 16 bits.
\<close>

record accesio_pci_register_io_context =
  read :: bool
  offset :: "32 word"
  size :: "32 word"
  data :: u32

definition data_byte :: "u32 \<Rightarrow> u8" where
  "data_byte d = ucast d"

definition data_word :: "u32 \<Rightarrow> u16" where
  "data_word d = ucast d"

definition set_data_byte :: "u8 \<Rightarrow> u32 \<Rightarrow> u32" where
  "set_data_byte b d = (d AND NOT 0xff) OR ucast b"

definition set_data_word :: "u16 \<Rightarrow> u32 \<Rightarrow> u32" where
  "set_data_word w d = (d AND NOT 0xffff) OR ucast w"

lemma byte_mask: "(0xff :: u32) = mask 8" and word_mask: "(0xffff :: u32) = mask 16"
  by (simp_all add: mask_eq_exp_minus_1)

lemma data_byte_set [simp]: "data_byte (set_data_byte b d) = b"
  unfolding data_byte_def set_data_byte_def byte_mask
  by (rule bit_word_eqI) (auto simp: bit_simps)

lemma data_word_set [simp]: "data_word (set_data_word w d) = w"
  unfolding data_word_def set_data_word_def word_mask
  by (rule bit_word_eqI) (auto simp: bit_simps)

lemma set_data_byte_low: "set_data_byte (ucast v) d = (d AND NOT 0xff) OR (v AND 0xff)" for v :: u32
  unfolding set_data_byte_def byte_mask by (rule bit_word_eqI) (auto simp: bit_simps)

lemma set_data_word_low: "set_data_word (ucast v) d = (d AND NOT 0xffff) OR (v AND 0xffff)" for v :: u32
  unfolding set_data_word_def word_mask by (rule bit_word_eqI) (auto simp: bit_simps)

lemma set_data_byte_0: "set_data_byte b 0 = ucast b"
  by (simp add: set_data_byte_def)

lemma set_data_word_0: "set_data_word w 0 = ucast w"
  by (simp add: set_data_word_def)

end
