(* ===== verification/Bus.thy ===== *)
theory Bus
  imports Driver_Types
begin

text \<open>
  The bus and the lock as the handlers see them. Every access the code makes is an event of the
  trace, in program order, with the address and the value; so are taking and releasing
  \<^verbatim>\<open>irq_lock\<close> and waking the wait queue. The card is not code under \<^verbatim>\<open>src/\<close>: it is a parameter,
  a function that answers a read of a given width at a given address after any history of
  accesses. Every deterministic or nondeterministic card is covered, since each read sees a new
  history and theorems hold for all such functions.
\<close>

datatype io_event =
    Read8 addr u8 | Read16 addr u16 | Read32 addr u32
  | Write8 addr u8 | Write16 addr u16 | Write32 addr u32
  | Spin_lock | Spin_unlock | Wake_up

type_synonym device = "io_event list \<Rightarrow> nat \<Rightarrow> addr \<Rightarrow> u32"

text \<open>What a handler reads and writes: the trace so far and the card's context.\<close>

record driver_state =
  trace :: "io_event list"
  dev_context :: accesio_pci_device_context

section \<open>Primitives\<close>

definition emit :: "io_event \<Rightarrow> ('a driver_state_scheme, unit) state" where
  "emit e = modify (trace_update (\<lambda>t. t @ [e]))"

definition ioread8 :: "device \<Rightarrow> addr \<Rightarrow> ('a driver_state_scheme, u8) state" where
  "ioread8 D a = do {
     t \<leftarrow> gets trace;
     let v = ucast (D t 1 a);
     _ \<leftarrow> emit (Read8 a v);
     State_Monad.return v }"

definition ioread16 :: "device \<Rightarrow> addr \<Rightarrow> ('a driver_state_scheme, u16) state" where
  "ioread16 D a = do {
     t \<leftarrow> gets trace;
     let v = ucast (D t 2 a);
     _ \<leftarrow> emit (Read16 a v);
     State_Monad.return v }"

definition ioread32 :: "device \<Rightarrow> addr \<Rightarrow> ('a driver_state_scheme, u32) state" where
  "ioread32 D a = do {
     t \<leftarrow> gets trace;
     let v = D t 4 a;
     _ \<leftarrow> emit (Read32 a v);
     State_Monad.return v }"

definition iowrite8 :: "u8 \<Rightarrow> addr \<Rightarrow> ('a driver_state_scheme, unit) state" where
  "iowrite8 v a = emit (Write8 a v)"

definition iowrite16 :: "u16 \<Rightarrow> addr \<Rightarrow> ('a driver_state_scheme, unit) state" where
  "iowrite16 v a = emit (Write16 a v)"

definition iowrite32 :: "u32 \<Rightarrow> addr \<Rightarrow> ('a driver_state_scheme, unit) state" where
  "iowrite32 v a = emit (Write32 a v)"

definition spin_lock :: "('a driver_state_scheme, unit) state" where
  "spin_lock = emit Spin_lock"

definition spin_unlock :: "('a driver_state_scheme, unit) state" where
  "spin_unlock = emit Spin_unlock"

definition wake_up_interruptible :: "('a driver_state_scheme, unit) state" where
  "wake_up_interruptible = emit Wake_up"

section \<open>Their effect\<close>

lemma run_emit [io_simps]: "run_state (emit e) s = ((), s\<lparr>trace := trace s @ [e]\<rparr>)"
  by (simp add: emit_def)

lemma run_ioread8 [io_simps]:
  "run_state (ioread8 D a) s =
     (ucast (D (trace s) 1 a), s\<lparr>trace := trace s @ [Read8 a (ucast (D (trace s) 1 a))]\<rparr>)"
  by (simp add: ioread8_def Let_def io_simps)

lemma run_ioread16 [io_simps]:
  "run_state (ioread16 D a) s =
     (ucast (D (trace s) 2 a), s\<lparr>trace := trace s @ [Read16 a (ucast (D (trace s) 2 a))]\<rparr>)"
  by (simp add: ioread16_def Let_def io_simps)

lemma run_ioread32 [io_simps]:
  "run_state (ioread32 D a) s =
     (D (trace s) 4 a, s\<lparr>trace := trace s @ [Read32 a (D (trace s) 4 a)]\<rparr>)"
  by (simp add: ioread32_def Let_def io_simps)

lemma run_iowrite8 [io_simps]:
  "run_state (iowrite8 v a) s = ((), s\<lparr>trace := trace s @ [Write8 a v]\<rparr>)"
  by (simp add: iowrite8_def io_simps)

lemma run_iowrite16 [io_simps]:
  "run_state (iowrite16 v a) s = ((), s\<lparr>trace := trace s @ [Write16 a v]\<rparr>)"
  by (simp add: iowrite16_def io_simps)

lemma run_iowrite32 [io_simps]:
  "run_state (iowrite32 v a) s = ((), s\<lparr>trace := trace s @ [Write32 a v]\<rparr>)"
  by (simp add: iowrite32_def io_simps)

lemma run_spin_lock [io_simps]: "run_state spin_lock s = ((), s\<lparr>trace := trace s @ [Spin_lock]\<rparr>)"
  by (simp add: spin_lock_def io_simps)

lemma run_spin_unlock [io_simps]:
  "run_state spin_unlock s = ((), s\<lparr>trace := trace s @ [Spin_unlock]\<rparr>)"
  by (simp add: spin_unlock_def io_simps)

lemma run_wake_up [io_simps]:
  "run_state wake_up_interruptible s = ((), s\<lparr>trace := trace s @ [Wake_up]\<rparr>)"
  by (simp add: wake_up_interruptible_def io_simps)

text \<open>One order for the two updates a handler makes.\<close>

lemma trace_context_commute [io_simps]:
  "trace_update f (dev_context_update g s) = dev_context_update g (trace_update f s)"
  by simp

section \<open>Reading a trace\<close>

text \<open>The address of a bus access; \<open>None\<close> for lock and wait-queue events.\<close>

fun access_addr :: "io_event \<Rightarrow> addr option" where
  "access_addr (Read8 a v) = Some a"
| "access_addr (Read16 a v) = Some a"
| "access_addr (Read32 a v) = Some a"
| "access_addr (Write8 a v) = Some a"
| "access_addr (Write16 a v) = Some a"
| "access_addr (Write32 a v) = Some a"
| "access_addr e = None"

fun is_write :: "io_event \<Rightarrow> bool" where
  "is_write (Write8 a v) = True"
| "is_write (Write16 a v) = True"
| "is_write (Write32 a v) = True"
| "is_write e = False"

text \<open>The events a computation adds, and a computation that only ever adds events.\<close>

definition new_events :: "('a driver_state_scheme, 'b) state \<Rightarrow> 'a driver_state_scheme \<Rightarrow> io_event list" where
  "new_events m s = drop (length (trace s)) (trace (snd (run_state m s)))"

lemma new_events_append [simp]:
  "trace (snd (run_state m s)) = trace s @ es \<Longrightarrow> new_events m s = es"
  by (simp add: new_events_def)

end
