(* ===== verification/Irq_Styles.thy ===== *)
theory Irq_Styles
  imports Bus
begin

text \<open>
  The irq_ops region of \<^verbatim>\<open>module/accesio_pci.c\<close>: for every style of card the functions that
  enable, disable and handle its interrupt, each as the sequence of accesses the code makes. The
  parameter \<open>D\<close> is the card. The macros of the file are definitions of the same name; the early
  \<^verbatim>\<open>return IRQ_NONE\<close> inside \<^verbatim>\<open>accesio_leave_if_not_latched_*\<close> is the branch that drops the rest of
  the handler.
\<close>

section \<open>Macros\<close>

definition accesio_handler_ddata :: "('a driver_state_scheme, accesio_pci_device_context) state" where
  [style_defs]: "accesio_handler_ddata = gets dev_context"

abbreviation sizeof_pointer :: addr where "sizeof_pointer \<equiv> 8"

definition accesio_notify_user :: "('a driver_state_scheme, unit) state" where
  "accesio_notify_user = do {
     _ \<leftarrow> spin_lock;
     ddata \<leftarrow> accesio_handler_ddata;
     if waiting_for_irq ddata \<noteq> 0 then do {
       _ \<leftarrow> modify (dev_context_update (waiting_for_irq_update (\<lambda>_. 0)));
       _ \<leftarrow> spin_unlock;
       wake_up_interruptible }
     else spin_unlock }"

definition accesio_leave_if_not_latched_pci ::
  "device \<Rightarrow> accesio_pci_device_context \<Rightarrow> ('a driver_state_scheme, irqreturn) state
   \<Rightarrow> ('a driver_state_scheme, irqreturn) state" where
  [style_defs]: "accesio_leave_if_not_latched_pci D ddata rest = do {
     byte \<leftarrow> ioread8 D (bar_bases ddata ! 0 + 0x4c);
     if byte AND 0x04 = 0 then State_Monad.return IRQ_NONE else rest }"

definition accesio_leave_if_not_latched_pcie ::
  "device \<Rightarrow> accesio_pci_device_context \<Rightarrow> ('a driver_state_scheme, irqreturn) state
   \<Rightarrow> ('a driver_state_scheme, irqreturn) state" where
  [style_defs]: "accesio_leave_if_not_latched_pcie D ddata rest = do {
     byte \<leftarrow> ioread8 D (bar_bases ddata ! 1 + 0x69);
     if byte AND 0x80 = 0 then State_Monad.return IRQ_NONE else rest }"

section \<open>The styles\<close>

subsection \<open>PCI style 1\<close>

definition enable_pci_style_1 :: "device \<Rightarrow> ('a driver_state_scheme, unit) state" where [style_defs]:
  "enable_pci_style_1 D = do {
     ddata \<leftarrow> accesio_handler_ddata;
     iowrite8 0x02 (bar_bases ddata ! 2 + 0x13) }"

definition disable_pci_style_1 :: "device \<Rightarrow> ('a driver_state_scheme, unit) state" where [style_defs]:
  "disable_pci_style_1 D = do {
     ddata \<leftarrow> accesio_handler_ddata;
     iowrite8 0x00 (bar_bases ddata ! 2 + 0x13) }"

definition interrupt_pci_style_1 :: "device \<Rightarrow> ('a driver_state_scheme, irqreturn) state" where [style_defs]:
  "interrupt_pci_style_1 D = do {
     ddata \<leftarrow> accesio_handler_ddata;
     accesio_leave_if_not_latched_pci D ddata (do {
       State_Monad.return IRQ_HANDLED }) }"

subsection \<open>PCI style 2\<close>

definition enable_pci_style_2 :: "device \<Rightarrow> ('a driver_state_scheme, unit) state" where [style_defs]:
  "enable_pci_style_2 D = do {
     ddata \<leftarrow> accesio_handler_ddata;
     iowrite8 0 (bar_bases ddata ! 2 + (- 0x1f)) }"

definition disable_pci_style_2 :: "device \<Rightarrow> ('a driver_state_scheme, unit) state" where [style_defs]:
  "disable_pci_style_2 D = do {
     ddata \<leftarrow> accesio_handler_ddata;
     iowrite8 0 (bar_bases ddata ! 2 + 0x1e) }"

definition interrupt_pci_style_2 :: "device \<Rightarrow> ('a driver_state_scheme, irqreturn) state" where [style_defs]:
  "interrupt_pci_style_2 D = do {
     ddata \<leftarrow> accesio_handler_ddata;
     accesio_leave_if_not_latched_pci D ddata (do {
       _ \<leftarrow> disable_pci_style_2 D;
       _ \<leftarrow> enable_pci_style_2 D;
       State_Monad.return IRQ_HANDLED }) }"

subsection \<open>PCI style 3\<close>

definition enable_pci_style_3 :: "device \<Rightarrow> ('a driver_state_scheme, unit) state" where [style_defs]:
  "enable_pci_style_3 D = do {
     ddata \<leftarrow> accesio_handler_ddata;
     _ \<leftarrow> ioread8 D (bar_bases ddata ! 2 + 0x01);
     State_Monad.return () }"

definition disable_pci_style_3 :: "device \<Rightarrow> ('a driver_state_scheme, unit) state" where [style_defs]:
  "disable_pci_style_3 D = do {
     ddata \<leftarrow> accesio_handler_ddata;
     iowrite8 0 (bar_bases ddata ! 2 + 0x02) }"

definition interrupt_pci_style_3 :: "device \<Rightarrow> ('a driver_state_scheme, irqreturn) state" where [style_defs]:
  "interrupt_pci_style_3 D = do {
     ddata \<leftarrow> accesio_handler_ddata;
     accesio_leave_if_not_latched_pci D ddata (do {
       _ \<leftarrow> disable_pci_style_3 D;
       _ \<leftarrow> enable_pci_style_3 D;
       State_Monad.return IRQ_HANDLED }) }"

subsection \<open>PCI style 4\<close>

definition enable_pci_style_4 :: "device \<Rightarrow> ('a driver_state_scheme, unit) state" where [style_defs]:
  "enable_pci_style_4 D = do {
     ddata \<leftarrow> accesio_handler_ddata;
     _ \<leftarrow> ioread8 D (bar_bases ddata ! 2 + 0x03);
     State_Monad.return () }"

definition disable_pci_style_4 :: "device \<Rightarrow> ('a driver_state_scheme, unit) state" where [style_defs]:
  "disable_pci_style_4 D = do {
     ddata \<leftarrow> accesio_handler_ddata;
     _ \<leftarrow> ioread8 D (bar_bases ddata ! 2 + 0x04);
     State_Monad.return () }"

definition interrupt_pci_style_4 :: "device \<Rightarrow> ('a driver_state_scheme, irqreturn) state" where [style_defs]:
  "interrupt_pci_style_4 D = do {
     ddata \<leftarrow> accesio_handler_ddata;
     accesio_leave_if_not_latched_pci D ddata (do {
       _ \<leftarrow> ioread8 D (bar_bases ddata ! 2 + 0x0c);
       State_Monad.return IRQ_HANDLED }) }"

subsection \<open>PCI style 5\<close>

definition enable_pci_style_5 :: "device \<Rightarrow> ('a driver_state_scheme, unit) state" where [style_defs]:
  "enable_pci_style_5 D = do {
     ddata \<leftarrow> accesio_handler_ddata;
     iowrite8 0x80 (bar_bases ddata ! 2 + 0x07) }"

definition disable_pci_style_5 :: "device \<Rightarrow> ('a driver_state_scheme, unit) state" where [style_defs]:
  "disable_pci_style_5 D = do {
     ddata \<leftarrow> accesio_handler_ddata;
     iowrite8 0x00 (bar_bases ddata ! 2 + 0x07) }"

definition interrupt_pci_style_5 :: "device \<Rightarrow> ('a driver_state_scheme, irqreturn) state" where [style_defs]:
  "interrupt_pci_style_5 D = do {
     ddata \<leftarrow> accesio_handler_ddata;
     accesio_leave_if_not_latched_pci D ddata (do {
       _ \<leftarrow> ioread8 D (bar_bases ddata ! 2 + 0x07);
       State_Monad.return IRQ_HANDLED }) }"

subsection \<open>PCI style 6\<close>

definition enable_pci_style_6 :: "device \<Rightarrow> ('a driver_state_scheme, unit) state" where [style_defs]:
  "enable_pci_style_6 D = do {
     ddata \<leftarrow> accesio_handler_ddata;
     iowrite8 0x81 (bar_bases ddata ! 2 + 0x04) }"

definition disable_pci_style_6 :: "device \<Rightarrow> ('a driver_state_scheme, unit) state" where [style_defs]:
  "disable_pci_style_6 D = do {
     ddata \<leftarrow> accesio_handler_ddata;
     _ \<leftarrow> ioread8 D (bar_bases ddata ! 2 + 0x09);
     State_Monad.return () }"

definition interrupt_pci_style_6 :: "device \<Rightarrow> ('a driver_state_scheme, irqreturn) state" where [style_defs]:
  "interrupt_pci_style_6 D = do {
     ddata \<leftarrow> accesio_handler_ddata;
     accesio_leave_if_not_latched_pci D ddata (do {
       _ \<leftarrow> disable_pci_style_6 D;
       _ \<leftarrow> enable_pci_style_6 D;
       State_Monad.return IRQ_HANDLED }) }"

subsection \<open>PCI style 7\<close>

definition enable_pci_style_7 :: "device \<Rightarrow> ('a driver_state_scheme, unit) state" where [style_defs]:
  "enable_pci_style_7 D = do {
     ddata \<leftarrow> accesio_handler_ddata;
     _ \<leftarrow> ioread8 D (bar_bases ddata ! 2 + 0x04);
     State_Monad.return () }"

abbreviation disable_pci_style_7 :: "device \<Rightarrow> ('a driver_state_scheme, unit) state" where
  "disable_pci_style_7 \<equiv> disable_pci_style_6"

definition interrupt_pci_style_7 :: "device \<Rightarrow> ('a driver_state_scheme, irqreturn) state" where [style_defs]:
  "interrupt_pci_style_7 D = do {
     ddata \<leftarrow> accesio_handler_ddata;
     accesio_leave_if_not_latched_pci D ddata (do {
       _ \<leftarrow> disable_pci_style_7 D;
       _ \<leftarrow> enable_pci_style_7 D;
       State_Monad.return IRQ_HANDLED }) }"

subsection \<open>PCI style 8\<close>

definition enable_pci_style_8 :: "device \<Rightarrow> ('a driver_state_scheme, unit) state" where [style_defs]:
  "enable_pci_style_8 D = do {
     ddata \<leftarrow> accesio_handler_ddata;
     iowrite8 0x00 (bar_bases ddata ! 2 + 0x0b) }"

definition disable_pci_style_8 :: "device \<Rightarrow> ('a driver_state_scheme, unit) state" where [style_defs]:
  "disable_pci_style_8 D = do {
     _ \<leftarrow> accesio_handler_ddata;
     State_Monad.return () }"

definition interrupt_pci_style_8 :: "device \<Rightarrow> ('a driver_state_scheme, irqreturn) state" where [style_defs]:
  "interrupt_pci_style_8 D = do {
     ddata \<leftarrow> accesio_handler_ddata;
     accesio_leave_if_not_latched_pci D ddata (do {
       _ \<leftarrow> iowrite8 0x0 (bar_bases ddata ! 2 + 0x0f);
       State_Monad.return IRQ_HANDLED }) }"

subsection \<open>PCI style 9\<close>

definition enable_pci_style_9 :: "device \<Rightarrow> ('a driver_state_scheme, unit) state" where [style_defs]:
  "enable_pci_style_9 D = do {
     ddata \<leftarrow> accesio_handler_ddata;
     iowrite8 0x10 (bar_bases ddata ! 2 + 0x0c) }"

definition disable_pci_style_9 :: "device \<Rightarrow> ('a driver_state_scheme, unit) state" where [style_defs]:
  "disable_pci_style_9 D = do {
     ddata \<leftarrow> accesio_handler_ddata;
     iowrite8 0x00 (bar_bases ddata ! 2 + 0x0d) }"

definition interrupt_pci_style_9 :: "device \<Rightarrow> ('a driver_state_scheme, irqreturn) state" where [style_defs]:
  "interrupt_pci_style_9 D = do {
     ddata \<leftarrow> accesio_handler_ddata;
     accesio_leave_if_not_latched_pci D ddata (do {
       _ \<leftarrow> iowrite8 0x00 (bar_bases ddata ! 2 + 0x0f);
       State_Monad.return IRQ_HANDLED }) }"

subsection \<open>PCI style 10\<close>

definition enable_pci_style_10 :: "device \<Rightarrow> ('a driver_state_scheme, unit) state" where [style_defs]:
  "enable_pci_style_10 D = do {
     ddata \<leftarrow> accesio_handler_ddata;
     iowrite8 0x00 (bar_bases ddata ! 2 + 0x0e) }"

definition disable_pci_style_10 :: "device \<Rightarrow> ('a driver_state_scheme, unit) state" where [style_defs]:
  "disable_pci_style_10 D = do {
     ddata \<leftarrow> accesio_handler_ddata;
     iowrite8 0x00 (bar_bases ddata ! 2 + 0x0d) }"

definition interrupt_pci_style_10 :: "device \<Rightarrow> ('a driver_state_scheme, irqreturn) state" where [style_defs]:
  "interrupt_pci_style_10 D = do {
     ddata \<leftarrow> accesio_handler_ddata;
     accesio_leave_if_not_latched_pci D ddata (do {
       _ \<leftarrow> iowrite8 0x00 (bar_bases ddata ! 2 + 0x0f);
       State_Monad.return IRQ_HANDLED }) }"

subsection \<open>PCI style 12\<close>

definition enable_pci_style_12 :: "device \<Rightarrow> ('a driver_state_scheme, unit) state" where [style_defs]:
  "enable_pci_style_12 D = State_Monad.return ()"

definition disable_pci_style_12 :: "device \<Rightarrow> ('a driver_state_scheme, unit) state" where [style_defs]:
  "disable_pci_style_12 D = State_Monad.return ()"

definition interrupt_pci_style_12 :: "device \<Rightarrow> ('a driver_state_scheme, irqreturn) state" where [style_defs]:
  "interrupt_pci_style_12 D = do {
     ddata \<leftarrow> accesio_handler_ddata;
     accesio_leave_if_not_latched_pci D ddata (do {
       _ \<leftarrow> ioread8 D (bar_bases ddata ! 2 + 0x04);
       State_Monad.return IRQ_HANDLED }) }"

subsection \<open>PCI style 13\<close>

definition enable_pci_style_13 :: "device \<Rightarrow> ('a driver_state_scheme, unit) state" where [style_defs]:
  "enable_pci_style_13 D = State_Monad.return ()"

definition disable_pci_style_13 :: "device \<Rightarrow> ('a driver_state_scheme, unit) state" where [style_defs]:
  "disable_pci_style_13 D = State_Monad.return ()"

definition interrupt_pci_style_13 :: "device \<Rightarrow> ('a driver_state_scheme, irqreturn) state" where [style_defs]:
  "interrupt_pci_style_13 D = do {
     ddata \<leftarrow> accesio_handler_ddata;
     accesio_leave_if_not_latched_pci D ddata (do {
       _ \<leftarrow> iowrite8 0x00 (bar_bases ddata ! 2 + 0x7f);
       State_Monad.return IRQ_HANDLED }) }"

subsection \<open>PCIe style 1\<close>

definition enable_pcie_style_1 :: "device \<Rightarrow> ('a driver_state_scheme, unit) state" where [style_defs]:
  "enable_pcie_style_1 D = do {
     ddata \<leftarrow> accesio_handler_ddata;
     iowrite8 0x00 (bar_bases ddata ! 2 + 0x1f) }"

definition disable_pcie_style_1 :: "device \<Rightarrow> ('a driver_state_scheme, unit) state" where [style_defs]:
  "disable_pcie_style_1 D = do {
     ddata \<leftarrow> accesio_handler_ddata;
     iowrite8 0x00 (bar_bases ddata ! 2 + 0x1e) }"

definition interrupt_pcie_style_1 :: "device \<Rightarrow> ('a driver_state_scheme, irqreturn) state" where [style_defs]:
  "interrupt_pcie_style_1 D = do {
     ddata \<leftarrow> accesio_handler_ddata;
     accesio_leave_if_not_latched_pcie D ddata (do {
       _ \<leftarrow> disable_pcie_style_1 D;
       _ \<leftarrow> enable_pcie_style_1 D;
       State_Monad.return IRQ_HANDLED }) }"

subsection \<open>PCIe style 2\<close>

definition enable_pcie_style_2 :: "device \<Rightarrow> ('a driver_state_scheme, unit) state" where [style_defs]:
  "enable_pcie_style_2 D = do {
     ddata \<leftarrow> accesio_handler_ddata;
     iowrite8 0xff (bar_bases ddata ! 2 + 0x28) }"

definition disable_pcie_style_2 :: "device \<Rightarrow> ('a driver_state_scheme, unit) state" where [style_defs]:
  "disable_pcie_style_2 D = do {
     ddata \<leftarrow> accesio_handler_ddata;
     iowrite8 0x00 (bar_bases ddata ! 2 + 0x28) }"

definition interrupt_pcie_style_2 :: "device \<Rightarrow> ('a driver_state_scheme, irqreturn) state" where [style_defs]:
  "interrupt_pcie_style_2 D = do {
     ddata \<leftarrow> accesio_handler_ddata;
     accesio_leave_if_not_latched_pcie D ddata (do {
       _ \<leftarrow> iowrite8 0xff (bar_bases ddata ! 2 + 0x29);
       State_Monad.return IRQ_HANDLED }) }"

subsection \<open>PCIe style 3\<close>

text \<open>
  \<^verbatim>\<open>disable_pcie_style_3\<close> writes to \<^verbatim>\<open>ddata->bar_bases + 0x02\<close>, without the index: the array decays to
  a \<^verbatim>\<open>void **\<close>, so the address is that of the third pointer of the array, 16 bytes into it. The access
  is a store into the context: it clears the low byte of the pointer to BAR 2 (the driver's machines
  are little-endian).
\<close>

definition set_low_byte :: "u8 \<Rightarrow> addr \<Rightarrow> addr" where
  "set_low_byte v a = (a AND NOT 0xff) OR ucast v"

definition enable_pcie_style_3 :: "device \<Rightarrow> ('a driver_state_scheme, unit) state" where [style_defs]:
  "enable_pcie_style_3 D = do {
     ddata \<leftarrow> accesio_handler_ddata;
     _ \<leftarrow> ioread8 D (bar_bases ddata ! 2 + 0x02);
     State_Monad.return () }"

definition disable_pcie_style_3 :: "device \<Rightarrow> ('a driver_state_scheme, unit) state" where [style_defs]:
  "disable_pcie_style_3 D = do {
     ddata \<leftarrow> accesio_handler_ddata;
     _ \<leftarrow> iowrite8 0x00 (bar_bases_addr ddata + 0x02 * sizeof_pointer);
     modify (dev_context_update (\<lambda>c. c\<lparr>bar_bases :=
       (bar_bases c)[2 := set_low_byte 0x00 (bar_bases c ! 2)]\<rparr>)) }"

definition interrupt_pcie_style_3 :: "device \<Rightarrow> ('a driver_state_scheme, irqreturn) state" where [style_defs]:
  "interrupt_pcie_style_3 D = do {
     ddata \<leftarrow> accesio_handler_ddata;
     accesio_leave_if_not_latched_pcie D ddata (do {
       _ \<leftarrow> iowrite8 0x0 (bar_bases ddata ! 2 + 0x01);
       State_Monad.return IRQ_HANDLED }) }"

subsection \<open>PCIe style 4\<close>

definition enable_pcie_style_4 :: "device \<Rightarrow> ('a driver_state_scheme, unit) state" where [style_defs]:
  "enable_pcie_style_4 D = do {
     ddata \<leftarrow> accesio_handler_ddata;
     iowrite8 0x0 (bar_bases ddata ! 2 + 0x0b) }"

definition disable_pcie_style_4 :: "device \<Rightarrow> ('a driver_state_scheme, unit) state" where [style_defs]:
  "disable_pcie_style_4 D = do {
     ddata \<leftarrow> accesio_handler_ddata;
     iowrite8 0xff (bar_bases ddata ! 2 + 0x0b) }"

definition interrupt_pcie_style_4 :: "device \<Rightarrow> ('a driver_state_scheme, irqreturn) state" where [style_defs]:
  "interrupt_pcie_style_4 D = do {
     ddata \<leftarrow> accesio_handler_ddata;
     accesio_leave_if_not_latched_pcie D ddata (do {
       _ \<leftarrow> iowrite8 0x00 (bar_bases ddata ! 2 + 0x0f);
       State_Monad.return IRQ_HANDLED }) }"

subsection \<open>PCIe style 5\<close>

abbreviation enable_pcie_style_5 :: "device \<Rightarrow> ('a driver_state_scheme, unit) state" where
  "enable_pcie_style_5 \<equiv> enable_pcie_style_4"

definition disable_pcie_style_5 :: "device \<Rightarrow> ('a driver_state_scheme, unit) state" where [style_defs]:
  "disable_pcie_style_5 D = do {
     ddata \<leftarrow> accesio_handler_ddata;
     _ \<leftarrow> ioread8 D (bar_bases ddata ! 2 + 0x0b);
     State_Monad.return () }"

abbreviation interrupt_pcie_style_5 :: "device \<Rightarrow> ('a driver_state_scheme, irqreturn) state" where
  "interrupt_pcie_style_5 \<equiv> interrupt_pcie_style_4"

subsection \<open>PCIe style 6\<close>

definition enable_pcie_style_6 :: "device \<Rightarrow> ('a driver_state_scheme, unit) state" where [style_defs]:
  "enable_pcie_style_6 D = do {
     ddata \<leftarrow> accesio_handler_ddata;
     iowrite8 0xff (bar_bases ddata ! 2 + 0x0e) }"

definition disable_pcie_style_6 :: "device \<Rightarrow> ('a driver_state_scheme, unit) state" where [style_defs]:
  "disable_pcie_style_6 D = do {
     ddata \<leftarrow> accesio_handler_ddata;
     iowrite8 0x00 (bar_bases ddata ! 2 + 0x0e) }"

definition interrupt_pcie_style_6 :: "device \<Rightarrow> ('a driver_state_scheme, irqreturn) state" where [style_defs]:
  "interrupt_pcie_style_6 D = do {
     ddata \<leftarrow> accesio_handler_ddata;
     accesio_leave_if_not_latched_pcie D ddata (do {
       _ \<leftarrow> iowrite32 0xffffffff (bar_bases ddata ! 2 + 0x08);
       State_Monad.return IRQ_HANDLED }) }"

subsection \<open>PCIe style 7\<close>

definition enable_pcie_style_7 :: "device \<Rightarrow> ('a driver_state_scheme, unit) state" where [style_defs]:
  "enable_pcie_style_7 D = do {
     ddata \<leftarrow> accesio_handler_ddata;
     iowrite8 0x03 (bar_bases ddata ! 2 + 0x0e) }"

abbreviation disable_pcie_style_7 :: "device \<Rightarrow> ('a driver_state_scheme, unit) state" where
  "disable_pcie_style_7 \<equiv> disable_pcie_style_6"

definition interrupt_pcie_style_7 :: "device \<Rightarrow> ('a driver_state_scheme, irqreturn) state" where [style_defs]:
  "interrupt_pcie_style_7 D = do {
     ddata \<leftarrow> accesio_handler_ddata;
     accesio_leave_if_not_latched_pcie D ddata (do {
       _ \<leftarrow> iowrite8 0x00 (bar_bases ddata ! 2 + 0x0f);
       State_Monad.return IRQ_HANDLED }) }"

subsection \<open>PCIe style 8\<close>

definition enable_pcie_style_8 :: "device \<Rightarrow> ('a driver_state_scheme, unit) state" where [style_defs]:
  "enable_pcie_style_8 D = do {
     ddata \<leftarrow> accesio_handler_ddata;
     _ \<leftarrow> ioread8 D (bar_bases ddata ! 2 + 0x03);
     State_Monad.return () }"

definition disable_pcie_style_8 :: "device \<Rightarrow> ('a driver_state_scheme, unit) state" where [style_defs]:
  "disable_pcie_style_8 D = do {
     ddata \<leftarrow> accesio_handler_ddata;
     _ \<leftarrow> ioread8 D (bar_bases ddata ! 2 + 0x04);
     State_Monad.return () }"

definition interrupt_pcie_style_8 :: "device \<Rightarrow> ('a driver_state_scheme, irqreturn) state" where [style_defs]:
  "interrupt_pcie_style_8 D = do {
     ddata \<leftarrow> accesio_handler_ddata;
     accesio_leave_if_not_latched_pcie D ddata (do {
       _ \<leftarrow> ioread8 D (bar_bases ddata ! 2 + 0x0c);
       State_Monad.return IRQ_HANDLED }) }"

subsection \<open>The ADIO16F family\<close>

definition enable_adio16f_style :: "device \<Rightarrow> ('a driver_state_scheme, unit) state" where [style_defs]:
  "enable_adio16f_style D = do {
     _ \<leftarrow> accesio_handler_ddata;
     State_Monad.return () }"

definition disable_adio16f_style :: "device \<Rightarrow> ('a driver_state_scheme, unit) state" where [style_defs]:
  "disable_adio16f_style D = do {
     _ \<leftarrow> accesio_handler_ddata;
     State_Monad.return () }"

definition ADIO16F_INTERRUPT_MASK :: u32 where
  "ADIO16F_INTERRUPT_MASK = 0x81FF0000"

definition interrupt_adio16f_style :: "device \<Rightarrow> ('a driver_state_scheme, irqreturn) state" where
  "interrupt_adio16f_style D = do {
     ddata \<leftarrow> accesio_handler_ddata;
     irq_status \<leftarrow> ioread32 D (bar_bases ddata ! 2 + 0x40);
     if irq_status AND ADIO16F_INTERRUPT_MASK = 0 then State_Monad.return IRQ_NONE
     else do {
       _ \<leftarrow> iowrite32 (irq_status AND ADIO16F_INTERRUPT_MASK) (bar_bases ddata ! 2 + 0x40);
       _ \<leftarrow> accesio_notify_user;
       State_Monad.return IRQ_HANDLED } }"

section \<open>Calls through function pointers\<close>

fun call_isr :: "irq_handler \<Rightarrow> device \<Rightarrow> ('a driver_state_scheme, irqreturn) state" where
  "call_isr Isr_pci_1 D = interrupt_pci_style_1 D"
| "call_isr Isr_pci_2 D = interrupt_pci_style_2 D"
| "call_isr Isr_pci_3 D = interrupt_pci_style_3 D"
| "call_isr Isr_pci_4 D = interrupt_pci_style_4 D"
| "call_isr Isr_pci_5 D = interrupt_pci_style_5 D"
| "call_isr Isr_pci_6 D = interrupt_pci_style_6 D"
| "call_isr Isr_pci_7 D = interrupt_pci_style_7 D"
| "call_isr Isr_pci_8 D = interrupt_pci_style_8 D"
| "call_isr Isr_pci_9 D = interrupt_pci_style_9 D"
| "call_isr Isr_pci_10 D = interrupt_pci_style_10 D"
| "call_isr Isr_pci_12 D = interrupt_pci_style_12 D"
| "call_isr Isr_pci_13 D = interrupt_pci_style_13 D"
| "call_isr Isr_pcie_1 D = interrupt_pcie_style_1 D"
| "call_isr Isr_pcie_2 D = interrupt_pcie_style_2 D"
| "call_isr Isr_pcie_3 D = interrupt_pcie_style_3 D"
| "call_isr Isr_pcie_4 D = interrupt_pcie_style_4 D"
| "call_isr Isr_pcie_6 D = interrupt_pcie_style_6 D"
| "call_isr Isr_pcie_7 D = interrupt_pcie_style_7 D"
| "call_isr Isr_pcie_8 D = interrupt_pcie_style_8 D"
| "call_isr Isr_adio16f D = interrupt_adio16f_style D"

fun call_register_operation :: "register_operation_fn \<Rightarrow> device \<Rightarrow> ('a driver_state_scheme, unit) state" where
  "call_register_operation Enable_pci_1 D = enable_pci_style_1 D"
| "call_register_operation Enable_pci_2 D = enable_pci_style_2 D"
| "call_register_operation Enable_pci_3 D = enable_pci_style_3 D"
| "call_register_operation Enable_pci_4 D = enable_pci_style_4 D"
| "call_register_operation Enable_pci_5 D = enable_pci_style_5 D"
| "call_register_operation Enable_pci_6 D = enable_pci_style_6 D"
| "call_register_operation Enable_pci_7 D = enable_pci_style_7 D"
| "call_register_operation Enable_pci_8 D = enable_pci_style_8 D"
| "call_register_operation Enable_pci_9 D = enable_pci_style_9 D"
| "call_register_operation Enable_pci_10 D = enable_pci_style_10 D"
| "call_register_operation Enable_pci_12 D = enable_pci_style_12 D"
| "call_register_operation Enable_pci_13 D = enable_pci_style_13 D"
| "call_register_operation Enable_pcie_1 D = enable_pcie_style_1 D"
| "call_register_operation Enable_pcie_2 D = enable_pcie_style_2 D"
| "call_register_operation Enable_pcie_3 D = enable_pcie_style_3 D"
| "call_register_operation Enable_pcie_4 D = enable_pcie_style_4 D"
| "call_register_operation Enable_pcie_6 D = enable_pcie_style_6 D"
| "call_register_operation Enable_pcie_7 D = enable_pcie_style_7 D"
| "call_register_operation Enable_pcie_8 D = enable_pcie_style_8 D"
| "call_register_operation Enable_adio16f D = enable_adio16f_style D"
| "call_register_operation Disable_pci_1 D = disable_pci_style_1 D"
| "call_register_operation Disable_pci_2 D = disable_pci_style_2 D"
| "call_register_operation Disable_pci_3 D = disable_pci_style_3 D"
| "call_register_operation Disable_pci_4 D = disable_pci_style_4 D"
| "call_register_operation Disable_pci_5 D = disable_pci_style_5 D"
| "call_register_operation Disable_pci_6 D = disable_pci_style_6 D"
| "call_register_operation Disable_pci_8 D = disable_pci_style_8 D"
| "call_register_operation Disable_pci_9 D = disable_pci_style_9 D"
| "call_register_operation Disable_pci_10 D = disable_pci_style_10 D"
| "call_register_operation Disable_pci_12 D = disable_pci_style_12 D"
| "call_register_operation Disable_pci_13 D = disable_pci_style_13 D"
| "call_register_operation Disable_pcie_1 D = disable_pcie_style_1 D"
| "call_register_operation Disable_pcie_2 D = disable_pcie_style_2 D"
| "call_register_operation Disable_pcie_3 D = disable_pcie_style_3 D"
| "call_register_operation Disable_pcie_4 D = disable_pcie_style_4 D"
| "call_register_operation Disable_pcie_6 D = disable_pcie_style_6 D"
| "call_register_operation Disable_pcie_8 D = disable_pcie_style_8 D"
| "call_register_operation Disable_pcie_5 D = disable_pcie_style_5 D"
| "call_register_operation Disable_adio16f D = disable_adio16f_style D"

end
