(* ===== verification/Irq_Contract.thy ===== *)
theory Irq_Contract
  imports Irq_Styles
begin

text \<open>
  What an interrupt handler promises: it tests a latch bit, and claims the interrupt exactly when the
  bit is set, after a fixed list of register accesses. \<open>latched_isr\<close> is that contract, over the latch
  and the accesses; \<open>latch_of\<close> and \<open>ack_ops\<close> say what they are in the code for each handler, and every
  handler of \<^theory_text>\<open>Irq_Styles\<close> but the ADIO16F one is an interpretation of the contract. What the
  accesses ought to be is a separate question: \<^theory_text>\<open>Irq_Properties\<close> compares them with the comments in
  the code, \<^theory_text>\<open>Style_Equivalence\<close> with the style table.
\<close>

section \<open>Register-level specification\<close>

text \<open>An access to the register at an offset from BAR 2.\<close>

datatype reg_op = RegRead8 addr | RegWrite8 addr u8 | RegWrite32 addr u32

fun reg_op_offset :: "reg_op \<Rightarrow> addr" where
  "reg_op_offset (RegRead8 k) = k"
| "reg_op_offset (RegWrite8 k v) = k"
| "reg_op_offset (RegWrite32 k v) = k"

text \<open>The event an operation is, on card \<open>D\<close> with BAR 2 at \<open>b\<close>, after the history \<open>t\<close>.\<close>

fun reg_op_event :: "device \<Rightarrow> addr \<Rightarrow> io_event list \<Rightarrow> reg_op \<Rightarrow> io_event" where
  "reg_op_event D b t (RegRead8 k) = Read8 (b + k) (ucast (D t 1 (b + k)))"
| "reg_op_event D b t (RegWrite8 k v) = Write8 (b + k) v"
| "reg_op_event D b t (RegWrite32 k v) = Write32 (b + k) v"

fun reg_ops_events :: "device \<Rightarrow> addr \<Rightarrow> io_event list \<Rightarrow> reg_op list \<Rightarrow> io_event list" where
  "reg_ops_events D b t [] = []"
| "reg_ops_events D b t (p # ps) =
     reg_op_event D b t p # reg_ops_events D b (t @ [reg_op_event D b t p]) ps"

lemma access_addr_reg_op: "access_addr (reg_op_event D b t p) = Some (b + reg_op_offset p)"
  by (cases p) auto

lemma reg_ops_events_addr:
  "e \<in> set (reg_ops_events D b t ps) \<Longrightarrow> \<exists>p \<in> set ps. access_addr e = Some (b + reg_op_offset p)"
  by (induction ps arbitrary: t) (auto simp: access_addr_reg_op)

lemma reg_ops_events_bus: "e \<in> set (reg_ops_events D b t ps) \<Longrightarrow> access_addr e \<noteq> None"
  by (auto dest: reg_ops_events_addr)

lemma length_reg_ops_events [simp]: "length (reg_ops_events D b t ps) = length ps"
  by (induction ps arbitrary: t) auto

lemma reg_op_event_inj [simp]: "reg_op_event D b t p = reg_op_event D b t q \<longleftrightarrow> p = q"
  by (cases p; cases q) auto

lemma reg_ops_events_inj [simp]:
  "reg_ops_events D b t ps = reg_ops_events D b t qs \<longleftrightarrow> ps = qs"
proof (induction ps arbitrary: qs t)
  case Nil
  then show ?case by (cases qs) auto
next
  case (Cons p ps)
  then show ?case by (cases qs) auto
qed

section \<open>The contract of a latched handler\<close>

locale latched_isr =
  fixes isr :: "device \<Rightarrow> ('a driver_state_scheme, irqreturn) state"
    and latch_bar :: nat
    and latch_reg :: addr
    and latch_mask :: u8
    and ack :: "reg_op list"
  assumes isr_spec:
    "run_state (isr D) s =
       (let c = dev_context s;
            a = bar_bases c ! latch_bar + latch_reg;
            v = ucast (D (trace s) 1 a);
            t = trace s @ [Read8 a v]
        in if v AND latch_mask = 0 then (IRQ_NONE, s\<lparr>trace := t\<rparr>)
           else (IRQ_HANDLED, s\<lparr>trace := t @ reg_ops_events D (bar_bases c ! 2) t ack\<rparr>))"
begin

definition latch_addr :: "'a driver_state_scheme \<Rightarrow> addr" where
  "latch_addr s = bar_bases (dev_context s) ! latch_bar + latch_reg"

definition latched :: "device \<Rightarrow> 'a driver_state_scheme \<Rightarrow> bool" where
  "latched D s \<longleftrightarrow> (ucast (D (trace s) 1 (latch_addr s)) :: u8) AND latch_mask \<noteq> 0"

lemma unlatched:
  "\<not> latched D s \<Longrightarrow> run_state (isr D) s =
     (IRQ_NONE, s\<lparr>trace := trace s @ [Read8 (latch_addr s) (ucast (D (trace s) 1 (latch_addr s)))]\<rparr>)"
  by (simp add: isr_spec latched_def latch_addr_def Let_def)

lemma claims_iff: "fst (run_state (isr D) s) = IRQ_HANDLED \<longleftrightarrow> latched D s"
  by (simp add: isr_spec latched_def latch_addr_def Let_def)

lemma context_frame: "dev_context (snd (run_state (isr D) s)) = dev_context s"
  by (simp add: isr_spec Let_def)

lemma events:
  "new_events (isr D) s =
     (let e = Read8 (latch_addr s) (ucast (D (trace s) 1 (latch_addr s)))
      in e # (if latched D s
              then reg_ops_events D (bar_bases (dev_context s) ! 2) (trace s @ [e]) ack else []))"
  by (simp add: new_events_def isr_spec latched_def latch_addr_def Let_def)

lemma only_bus_events: "e \<in> set (new_events (isr D) s) \<Longrightarrow> access_addr e \<noteq> None"
  using reg_ops_events_bus by (auto simp: events Let_def split: if_splits)

lemma confined:
  assumes "e \<in> set (new_events (isr D) s)"
  shows "access_addr e = Some (latch_addr s)
       \<or> (\<exists>p \<in> set ack. access_addr e = Some (bar_bases (dev_context s) ! 2 + reg_op_offset p))"
  using assms reg_ops_events_addr by (auto simp: events Let_def split: if_splits)

end

section \<open>The specification of every handler\<close>

text \<open>BAR, register and bit of the latch the handler tests before it claims the interrupt.\<close>

definition pci_latch :: "nat \<times> addr \<times> u8" where
  "pci_latch = (0, 0x4c, 0x04)"

definition pcie_latch :: "nat \<times> addr \<times> u8" where
  "pcie_latch = (1, 0x69, 0x80)"

text \<open>The accesses to BAR 2 by which the code answers the latch, whether or not they are the right ones.\<close>

fun ack_ops :: "irq_handler \<Rightarrow> reg_op list" where
  "ack_ops Isr_pci_1 = []"
| "ack_ops Isr_pci_2 = [RegWrite8 0x1e 0, RegWrite8 (- 0x1f) 0]"
| "ack_ops Isr_pci_3 = [RegWrite8 0x02 0, RegRead8 0x01]"
| "ack_ops Isr_pci_4 = [RegRead8 0x0c]"
| "ack_ops Isr_pci_5 = [RegRead8 0x07]"
| "ack_ops Isr_pci_6 = [RegRead8 0x09, RegWrite8 0x04 0x81]"
| "ack_ops Isr_pci_7 = [RegRead8 0x09, RegRead8 0x04]"
| "ack_ops Isr_pci_8 = [RegWrite8 0x0f 0]"
| "ack_ops Isr_pci_9 = [RegWrite8 0x0f 0]"
| "ack_ops Isr_pci_10 = [RegWrite8 0x0f 0]"
| "ack_ops Isr_pci_12 = [RegRead8 0x04]"
| "ack_ops Isr_pci_13 = [RegWrite8 0x7f 0]"
| "ack_ops Isr_pcie_1 = [RegWrite8 0x1e 0, RegWrite8 0x1f 0]"
| "ack_ops Isr_pcie_2 = [RegWrite8 0x29 0xff]"
| "ack_ops Isr_pcie_3 = [RegWrite8 0x01 0]"
| "ack_ops Isr_pcie_4 = [RegWrite8 0x0f 0]"
| "ack_ops Isr_pcie_6 = [RegWrite32 0x08 0xffffffff]"
| "ack_ops Isr_pcie_7 = [RegWrite8 0x0f 0]"
| "ack_ops Isr_pcie_8 = [RegRead8 0x0c]"
| "ack_ops Isr_adio16f = []"

fun is_pcie :: "irq_handler \<Rightarrow> bool" where
  "is_pcie Isr_pcie_1 = True"
| "is_pcie Isr_pcie_2 = True"
| "is_pcie Isr_pcie_3 = True"
| "is_pcie Isr_pcie_4 = True"
| "is_pcie Isr_pcie_6 = True"
| "is_pcie Isr_pcie_7 = True"
| "is_pcie Isr_pcie_8 = True"
| "is_pcie h = False"

definition latch_of :: "irq_handler \<Rightarrow> nat \<times> addr \<times> u8" where
  "latch_of h = (if is_pcie h then pcie_latch else pci_latch)"

definition latch_reg_addr :: "irq_handler \<Rightarrow> accesio_pci_device_context \<Rightarrow> addr" where
  "latch_reg_addr h c = (case latch_of h of (b, k, m) \<Rightarrow> bar_bases c ! b + k)"

definition latch_set :: "irq_handler \<Rightarrow> device \<Rightarrow> 'a driver_state_scheme \<Rightarrow> bool" where
  "latch_set h D s = (case latch_of h of (b, k, m) \<Rightarrow>
     (ucast (D (trace s) 1 (bar_bases (dev_context s) ! b + k)) :: u8) AND m \<noteq> 0)"

lemmas latch_defs = latch_of_def latch_reg_addr_def latch_set_def pci_latch_def pcie_latch_def

section \<open>Every handler meets the contract\<close>

interpretation pci_1: latched_isr interrupt_pci_style_1 0 "0x4c" "0x04" "ack_ops Isr_pci_1"
  by unfold_locales (simp add: style_defs io_simps Let_def)

interpretation pci_2: latched_isr interrupt_pci_style_2 0 "0x4c" "0x04" "ack_ops Isr_pci_2"
  by unfold_locales (simp add: style_defs io_simps Let_def)

interpretation pci_3: latched_isr interrupt_pci_style_3 0 "0x4c" "0x04" "ack_ops Isr_pci_3"
  by unfold_locales (simp add: style_defs io_simps Let_def)

interpretation pci_4: latched_isr interrupt_pci_style_4 0 "0x4c" "0x04" "ack_ops Isr_pci_4"
  by unfold_locales (simp add: style_defs io_simps Let_def)

interpretation pci_5: latched_isr interrupt_pci_style_5 0 "0x4c" "0x04" "ack_ops Isr_pci_5"
  by unfold_locales (simp add: style_defs io_simps Let_def)

interpretation pci_6: latched_isr interrupt_pci_style_6 0 "0x4c" "0x04" "ack_ops Isr_pci_6"
  by unfold_locales (simp add: style_defs io_simps Let_def)

interpretation pci_7: latched_isr interrupt_pci_style_7 0 "0x4c" "0x04" "ack_ops Isr_pci_7"
  by unfold_locales (simp add: style_defs io_simps Let_def)

interpretation pci_8: latched_isr interrupt_pci_style_8 0 "0x4c" "0x04" "ack_ops Isr_pci_8"
  by unfold_locales (simp add: style_defs io_simps Let_def)

interpretation pci_9: latched_isr interrupt_pci_style_9 0 "0x4c" "0x04" "ack_ops Isr_pci_9"
  by unfold_locales (simp add: style_defs io_simps Let_def)

interpretation pci_10: latched_isr interrupt_pci_style_10 0 "0x4c" "0x04" "ack_ops Isr_pci_10"
  by unfold_locales (simp add: style_defs io_simps Let_def)

interpretation pci_12: latched_isr interrupt_pci_style_12 0 "0x4c" "0x04" "ack_ops Isr_pci_12"
  by unfold_locales (simp add: style_defs io_simps Let_def)

interpretation pci_13: latched_isr interrupt_pci_style_13 0 "0x4c" "0x04" "ack_ops Isr_pci_13"
  by unfold_locales (simp add: style_defs io_simps Let_def)

interpretation pcie_1: latched_isr interrupt_pcie_style_1 1 "0x69" "0x80" "ack_ops Isr_pcie_1"
  by unfold_locales (simp add: style_defs io_simps Let_def)

interpretation pcie_2: latched_isr interrupt_pcie_style_2 1 "0x69" "0x80" "ack_ops Isr_pcie_2"
  by unfold_locales (simp add: style_defs io_simps Let_def)

interpretation pcie_3: latched_isr interrupt_pcie_style_3 1 "0x69" "0x80" "ack_ops Isr_pcie_3"
  by unfold_locales (simp add: style_defs io_simps Let_def)

interpretation pcie_4: latched_isr interrupt_pcie_style_4 1 "0x69" "0x80" "ack_ops Isr_pcie_4"
  by unfold_locales (simp add: style_defs io_simps Let_def)

interpretation pcie_6: latched_isr interrupt_pcie_style_6 1 "0x69" "0x80" "ack_ops Isr_pcie_6"
  by unfold_locales (simp add: style_defs io_simps Let_def)

interpretation pcie_7: latched_isr interrupt_pcie_style_7 1 "0x69" "0x80" "ack_ops Isr_pcie_7"
  by unfold_locales (simp add: style_defs io_simps Let_def)

interpretation pcie_8: latched_isr interrupt_pcie_style_8 1 "0x69" "0x80" "ack_ops Isr_pcie_8"
  by unfold_locales (simp add: style_defs io_simps Let_def)

end
