(* ===== verification/Irq_Properties.thy ===== *)
theory Irq_Properties
  imports Irq_Contract
begin

text \<open>
  The interrupt handlers as the kernel calls them, through the function pointer of the descriptor:
  what an interrupt does to the card and to a waiting process. The facts about the latched styles
  come from the interpretations of \<open>latched_isr\<close>; the ADIO16F handler is treated directly.
\<close>

section \<open>A concrete card\<close>

text \<open>A card whose registers all read as zero, one whose registers read as all ones, and a context.\<close>

definition quiet_card :: device where
  "quiet_card = (\<lambda>t w a. 0)"

definition latched_card :: device where
  "latched_card = (\<lambda>t w a. 0xffffffff)"

definition sample_descriptor :: accesio_pci_device_descriptor where
  "sample_descriptor = \<lparr>pid = 0xC2EF, name = ''pcie-adio16-16fds'', isr = Some Isr_adio16f,
     init_fn = None, test_latched = None, enable = Some Enable_adio16f,
     disable = Some Disable_adio16f, clear = None, has_dma = True\<rparr>"

definition sample_context :: accesio_pci_device_context where
  "sample_context = \<lparr>descriptor = sample_descriptor, default_bar = 2, bar_bases_addr = 0x900048,
     bar_bases = [0x10000, 0x20000, 0x30000, 0, 0, 0], waiting_for_irq = 1, irq_cancelled = 0\<rparr>"

definition sample_state :: driver_state where
  "sample_state = \<lparr>trace = [], dev_context = sample_context\<rparr>"

lemmas sample_defs = sample_state_def sample_context_def sample_descriptor_def
  quiet_card_def latched_card_def

section \<open>Latched handlers\<close>

lemmas latched_isr_specs =
  pci_1.isr_spec pci_2.isr_spec pci_3.isr_spec pci_4.isr_spec pci_5.isr_spec pci_6.isr_spec
  pci_7.isr_spec pci_8.isr_spec pci_9.isr_spec pci_10.isr_spec pci_12.isr_spec pci_13.isr_spec
  pcie_1.isr_spec pcie_2.isr_spec pcie_3.isr_spec pcie_4.isr_spec pcie_6.isr_spec
  pcie_7.isr_spec pcie_8.isr_spec

text \<open>All nineteen handlers at once, over the latch and the acknowledgement of their style.\<close>

lemma call_isr_spec:
  assumes "h \<noteq> Isr_adio16f"
  shows "run_state (call_isr h D) s =
    (let a = latch_reg_addr h (dev_context s);
         t = trace s @ [Read8 a (ucast (D (trace s) 1 a))]
     in if latch_set h D s
        then (IRQ_HANDLED,
              s\<lparr>trace := t @ reg_ops_events D (bar_bases (dev_context s) ! 2) t (ack_ops h)\<rparr>)
        else (IRQ_NONE, s\<lparr>trace := t\<rparr>))"
  using assms
  by (cases h) (simp_all only: call_isr.simps latched_isr_specs latch_defs is_pcie.simps Let_def
      if_True if_False prod.case not_not refl if_not_P if_P split: if_split, simp_all)


text \<open>
  C17: an interrupt on a shared line that the card did not raise, for the nineteen handlers that test a
  latch (the ADIO16F handler is the subject of a property of its own): the handler reads its latch
  once, writes nothing, leaves the context alone and returns \<open>IRQ_NONE\<close>, so the next driver on
  the line is asked.
\<close>

theorem isr_declines_unlatched:
  assumes "h \<noteq> Isr_adio16f" and "\<not> latch_set h D s"
  shows "run_state (call_isr h D) s =
    (IRQ_NONE, s\<lparr>trace := trace s @ [Read8 (latch_reg_addr h (dev_context s))
                 (ucast (D (trace s) 1 (latch_reg_addr h (dev_context s))))]\<rparr>)"
  using assms by (simp add: call_isr_spec Let_def)

theorem isr_declines_unlatched_witness:
  "run_state (call_isr Isr_pcie_2 quiet_card) sample_state =
     (IRQ_NONE, sample_state\<lparr>trace := [Read8 0x20069 0]\<rparr>)"
proof -
  have "\<not> latch_set Isr_pcie_2 quiet_card sample_state"
    by (simp add: latch_defs sample_defs)
  from isr_declines_unlatched [OF _ this] show ?thesis
    by (simp add: latch_defs sample_defs)
qed

text \<open>
  The acknowledgement the comments in \<^verbatim>\<open>accesio_pci.c\<close> prescribe, function by function: the register
  action named beside the access that clears the interrupt or, where the style has no clear, those
  named in its disable and enable functions, in this order.
\<close>

fun commented_ack :: "irq_handler \<Rightarrow> reg_op list" where
  "commented_ack Isr_pci_1 = [RegRead8 0x13]"
| "commented_ack Isr_pci_2 = [RegWrite8 0x1e 0, RegWrite8 0x1f 0]"
| "commented_ack Isr_pci_3 = [RegWrite8 0x02 0, RegRead8 0x01]"
| "commented_ack Isr_pci_4 = [RegRead8 0x0c]"
| "commented_ack Isr_pci_5 = [RegRead8 0x07]"
| "commented_ack Isr_pci_6 = [RegRead8 0x09, RegWrite8 0x04 0x81]"
| "commented_ack Isr_pci_7 = [RegRead8 0x09, RegRead8 0x04]"
| "commented_ack Isr_pci_8 = [RegWrite8 0x0f 0]"
| "commented_ack Isr_pci_9 = [RegWrite8 0x0f 0]"
| "commented_ack Isr_pci_10 = [RegWrite8 0x0f 0]"
| "commented_ack Isr_pci_12 = [RegRead8 0x04]"
| "commented_ack Isr_pci_13 = [RegWrite8 0x7f 0]"
| "commented_ack Isr_pcie_1 = [RegWrite8 0x1e 0, RegWrite8 0x1f 0]"
| "commented_ack Isr_pcie_2 = [RegWrite8 0x29 0xff]"
| "commented_ack Isr_pcie_3 = [RegWrite8 0x01 0]"
| "commented_ack Isr_pcie_4 = [RegWrite8 0x0f 0]"
| "commented_ack Isr_pcie_6 = [RegWrite32 0x08 0xffffffff]"
| "commented_ack Isr_pcie_7 = [RegWrite8 0x0f 0]"
| "commented_ack Isr_pcie_8 = [RegRead8 0x0c]"
| "commented_ack Isr_adio16f = []"

lemma ack_ops_commented:
  "h \<noteq> Isr_adio16f \<Longrightarrow> ack_ops h = (if h = Isr_pci_1 then []
     else if h = Isr_pci_2 then [RegWrite8 0x1e 0, RegWrite8 (- 0x1f) 0] else commented_ack h)"
  by (cases h) simp_all

text \<open>
  C5: an interrupt the card did raise, for the nineteen handlers that test a latch (the ADIO16F
  handler is the subject of a property of its own): the handler reads the latch, performs accesses to
  registers at offsets from BAR 2, in order, and claims the interrupt; the context is unchanged. The
  accesses are those that the comments beside the code prescribe, with two exceptions: PCI style 1
  makes none, where the comment has a read of 0x13, and PCI style 2 writes 31 bytes below BAR 2, where
  the comment has 0x1F above it.
\<close>

theorem isr_acknowledges_latched:
  assumes "h \<noteq> Isr_adio16f" and "latch_set h D s"
  shows "run_state (call_isr h D) s =
    (let a = latch_reg_addr h (dev_context s); e = Read8 a (ucast (D (trace s) 1 a))
     in (IRQ_HANDLED, s\<lparr>trace := trace s @ e #
          reg_ops_events D (bar_bases (dev_context s) ! 2) (trace s @ [e])
            (if h = Isr_pci_1 then []
             else if h = Isr_pci_2 then [RegWrite8 0x1e 0, RegWrite8 (- 0x1f) 0]
             else commented_ack h)\<rparr>))"
  using assms by (simp add: call_isr_spec Let_def flip: ack_ops_commented)

theorem isr_acknowledges_latched_witness:
  "run_state (call_isr Isr_pcie_1 latched_card) sample_state =
     (IRQ_HANDLED,
      sample_state\<lparr>trace := [Read8 0x20069 0xff, Write8 0x3001e 0, Write8 0x3001f 0]\<rparr>)"
proof -
  have "latch_set Isr_pcie_1 latched_card sample_state"
    by (simp add: latch_defs sample_defs)
  from isr_acknowledges_latched [OF _ this] show ?thesis
    by (simp add: latch_defs sample_defs)
qed

section \<open>The ADIO16F handler\<close>

lemma notify_spec:
  "run_state accesio_notify_user s =
     ((), if waiting_for_irq (dev_context s) \<noteq> 0
          then s\<lparr>trace := trace s @ [Spin_lock, Spin_unlock, Wake_up],
                 dev_context := (dev_context s)\<lparr>waiting_for_irq := 0\<rparr>\<rparr>
          else s\<lparr>trace := trace s @ [Spin_lock, Spin_unlock]\<rparr>)"
  by (simp add: accesio_notify_user_def style_defs io_simps)

lemma adio16f_spec:
  "run_state (interrupt_adio16f_style D) s =
     (let c = dev_context s;
          a = bar_bases c ! 2 + 0x40;
          v = D (trace s) 4 a;
          t = trace s @ [Read32 a v]
      in if v AND ADIO16F_INTERRUPT_MASK = 0 then (IRQ_NONE, s\<lparr>trace := t\<rparr>)
         else (IRQ_HANDLED,
           if waiting_for_irq c \<noteq> 0
           then s\<lparr>trace := t @ [Write32 a (v AND ADIO16F_INTERRUPT_MASK),
                                Spin_lock, Spin_unlock, Wake_up],
                  dev_context := c\<lparr>waiting_for_irq := 0\<rparr>\<rparr>
           else s\<lparr>trace := t @ [Write32 a (v AND ADIO16F_INTERRUPT_MASK),
                                Spin_lock, Spin_unlock]\<rparr>))"
  by (simp add: interrupt_adio16f_style_def accesio_handler_ddata_def notify_spec io_simps Let_def)

text \<open>
  C40: the ADIO16F handler claims the interrupt exactly when one of its status bits is set; it then
  writes back those bits and no others, and the waiting flag is cleared whenever it claims.
\<close>

theorem adio16f_acknowledges_its_bits:
  "let s' = snd (run_state (interrupt_adio16f_style D) s);
       a = bar_bases (dev_context s) ! 2 + 0x40;
       v = D (trace s) 4 a AND ADIO16F_INTERRUPT_MASK
   in (fst (run_state (interrupt_adio16f_style D) s) = IRQ_HANDLED \<longleftrightarrow> v \<noteq> 0)
      \<and> filter is_write (new_events (interrupt_adio16f_style D) s) =
          (if v \<noteq> 0 then [Write32 a v] else [])
      \<and> dev_context s' = (dev_context s)\<lparr>waiting_for_irq :=
          (if v \<noteq> 0 then 0 else waiting_for_irq (dev_context s))\<rparr>"
  by (simp add: adio16f_spec new_events_def Let_def)

text \<open>
  C16: which interrupts wake a waiting process: only those of an ADIO16F card, when a status bit is
  set and a process waits. The other nineteen handlers never touch the wait queue, so a process
  that waits on such a card is woken by no interrupt.
\<close>

theorem isr_wakes_iff:
  "Wake_up \<in> set (new_events (call_isr h D) s) \<longleftrightarrow>
     h = Isr_adio16f
     \<and> D (trace s) 4 (bar_bases (dev_context s) ! 2 + 0x40) AND ADIO16F_INTERRUPT_MASK \<noteq> 0
     \<and> waiting_for_irq (dev_context s) \<noteq> 0"
proof (cases "h = Isr_adio16f")
  case True
  then show ?thesis by (simp add: adio16f_spec new_events_def Let_def)
next
  case False
  have "Wake_up \<notin> set (reg_ops_events D b t ps)" for b t ps
    using reg_ops_events_bus [of Wake_up D b t ps] by auto
  with False show ?thesis
    by (simp add: call_isr_spec new_events_def Let_def)
qed

section \<open>Where the handlers write\<close>

lemma ack_ops_offsets:
  "p \<in> set (ack_ops h) \<Longrightarrow> reg_op_offset p < 0x80 \<or> (h = Isr_pci_2 \<and> reg_op_offset p = - 0x1f)"
  by (cases h) auto

text \<open>
  C18: every access of a handler is to its latch register or to the first 128 bytes of BAR 2, with
  one exception: the handler of PCI style 2 also writes 31 bytes below BAR 2.
\<close>

theorem isr_confined:
  assumes "e \<in> set (new_events (call_isr h D) s)" and "access_addr e = Some a"
  shows "(h \<noteq> Isr_adio16f \<and> a = latch_reg_addr h (dev_context s))
       \<or> a - bar_bases (dev_context s) ! 2 < 0x80
       \<or> (h = Isr_pci_2 \<and> a = bar_bases (dev_context s) ! 2 - 0x1f)"
proof (cases "h = Isr_adio16f")
  case True
  with assms show ?thesis
    by (auto simp: adio16f_spec new_events_def Let_def split: if_splits)
next
  case False
  let ?b = "bar_bases (dev_context s) ! 2"
  from False assms consider "a = latch_reg_addr h (dev_context s)"
    | t where "e \<in> set (reg_ops_events D ?b t (ack_ops h))"
    by (auto simp: call_isr_spec new_events_def Let_def split: if_splits)
  then show ?thesis
  proof cases
    case 1
    with False show ?thesis by simp
  next
    case 2
    with assms(2) obtain p where "p \<in> set (ack_ops h)" "a = ?b + reg_op_offset p"
      by (auto dest: reg_ops_events_addr)
    with ack_ops_offsets [of p h] show ?thesis by auto
  qed
qed

theorem isr_confined_witness:
  "Write8 0x3000f 0 \<in> set (new_events (call_isr Isr_pci_8 latched_card) sample_state)
   \<and> (0x3000f :: addr) - 0x30000 < 0x80"
proof -
  have m: "Write8 0x3000f 0 \<in> set (new_events (call_isr Isr_pci_8 latched_card) sample_state)"
    by (simp add: style_defs io_simps new_events_def sample_defs)
  from isr_confined [OF m] have "(0x3000f :: addr) - 0x30000 < 0x80"
    by (simp add: latch_defs sample_defs)
  with m show ?thesis by simp
qed

text \<open>
  The exception to the confinement of handlers is real. Re-arming a PCI style 2 card writes at BAR 2
  minus 0x1f and never touches the enable register, BAR 2 plus 0x1f, that the comment beside the
  code names: whenever the handler claims an interrupt it disables the card and does not enable it
  again.
\<close>

lemma pci_2_handler_leaves_card_disabled:
  assumes "latch_set Isr_pci_2 D s"
  shows "filter is_write (new_events (interrupt_pci_style_2 D) s) =
           [Write8 (bar_bases (dev_context s) ! 2 + 0x1e) 0,
            Write8 (bar_bases (dev_context s) ! 2 - 0x1f) 0]
       \<and> Write8 (bar_bases (dev_context s) ! 2 + 0x1f) 0
           \<notin> set (new_events (interrupt_pci_style_2 D) s)"
proof -
  have "bar_bases (dev_context s) ! 2 + 0x1f \<noteq> bar_bases (dev_context s) ! 2 - 0x1f"
    and "bar_bases (dev_context s) ! 2 + 0x1f \<noteq> bar_bases (dev_context s) ! 2 + 0x1e"
    by (simp_all add: diff_conv_add_uminus del: add_uminus_conv_diff)
  with assms call_isr_spec [of Isr_pci_2 D s] show ?thesis
    by (simp add: new_events_def Let_def)
qed

end
