(* ===== verification/Register_Actions.thy ===== *)
theory Register_Actions
  imports Bus
begin

text \<open>
  The data-driven description of the interrupt styles that precedes the handler functions:
  \<^verbatim>\<open>module_old/register-actions.h\<close>, the style table of \<^verbatim>\<open>module_old/devices.h\<close> and the interpreter
  \<^verbatim>\<open>aio_driver_register_action\<close> of \<^verbatim>\<open>module_old/aiowdm.c\<close>. The old module is no longer built (the
  interpreter is in commented-out code), but the handlers of the current module were written from
  this table, register by register, and quote it in their comments; here it is the reference the
  handlers are compared with.
\<close>

section \<open>Register operations\<close>

text \<open>\<^verbatim>\<open>enum REGISTER_ACTION\<close>.\<close>

datatype REGISTER_ACTION =
    REGISTER_ACTION_NONE
  | REGISTER_ACTION_READ_8 | REGISTER_ACTION_READ_16 | REGISTER_ACTION_READ_32
  | REGISTER_ACTION_WRITE_8 | REGISTER_ACTION_WRITE_16 | REGISTER_ACTION_WRITE_32
  | REGISTER_ACTION_WRITE_48
  | REGISTER_ACTION_TESTBITS_8 | REGISTER_ACTION_TESTBITS_16 | REGISTER_ACTION_TESTBITS_32
  | REGISTER_ACTION_WRITEBITS_8 | REGISTER_ACTION_WRITEBITS_16 | REGISTER_ACTION_WRITEBITS_32
  | REGISTER_ACTION_TOGGLEBITS_8 | REGISTER_ACTION_TOGGLEBITS_16 | REGISTER_ACTION_TOGGLEBITS_32

text \<open>\<^verbatim>\<open>struct register_operation\<close>.\<close>

record register_operation =
  action :: REGISTER_ACTION
  op_bar :: u8
  op_offset :: u16
  op_value :: u32
  op_mask :: u32

text \<open>A C initialiser that names some fields leaves the others zero.\<close>

abbreviation reg_op_init :: "REGISTER_ACTION \<Rightarrow> u8 \<Rightarrow> u16 \<Rightarrow> u32 \<Rightarrow> u32 \<Rightarrow> register_operation" where
  "reg_op_init act b k v m \<equiv>
     \<lparr>action = act, op_bar = b, op_offset = k, op_value = v, op_mask = m\<rparr>"

abbreviation no_operation :: register_operation where
  "no_operation \<equiv> reg_op_init REGISTER_ACTION_NONE 0 0 0 0"

text \<open>
  The interpreter. The operation is passed by value, so the result of a read or a test is in a
  copy the caller does not see: \<open>register_action_body\<close> returns the status and that copy,
  \<open>aio_driver_register_action\<close> only the status.
\<close>

definition c_not :: "'a::len word \<Rightarrow> u32" where
  "c_not x = (if x = 0 then 1 else 0)"

definition op_base :: "addr list \<Rightarrow> register_operation \<Rightarrow> addr" where
  "op_base bases op = bases ! unat (op_bar op)"

definition op_addr :: "addr list \<Rightarrow> register_operation \<Rightarrow> addr" where
  "op_addr bases op = op_base bases op + ucast (op_offset op)"

definition register_action_body ::
  "device \<Rightarrow> addr list \<Rightarrow> register_operation \<Rightarrow> ('a driver_state_scheme, int \<times> register_operation) state" where
  "register_action_body D bases op = (case action op of
     REGISTER_ACTION_NONE \<Rightarrow> State_Monad.return (0, op)
   | REGISTER_ACTION_READ_8 \<Rightarrow> do {
       v \<leftarrow> ioread8 D (op_addr bases op);
       State_Monad.return (0, op\<lparr>op_value := ucast v\<rparr>) }
   | REGISTER_ACTION_READ_16 \<Rightarrow> do {
       v \<leftarrow> ioread16 D (op_addr bases op);
       State_Monad.return (0, op\<lparr>op_value := ucast v\<rparr>) }
   | REGISTER_ACTION_READ_32 \<Rightarrow> do {
       v \<leftarrow> ioread32 D (op_addr bases op);
       State_Monad.return (0, op\<lparr>op_value := v\<rparr>) }
   | REGISTER_ACTION_WRITE_8 \<Rightarrow> do {
       _ \<leftarrow> iowrite8 (ucast (op_value op)) (op_addr bases op);
       State_Monad.return (0, op) }
   | REGISTER_ACTION_WRITE_16 \<Rightarrow> do {
       _ \<leftarrow> iowrite16 (ucast (op_value op)) (op_addr bases op);
       State_Monad.return (0, op) }
   | REGISTER_ACTION_WRITE_32 \<Rightarrow> do {
       _ \<leftarrow> iowrite32 (op_value op) (op_addr bases op);
       State_Monad.return (0, op) }
   | REGISTER_ACTION_WRITE_48 \<Rightarrow> State_Monad.return (- EPERM, op)
   | REGISTER_ACTION_TESTBITS_8 \<Rightarrow> do {
       v \<leftarrow> ioread8 D (op_addr bases op);
       State_Monad.return (0, op\<lparr>op_value := c_not ((ucast v XOR op_value op) AND op_mask op)\<rparr>) }
   | REGISTER_ACTION_TESTBITS_16 \<Rightarrow> do {
       v \<leftarrow> ioread16 D (op_addr bases op);
       State_Monad.return (0, op\<lparr>op_value := c_not ((ucast v XOR op_value op) AND op_mask op)\<rparr>) }
   | REGISTER_ACTION_TESTBITS_32 \<Rightarrow> do {
       v \<leftarrow> ioread32 D (op_addr bases op);
       State_Monad.return (0, op\<lparr>op_value := c_not ((v XOR op_value op) AND op_mask op)\<rparr>) }
   | REGISTER_ACTION_WRITEBITS_8 \<Rightarrow> do {
       v \<leftarrow> ioread8 D (op_addr bases op);
       _ \<leftarrow> iowrite8 (ucast ((ucast v AND op_mask op) OR op_value op)) (op_base bases op);
       State_Monad.return (0, op) }
   | REGISTER_ACTION_WRITEBITS_16 \<Rightarrow> do {
       v \<leftarrow> ioread16 D (op_addr bases op);
       _ \<leftarrow> iowrite16 (ucast ((ucast v AND op_mask op) OR op_value op)) (op_base bases op);
       State_Monad.return (0, op) }
   | REGISTER_ACTION_WRITEBITS_32 \<Rightarrow> do {
       v \<leftarrow> ioread32 D (op_addr bases op);
       _ \<leftarrow> iowrite32 ((v AND op_mask op) OR op_value op) (op_base bases op);
       State_Monad.return (0, op) }
   | REGISTER_ACTION_TOGGLEBITS_8 \<Rightarrow> do {
       v \<leftarrow> ioread8 D (op_addr bases op);
       _ \<leftarrow> iowrite8 (ucast (ucast v XOR op_mask op)) (op_base bases op);
       State_Monad.return (0, op) }
   | REGISTER_ACTION_TOGGLEBITS_16 \<Rightarrow> do {
       v \<leftarrow> ioread16 D (op_addr bases op);
       _ \<leftarrow> iowrite16 (ucast (ucast v XOR op_mask op)) (op_base bases op);
       State_Monad.return (0, op) }
   | REGISTER_ACTION_TOGGLEBITS_32 \<Rightarrow> do {
       v \<leftarrow> ioread16 D (op_addr bases op);
       _ \<leftarrow> iowrite16 (ucast (ucast v XOR op_mask op)) (op_base bases op);
       State_Monad.return (0, op) })"

definition aio_driver_register_action ::
  "device \<Rightarrow> addr list \<Rightarrow> register_operation \<Rightarrow> ('a driver_state_scheme, int) state" where
  "aio_driver_register_action D bases op = do {
     r \<leftarrow> register_action_body D bases op;
     State_Monad.return (fst r) }"

section \<open>The style table\<close>

text \<open>\<^verbatim>\<open>struct aio_irq_descriptor\<close>; the pointer \<open>Generate\<close> is \<^verbatim>\<open>NULL\<close> in every style.\<close>

record aio_irq_descriptor =
  old_init :: register_operation
  old_test_latched :: register_operation
  old_disable :: register_operation
  old_Clear :: register_operation
  old_Enable :: register_operation
  old_Generate :: "addr option"

named_theorems table_defs \<open>the constants of the style table\<close>

definition isLatched_PCI :: register_operation where [table_defs]:
  "isLatched_PCI = reg_op_init REGISTER_ACTION_TESTBITS_8 1 0x4C 0xFF 0x04"

definition isLatched_PCIe :: register_operation where [table_defs]:
  "isLatched_PCIe = reg_op_init REGISTER_ACTION_TESTBITS_8 1 0x69 0xFF 0x80"

definition init_PCIe :: register_operation where [table_defs]:
  "init_PCIe = reg_op_init REGISTER_ACTION_WRITE_8 1 0x69 0x09 0"

definition PCI_1_STYLE :: aio_irq_descriptor where [table_defs]:
  "PCI_1_STYLE = \<lparr>old_init = no_operation, old_test_latched = isLatched_PCI,
     old_disable = reg_op_init REGISTER_ACTION_WRITE_8 2 0x13 0x00 0,
     old_Clear = reg_op_init REGISTER_ACTION_READ_8 2 0x13 0 0,
     old_Enable = reg_op_init REGISTER_ACTION_WRITE_8 2 0x13 0x02 0, old_Generate = None\<rparr>"

definition PCI_2_STYLE :: aio_irq_descriptor where [table_defs]:
  "PCI_2_STYLE = \<lparr>old_init = no_operation, old_test_latched = isLatched_PCI,
     old_disable = reg_op_init REGISTER_ACTION_WRITE_8 2 0x1E 0 0,
     old_Clear = no_operation,
     old_Enable = reg_op_init REGISTER_ACTION_WRITE_8 2 0x1F 0 0, old_Generate = None\<rparr>"

definition PCI_3_STYLE :: aio_irq_descriptor where [table_defs]:
  "PCI_3_STYLE = \<lparr>old_init = no_operation, old_test_latched = isLatched_PCI,
     old_disable = reg_op_init REGISTER_ACTION_WRITE_8 2 0x02 0 0,
     old_Clear = reg_op_init REGISTER_ACTION_WRITE_8 2 0x02 0 0,
     old_Enable = reg_op_init REGISTER_ACTION_READ_8 2 0x01 0 0, old_Generate = None\<rparr>"

definition PCI_4_STYLE :: aio_irq_descriptor where [table_defs]:
  "PCI_4_STYLE = \<lparr>old_init = no_operation, old_test_latched = isLatched_PCI,
     old_disable = reg_op_init REGISTER_ACTION_READ_8 2 0x04 0 0,
     old_Clear = reg_op_init REGISTER_ACTION_READ_8 2 0x0C 0 0,
     old_Enable = reg_op_init REGISTER_ACTION_READ_8 2 0x03 0 0, old_Generate = None\<rparr>"

definition PCI_5_STYLE :: aio_irq_descriptor where [table_defs]:
  "PCI_5_STYLE = \<lparr>old_init = no_operation, old_test_latched = isLatched_PCI,
     old_disable = reg_op_init REGISTER_ACTION_WRITE_8 2 0x07 0x00 0,
     old_Clear = reg_op_init REGISTER_ACTION_READ_8 2 0x07 0 0,
     old_Enable = reg_op_init REGISTER_ACTION_WRITE_8 2 0x07 0x80 0, old_Generate = None\<rparr>"

definition PCI_6_STYLE :: aio_irq_descriptor where [table_defs]:
  "PCI_6_STYLE = \<lparr>old_init = no_operation, old_test_latched = isLatched_PCI,
     old_disable = reg_op_init REGISTER_ACTION_READ_8 2 0x09 0 0,
     old_Clear = no_operation,
     old_Enable = reg_op_init REGISTER_ACTION_WRITE_8 2 0x04 0x81 0, old_Generate = None\<rparr>"

definition PCI_7_STYLE :: aio_irq_descriptor where [table_defs]:
  "PCI_7_STYLE = \<lparr>old_init = no_operation, old_test_latched = isLatched_PCI,
     old_disable = reg_op_init REGISTER_ACTION_READ_8 2 0x09 0 0,
     old_Clear = no_operation,
     old_Enable = reg_op_init REGISTER_ACTION_READ_8 2 0x04 0 0, old_Generate = None\<rparr>"

definition PCI_8_STYLE :: aio_irq_descriptor where [table_defs]:
  "PCI_8_STYLE = \<lparr>old_init = no_operation, old_test_latched = isLatched_PCI,
     old_disable = reg_op_init REGISTER_ACTION_WRITE_8 2 0x0B 0xFF 0,
     old_Clear = reg_op_init REGISTER_ACTION_WRITE_8 2 0x0F 0 0,
     old_Enable = reg_op_init REGISTER_ACTION_WRITE_8 2 0x0B 0x00 0, old_Generate = None\<rparr>"

definition PCI_9_STYLE :: aio_irq_descriptor where [table_defs]:
  "PCI_9_STYLE = \<lparr>old_init = no_operation, old_test_latched = isLatched_PCI,
     old_disable = reg_op_init REGISTER_ACTION_WRITE_8 2 0x0C 0x00 0,
     old_Clear = no_operation,
     old_Enable = reg_op_init REGISTER_ACTION_WRITE_8 2 0x0C 0x10 0, old_Generate = None\<rparr>"

definition PCI_10_STYLE :: aio_irq_descriptor where [table_defs]:
  "PCI_10_STYLE = \<lparr>old_init = no_operation, old_test_latched = isLatched_PCI,
     old_disable = reg_op_init REGISTER_ACTION_WRITE_8 2 0x0D 0 0,
     old_Clear = reg_op_init REGISTER_ACTION_WRITE_8 2 0x0F 0 0,
     old_Enable = reg_op_init REGISTER_ACTION_WRITE_8 2 0x0E 0 0, old_Generate = None\<rparr>"

definition PCI_11_STYLE :: aio_irq_descriptor where [table_defs]:
  "PCI_11_STYLE = \<lparr>old_init = no_operation, old_test_latched = no_operation,
     old_disable = no_operation, old_Clear = no_operation, old_Enable = no_operation,
     old_Generate = None\<rparr>"

definition PCI_12_STYLE :: aio_irq_descriptor where [table_defs]:
  "PCI_12_STYLE = \<lparr>old_init = no_operation, old_test_latched = isLatched_PCI,
     old_disable = no_operation,
     old_Clear = reg_op_init REGISTER_ACTION_READ_8 2 0x04 0 0,
     old_Enable = no_operation, old_Generate = None\<rparr>"

definition PCI_13_STYLE :: aio_irq_descriptor where [table_defs]:
  "PCI_13_STYLE = \<lparr>old_init = no_operation, old_test_latched = isLatched_PCI,
     old_disable = no_operation,
     old_Clear = reg_op_init REGISTER_ACTION_WRITE_8 2 0x7F 0x00 0,
     old_Enable = no_operation, old_Generate = None\<rparr>"

definition PCI_NO_IRQ_STYLE :: aio_irq_descriptor where [table_defs]:
  "PCI_NO_IRQ_STYLE = \<lparr>old_init = no_operation, old_test_latched = isLatched_PCI,
     old_disable = no_operation,
     old_Clear = no_operation,
     old_Enable = no_operation, old_Generate = None\<rparr>"

definition PCIE_1_STYLE :: aio_irq_descriptor where [table_defs]:
  "PCIE_1_STYLE = \<lparr>old_init = init_PCIe, old_test_latched = isLatched_PCIe,
     old_disable = reg_op_init REGISTER_ACTION_WRITE_8 2 0x1E 0 0,
     old_Clear = no_operation,
     old_Enable = reg_op_init REGISTER_ACTION_WRITE_8 2 0x1F 0 0, old_Generate = None\<rparr>"

definition PCIE_2_STYLE :: aio_irq_descriptor where [table_defs]:
  "PCIE_2_STYLE = \<lparr>old_init = init_PCIe, old_test_latched = isLatched_PCIe,
     old_disable = reg_op_init REGISTER_ACTION_WRITE_8 2 0x28 0x00 0,
     old_Clear = reg_op_init REGISTER_ACTION_WRITE_8 2 0x29 0xFF 0,
     old_Enable = reg_op_init REGISTER_ACTION_WRITE_8 2 0x28 0xFF 0, old_Generate = None\<rparr>"

definition PCIE_3_STYLE :: aio_irq_descriptor where [table_defs]:
  "PCIE_3_STYLE = \<lparr>old_init = init_PCIe, old_test_latched = isLatched_PCIe,
     old_disable = reg_op_init REGISTER_ACTION_WRITE_8 2 0x02 0 0,
     old_Clear = reg_op_init REGISTER_ACTION_WRITE_8 2 0x01 0 0,
     old_Enable = reg_op_init REGISTER_ACTION_READ_8 2 0x02 0 0, old_Generate = None\<rparr>"

definition PCIE_4_STYLE :: aio_irq_descriptor where [table_defs]:
  "PCIE_4_STYLE = \<lparr>old_init = init_PCIe, old_test_latched = isLatched_PCIe,
     old_disable = reg_op_init REGISTER_ACTION_WRITE_8 2 0x0B 0xFF 0,
     old_Clear = reg_op_init REGISTER_ACTION_WRITE_8 2 0x0F 0 0,
     old_Enable = reg_op_init REGISTER_ACTION_WRITE_8 2 0x0B 0x00 0, old_Generate = None\<rparr>"

definition PCIE_5_STYLE :: aio_irq_descriptor where [table_defs]:
  "PCIE_5_STYLE = \<lparr>old_init = init_PCIe, old_test_latched = isLatched_PCIe,
     old_disable = reg_op_init REGISTER_ACTION_READ_8 2 0x0B 0 0,
     old_Clear = reg_op_init REGISTER_ACTION_WRITE_8 2 0x0F 0 0,
     old_Enable = reg_op_init REGISTER_ACTION_WRITE_8 2 0x0B 0x00 0, old_Generate = None\<rparr>"

definition PCIE_6_STYLE :: aio_irq_descriptor where [table_defs]:
  "PCIE_6_STYLE = \<lparr>old_init = init_PCIe, old_test_latched = isLatched_PCIe,
     old_disable = reg_op_init REGISTER_ACTION_WRITE_8 2 0x0E 0x00 0,
     old_Clear = reg_op_init REGISTER_ACTION_WRITE_32 2 0x08 0xFFFFFFFF 0,
     old_Enable = reg_op_init REGISTER_ACTION_WRITE_8 2 0x0E 0xFF 0, old_Generate = None\<rparr>"

definition PCIE_7_STYLE :: aio_irq_descriptor where [table_defs]:
  "PCIE_7_STYLE = \<lparr>old_init = init_PCIe, old_test_latched = isLatched_PCIe,
     old_disable = reg_op_init REGISTER_ACTION_WRITE_8 2 0x0E 0x00 0,
     old_Clear = reg_op_init REGISTER_ACTION_WRITE_8 2 0x0F 0 0,
     old_Enable = reg_op_init REGISTER_ACTION_WRITE_8 2 0x0E 0x03 0, old_Generate = None\<rparr>"

definition PCIE_8_STYLE :: aio_irq_descriptor where [table_defs]:
  "PCIE_8_STYLE = \<lparr>old_init = init_PCIe, old_test_latched = isLatched_PCIe,
     old_disable = reg_op_init REGISTER_ACTION_READ_8 2 0x04 0 0,
     old_Clear = reg_op_init REGISTER_ACTION_READ_8 2 0x0C 0 0,
     old_Enable = reg_op_init REGISTER_ACTION_READ_8 2 0x03 0 0, old_Generate = None\<rparr>"

definition NYI :: aio_irq_descriptor where [table_defs]:
  "NYI = \<lparr>old_init = no_operation, old_test_latched = no_operation,
     old_disable = no_operation,
     old_Clear = no_operation,
     old_Enable = no_operation, old_Generate = None\<rparr>"

end
