(* ===== verification/Device_Table.thy ===== *)
theory Device_Table
  imports Driver_Types
begin

text \<open>
  The two tables of \<^verbatim>\<open>include/accesio_pci_ids.h\<close>, row by row: the device descriptors and the PCI id
  table the kernel matches cards against. The array of descriptors is split into parts of
  fourteen rows; \<open>accesio_pci_device_descriptors\<close> is their concatenation. A field the initialiser
  does not name is zero: \<^verbatim>\<open>NULL\<close> or \<^verbatim>\<open>false\<close>.
\<close>

named_theorems table_rows \<open>the parts of the descriptor table\<close>

section \<open>Device descriptors\<close>

definition descriptors_1 :: "accesio_pci_device_descriptor list" where [table_rows]:
  "descriptors_1 = [
     \<lparr>pid = 0x0100, name = ''mpcie-dio-24s'', isr = Some Isr_pcie_2, init_fn = None, test_latched = None,
       enable = Some Enable_pcie_2, disable = Some Disable_pcie_2, clear = None, has_dma = False\<rparr>,
     \<lparr>pid = 0x0101, name = ''mpcie-idio-8'', isr = Some Isr_pcie_2, init_fn = None, test_latched = None,
       enable = Some Enable_pcie_2, disable = Some Disable_pcie_2, clear = None, has_dma = False\<rparr>,
     \<lparr>pid = 0x0102, name = ''mpcie-iiro-8'', isr = Some Isr_pcie_2, init_fn = None, test_latched = None,
       enable = Some Enable_pcie_2, disable = Some Disable_pcie_2, clear = None, has_dma = False\<rparr>,
     \<lparr>pid = 0x0103, name = ''mpcie-idio-4'', isr = Some Isr_pcie_2, init_fn = None, test_latched = None,
       enable = Some Enable_pcie_2, disable = Some Disable_pcie_2, clear = None, has_dma = False\<rparr>,
     \<lparr>pid = 0x0104, name = ''mpcie-iiro-4'', isr = Some Isr_pcie_2, init_fn = None, test_latched = None,
       enable = Some Enable_pcie_2, disable = Some Disable_pcie_2, clear = None, has_dma = False\<rparr>,
     \<lparr>pid = 0x0105, name = ''mpcie-ido-8'', isr = Some Isr_pcie_2, init_fn = None, test_latched = None,
       enable = Some Enable_pcie_2, disable = Some Disable_pcie_2, clear = None, has_dma = False\<rparr>,
     \<lparr>pid = 0x0106, name = ''mpcie-ro-8'', isr = Some Isr_pcie_2, init_fn = None, test_latched = None,
       enable = Some Enable_pcie_2, disable = Some Disable_pcie_2, clear = None, has_dma = False\<rparr>,
     \<lparr>pid = 0x0107, name = ''mpcie-ii-16'', isr = Some Isr_pcie_2, init_fn = None, test_latched = None,
       enable = Some Enable_pcie_2, disable = Some Disable_pcie_2, clear = None, has_dma = False\<rparr>,
     \<lparr>pid = 0x0108, name = ''mpcie-ii-8'', isr = Some Isr_pcie_2, init_fn = None, test_latched = None,
       enable = Some Enable_pcie_2, disable = Some Disable_pcie_2, clear = None, has_dma = False\<rparr>,
     \<lparr>pid = 0x0109, name = ''mpcie-ii-4'', isr = Some Isr_pcie_2, init_fn = None, test_latched = None,
       enable = Some Enable_pcie_2, disable = Some Disable_pcie_2, clear = None, has_dma = False\<rparr>,
     \<lparr>pid = 0x010A, name = ''mpcie-quad-4'', isr = Some Isr_pcie_2, init_fn = None, test_latched = None,
       enable = Some Enable_pcie_2, disable = Some Disable_pcie_2, clear = None, has_dma = False\<rparr>,
     \<lparr>pid = 0x010B, name = ''mpcie-quad-8'', isr = Some Isr_pcie_2, init_fn = None, test_latched = None,
       enable = Some Enable_pcie_2, disable = Some Disable_pcie_2, clear = None, has_dma = False\<rparr>,
     \<lparr>pid = 0x010C, name = ''mod-tbd'', isr = None, init_fn = None, test_latched = None,
       enable = None, disable = None, clear = None, has_dma = False\<rparr>,
     \<lparr>pid = 0x010D, name = ''mod-tbd'', isr = None, init_fn = None, test_latched = None,
       enable = None, disable = None, clear = None, has_dma = False\<rparr>]"

definition descriptors_2 :: "accesio_pci_device_descriptor list" where [table_rows]:
  "descriptors_2 = [
     \<lparr>pid = 0x010E, name = ''mod-tbd'', isr = None, init_fn = None, test_latched = None,
       enable = None, disable = None, clear = None, has_dma = False\<rparr>,
     \<lparr>pid = 0x010F, name = ''mod-tbd'', isr = None, init_fn = None, test_latched = None,
       enable = None, disable = None, clear = None, has_dma = False\<rparr>,
     \<lparr>pid = 0x0508, name = ''pci-ido-16a'', isr = None, init_fn = None, test_latched = None,
       enable = None, disable = None, clear = None, has_dma = False\<rparr>,
     \<lparr>pid = 0x0518, name = ''pci-ido-32a'', isr = None, init_fn = None, test_latched = None,
       enable = None, disable = None, clear = None, has_dma = False\<rparr>,
     \<lparr>pid = 0x0520, name = ''pci-ido-48'', isr = None, init_fn = None, test_latched = None,
       enable = None, disable = None, clear = None, has_dma = False\<rparr>,
     \<lparr>pid = 0x0521, name = ''pci-ido-48a'', isr = None, init_fn = None, test_latched = None,
       enable = None, disable = None, clear = None, has_dma = False\<rparr>,
     \<lparr>pid = 0x0703, name = ''pcie-ro-4'', isr = Some Isr_pcie_3, init_fn = None, test_latched = None,
       enable = Some Enable_pcie_3, disable = Some Disable_pcie_3, clear = None, has_dma = False\<rparr>,
     \<lparr>pid = 0x07C0, name = ''pcie-ido-12'', isr = None, init_fn = None, test_latched = None,
       enable = None, disable = None, clear = None, has_dma = False\<rparr>,
     \<lparr>pid = 0x07D0, name = ''pcie-ido-24'', isr = Some Isr_pcie_6, init_fn = None, test_latched = None,
       enable = Some Enable_pcie_6, disable = Some Disable_pcie_6, clear = None, has_dma = False\<rparr>,
     \<lparr>pid = 0x0920, name = ''pci-idi-48'', isr = Some Isr_pci_5, init_fn = None, test_latched = None,
       enable = Some Enable_pci_5, disable = Some Disable_pci_5, clear = None, has_dma = False\<rparr>,
     \<lparr>pid = 0x0BC0, name = ''pcie-idi-12a'', isr = None, init_fn = None, test_latched = None,
       enable = None, disable = None, clear = None, has_dma = False\<rparr>,
     \<lparr>pid = 0x0BC1, name = ''pcie-idi-12b'', isr = None, init_fn = None, test_latched = None,
       enable = None, disable = None, clear = None, has_dma = False\<rparr>,
     \<lparr>pid = 0x0BD0, name = ''pcie-idi-24'', isr = Some Isr_pcie_6, init_fn = None, test_latched = None,
       enable = Some Enable_pcie_6, disable = Some Disable_pcie_6, clear = None, has_dma = False\<rparr>,
     \<lparr>pid = 0x0BD1, name = ''pcie-idi-24b'', isr = None, init_fn = None, test_latched = None,
       enable = None, disable = None, clear = None, has_dma = False\<rparr>]"

definition descriptors_3 :: "accesio_pci_device_descriptor list" where [table_rows]:
  "descriptors_3 = [
     \<lparr>pid = 0x0C40, name = ''pcie-dio-144'', isr = Some Isr_pcie_1, init_fn = None, test_latched = None,
       enable = Some Enable_pcie_1, disable = Some Disable_pcie_1, clear = None, has_dma = False\<rparr>,
     \<lparr>pid = 0x0C50, name = ''pci-dio-24h'', isr = Some Isr_pci_10, init_fn = None, test_latched = None,
       enable = Some Enable_pci_10, disable = Some Disable_pci_10, clear = None, has_dma = False\<rparr>,
     \<lparr>pid = 0x0C51, name = ''pci-dio-24d'', isr = Some Isr_pci_10, init_fn = None, test_latched = None,
       enable = Some Enable_pci_10, disable = Some Disable_pci_10, clear = None, has_dma = False\<rparr>,
     \<lparr>pid = 0x0C52, name = ''pcie-dio-24'', isr = Some Isr_pcie_7, init_fn = None, test_latched = None,
       enable = Some Enable_pcie_7, disable = Some Disable_pcie_7, clear = None, has_dma = False\<rparr>,
     \<lparr>pid = 0x0C53, name = ''pcie-dio-24d/h'', isr = Some Isr_pcie_7, init_fn = None, test_latched = None,
       enable = Some Enable_pcie_7, disable = Some Disable_pcie_7, clear = None, has_dma = False\<rparr>,
     \<lparr>pid = 0x0C54, name = ''pcie-dio-24hc'', isr = Some Isr_pcie_4, init_fn = None, test_latched = None,
       enable = Some Enable_pcie_4, disable = Some Disable_pcie_4, clear = None, has_dma = False\<rparr>,
     \<lparr>pid = 0x0C57, name = ''mpcie-dio-24'', isr = Some Isr_pcie_4, init_fn = None, test_latched = None,
       enable = Some Enable_pcie_4, disable = Some Disable_pcie_4, clear = None, has_dma = False\<rparr>,
     \<lparr>pid = 0x0C60, name = ''pci-dio-48(h)'', isr = Some Isr_pci_8, init_fn = None, test_latched = None,
       enable = Some Enable_pci_8, disable = Some Disable_pci_8, clear = None, has_dma = False\<rparr>,
     \<lparr>pid = 0x0C61, name = ''pcie-dio-48'', isr = Some Isr_pcie_4, init_fn = None, test_latched = None,
       enable = Some Enable_pcie_4, disable = Some Disable_pcie_4, clear = None, has_dma = False\<rparr>,
     \<lparr>pid = 0x0C62, name = ''p104-dio-48'', isr = None, init_fn = None, test_latched = None,
       enable = None, disable = None, clear = None, has_dma = False\<rparr>,
     \<lparr>pid = 0x0C68, name = ''pci-dio-72'', isr = Some Isr_pci_2, init_fn = None, test_latched = None,
       enable = Some Enable_pci_2, disable = Some Disable_pci_2, clear = None, has_dma = False\<rparr>,
     \<lparr>pid = 0x0C69, name = ''p104-dio-96'', isr = None, init_fn = None, test_latched = None,
       enable = None, disable = None, clear = None, has_dma = False\<rparr>,
     \<lparr>pid = 0x0C6A, name = ''pcie-dio-72'', isr = Some Isr_pcie_1, init_fn = None, test_latched = None,
       enable = Some Enable_pcie_1, disable = Some Disable_pcie_1, clear = None, has_dma = False\<rparr>,
     \<lparr>pid = 0x0C70, name = ''pci-dio-96'', isr = Some Isr_pci_2, init_fn = None, test_latched = None,
       enable = Some Enable_pci_2, disable = Some Disable_pci_2, clear = None, has_dma = False\<rparr>]"

definition descriptors_4 :: "accesio_pci_device_descriptor list" where [table_rows]:
  "descriptors_4 = [
     \<lparr>pid = 0x0C71, name = ''pcie-dio-96'', isr = Some Isr_pcie_1, init_fn = None, test_latched = None,
       enable = Some Enable_pcie_1, disable = Some Disable_pcie_1, clear = None, has_dma = False\<rparr>,
     \<lparr>pid = 0x0C78, name = ''pci-dio-120'', isr = Some Isr_pci_2, init_fn = None, test_latched = None,
       enable = Some Enable_pci_2, disable = Some Disable_pci_2, clear = None, has_dma = False\<rparr>,
     \<lparr>pid = 0x0C79, name = ''pcie-dio-120'', isr = Some Isr_pcie_1, init_fn = None, test_latched = None,
       enable = Some Enable_pcie_1, disable = Some Disable_pcie_1, clear = None, has_dma = False\<rparr>,
     \<lparr>pid = 0x0DC8, name = ''pci-idio-16'', isr = Some Isr_pci_3, init_fn = None, test_latched = None,
       enable = Some Enable_pci_3, disable = Some Disable_pci_3, clear = None, has_dma = False\<rparr>,
     \<lparr>pid = 0x0E50, name = ''pci-dio-24s'', isr = Some Isr_pci_8, init_fn = None, test_latched = None,
       enable = Some Enable_pci_8, disable = Some Disable_pci_8, clear = None, has_dma = False\<rparr>,
     \<lparr>pid = 0x0E51, name = ''pci-dio-24h(c)'', isr = Some Isr_pci_10, init_fn = None, test_latched = None,
       enable = Some Enable_pci_10, disable = Some Disable_pci_10, clear = None, has_dma = False\<rparr>,
     \<lparr>pid = 0x0E52, name = ''pci-dio-24d(c)'', isr = Some Isr_pci_10, init_fn = None, test_latched = None,
       enable = Some Enable_pci_10, disable = Some Disable_pci_10, clear = None, has_dma = False\<rparr>,
     \<lparr>pid = 0x0E53, name = ''pcie-dio-24s'', isr = Some Isr_pcie_4, init_fn = None, test_latched = None,
       enable = Some Enable_pcie_4, disable = Some Disable_pcie_4, clear = None, has_dma = False\<rparr>,
     \<lparr>pid = 0x0E54, name = ''pcie-dio-24ds-hs'', isr = Some Isr_pcie_4, init_fn = None, test_latched = None,
       enable = Some Enable_pcie_4, disable = Some Disable_pcie_4, clear = None, has_dma = False\<rparr>,
     \<lparr>pid = 0x0E55, name = ''pcie-dio-24dc'', isr = Some Isr_pcie_7, init_fn = None, test_latched = None,
       enable = Some Enable_pcie_7, disable = Some Disable_pcie_7, clear = None, has_dma = False\<rparr>,
     \<lparr>pid = 0x0E56, name = ''pcie-dio-24dcs'', isr = Some Isr_pcie_4, init_fn = None, test_latched = None,
       enable = Some Enable_pcie_4, disable = Some Disable_pcie_4, clear = None, has_dma = False\<rparr>,
     \<lparr>pid = 0x0E57, name = ''pci-dio-48hs'', isr = Some Isr_pcie_4, init_fn = None, test_latched = None,
       enable = Some Enable_pcie_4, disable = Some Disable_pcie_4, clear = None, has_dma = False\<rparr>,
     \<lparr>pid = 0x0E60, name = ''pci-dio-48s'', isr = Some Isr_pci_8, init_fn = None, test_latched = None,
       enable = Some Enable_pci_8, disable = Some Disable_pci_8, clear = None, has_dma = False\<rparr>,
     \<lparr>pid = 0x0E61, name = ''pcie-dio-48s'', isr = Some Isr_pcie_4, init_fn = None, test_latched = None,
       enable = Some Enable_pcie_4, disable = Some Disable_pcie_4, clear = None, has_dma = False\<rparr>]"

definition descriptors_5 :: "accesio_pci_device_descriptor list" where [table_rows]:
  "descriptors_5 = [
     \<lparr>pid = 0x0E62, name = ''p104-dio-48s'', isr = None, init_fn = None, test_latched = None,
       enable = None, disable = None, clear = None, has_dma = False\<rparr>,
     \<lparr>pid = 0x0E63, name = ''pcie-ez-blend'', isr = None, init_fn = None, test_latched = None,
       enable = None, disable = None, clear = None, has_dma = False\<rparr>,
     \<lparr>pid = 0x0E6A, name = ''pcie-dio-72s'', isr = Some Isr_pcie_1, init_fn = None, test_latched = None,
       enable = Some Enable_pcie_1, disable = Some Disable_pcie_1, clear = None, has_dma = False\<rparr>,
     \<lparr>pid = 0x0E71, name = ''pcie-dio-96s'', isr = Some Isr_pcie_1, init_fn = None, test_latched = None,
       enable = Some Enable_pcie_1, disable = Some Disable_pcie_1, clear = None, has_dma = False\<rparr>,
     \<lparr>pid = 0x0E79, name = ''pcie-dio-120s'', isr = Some Isr_pcie_1, init_fn = None, test_latched = None,
       enable = Some Enable_pcie_1, disable = Some Disable_pcie_1, clear = None, has_dma = False\<rparr>,
     \<lparr>pid = 0x0F00, name = ''pci-iiro-8'', isr = Some Isr_pci_3, init_fn = None, test_latched = None,
       enable = Some Enable_pci_3, disable = Some Disable_pci_3, clear = None, has_dma = False\<rparr>,
     \<lparr>pid = 0x0F01, name = ''lpci-iiro-8'', isr = Some Isr_pci_3, init_fn = None, test_latched = None,
       enable = Some Enable_pci_3, disable = Some Disable_pci_3, clear = None, has_dma = False\<rparr>,
     \<lparr>pid = 0x0F02, name = ''pcie-iiro-8'', isr = Some Isr_pcie_3, init_fn = None, test_latched = None,
       enable = Some Enable_pcie_3, disable = Some Disable_pcie_3, clear = None, has_dma = False\<rparr>,
     \<lparr>pid = 0x0F08, name = ''pci-iiro-16'', isr = Some Isr_pci_3, init_fn = None, test_latched = None,
       enable = Some Enable_pci_3, disable = Some Disable_pci_3, clear = None, has_dma = False\<rparr>,
     \<lparr>pid = 0x0F09, name = ''pcie-iiro-16'', isr = Some Isr_pcie_3, init_fn = None, test_latched = None,
       enable = Some Enable_pcie_3, disable = Some Disable_pcie_3, clear = None, has_dma = False\<rparr>,
     \<lparr>pid = 0x0FC0, name = ''pcie-idio-12'', isr = Some Isr_pcie_6, init_fn = None, test_latched = None,
       enable = Some Enable_pcie_6, disable = Some Disable_pcie_6, clear = None, has_dma = False\<rparr>,
     \<lparr>pid = 0x0FC1, name = ''pcie-idi-12'', isr = Some Isr_pcie_6, init_fn = None, test_latched = None,
       enable = Some Enable_pcie_6, disable = Some Disable_pcie_6, clear = None, has_dma = False\<rparr>,
     \<lparr>pid = 0x0FC2, name = ''pcie-ido-12'', isr = Some Isr_pcie_6, init_fn = None, test_latched = None,
       enable = Some Enable_pcie_6, disable = Some Disable_pcie_6, clear = None, has_dma = False\<rparr>,
     \<lparr>pid = 0x0FD0, name = ''pcie-idio-24'', isr = Some Isr_pcie_6, init_fn = None, test_latched = None,
       enable = Some Enable_pcie_6, disable = Some Disable_pcie_6, clear = None, has_dma = False\<rparr>]"

definition descriptors_6 :: "accesio_pci_device_descriptor list" where [table_rows]:
  "descriptors_6 = [
     \<lparr>pid = 0x0FD1, name = ''pcie-idio-24b'', isr = None, init_fn = None, test_latched = None,
       enable = None, disable = None, clear = None, has_dma = False\<rparr>,
     \<lparr>pid = 0x2230, name = ''pci-quad-8'', isr = Some Isr_pci_13, init_fn = None, test_latched = None,
       enable = Some Enable_pci_13, disable = Some Disable_pci_13, clear = None, has_dma = False\<rparr>,
     \<lparr>pid = 0x2231, name = ''pci-quad-4'', isr = Some Isr_pci_13, init_fn = None, test_latched = None,
       enable = Some Enable_pci_13, disable = Some Disable_pci_13, clear = None, has_dma = False\<rparr>,
     \<lparr>pid = 0x22C0, name = ''pci-wdg-csm'', isr = Some Isr_pci_7, init_fn = None, test_latched = None,
       enable = Some Enable_pci_7, disable = Some Disable_pci_7, clear = None, has_dma = False\<rparr>,
     \<lparr>pid = 0x25C0, name = ''p104-wdg-e'', isr = Some Isr_pci_6, init_fn = None, test_latched = None,
       enable = Some Enable_pci_6, disable = Some Disable_pci_6, clear = None, has_dma = False\<rparr>,
     \<lparr>pid = 0x2C50, name = ''pci-dio-96ct'', isr = Some Isr_pci_2, init_fn = None, test_latched = None,
       enable = Some Enable_pci_2, disable = Some Disable_pci_2, clear = None, has_dma = False\<rparr>,
     \<lparr>pid = 0x2C58, name = ''pci-dio-96c3'', isr = Some Isr_pci_2, init_fn = None, test_latched = None,
       enable = Some Enable_pci_2, disable = Some Disable_pci_2, clear = None, has_dma = False\<rparr>,
     \<lparr>pid = 0x2C59, name = ''pcie-dio-96c3'', isr = Some Isr_pcie_1, init_fn = None, test_latched = None,
       enable = Some Enable_pcie_1, disable = Some Disable_pcie_1, clear = None, has_dma = False\<rparr>,
     \<lparr>pid = 0x2C70, name = ''pci-dio-96ct'', isr = None, init_fn = None, test_latched = None,
       enable = None, disable = None, clear = None, has_dma = False\<rparr>,
     \<lparr>pid = 0x2E50, name = ''mpcie-dio-24a'', isr = Some Isr_pcie_4, init_fn = None, test_latched = None,
       enable = Some Enable_pcie_4, disable = Some Disable_pcie_4, clear = None, has_dma = False\<rparr>,
     \<lparr>pid = 0x2EE0, name = ''pcie-dio24s-ctr12'', isr = Some Isr_pcie_5, init_fn = None, test_latched = None,
       enable = Some Enable_pcie_5, disable = Some Disable_pcie_5, clear = None, has_dma = False\<rparr>,
     \<lparr>pid = 0x2FC0, name = ''p104-wdg-csm'', isr = Some Isr_pci_6, init_fn = None, test_latched = None,
       enable = Some Enable_pci_6, disable = Some Disable_pci_6, clear = None, has_dma = False\<rparr>,
     \<lparr>pid = 0x2FC1, name = ''p104-wdg-csma'', isr = Some Isr_pci_6, init_fn = None, test_latched = None,
       enable = Some Enable_pci_6, disable = Some Disable_pci_6, clear = None, has_dma = False\<rparr>,
     \<lparr>pid = 0x4890, name = ''pcie-da12-2'', isr = Some Isr_pcie_8, init_fn = None, test_latched = None,
       enable = Some Enable_pcie_8, disable = Some Disable_pcie_8, clear = None, has_dma = False\<rparr>]"

definition descriptors_7 :: "accesio_pci_device_descriptor list" where [table_rows]:
  "descriptors_7 = [
     \<lparr>pid = 0x4898, name = ''pcie-da12-4'', isr = Some Isr_pcie_8, init_fn = None, test_latched = None,
       enable = Some Enable_pcie_8, disable = Some Disable_pcie_8, clear = None, has_dma = False\<rparr>,
     \<lparr>pid = 0x48a0, name = ''pcie-da12-6'', isr = Some Isr_pcie_8, init_fn = None, test_latched = None,
       enable = Some Enable_pcie_8, disable = Some Disable_pcie_8, clear = None, has_dma = False\<rparr>,
     \<lparr>pid = 0x48a8, name = ''pcie-da12-8'', isr = Some Isr_pcie_8, init_fn = None, test_latched = None,
       enable = Some Enable_pcie_8, disable = Some Disable_pcie_8, clear = None, has_dma = False\<rparr>,
     \<lparr>pid = 0x48b0, name = ''pcie-da12-16'', isr = Some Isr_pcie_8, init_fn = None, test_latched = None,
       enable = Some Enable_pcie_8, disable = Some Disable_pcie_8, clear = None, has_dma = False\<rparr>,
     \<lparr>pid = 0x48d0, name = ''pcie-da16-2'', isr = Some Isr_pcie_8, init_fn = None, test_latched = None,
       enable = Some Enable_pcie_8, disable = Some Disable_pcie_8, clear = None, has_dma = False\<rparr>,
     \<lparr>pid = 0x48d8, name = ''pcie-da16-4'', isr = Some Isr_pcie_8, init_fn = None, test_latched = None,
       enable = Some Enable_pcie_8, disable = Some Disable_pcie_8, clear = None, has_dma = False\<rparr>,
     \<lparr>pid = 0x48e0, name = ''pcie-da16-6'', isr = Some Isr_pcie_8, init_fn = None, test_latched = None,
       enable = Some Enable_pcie_8, disable = Some Disable_pcie_8, clear = None, has_dma = False\<rparr>,
     \<lparr>pid = 0x48e8, name = ''pcie-da16-8'', isr = Some Isr_pcie_8, init_fn = None, test_latched = None,
       enable = Some Enable_pcie_8, disable = Some Disable_pcie_8, clear = None, has_dma = False\<rparr>,
     \<lparr>pid = 0x48f0, name = ''pcie-da16-16'', isr = Some Isr_pcie_8, init_fn = None, test_latched = None,
       enable = Some Enable_pcie_8, disable = Some Disable_pcie_8, clear = None, has_dma = False\<rparr>,
     \<lparr>pid = 0x5ED0, name = ''pci-dac'', isr = None, init_fn = None, test_latched = None,
       enable = None, disable = None, clear = None, has_dma = False\<rparr>,
     \<lparr>pid = 0x6C90, name = ''pci-da12-2'', isr = Some Isr_pci_4, init_fn = None, test_latched = None,
       enable = Some Enable_pci_4, disable = Some Disable_pci_4, clear = None, has_dma = False\<rparr>,
     \<lparr>pid = 0x6C98, name = ''pci-da12-4'', isr = Some Isr_pci_4, init_fn = None, test_latched = None,
       enable = Some Enable_pci_4, disable = Some Disable_pci_4, clear = None, has_dma = False\<rparr>,
     \<lparr>pid = 0x6CA0, name = ''pci-da12-6'', isr = Some Isr_pci_4, init_fn = None, test_latched = None,
       enable = Some Enable_pci_4, disable = Some Disable_pci_4, clear = None, has_dma = False\<rparr>,
     \<lparr>pid = 0x6CA8, name = ''pci-da12-8'', isr = Some Isr_pci_4, init_fn = None, test_latched = None,
       enable = Some Enable_pci_4, disable = Some Disable_pci_4, clear = None, has_dma = False\<rparr>]"

definition descriptors_8 :: "accesio_pci_device_descriptor list" where [table_rows]:
  "descriptors_8 = [
     \<lparr>pid = 0x6CA9, name = ''pci-da12-8v'', isr = Some Isr_pci_4, init_fn = None, test_latched = None,
       enable = Some Enable_pci_4, disable = Some Disable_pci_4, clear = None, has_dma = False\<rparr>,
     \<lparr>pid = 0x6CB0, name = ''pci-da12-16'', isr = Some Isr_pci_4, init_fn = None, test_latched = None,
       enable = Some Enable_pci_4, disable = Some Disable_pci_4, clear = None, has_dma = False\<rparr>,
     \<lparr>pid = 0x6CB1, name = ''pci-da12-16v'', isr = Some Isr_pci_4, init_fn = None, test_latched = None,
       enable = Some Enable_pci_4, disable = Some Disable_pci_4, clear = None, has_dma = False\<rparr>,
     \<lparr>pid = 0xACA8, name = ''pci-ai12-16'', isr = Some Isr_pci_12, init_fn = None, test_latched = None,
       enable = Some Enable_pci_12, disable = Some Disable_pci_12, clear = None, has_dma = False\<rparr>,
     \<lparr>pid = 0xACA9, name = ''pci-ai12-16a'', isr = Some Isr_pci_12, init_fn = None, test_latched = None,
       enable = Some Enable_pci_12, disable = Some Disable_pci_12, clear = None, has_dma = False\<rparr>,
     \<lparr>pid = 0xECA8, name = ''pci-aio12-16'', isr = Some Isr_pci_12, init_fn = None, test_latched = None,
       enable = Some Enable_pci_12, disable = Some Disable_pci_12, clear = None, has_dma = False\<rparr>,
     \<lparr>pid = 0xECA9, name = ''pci-a12-16'', isr = Some Isr_pci_12, init_fn = None, test_latched = None,
       enable = Some Enable_pci_12, disable = Some Disable_pci_12, clear = None, has_dma = False\<rparr>,
     \<lparr>pid = 0xECAA, name = ''pci-a12-16a'', isr = Some Isr_pci_12, init_fn = None, test_latched = None,
       enable = Some Enable_pci_12, disable = Some Disable_pci_12, clear = None, has_dma = False\<rparr>,
     \<lparr>pid = 0xECE8, name = ''lpci-a16-16a'', isr = Some Isr_pci_9, init_fn = None, test_latched = None,
       enable = Some Enable_pci_9, disable = Some Disable_pci_9, clear = None, has_dma = False\<rparr>,
     \<lparr>pid = 0xECE9, name = ''lpci-aio16a'', isr = Some Isr_pci_1, init_fn = None, test_latched = None,
       enable = Some Enable_pci_1, disable = Some Disable_pci_1, clear = None, has_dma = False\<rparr>,
     \<lparr>pid = 0xC2EF, name = ''pcie-adio16-16fds'', isr = Some Isr_adio16f, init_fn = None, test_latched = None,
       enable = Some Enable_adio16f, disable = Some Disable_adio16f, clear = None, has_dma = True\<rparr>,
     \<lparr>pid = 0xC2EC, name = ''pcie-adio16-16f'', isr = Some Isr_adio16f, init_fn = None, test_latched = None,
       enable = Some Enable_adio16f, disable = Some Disable_adio16f, clear = None, has_dma = True\<rparr>,
     \<lparr>pid = 0xC2ED, name = ''pcie-adio16-16a'', isr = Some Isr_adio16f, init_fn = None, test_latched = None,
       enable = Some Enable_adio16f, disable = Some Disable_adio16f, clear = None, has_dma = True\<rparr>,
     \<lparr>pid = 0xC2EE, name = ''pcie-adio16-16e'', isr = Some Isr_adio16f, init_fn = None, test_latched = None,
       enable = Some Enable_adio16f, disable = Some Disable_adio16f, clear = None, has_dma = True\<rparr>]"

definition descriptors_9 :: "accesio_pci_device_descriptor list" where [table_rows]:
  "descriptors_9 = [
     \<lparr>pid = 0x82EC, name = ''pcie-adi16-16f'', isr = Some Isr_adio16f, init_fn = None, test_latched = None,
       enable = Some Enable_adio16f, disable = Some Disable_adio16f, clear = None, has_dma = True\<rparr>,
     \<lparr>pid = 0x82ED, name = ''pcie-adi16-16a'', isr = Some Isr_adio16f, init_fn = None, test_latched = None,
       enable = Some Enable_adio16f, disable = Some Disable_adio16f, clear = None, has_dma = True\<rparr>,
     \<lparr>pid = 0x82EE, name = ''pcie-adi16-16e'', isr = Some Isr_adio16f, init_fn = None, test_latched = None,
       enable = Some Enable_adio16f, disable = Some Disable_adio16f, clear = None, has_dma = True\<rparr>,
     \<lparr>pid = 0xC25C, name = ''pcie-adio12-16a'', isr = Some Isr_adio16f, init_fn = None, test_latched = None,
       enable = Some Enable_adio16f, disable = Some Disable_adio16f, clear = None, has_dma = True\<rparr>,
     \<lparr>pid = 0xC25D, name = ''pcie-adio12-16'', isr = Some Isr_adio16f, init_fn = None, test_latched = None,
       enable = Some Enable_adio16f, disable = Some Disable_adio16f, clear = None, has_dma = True\<rparr>,
     \<lparr>pid = 0xC25E, name = ''pcie-adio12-16e'', isr = Some Isr_adio16f, init_fn = None, test_latched = None,
       enable = Some Enable_adio16f, disable = Some Disable_adio16f, clear = None, has_dma = True\<rparr>,
     \<lparr>pid = 0x825C, name = ''pcie-adi12-16a'', isr = Some Isr_adio16f, init_fn = None, test_latched = None,
       enable = Some Enable_adio16f, disable = Some Disable_adio16f, clear = None, has_dma = True\<rparr>,
     \<lparr>pid = 0x825D, name = ''pcie-adi12-16f'', isr = Some Isr_adio16f, init_fn = None, test_latched = None,
       enable = Some Enable_adio16f, disable = Some Disable_adio16f, clear = None, has_dma = True\<rparr>,
     \<lparr>pid = 0x825E, name = ''pcie-adi12-16f'', isr = Some Isr_adio16f, init_fn = None, test_latched = None,
       enable = Some Enable_adio16f, disable = Some Disable_adio16f, clear = None, has_dma = True\<rparr>]"

definition accesio_pci_device_descriptors :: "accesio_pci_device_descriptor list" where
  "accesio_pci_device_descriptors = descriptors_1 @ descriptors_2 @ descriptors_3 @ descriptors_4 @ descriptors_5 @ descriptors_6 @ descriptors_7 @ descriptors_8 @ descriptors_9"

definition NUM_ACCES_PCI_DEVICES :: nat where
  "NUM_ACCES_PCI_DEVICES = length accesio_pci_device_descriptors"

section \<open>PCI ids\<close>

text \<open>\<^verbatim>\<open>struct pci_device_id\<close>, the fields the \<^verbatim>\<open>PCI_DEVICE\<close> macro sets.\<close>

record pci_device_id =
  vendor :: u32
  device_no :: u32
  subvendor :: u32
  subdevice :: u32

abbreviation PCI_ANY_ID :: u32 where "PCI_ANY_ID \<equiv> 0xffffffff"

definition PCI_DEVICE :: "u32 \<Rightarrow> u32 \<Rightarrow> pci_device_id" where
  "PCI_DEVICE v d = \<lparr>vendor = v, device_no = d, subvendor = PCI_ANY_ID, subdevice = PCI_ANY_ID\<rparr>"

text \<open>The all-zero entry that ends the table.\<close>

definition pci_id_end :: pci_device_id where
  "pci_id_end = \<lparr>vendor = 0, device_no = 0, subvendor = 0, subdevice = 0\<rparr>"

definition ACCES_PCI_VEN_ID :: u32 where
  "ACCES_PCI_VEN_ID = 0x494f"

definition acces_pci_id_table :: "pci_device_id list" where
  "acces_pci_id_table = [
     PCI_DEVICE ACCES_PCI_VEN_ID 0x0100, PCI_DEVICE ACCES_PCI_VEN_ID 0x0101, PCI_DEVICE ACCES_PCI_VEN_ID 0x0102,
     PCI_DEVICE ACCES_PCI_VEN_ID 0x0103, PCI_DEVICE ACCES_PCI_VEN_ID 0x0104, PCI_DEVICE ACCES_PCI_VEN_ID 0x0105,
     PCI_DEVICE ACCES_PCI_VEN_ID 0x0106, PCI_DEVICE ACCES_PCI_VEN_ID 0x0107, PCI_DEVICE ACCES_PCI_VEN_ID 0x0108,
     PCI_DEVICE ACCES_PCI_VEN_ID 0x0109, PCI_DEVICE ACCES_PCI_VEN_ID 0x010a, PCI_DEVICE ACCES_PCI_VEN_ID 0x010b,
     PCI_DEVICE ACCES_PCI_VEN_ID 0x010c, PCI_DEVICE ACCES_PCI_VEN_ID 0x010d, PCI_DEVICE ACCES_PCI_VEN_ID 0x010e,
     PCI_DEVICE ACCES_PCI_VEN_ID 0x010f, PCI_DEVICE ACCES_PCI_VEN_ID 0x0508, PCI_DEVICE ACCES_PCI_VEN_ID 0x0518,
     PCI_DEVICE ACCES_PCI_VEN_ID 0x0520, PCI_DEVICE ACCES_PCI_VEN_ID 0x0521, PCI_DEVICE ACCES_PCI_VEN_ID 0x0703,
     PCI_DEVICE ACCES_PCI_VEN_ID 0x07c0, PCI_DEVICE ACCES_PCI_VEN_ID 0x07d0, PCI_DEVICE ACCES_PCI_VEN_ID 0x0920,
     PCI_DEVICE ACCES_PCI_VEN_ID 0x0bc0, PCI_DEVICE ACCES_PCI_VEN_ID 0x0bc1, PCI_DEVICE ACCES_PCI_VEN_ID 0x0bd0,
     PCI_DEVICE ACCES_PCI_VEN_ID 0x0bd1, PCI_DEVICE ACCES_PCI_VEN_ID 0x0c40, PCI_DEVICE ACCES_PCI_VEN_ID 0x0c50,
     PCI_DEVICE ACCES_PCI_VEN_ID 0x0c51, PCI_DEVICE ACCES_PCI_VEN_ID 0x0c52, PCI_DEVICE ACCES_PCI_VEN_ID 0x0c53,
     PCI_DEVICE ACCES_PCI_VEN_ID 0x0c54, PCI_DEVICE ACCES_PCI_VEN_ID 0x0c57, PCI_DEVICE ACCES_PCI_VEN_ID 0x0c60,
     PCI_DEVICE ACCES_PCI_VEN_ID 0x0c61, PCI_DEVICE ACCES_PCI_VEN_ID 0x0c62, PCI_DEVICE ACCES_PCI_VEN_ID 0x0c68,
     PCI_DEVICE ACCES_PCI_VEN_ID 0x0c69, PCI_DEVICE ACCES_PCI_VEN_ID 0x0c6a, PCI_DEVICE ACCES_PCI_VEN_ID 0x0c70,
     PCI_DEVICE ACCES_PCI_VEN_ID 0x0c71, PCI_DEVICE ACCES_PCI_VEN_ID 0x0c78, PCI_DEVICE ACCES_PCI_VEN_ID 0x0c79,
     PCI_DEVICE ACCES_PCI_VEN_ID 0x0dc8, PCI_DEVICE ACCES_PCI_VEN_ID 0x0e50, PCI_DEVICE ACCES_PCI_VEN_ID 0x0e51,
     PCI_DEVICE ACCES_PCI_VEN_ID 0x0e52, PCI_DEVICE ACCES_PCI_VEN_ID 0x0e53, PCI_DEVICE ACCES_PCI_VEN_ID 0x0e54,
     PCI_DEVICE ACCES_PCI_VEN_ID 0x0e55, PCI_DEVICE ACCES_PCI_VEN_ID 0x0e56, PCI_DEVICE ACCES_PCI_VEN_ID 0x0e57,
     PCI_DEVICE ACCES_PCI_VEN_ID 0x0e60, PCI_DEVICE ACCES_PCI_VEN_ID 0x0e61, PCI_DEVICE ACCES_PCI_VEN_ID 0x0e62,
     PCI_DEVICE ACCES_PCI_VEN_ID 0x0e63, PCI_DEVICE ACCES_PCI_VEN_ID 0x0e6a, PCI_DEVICE ACCES_PCI_VEN_ID 0x0e71,
     PCI_DEVICE ACCES_PCI_VEN_ID 0x0e79, PCI_DEVICE ACCES_PCI_VEN_ID 0x0f00, PCI_DEVICE ACCES_PCI_VEN_ID 0x0f01,
     PCI_DEVICE ACCES_PCI_VEN_ID 0x0f02, PCI_DEVICE ACCES_PCI_VEN_ID 0x0f08, PCI_DEVICE ACCES_PCI_VEN_ID 0x0f09,
     PCI_DEVICE ACCES_PCI_VEN_ID 0x0fc0, PCI_DEVICE ACCES_PCI_VEN_ID 0x0fc1, PCI_DEVICE ACCES_PCI_VEN_ID 0x0fc2,
     PCI_DEVICE ACCES_PCI_VEN_ID 0x0fd0, PCI_DEVICE ACCES_PCI_VEN_ID 0x0fd1, PCI_DEVICE ACCES_PCI_VEN_ID 0x2230,
     PCI_DEVICE ACCES_PCI_VEN_ID 0x2231, PCI_DEVICE ACCES_PCI_VEN_ID 0x22c0, PCI_DEVICE ACCES_PCI_VEN_ID 0x25c0,
     PCI_DEVICE ACCES_PCI_VEN_ID 0x2c50, PCI_DEVICE ACCES_PCI_VEN_ID 0x2c58, PCI_DEVICE ACCES_PCI_VEN_ID 0x2c59,
     PCI_DEVICE ACCES_PCI_VEN_ID 0x2c70, PCI_DEVICE ACCES_PCI_VEN_ID 0x2e50, PCI_DEVICE ACCES_PCI_VEN_ID 0x2ee0,
     PCI_DEVICE ACCES_PCI_VEN_ID 0x2fc0, PCI_DEVICE ACCES_PCI_VEN_ID 0x2fc1, PCI_DEVICE ACCES_PCI_VEN_ID 0x4890,
     PCI_DEVICE ACCES_PCI_VEN_ID 0x4898, PCI_DEVICE ACCES_PCI_VEN_ID 0x48a0, PCI_DEVICE ACCES_PCI_VEN_ID 0x48a8,
     PCI_DEVICE ACCES_PCI_VEN_ID 0x48b0, PCI_DEVICE ACCES_PCI_VEN_ID 0x48d0, PCI_DEVICE ACCES_PCI_VEN_ID 0x48d8,
     PCI_DEVICE ACCES_PCI_VEN_ID 0x48e0, PCI_DEVICE ACCES_PCI_VEN_ID 0x48e8, PCI_DEVICE ACCES_PCI_VEN_ID 0x48f0,
     PCI_DEVICE ACCES_PCI_VEN_ID 0x5ed0, PCI_DEVICE ACCES_PCI_VEN_ID 0x6c90, PCI_DEVICE ACCES_PCI_VEN_ID 0x6c98,
     PCI_DEVICE ACCES_PCI_VEN_ID 0x6ca0, PCI_DEVICE ACCES_PCI_VEN_ID 0x6ca8, PCI_DEVICE ACCES_PCI_VEN_ID 0x6ca9,
     PCI_DEVICE ACCES_PCI_VEN_ID 0x6cb0, PCI_DEVICE ACCES_PCI_VEN_ID 0x6cb1, PCI_DEVICE ACCES_PCI_VEN_ID 0xaca8,
     PCI_DEVICE ACCES_PCI_VEN_ID 0xaca9, PCI_DEVICE ACCES_PCI_VEN_ID 0xeca8, PCI_DEVICE ACCES_PCI_VEN_ID 0xeca9,
     PCI_DEVICE ACCES_PCI_VEN_ID 0xecaa, PCI_DEVICE ACCES_PCI_VEN_ID 0xece8, PCI_DEVICE ACCES_PCI_VEN_ID 0xece9,
     PCI_DEVICE ACCES_PCI_VEN_ID 0xc2ef, PCI_DEVICE ACCES_PCI_VEN_ID 0xc2ec, PCI_DEVICE ACCES_PCI_VEN_ID 0xc2ed,
     PCI_DEVICE ACCES_PCI_VEN_ID 0xc2ee, PCI_DEVICE ACCES_PCI_VEN_ID 0x82ec, PCI_DEVICE ACCES_PCI_VEN_ID 0x82ed,
     PCI_DEVICE ACCES_PCI_VEN_ID 0x82ee, PCI_DEVICE ACCES_PCI_VEN_ID 0xc25c, PCI_DEVICE ACCES_PCI_VEN_ID 0xc25d,
     PCI_DEVICE ACCES_PCI_VEN_ID 0xc25e, PCI_DEVICE ACCES_PCI_VEN_ID 0x825c, PCI_DEVICE ACCES_PCI_VEN_ID 0x825d,
     PCI_DEVICE ACCES_PCI_VEN_ID 0x825e,
     pci_id_end]"

end
