(* ===== verification/Old_Device_Table.thy ===== *)
theory Old_Device_Table
  imports Register_Actions Device_Table
begin

text \<open>
  The match table of \<^verbatim>\<open>module_old/devices.h\<close>: device id, model and style of the 108 cards the old
  module knew, and its PCI id table. The styles are pointers to the structures of
  \<^theory_text>\<open>Register_Actions\<close>; here they are the names of those structures.
\<close>

section \<open>Styles by name\<close>

datatype irq_style =
    Style_PCI_1 | Style_PCI_2 | Style_PCI_3 | Style_PCI_4 | Style_PCI_5 | Style_PCI_6
  | Style_PCI_7 | Style_PCI_8 | Style_PCI_9 | Style_PCI_10 | Style_PCI_11 | Style_PCI_12
  | Style_PCI_13 | Style_PCI_NO_IRQ
  | Style_PCIE_1 | Style_PCIE_2 | Style_PCIE_3 | Style_PCIE_4 | Style_PCIE_5 | Style_PCIE_6
  | Style_PCIE_7 | Style_PCIE_8 | Style_NYI

fun style_at :: "irq_style \<Rightarrow> aio_irq_descriptor" where
  "style_at Style_PCI_1 = PCI_1_STYLE"
| "style_at Style_PCI_2 = PCI_2_STYLE"
| "style_at Style_PCI_3 = PCI_3_STYLE"
| "style_at Style_PCI_4 = PCI_4_STYLE"
| "style_at Style_PCI_5 = PCI_5_STYLE"
| "style_at Style_PCI_6 = PCI_6_STYLE"
| "style_at Style_PCI_7 = PCI_7_STYLE"
| "style_at Style_PCI_8 = PCI_8_STYLE"
| "style_at Style_PCI_9 = PCI_9_STYLE"
| "style_at Style_PCI_10 = PCI_10_STYLE"
| "style_at Style_PCI_11 = PCI_11_STYLE"
| "style_at Style_PCI_12 = PCI_12_STYLE"
| "style_at Style_PCI_13 = PCI_13_STYLE"
| "style_at Style_PCI_NO_IRQ = PCI_NO_IRQ_STYLE"
| "style_at Style_PCIE_1 = PCIE_1_STYLE"
| "style_at Style_PCIE_2 = PCIE_2_STYLE"
| "style_at Style_PCIE_3 = PCIE_3_STYLE"
| "style_at Style_PCIE_4 = PCIE_4_STYLE"
| "style_at Style_PCIE_5 = PCIE_5_STYLE"
| "style_at Style_PCIE_6 = PCIE_6_STYLE"
| "style_at Style_PCIE_7 = PCIE_7_STYLE"
| "style_at Style_PCIE_8 = PCIE_8_STYLE"
| "style_at Style_NYI = NYI"

section \<open>The match table\<close>

text \<open>\<^verbatim>\<open>struct aio_pci_dev_cfg\<close>; no entry sets \<open>flags\<close>.\<close>

record aio_pci_dev_cfg =
  pciDevId :: u16
  Model :: string
  IRQ :: irq_style
  flags :: u32

definition cfg :: "u16 \<Rightarrow> string \<Rightarrow> irq_style \<Rightarrow> aio_pci_dev_cfg" where
  "cfg p m s = \<lparr>pciDevId = p, Model = m, IRQ = s, flags = 0\<rparr>"

named_theorems old_rows \<open>the parts of the old match table\<close>

definition aio_pci_dev_table_1 :: "aio_pci_dev_cfg list" where [old_rows]:
  "aio_pci_dev_table_1 = [
     cfg 0x0100 ''mPCIe-DIO-24S'' Style_PCIE_2,
     cfg 0x0101 ''mPCIe-IDIO-8'' Style_PCIE_2,
     cfg 0x0102 ''mPCIe-IIRO-8'' Style_PCIE_2,
     cfg 0x0103 ''mPCIe-IDIO-4'' Style_PCIE_2,
     cfg 0x0104 ''mPCIe-IIRO-4'' Style_PCIE_2,
     cfg 0x0105 ''mPCIe-IDO-8'' Style_PCIE_2,
     cfg 0x0106 ''mPCIe-RO-8'' Style_PCIE_2,
     cfg 0x0107 ''mPCIe-II-16'' Style_PCIE_2,
     cfg 0x0108 ''mPCIe-II-8'' Style_PCIE_2,
     cfg 0x0109 ''mPCIe-II-4'' Style_PCIE_2,
     cfg 0x010A ''mPCIe-QUAD-4'' Style_PCIE_2,
     cfg 0x010B ''mPCIe-QUAD-8'' Style_PCIE_2,
     cfg 0x010C ''mod-TBD'' Style_NYI,
     cfg 0x010D ''mod-TBD'' Style_NYI,
     cfg 0x010E ''mod-TBD'' Style_NYI,
     cfg 0x010F ''mod-TBD'' Style_NYI,
     cfg 0x0508 ''PCI-IDO-16A'' Style_PCI_NO_IRQ,
     cfg 0x0518 ''PCI-IDO-32A'' Style_PCI_NO_IRQ,
     cfg 0x0520 ''PCI-IDO-48'' Style_PCI_NO_IRQ,
     cfg 0x0521 ''PCI-IDO-48A'' Style_PCI_NO_IRQ,
     cfg 0x0703 ''PCIe-RO-4'' Style_PCIE_3,
     cfg 0x07C0 ''PCIe-IDO-12'' Style_NYI,
     cfg 0x07D0 ''PCIe-IDO-24'' Style_PCIE_6,
     cfg 0x0920 ''PCI-IDI-48'' Style_PCI_5,
     cfg 0x0BC0 ''PCIe-IDI-12A'' Style_NYI,
     cfg 0x0BC1 ''PCIe-IDI-12B'' Style_NYI,
     cfg 0x0BD0 ''PCIe-IDI-24'' Style_PCIE_6,
     cfg 0x0BD1 ''PCIe-IDI-24B'' Style_NYI,
     cfg 0x0C40 ''PCIe-DIO-144'' Style_PCIE_1,
     cfg 0x0C50 ''PCI-DIO-24H'' Style_PCI_10,
     cfg 0x0C51 ''PCI-DIO-24D'' Style_PCI_10,
     cfg 0x0C52 ''PCIe-DIO-24'' Style_PCIE_7,
     cfg 0x0C53 ''PCIe-DIO-24D/H'' Style_PCIE_7,
     cfg 0x0C54 ''PCIe-DIO-24HC'' Style_PCIE_4,
     cfg 0x0C57 ''mPCIe-DIO-24'' Style_PCIE_4,
     cfg 0x0C60 ''PCI-DIO-48(H)'' Style_PCI_8]"

definition aio_pci_dev_table_2 :: "aio_pci_dev_cfg list" where [old_rows]:
  "aio_pci_dev_table_2 = [
     cfg 0x0C61 ''PCIe-DIO-48'' Style_PCIE_4,
     cfg 0x0C62 ''P104-DIO-48'' Style_PCI_NO_IRQ,
     cfg 0x0C68 ''PCI-DIO-72'' Style_PCI_2,
     cfg 0x0C69 ''P104-DIO-96'' Style_PCI_NO_IRQ,
     cfg 0x0C6A ''PCIe-DIO-72'' Style_PCIE_1,
     cfg 0x0C70 ''PCI-DIO-96'' Style_PCI_2,
     cfg 0x0C71 ''PCIe-DIO-96'' Style_PCIE_1,
     cfg 0x0C78 ''PCI-DIO-120'' Style_PCI_2,
     cfg 0x0C79 ''PCIe-DIO-120'' Style_PCIE_1,
     cfg 0x0DC8 ''PCI-IDIO-16'' Style_PCI_3,
     cfg 0x0E50 ''PCI-DIO-24S'' Style_PCI_8,
     cfg 0x0E51 ''PCI-DIO-24H(C)'' Style_PCI_10,
     cfg 0x0E52 ''PCI-DIO-24D(C)'' Style_PCI_10,
     cfg 0x0E53 ''PCIe-DIO-24S'' Style_PCIE_4,
     cfg 0x0E54 ''PCIe-DIO-24DS/HS'' Style_PCIE_4,
     cfg 0x0E55 ''PCIe-DIO-24DC'' Style_PCIE_7,
     cfg 0x0E56 ''PCIe-DIO-24DCS'' Style_PCIE_4,
     cfg 0x0E57 ''PCI-DIO-48HS'' Style_PCIE_4,
     cfg 0x0E60 ''PCI-DIO-48S'' Style_PCI_8,
     cfg 0x0E61 ''PCIe-DIO-48S'' Style_PCIE_4,
     cfg 0x0E62 ''P104-DIO-48S'' Style_PCI_11,
     cfg 0x0E63 ''PCIe-EZ-BLEND'' Style_NYI,
     cfg 0x0E6A ''PCIe-DIO-72S'' Style_PCIE_1,
     cfg 0x0E71 ''PCIe-DIO-96S'' Style_PCIE_1,
     cfg 0x0E79 ''PCIe-DIO-120S'' Style_PCIE_1,
     cfg 0x0F00 ''PCI-IIRO-8'' Style_PCI_3,
     cfg 0x0F01 ''LPCI-IIRO-8'' Style_PCI_3,
     cfg 0x0F02 ''PCIe-IIRO-8'' Style_PCIE_3,
     cfg 0x0F08 ''PCI-IIRO-16'' Style_PCI_3,
     cfg 0x0F09 ''PCIe-IIRO-16'' Style_PCIE_3,
     cfg 0x0FC0 ''PCIe-IDIO-12'' Style_PCIE_6,
     cfg 0x0FC1 ''PCIe-IDI-12'' Style_PCIE_6,
     cfg 0x0FC2 ''PCIe-IDO-12'' Style_PCIE_6,
     cfg 0x0FD0 ''PCIe-IDIO-24'' Style_PCIE_6,
     cfg 0x0FD1 ''PCIe-IDIO-24B'' Style_NYI,
     cfg 0x2230 ''PCI-QUAD-8'' Style_PCI_13]"

definition aio_pci_dev_table_3 :: "aio_pci_dev_cfg list" where [old_rows]:
  "aio_pci_dev_table_3 = [
     cfg 0x2231 ''PCI-QUAD-4'' Style_PCI_13,
     cfg 0x22C0 ''PCI-WDG-CSM'' Style_PCI_7,
     cfg 0x25C0 ''P104-WDG-E'' Style_PCI_6,
     cfg 0x2C50 ''PCI-DIO-96CT'' Style_PCI_2,
     cfg 0x2C58 ''PCI-DIO-96C3'' Style_PCI_2,
     cfg 0x2C59 ''PCIe-DIO-96C3'' Style_PCIE_1,
     cfg 0x2C70 ''PCI-DIO-96CT'' Style_NYI,
     cfg 0x2E50 ''mPCIe-DIO-24A'' Style_PCIE_4,
     cfg 0x2EE0 ''PCIe-DIO24S-CTR12'' Style_PCIE_5,
     cfg 0x2FC0 ''P104-WDG-CSM'' Style_PCI_6,
     cfg 0x2FC1 ''P104-WDG-CSMA'' Style_PCI_6,
     cfg 0x4890 ''PCIe-DA12-2'' Style_PCIE_8,
     cfg 0x4898 ''PCIe-DA12-4'' Style_PCIE_8,
     cfg 0x48a0 ''PCIe-DA12-6'' Style_PCIE_8,
     cfg 0x48a8 ''PCIe-DA12-8'' Style_PCIE_8,
     cfg 0x48b0 ''PCIe-DA12-16'' Style_PCIE_8,
     cfg 0x48d0 ''PCIe-DA16-2'' Style_PCIE_8,
     cfg 0x48d8 ''PCIe-DA16-4'' Style_PCIE_8,
     cfg 0x48e0 ''PCIe-DA16-6'' Style_PCIE_8,
     cfg 0x48e8 ''PCIe-DA16-8'' Style_PCIE_8,
     cfg 0x48f0 ''PCIe-DA16-16'' Style_PCIE_8,
     cfg 0x5ED0 ''PCI-DAC'' Style_NYI,
     cfg 0x6C90 ''PCI-DA12-2'' Style_PCI_4,
     cfg 0x6C98 ''PCI-DA12-4'' Style_PCI_4,
     cfg 0x6CA0 ''PCI-DA12-6'' Style_PCI_4,
     cfg 0x6CA8 ''PCI-DA12-8'' Style_PCI_4,
     cfg 0x6CA9 ''PCI-DA12-8V'' Style_PCI_4,
     cfg 0x6CB0 ''PCI-DA12-16'' Style_PCI_4,
     cfg 0x6CB1 ''PCI-DA12-16V'' Style_PCI_4,
     cfg 0xACA8 ''PCI-AI12-16'' Style_PCI_12,
     cfg 0xACA9 ''PCI-AI12-16A'' Style_PCI_12,
     cfg 0xECA8 ''PCI-AIO12-16'' Style_PCI_12,
     cfg 0xECA9 ''PCI-A12-16'' Style_PCI_12,
     cfg 0xECAA ''PCI-A12-16A'' Style_PCI_12,
     cfg 0xECE8 ''LPCI-A16-16A'' Style_PCI_9,
     cfg 0xECE9 ''LPCI-AIO16A'' Style_PCI_1]"

definition aio_pci_dev_table :: "aio_pci_dev_cfg list" where
  "aio_pci_dev_table = aio_pci_dev_table_1 @ aio_pci_dev_table_2 @ aio_pci_dev_table_3"

definition AIO_PCI_VEN_ID :: u32 where
  "AIO_PCI_VEN_ID = 0x494f"

definition old_pci_id_table :: "pci_device_id list" where
  "old_pci_id_table = [
     PCI_DEVICE AIO_PCI_VEN_ID 0x0100, PCI_DEVICE AIO_PCI_VEN_ID 0x0101, PCI_DEVICE AIO_PCI_VEN_ID 0x0102,
     PCI_DEVICE AIO_PCI_VEN_ID 0x0103, PCI_DEVICE AIO_PCI_VEN_ID 0x0104, PCI_DEVICE AIO_PCI_VEN_ID 0x0105,
     PCI_DEVICE AIO_PCI_VEN_ID 0x0106, PCI_DEVICE AIO_PCI_VEN_ID 0x0107, PCI_DEVICE AIO_PCI_VEN_ID 0x0108,
     PCI_DEVICE AIO_PCI_VEN_ID 0x0109, PCI_DEVICE AIO_PCI_VEN_ID 0x010a, PCI_DEVICE AIO_PCI_VEN_ID 0x010b,
     PCI_DEVICE AIO_PCI_VEN_ID 0x010c, PCI_DEVICE AIO_PCI_VEN_ID 0x010d, PCI_DEVICE AIO_PCI_VEN_ID 0x010e,
     PCI_DEVICE AIO_PCI_VEN_ID 0x010f, PCI_DEVICE AIO_PCI_VEN_ID 0x0508, PCI_DEVICE AIO_PCI_VEN_ID 0x0518,
     PCI_DEVICE AIO_PCI_VEN_ID 0x0520, PCI_DEVICE AIO_PCI_VEN_ID 0x0521, PCI_DEVICE AIO_PCI_VEN_ID 0x0703,
     PCI_DEVICE AIO_PCI_VEN_ID 0x07c0, PCI_DEVICE AIO_PCI_VEN_ID 0x07d0, PCI_DEVICE AIO_PCI_VEN_ID 0x0920,
     PCI_DEVICE AIO_PCI_VEN_ID 0x0bc0, PCI_DEVICE AIO_PCI_VEN_ID 0x0bc1, PCI_DEVICE AIO_PCI_VEN_ID 0x0bd0,
     PCI_DEVICE AIO_PCI_VEN_ID 0x0bd1, PCI_DEVICE AIO_PCI_VEN_ID 0x0c40, PCI_DEVICE AIO_PCI_VEN_ID 0x0c50,
     PCI_DEVICE AIO_PCI_VEN_ID 0x0c51, PCI_DEVICE AIO_PCI_VEN_ID 0x0c52, PCI_DEVICE AIO_PCI_VEN_ID 0x0c53,
     PCI_DEVICE AIO_PCI_VEN_ID 0x0c54, PCI_DEVICE AIO_PCI_VEN_ID 0x0c57, PCI_DEVICE AIO_PCI_VEN_ID 0x0c60,
     PCI_DEVICE AIO_PCI_VEN_ID 0x0c61, PCI_DEVICE AIO_PCI_VEN_ID 0x0c62, PCI_DEVICE AIO_PCI_VEN_ID 0x0c68,
     PCI_DEVICE AIO_PCI_VEN_ID 0x0c69, PCI_DEVICE AIO_PCI_VEN_ID 0x0c6a, PCI_DEVICE AIO_PCI_VEN_ID 0x0c70,
     PCI_DEVICE AIO_PCI_VEN_ID 0x0c71, PCI_DEVICE AIO_PCI_VEN_ID 0x0c78, PCI_DEVICE AIO_PCI_VEN_ID 0x0c79,
     PCI_DEVICE AIO_PCI_VEN_ID 0x0dc8, PCI_DEVICE AIO_PCI_VEN_ID 0x0e50, PCI_DEVICE AIO_PCI_VEN_ID 0x0e51,
     PCI_DEVICE AIO_PCI_VEN_ID 0x0e52, PCI_DEVICE AIO_PCI_VEN_ID 0x0e53, PCI_DEVICE AIO_PCI_VEN_ID 0x0e54,
     PCI_DEVICE AIO_PCI_VEN_ID 0x0e55, PCI_DEVICE AIO_PCI_VEN_ID 0x0e56, PCI_DEVICE AIO_PCI_VEN_ID 0x0e57,
     PCI_DEVICE AIO_PCI_VEN_ID 0x0e60, PCI_DEVICE AIO_PCI_VEN_ID 0x0e61, PCI_DEVICE AIO_PCI_VEN_ID 0x0e62,
     PCI_DEVICE AIO_PCI_VEN_ID 0x0e63, PCI_DEVICE AIO_PCI_VEN_ID 0x0e6a, PCI_DEVICE AIO_PCI_VEN_ID 0x0e71,
     PCI_DEVICE AIO_PCI_VEN_ID 0x0e79, PCI_DEVICE AIO_PCI_VEN_ID 0x0f00, PCI_DEVICE AIO_PCI_VEN_ID 0x0f01,
     PCI_DEVICE AIO_PCI_VEN_ID 0x0f02, PCI_DEVICE AIO_PCI_VEN_ID 0x0f08, PCI_DEVICE AIO_PCI_VEN_ID 0x0f09,
     PCI_DEVICE AIO_PCI_VEN_ID 0x0fc0, PCI_DEVICE AIO_PCI_VEN_ID 0x0fc1, PCI_DEVICE AIO_PCI_VEN_ID 0x0fc2,
     PCI_DEVICE AIO_PCI_VEN_ID 0x0fd0, PCI_DEVICE AIO_PCI_VEN_ID 0x0fd1, PCI_DEVICE AIO_PCI_VEN_ID 0x2230,
     PCI_DEVICE AIO_PCI_VEN_ID 0x2231, PCI_DEVICE AIO_PCI_VEN_ID 0x22c0, PCI_DEVICE AIO_PCI_VEN_ID 0x25c0,
     PCI_DEVICE AIO_PCI_VEN_ID 0x2c50, PCI_DEVICE AIO_PCI_VEN_ID 0x2c58, PCI_DEVICE AIO_PCI_VEN_ID 0x2c59,
     PCI_DEVICE AIO_PCI_VEN_ID 0x2c70, PCI_DEVICE AIO_PCI_VEN_ID 0x2e50, PCI_DEVICE AIO_PCI_VEN_ID 0x2ee0,
     PCI_DEVICE AIO_PCI_VEN_ID 0x2fc0, PCI_DEVICE AIO_PCI_VEN_ID 0x2fc1, PCI_DEVICE AIO_PCI_VEN_ID 0x4890,
     PCI_DEVICE AIO_PCI_VEN_ID 0x4898, PCI_DEVICE AIO_PCI_VEN_ID 0x48a0, PCI_DEVICE AIO_PCI_VEN_ID 0x48a8,
     PCI_DEVICE AIO_PCI_VEN_ID 0x48b0, PCI_DEVICE AIO_PCI_VEN_ID 0x48d0, PCI_DEVICE AIO_PCI_VEN_ID 0x48d8,
     PCI_DEVICE AIO_PCI_VEN_ID 0x48e0, PCI_DEVICE AIO_PCI_VEN_ID 0x48e8, PCI_DEVICE AIO_PCI_VEN_ID 0x48f0,
     PCI_DEVICE AIO_PCI_VEN_ID 0x5ed0, PCI_DEVICE AIO_PCI_VEN_ID 0x6c90, PCI_DEVICE AIO_PCI_VEN_ID 0x6c98,
     PCI_DEVICE AIO_PCI_VEN_ID 0x6ca0, PCI_DEVICE AIO_PCI_VEN_ID 0x6ca8, PCI_DEVICE AIO_PCI_VEN_ID 0x6ca9,
     PCI_DEVICE AIO_PCI_VEN_ID 0x6cb0, PCI_DEVICE AIO_PCI_VEN_ID 0x6cb1, PCI_DEVICE AIO_PCI_VEN_ID 0xaca8,
     PCI_DEVICE AIO_PCI_VEN_ID 0xaca9, PCI_DEVICE AIO_PCI_VEN_ID 0xeca8, PCI_DEVICE AIO_PCI_VEN_ID 0xeca9,
     PCI_DEVICE AIO_PCI_VEN_ID 0xecaa, PCI_DEVICE AIO_PCI_VEN_ID 0xece8, PCI_DEVICE AIO_PCI_VEN_ID 0xece9,
     pci_id_end]"

end
