(* ===== verification/Table_Check.thy ===== *)
theory Table_Check
  imports Old_Device_Table
begin

text \<open>
  What the code relies on of its tables: the check \<^verbatim>\<open>accesio_pci_init\<close> makes before the driver
  registers, the search \<^verbatim>\<open>accesio_pci_driver_probe\<close> makes for the descriptor of a card, and the
  facts about the shipped tables that make both succeed.
\<close>

section \<open>The check at module load\<close>

text \<open>
  The loop of \<^verbatim>\<open>accesio_pci_init\<close> over the descriptors, and the test for the terminator after it.
  \<open>Some False\<close> is the refusal to load; \<open>None\<close> would be a read past the end of the id table.
\<close>

fun check_tables :: "accesio_pci_device_descriptor list \<Rightarrow> pci_device_id list \<Rightarrow> bool option" where
  "check_tables [] [] = None"
| "check_tables [] (i # is) = Some (device_no i = 0)"
| "check_tables (d # ds) [] = None"
| "check_tables (d # ds) (i # is) =
     (if pid d \<noteq> device_no i then Some False else check_tables ds is)"

text \<open>The search of \<^verbatim>\<open>accesio_pci_driver_probe\<close>: the first descriptor with the device's id.\<close>

definition find_descriptor :: "u32 \<Rightarrow> accesio_pci_device_descriptor option" where
  "find_descriptor dev =
     (case first_index (\<lambda>d. pid d = dev) accesio_pci_device_descriptors of
        None \<Rightarrow> None
      | Some i \<Rightarrow> Some (accesio_pci_device_descriptors ! i))"

section \<open>The shipped tables\<close>

lemmas table_eval = accesio_pci_device_descriptors_def acces_pci_id_table_def table_rows
  PCI_DEVICE_def pci_id_end_def

lemma pids_distinct: "distinct (map pid accesio_pci_device_descriptors)"
proof -
  have "distinct (map (uint \<circ> pid) accesio_pci_device_descriptors)"
    by (simp add: accesio_pci_device_descriptors_def table_rows)
  then have "distinct (map uint (map pid accesio_pci_device_descriptors))"
    by (simp only: map_map)
  then show ?thesis by (simp only: distinct_map)
qed

lemma ids_are_pids:
  "map device_no acces_pci_id_table = map pid accesio_pci_device_descriptors @ [0]"
  by (simp add: table_eval)

lemma NUM_eq: "NUM_ACCES_PCI_DEVICES = 121"
  by (simp add: NUM_ACCES_PCI_DEVICES_def accesio_pci_device_descriptors_def table_rows)

lemma length_ids: "length acces_pci_id_table = Suc NUM_ACCES_PCI_DEVICES"
  using arg_cong [OF ids_are_pids, of length] by (simp add: NUM_ACCES_PCI_DEVICES_def)

lemma id_nth:
  assumes "i < NUM_ACCES_PCI_DEVICES"
  shows "device_no (acces_pci_id_table ! i) = pid (accesio_pci_device_descriptors ! i)"
proof -
  from assms have "map device_no acces_pci_id_table ! i =
      map pid accesio_pci_device_descriptors ! i"
    by (simp add: ids_are_pids nth_append NUM_ACCES_PCI_DEVICES_def)
  with assms length_ids show ?thesis by (simp add: NUM_ACCES_PCI_DEVICES_def)
qed

lemma check_tables_iff:
  "check_tables ds is = Some True \<longleftrightarrow> (\<exists>rest. map device_no is = map pid ds @ 0 # rest)"
proof (induction ds "is" rule: check_tables.induct)
  case (4 d ds i "is")
  then show ?case by auto
qed auto

text \<open>
  The integrity check at module load accepts a pair of tables exactly when the id table starts
  with the descriptors' ids, in order, followed by a zero id; the shipped tables (121 descriptors)
  are such a pair, so the module does not refuse to load and reads neither table past its end.
\<close>

lemma integrity_check:
  "(check_tables ds is = Some True \<longleftrightarrow> (\<exists>rest. map device_no is = map pid ds @ 0 # rest))
   \<and> check_tables accesio_pci_device_descriptors acces_pci_id_table = Some True"
  by (auto simp: check_tables_iff ids_are_pids)

lemma find_descriptor_of_id:
  assumes "i < NUM_ACCES_PCI_DEVICES"
  shows "find_descriptor (device_no (acces_pci_id_table ! i)) =
           Some (accesio_pci_device_descriptors ! i)"
  using first_index_distinct [OF pids_distinct, of i] assms id_nth [OF assms]
  by (simp add: find_descriptor_def NUM_ACCES_PCI_DEVICES_def)

lemma find_descriptor_None_iff:
  "find_descriptor dev = None \<longleftrightarrow> dev \<notin> device_no ` set (butlast acces_pci_id_table)"
proof -
  have "map device_no (butlast acces_pci_id_table) = map pid accesio_pci_device_descriptors"
    by (simp add: map_butlast ids_are_pids)
  then have "device_no ` set (butlast acces_pci_id_table) = pid ` set accesio_pci_device_descriptors"
    by (metis image_set)
  moreover have "find_descriptor dev = None \<longleftrightarrow>
      first_index (\<lambda>d. pid d = dev) accesio_pci_device_descriptors = None"
    by (simp add: find_descriptor_def split: option.split)
  ultimately show ?thesis
    by (auto simp: first_index_None_iff)
qed

text \<open>
  C36: the two tables invert each other: the search of probe finds, for the id of row \<open>i\<close> of the id
  table, exactly the descriptor of row \<open>i\<close>, none being shadowed by an earlier one; and it fails only
  for ids that are not in the id table, for which the kernel does not call probe: the "Device
  descriptor not found" error is unreachable for a matched card.
\<close>

theorem find_descriptor_inverts_ids:
  "(find_descriptor dev = Some d \<longleftrightarrow> (\<exists>i. i < NUM_ACCES_PCI_DEVICES
      \<and> device_no (acces_pci_id_table ! i) = dev \<and> accesio_pci_device_descriptors ! i = d))
   \<and> (find_descriptor dev = None \<longleftrightarrow> dev \<notin> device_no ` set (butlast acces_pci_id_table))"
proof (intro conjI iffI find_descriptor_None_iff)
  assume "find_descriptor dev = Some d"
  then obtain i where "first_index (\<lambda>d. pid d = dev) accesio_pci_device_descriptors = Some i"
    "d = accesio_pci_device_descriptors ! i"
    by (auto simp: find_descriptor_def split: option.splits)
  with first_index_SomeD [of "\<lambda>d. pid d = dev"] id_nth [of i]
  show "\<exists>i. i < NUM_ACCES_PCI_DEVICES \<and> device_no (acces_pci_id_table ! i) = dev
      \<and> accesio_pci_device_descriptors ! i = d"
    by (auto simp: NUM_ACCES_PCI_DEVICES_def)
next
  assume "\<exists>i. i < NUM_ACCES_PCI_DEVICES \<and> device_no (acces_pci_id_table ! i) = dev
      \<and> accesio_pci_device_descriptors ! i = d"
  then show "find_descriptor dev = Some d" using find_descriptor_of_id by blast
qed (use find_descriptor_None_iff in blast)+

lemma find_descriptor_SomeD:
  "find_descriptor dev = Some d \<Longrightarrow> d \<in> set accesio_pci_device_descriptors \<and> pid d = dev"
  by (auto simp: find_descriptor_def dest: first_index_SomeD split: option.splits)

section \<open>Coherence of a descriptor\<close>

text \<open>
  The functions a descriptor names belong to one style, or the card has no interrupt support and
  names none; DMA is for the ADIO16F family; \<open>init\<close>, \<open>test_latched\<close> and \<open>clear\<close> are never set.
\<close>

fun style_functions :: "irq_handler \<Rightarrow> (register_operation_fn \<times> register_operation_fn) list" where
  "style_functions Isr_pci_1 = [(Enable_pci_1, Disable_pci_1)]"
| "style_functions Isr_pci_2 = [(Enable_pci_2, Disable_pci_2)]"
| "style_functions Isr_pci_3 = [(Enable_pci_3, Disable_pci_3)]"
| "style_functions Isr_pci_4 = [(Enable_pci_4, Disable_pci_4)]"
| "style_functions Isr_pci_5 = [(Enable_pci_5, Disable_pci_5)]"
| "style_functions Isr_pci_6 = [(Enable_pci_6, Disable_pci_6)]"
| "style_functions Isr_pci_7 = [(Enable_pci_7, Disable_pci_7)]"
| "style_functions Isr_pci_8 = [(Enable_pci_8, Disable_pci_8)]"
| "style_functions Isr_pci_9 = [(Enable_pci_9, Disable_pci_9)]"
| "style_functions Isr_pci_10 = [(Enable_pci_10, Disable_pci_10)]"
| "style_functions Isr_pci_12 = [(Enable_pci_12, Disable_pci_12)]"
| "style_functions Isr_pci_13 = [(Enable_pci_13, Disable_pci_13)]"
| "style_functions Isr_pcie_1 = [(Enable_pcie_1, Disable_pcie_1)]"
| "style_functions Isr_pcie_2 = [(Enable_pcie_2, Disable_pcie_2)]"
| "style_functions Isr_pcie_3 = [(Enable_pcie_3, Disable_pcie_3)]"
| "style_functions Isr_pcie_4 = [(Enable_pcie_4, Disable_pcie_4), (Enable_pcie_5, Disable_pcie_5)]"
| "style_functions Isr_pcie_6 = [(Enable_pcie_6, Disable_pcie_6)]"
| "style_functions Isr_pcie_7 = [(Enable_pcie_7, Disable_pcie_7)]"
| "style_functions Isr_pcie_8 = [(Enable_pcie_8, Disable_pcie_8)]"
| "style_functions Isr_adio16f = [(Enable_adio16f, Disable_adio16f)]"

definition coherent :: "accesio_pci_device_descriptor \<Rightarrow> bool" where
  "coherent d \<longleftrightarrow>
     (case isr d of
        None \<Rightarrow> enable d = None \<and> disable d = None
      | Some h \<Rightarrow> (enable d, disable d) \<in> (\<lambda>(e, x). (Some e, Some x)) ` set (style_functions h))
     \<and> has_dma d = (isr d = Some Isr_adio16f)
     \<and> init_fn d = None \<and> test_latched d = None \<and> clear d = None"

lemma all_coherent: "list_all coherent accesio_pci_device_descriptors"
  by (simp add: accesio_pci_device_descriptors_def table_rows coherent_def)

lemma all_names: "list_all (\<lambda>d. length (name d) < 64 \<and> NUL \<notin> set (name d)) accesio_pci_device_descriptors"
  by (simp add: accesio_pci_device_descriptors_def table_rows)

text \<open>
  C37: the descriptor probe finds is coherent: handler, enable and disable function are those of
  one style, or the card has none of the three; only the ADIO16F family has DMA; and no descriptor
  has an \<open>init\<close>, \<open>test_latched\<close> or \<open>clear\<close> function.
\<close>

theorem found_descriptor_coherent:
  assumes "find_descriptor dev = Some d"
  shows "coherent d \<and> pid d = dev"
  using find_descriptor_SomeD [OF assms] all_coherent by (auto simp: list_all_iff)

theorem found_descriptor_coherent_witness:
  "\<exists>d. find_descriptor 0x0100 = Some d \<and> coherent d \<and> pid d = 0x0100"
proof -
  have "find_descriptor 0x0100 = Some (accesio_pci_device_descriptors ! 0)"
    by (simp add: find_descriptor_def accesio_pci_device_descriptors_def descriptors_1_def)
  with found_descriptor_coherent [OF this] show ?thesis by blast
qed

lemma found_name_fits:
  "find_descriptor dev = Some d \<Longrightarrow> length (name d) < 64 \<and> NUL \<notin> set (name d)"
  using find_descriptor_SomeD all_names by (fastforce simp: list_all_iff)

section \<open>The old match table\<close>

text \<open>The handler, enable and disable function the current module has for a style, if any.\<close>

fun ported :: "irq_style \<Rightarrow> (irq_handler \<times> register_operation_fn \<times> register_operation_fn) option" where
  "ported Style_PCI_1 = Some (Isr_pci_1, Enable_pci_1, Disable_pci_1)"
| "ported Style_PCI_2 = Some (Isr_pci_2, Enable_pci_2, Disable_pci_2)"
| "ported Style_PCI_3 = Some (Isr_pci_3, Enable_pci_3, Disable_pci_3)"
| "ported Style_PCI_4 = Some (Isr_pci_4, Enable_pci_4, Disable_pci_4)"
| "ported Style_PCI_5 = Some (Isr_pci_5, Enable_pci_5, Disable_pci_5)"
| "ported Style_PCI_6 = Some (Isr_pci_6, Enable_pci_6, Disable_pci_6)"
| "ported Style_PCI_7 = Some (Isr_pci_7, Enable_pci_7, Disable_pci_7)"
| "ported Style_PCI_8 = Some (Isr_pci_8, Enable_pci_8, Disable_pci_8)"
| "ported Style_PCI_9 = Some (Isr_pci_9, Enable_pci_9, Disable_pci_9)"
| "ported Style_PCI_10 = Some (Isr_pci_10, Enable_pci_10, Disable_pci_10)"
| "ported Style_PCI_11 = None"
| "ported Style_PCI_12 = Some (Isr_pci_12, Enable_pci_12, Disable_pci_12)"
| "ported Style_PCI_13 = Some (Isr_pci_13, Enable_pci_13, Disable_pci_13)"
| "ported Style_PCI_NO_IRQ = None"
| "ported Style_PCIE_1 = Some (Isr_pcie_1, Enable_pcie_1, Disable_pcie_1)"
| "ported Style_PCIE_2 = Some (Isr_pcie_2, Enable_pcie_2, Disable_pcie_2)"
| "ported Style_PCIE_3 = Some (Isr_pcie_3, Enable_pcie_3, Disable_pcie_3)"
| "ported Style_PCIE_4 = Some (Isr_pcie_4, Enable_pcie_4, Disable_pcie_4)"
| "ported Style_PCIE_5 = Some (Isr_pcie_5, Enable_pcie_5, Disable_pcie_5)"
| "ported Style_PCIE_6 = Some (Isr_pcie_6, Enable_pcie_6, Disable_pcie_6)"
| "ported Style_PCIE_7 = Some (Isr_pcie_7, Enable_pcie_7, Disable_pcie_7)"
| "ported Style_PCIE_8 = Some (Isr_pcie_8, Enable_pcie_8, Disable_pcie_8)"
| "ported Style_NYI = None"

definition functions_of :: "accesio_pci_device_descriptor \<Rightarrow>
    irq_handler option \<times> register_operation_fn option \<times> register_operation_fn option" where
  "functions_of d = (isr d, enable d, disable d)"

definition functions_of_style :: "irq_style \<Rightarrow>
    irq_handler option \<times> register_operation_fn option \<times> register_operation_fn option" where
  "functions_of_style st = (case ported st of
     None \<Rightarrow> (None, None, None) | Some (h, e, x) \<Rightarrow> (Some h, Some e, Some x))"

lemma old_pids: "map (\<lambda>e. ucast (pciDevId e)) aio_pci_dev_table =
    map pid (take 108 accesio_pci_device_descriptors)"
  by (simp add: aio_pci_dev_table_def old_rows cfg_def accesio_pci_device_descriptors_def table_rows)

lemma old_functions: "map (\<lambda>e. functions_of_style (IRQ e)) aio_pci_dev_table =
    map functions_of (take 108 accesio_pci_device_descriptors)"
  by (simp add: aio_pci_dev_table_def old_rows cfg_def accesio_pci_device_descriptors_def table_rows
      functions_of_def functions_of_style_def)

lemma old_ids: "map device_no old_pci_id_table = map (\<lambda>e. ucast (pciDevId e)) aio_pci_dev_table @ [0]"
  by (simp add: aio_pci_dev_table_def old_rows cfg_def old_pci_id_table_def PCI_DEVICE_def
      pci_id_end_def)

text \<open>
  C38: the current descriptor table is a conservative extension of the old match table: its first
  108 rows are the old cards, in the old order, each with the handler, enable and disable
  functions written for its old style (none for the styles that were never implemented). The old
  id table lists the same ids.
\<close>

theorem descriptors_extend_old_table:
  "map (\<lambda>d. (pid d, functions_of d)) (take (length aio_pci_dev_table) accesio_pci_device_descriptors)
     = map (\<lambda>e. (ucast (pciDevId e), functions_of_style (IRQ e))) aio_pci_dev_table
   \<and> map device_no old_pci_id_table = map (\<lambda>e. ucast (pciDevId e)) aio_pci_dev_table @ [0]"
proof -
  have len: "length aio_pci_dev_table = 108"
    using arg_cong [OF old_pids, of length] NUM_eq by (simp add: NUM_ACCES_PCI_DEVICES_def)
  have zips: "map (\<lambda>x. (f x, g x)) xs = zip (map f xs) (map g xs)" for f g and xs :: "'c list"
    by (simp add: zip_map_map zip_same_conv_map)
  show ?thesis
    by (simp only: zips len old_pids old_functions old_ids)
qed

end
