(* ===== verification/Char_Driver.thy ===== *)
theory Char_Driver
  imports Irq_Properties Table_Check
begin

text \<open>
  The char_driver_ops region of \<^verbatim>\<open>module/accesio_pci.c\<close>: the ioctls and the file operations, each
  as a state computation that returns the handler's status.

  Parameters, for code outside the repository: how the kernel copies to and from user space (each
  copy returns the number of bytes not copied), the PCI resources of the card, what happens while
  \<^verbatim>\<open>wait_event_interruptible\<close> sleeps, and the uninitialised contents of a stack variable.
\<close>

section \<open>Parameters and state\<close>

text \<open>A process: the driver state, and the user memory of the calling process.\<close>

record 'u proc_state = driver_state +
  umem :: 'u

record 'u user_access =
  reg_from_user :: "u64 \<Rightarrow> 'u \<Rightarrow> nat \<times> accesio_pci_register_io_context"
  reg_to_user :: "u64 \<Rightarrow> accesio_pci_register_io_context \<Rightarrow> 'u \<Rightarrow> nat \<times> 'u"
  card_to_user :: "u64 \<Rightarrow> accesio_pci_card_descriptor \<Rightarrow> 'u \<Rightarrow> nat \<times> 'u"

record pci_resources =
  pci_resource_start :: "nat \<Rightarrow> u64"
  pci_resource_len :: "nat \<Rightarrow> u64"

text \<open>The result and the state with which the wait for \<^verbatim>\<open>waiting_for_irq == 0\<close> returns.\<close>

type_synonym 'u wait_event = "'u proc_state \<Rightarrow> int \<times> 'u proc_state"

record 'u kernel =
  card :: device
  uaccess :: "'u user_access"
  resources :: pci_resources
  wait_event_interruptible :: "'u wait_event"
  stack_junk :: accesio_pci_card_descriptor

section \<open>Command codes\<close>

text \<open>
  \<^verbatim>\<open>_IO\<close>, \<^verbatim>\<open>_IOR\<close> and \<^verbatim>\<open>_IOWR\<close> pack a direction, a magic number, a number and an argument size
  into one code, injectively; the code is kept as its parts.
\<close>

datatype ioctl_code = IO u8 u8 | IOR u8 u8 nat | IOWR u8 u8 nat

abbreviation ACCESIO_PCI_MAGIC :: u8 where "ACCESIO_PCI_MAGIC \<equiv> 0x0E"

definition ACCESIO_PCI_CARD_DESCRIPTOR_GET :: ioctl_code where
  "ACCESIO_PCI_CARD_DESCRIPTOR_GET = IOR ACCESIO_PCI_MAGIC 1 8"

definition ACCESIO_PCI_IRQ_ENABLE :: ioctl_code where
  "ACCESIO_PCI_IRQ_ENABLE = IO ACCESIO_PCI_MAGIC 2"

definition ACCESIO_PCI_IRQ_DISABLE :: ioctl_code where
  "ACCESIO_PCI_IRQ_DISABLE = IO ACCESIO_PCI_MAGIC 3"

definition ACCESIO_PCI_IRQ_WAIT :: ioctl_code where
  "ACCESIO_PCI_IRQ_WAIT = IO ACCESIO_PCI_MAGIC 4"

definition ACCESIO_PCI_IRQ_WAIT_CANCEL :: ioctl_code where
  "ACCESIO_PCI_IRQ_WAIT_CANCEL = IO ACCESIO_PCI_MAGIC 5"

definition ACCESIO_PCI_REGISTER_IO :: ioctl_code where
  "ACCESIO_PCI_REGISTER_IO = IOWR ACCESIO_PCI_MAGIC 6 8"

lemmas ioctl_codes = ACCESIO_PCI_CARD_DESCRIPTOR_GET_def ACCESIO_PCI_IRQ_ENABLE_def
  ACCESIO_PCI_IRQ_DISABLE_def ACCESIO_PCI_IRQ_WAIT_def ACCESIO_PCI_IRQ_WAIT_CANCEL_def
  ACCESIO_PCI_REGISTER_IO_def

section \<open>The ioctls\<close>

text \<open>The structure the descriptor ioctl fills, given the contents \<open>nm\<close> of its name buffer.\<close>

definition filled_descriptor :: "'u kernel \<Rightarrow> accesio_pci_device_context \<Rightarrow> char list
    \<Rightarrow> accesio_pci_card_descriptor" where
  "filled_descriptor K context nm =
     \<lparr>device_id = ucast (pid (descriptor context)),
      port_base = pci_resource_start (resources K) (default_bar context),
      port_size = pci_resource_len (resources K) (default_bar context),
      name_size = of_nat (length (name (descriptor context))),
      card_name = nm,
      bars = map (pci_resource_start (resources K)) [0..<PCI_STD_NUM_BARS]\<rparr>"

text \<open>
  \<open>None\<close> is a \<^verbatim>\<open>strcpy\<close> past the end of the 64-byte name. The buffer starts with whatever is on
  the stack.
\<close>

definition ioctl_ACCESIO_PCI_CARD_DESCRIPTOR_GET ::
  "'u kernel \<Rightarrow> u64 \<Rightarrow> ('u proc_state, int option) state" where
  "ioctl_ACCESIO_PCI_CARD_DESCRIPTOR_GET K arg = do {
     context \<leftarrow> gets dev_context;
     case strcpy (card_name (stack_junk K)) (name (descriptor context)) of
       None \<Rightarrow> State_Monad.return None
     | Some nm \<Rightarrow> do {
         u \<leftarrow> gets umem;
         let (bytes_remaining, u') = card_to_user (uaccess K) arg (filled_descriptor K context nm) u;
         _ \<leftarrow> modify (umem_update (\<lambda>_. u'));
         State_Monad.return (Some (if bytes_remaining \<noteq> 0 then - EIO else 0)) } }"

definition ioctl_ACCESIO_PCI_IRQ_ENABLE :: "u64 \<Rightarrow> ('u proc_state, int) state" where
  "ioctl_ACCESIO_PCI_IRQ_ENABLE arg = State_Monad.return (- 1)"

definition ioctl_ACCESIO_PCI_IRQ_DISABLE :: "u64 \<Rightarrow> ('u proc_state, int) state" where
  "ioctl_ACCESIO_PCI_IRQ_DISABLE arg = State_Monad.return (- 1)"

definition set_waiting :: "int \<Rightarrow> ('a driver_state_scheme, unit) state" where
  "set_waiting v = modify (dev_context_update (waiting_for_irq_update (\<lambda>_. v)))"

definition set_cancelled :: "int \<Rightarrow> ('a driver_state_scheme, unit) state" where
  "set_cancelled v = modify (dev_context_update (irq_cancelled_update (\<lambda>_. v)))"

definition ioctl_ACCESIO_PCI_IRQ_WAIT :: "'u kernel \<Rightarrow> ('u proc_state, int) state" where
  "ioctl_ACCESIO_PCI_IRQ_WAIT K = do {
     _ \<leftarrow> spin_lock;
     context \<leftarrow> gets dev_context;
     if waiting_for_irq context = 1 then do {
       _ \<leftarrow> spin_unlock;
       State_Monad.return (- EALREADY) }
     else do {
       _ \<leftarrow> set_waiting 1;
       _ \<leftarrow> set_cancelled 0;
       _ \<leftarrow> spin_unlock;
       _ \<leftarrow> State (wait_event_interruptible K);
       context \<leftarrow> gets dev_context;
       if irq_cancelled context = 1 then State_Monad.return (- ECANCELED)
       else State_Monad.return 0 } }"

definition ioctl_ACCESIO_PCI_IRQ_WAIT_CANCEL :: "('u proc_state, int) state" where
  "ioctl_ACCESIO_PCI_IRQ_WAIT_CANCEL = do {
     _ \<leftarrow> spin_lock;
     context \<leftarrow> gets dev_context;
     if waiting_for_irq context = 0 then do {
       _ \<leftarrow> spin_unlock;
       State_Monad.return (- EALREADY) }
     else do {
       _ \<leftarrow> set_cancelled 1;
       _ \<leftarrow> set_waiting 0;
       _ \<leftarrow> spin_unlock;
       _ \<leftarrow> wake_up_interruptible;
       State_Monad.return 0 } }"

text \<open>
  The register window: \<open>offset\<close> is a signed \<^verbatim>\<open>int\<close> added to a 64-bit pointer. A \<open>size\<close> that is none
  of 1, 2 and 4 matches no \<^verbatim>\<open>case\<close> of the \<^verbatim>\<open>switch\<close>.
\<close>

definition register_addr :: "accesio_pci_device_context \<Rightarrow> accesio_pci_register_io_context \<Rightarrow> addr" where
  "register_addr c r = bar_bases c ! default_bar c + scast (offset r)"

definition register_read :: "device \<Rightarrow> addr \<Rightarrow> accesio_pci_register_io_context
    \<Rightarrow> ('a driver_state_scheme, accesio_pci_register_io_context) state" where
  "register_read D a r =
     (if size r = 1 then do {
        v \<leftarrow> ioread8 D a;
        State_Monad.return (r\<lparr>data := set_data_byte v (data r)\<rparr>) }
      else if size r = 2 then do {
        v \<leftarrow> ioread16 D a;
        State_Monad.return (r\<lparr>data := set_data_word v (data r)\<rparr>) }
      else if size r = 4 then do {
        v \<leftarrow> ioread32 D a;
        State_Monad.return (r\<lparr>data := v\<rparr>) }
      else State_Monad.return r)"

definition register_write :: "addr \<Rightarrow> accesio_pci_register_io_context
    \<Rightarrow> ('a driver_state_scheme, unit) state" where
  "register_write a r =
     (if size r = 1 then iowrite8 (data_byte (data r)) a
      else if size r = 2 then iowrite16 (data_word (data r)) a
      else if size r = 4 then iowrite32 (data r) a
      else State_Monad.return ())"

definition ioctl_ACCESIO_PCI_REGISTER_IO :: "'u kernel \<Rightarrow> u64 \<Rightarrow> ('u proc_state, int) state" where
  "ioctl_ACCESIO_PCI_REGISTER_IO K arg = do {
     u \<leftarrow> gets umem;
     let (bytes_remaining, register_io_context) = reg_from_user (uaccess K) arg u;
     if bytes_remaining \<noteq> 0 then State_Monad.return (- EIO)
     else do {
       context \<leftarrow> gets dev_context;
       let a = register_addr context register_io_context;
       if read register_io_context then do {
         r \<leftarrow> register_read (card K) a register_io_context;
         u \<leftarrow> gets umem;
         let (bytes_remaining, u') = reg_to_user (uaccess K) arg r u;
         _ \<leftarrow> modify (umem_update (\<lambda>_. u'));
         if bytes_remaining \<noteq> 0 then State_Monad.return (- EIO) else State_Monad.return 0 }
       else do {
         _ \<leftarrow> register_write a register_io_context;
         State_Monad.return 0 } } }"

section \<open>File operations\<close>

text \<open>
  \<^verbatim>\<open>unlocked_ioctl\<close> on the context of the file. A command that matches no case, and the two that
  only \<^verbatim>\<open>break\<close>, leave the initial status.
\<close>

definition accesio_char_driver_unlocked_ioctl ::
  "'u kernel \<Rightarrow> ioctl_code \<Rightarrow> u64 \<Rightarrow> ('u proc_state, int option) state" where
  "accesio_char_driver_unlocked_ioctl K cmd arg =
     (if cmd = ACCESIO_PCI_CARD_DESCRIPTOR_GET then ioctl_ACCESIO_PCI_CARD_DESCRIPTOR_GET K arg
      else if cmd = ACCESIO_PCI_IRQ_ENABLE then State_Monad.return (Some (- 1))
      else if cmd = ACCESIO_PCI_IRQ_DISABLE then State_Monad.return (Some (- 1))
      else if cmd = ACCESIO_PCI_IRQ_WAIT then do {
        status \<leftarrow> ioctl_ACCESIO_PCI_IRQ_WAIT K;
        State_Monad.return (Some status) }
      else if cmd = ACCESIO_PCI_IRQ_WAIT_CANCEL then do {
        status \<leftarrow> ioctl_ACCESIO_PCI_IRQ_WAIT_CANCEL;
        State_Monad.return (Some status) }
      else if cmd = ACCESIO_PCI_REGISTER_IO then do {
        status \<leftarrow> ioctl_ACCESIO_PCI_REGISTER_IO K arg;
        State_Monad.return (Some status) }
      else State_Monad.return (Some (- 1)))"

text \<open>
  A file remembers the card it was opened on: the \<^verbatim>\<open>cdev\<close> of the inode is embedded in the context
  of the card, which \<^verbatim>\<open>container_of\<close> recovers; cards are numbered.
\<close>

record char_file =
  private_data :: "nat option"

definition accesio_char_driver_open :: "nat \<Rightarrow> char_file \<Rightarrow> int \<times> char_file" where
  "accesio_char_driver_open i_cdev filp = (0, filp\<lparr>private_data := Some i_cdev\<rparr>)"

definition accesio_char_driver_release :: "char_file \<Rightarrow> int \<times> char_file" where
  "accesio_char_driver_release filp = (- 1, filp)"

definition accesio_char_driver_mmap :: "char_file \<Rightarrow> int \<times> char_file" where
  "accesio_char_driver_mmap filp = (- 1, filp)"

section \<open>Effects of the ioctls\<close>

lemma run_set_waiting [io_simps]:
  "run_state (set_waiting v) s =
     ((), s\<lparr>dev_context := (dev_context s)\<lparr>waiting_for_irq := v\<rparr>\<rparr>)"
  by (simp add: set_waiting_def)

lemma run_set_cancelled [io_simps]:
  "run_state (set_cancelled v) s =
     ((), s\<lparr>dev_context := (dev_context s)\<lparr>irq_cancelled := v\<rparr>\<rparr>)"
  by (simp add: set_cancelled_def)

lemma run_state_State [simp]: "run_state (State f) s = f s"
  by simp

text \<open>The width a request asks for, and the access it makes.\<close>

definition io_width :: "accesio_pci_register_io_context \<Rightarrow> nat option" where
  "io_width r = (if size r = 1 then Some 1 else if size r = 2 then Some 2
                 else if size r = 4 then Some 4 else None)"

fun write_event :: "nat \<Rightarrow> addr \<Rightarrow> u32 \<Rightarrow> io_event" where
  "write_event w a d =
     (if w = 1 then Write8 a (ucast d) else if w = 2 then Write16 a (ucast d) else Write32 a d)"

fun read_event :: "nat \<Rightarrow> addr \<Rightarrow> u32 \<Rightarrow> io_event" where
  "read_event w a v =
     (if w = 1 then Read8 a (ucast v) else if w = 2 then Read16 a (ucast v) else Read32 a v)"

text \<open>The union after a read of width \<open>w\<close> that returned \<open>v\<close>: the bytes above the width are kept.\<close>

definition merge_data :: "nat \<Rightarrow> u32 \<Rightarrow> u32 \<Rightarrow> u32" where
  "merge_data w v d = (if w = 1 then set_data_byte (ucast v) d
                       else if w = 2 then set_data_word (ucast v) d else v)"

lemma register_read_spec:
  "io_width r = Some w \<Longrightarrow> run_state (register_read D a r) s =
     (r\<lparr>data := merge_data w (D (trace s) w a) (data r)\<rparr>,
      s\<lparr>trace := trace s @ [read_event w a (D (trace s) w a)]\<rparr>)"
  by (auto simp: register_read_def io_width_def merge_data_def io_simps split: if_splits)

lemma register_read_None: "io_width r = None \<Longrightarrow> run_state (register_read D a r) s = (r, s)"
  by (simp add: register_read_def io_width_def split: if_splits)

lemma register_write_spec:
  "io_width r = Some w \<Longrightarrow> run_state (register_write a r) s =
     ((), s\<lparr>trace := trace s @ [write_event w a (data r)]\<rparr>)"
  by (auto simp: register_write_def io_width_def data_byte_def data_word_def io_simps
      split: if_splits)

lemma register_write_None: "io_width r = None \<Longrightarrow> run_state (register_write a r) s = ((), s)"
  by (simp add: register_write_def io_width_def split: if_splits)

text \<open>A process whose memory at the ioctl argument is one mapped structure.\<close>

definition mapped_user :: "accesio_pci_register_io_context user_access" where
  "mapped_user = \<lparr>reg_from_user = (\<lambda>arg u. (0, u)), reg_to_user = (\<lambda>arg r u. (0, r)),
                  card_to_user = (\<lambda>arg d u. (0, u))\<rparr>"

definition blank_card_descriptor :: accesio_pci_card_descriptor where
  "blank_card_descriptor = \<lparr>device_id = 0, port_base = 0, port_size = 0, name_size = 0,
     card_name = replicate 64 NUL, bars = replicate 6 0\<rparr>"

definition sample_kernel :: "device \<Rightarrow> accesio_pci_register_io_context kernel" where
  "sample_kernel D = \<lparr>card = D, uaccess = mapped_user,
     resources = \<lparr>pci_resource_start = (\<lambda>i. 0x1000 * of_nat i), pci_resource_len = (\<lambda>i. 0x100)\<rparr>,
     wait_event_interruptible = (\<lambda>s. (0, s\<lparr>dev_context := (dev_context s)\<lparr>waiting_for_irq := 0\<rparr>\<rparr>)),
     stack_junk = blank_card_descriptor\<rparr>"

definition sample_process :: "accesio_pci_register_io_context \<Rightarrow>
    accesio_pci_register_io_context proc_state" where
  "sample_process r = \<lparr>trace = [], dev_context = sample_context, umem = r\<rparr>"

definition blank_request :: accesio_pci_register_io_context where
  "blank_request = \<lparr>read = False, offset = 0, size = 0, data = 0\<rparr>"

lemmas process_defs = sample_kernel_def sample_process_def mapped_user_def

section \<open>Register access from user space\<close>

text \<open>The cases of a request: a read and a write of a valid size, and one that makes no access.\<close>

lemma register_io_read:
  assumes "reg_from_user (uaccess K) arg (umem s) = (0, r)"
    and "read r" and "io_width r = Some w"
  shows "run_state (ioctl_ACCESIO_PCI_REGISTER_IO K arg) s =
    (let a = register_addr (dev_context s) r;
         v = card K (trace s) w a;
         r' = r\<lparr>data := merge_data w v (data r)\<rparr>;
         copied = reg_to_user (uaccess K) arg r' (umem s)
     in (if fst copied \<noteq> 0 then - EIO else 0,
         s\<lparr>trace := trace s @ [read_event w a v], umem := snd copied\<rparr>))"
  using assms by (simp add: ioctl_ACCESIO_PCI_REGISTER_IO_def register_read_spec Let_def split_beta)

lemma register_io_write:
  assumes "reg_from_user (uaccess K) arg (umem s) = (0, r)"
    and "\<not> read r" and "io_width r = Some w"
  shows "run_state (ioctl_ACCESIO_PCI_REGISTER_IO K arg) s =
    (0, s\<lparr>trace := trace s @ [write_event w (register_addr (dev_context s) r) (data r)]\<rparr>)"
  using assms by (simp add: ioctl_ACCESIO_PCI_REGISTER_IO_def register_write_spec Let_def split_beta)

lemma register_io_no_access:
  assumes "reg_from_user (uaccess K) arg (umem s) = (n, r)"
    and "n \<noteq> 0 \<or> io_width r = None"
  shows "run_state (ioctl_ACCESIO_PCI_REGISTER_IO K arg) s =
    (if n \<noteq> 0 then (- EIO, s)
     else if read r then
       (let copied = reg_to_user (uaccess K) arg r (umem s)
        in (if fst copied \<noteq> 0 then - EIO else 0, s\<lparr>umem := snd copied\<rparr>))
     else (0, s))"
  using assms
  by (auto simp: ioctl_ACCESIO_PCI_REGISTER_IO_def register_read_None register_write_None Let_def
      split_beta)

text \<open>
  C27: the register ioctl, on every request. One that cannot be copied in fails with \<open>-EIO\<close> and
  changes nothing. A read of size 1, 2 or 4 makes exactly one bus access, of that width, at the
  default BAR plus the sign-extended offset, and returns the value the card answered in the low bytes
  of the union; its status says only whether the structure could be copied back. A write of such a
  size makes one access of that width at the same address, with the low bytes of the union, returns 0
  and leaves the user's structure alone. Any other size is not an error: no access is made, a write
  returns 0 and a read copies the structure back unchanged.
\<close>

theorem register_io:
  "run_state (ioctl_ACCESIO_PCI_REGISTER_IO K arg) s =
    (case reg_from_user (uaccess K) arg (umem s) of (n, r) \<Rightarrow>
       if n \<noteq> 0 then (- EIO, s)
       else
         let a = bar_bases (dev_context s) ! default_bar (dev_context s) + scast (offset r);
             v = card K (trace s) (unat (size r)) a;
             copied = (\<lambda>d. reg_to_user (uaccess K) arg (r\<lparr>data := d\<rparr>) (umem s));
             result = (\<lambda>d es. (if fst (copied d) \<noteq> 0 then - EIO else 0,
                               s\<lparr>trace := trace s @ es, umem := snd (copied d)\<rparr>))
         in if read r then
              (if size r = 1 then result ((data r AND NOT 0xff) OR (v AND 0xff)) [Read8 a (ucast v)]
               else if size r = 2 then result ((data r AND NOT 0xffff) OR (v AND 0xffff)) [Read16 a (ucast v)]
               else if size r = 4 then result v [Read32 a v]
               else result (data r) [])
            else
              (0, s\<lparr>trace := trace s @
                 (if size r = 1 then [Write8 a (ucast (data r))]
                  else if size r = 2 then [Write16 a (ucast (data r))]
                  else if size r = 4 then [Write32 a (data r)]
                  else [])\<rparr>))"
proof -
  obtain n r where u: "reg_from_user (uaccess K) arg (umem s) = (n, r)" by fastforce
  show ?thesis
  proof (cases "n \<noteq> 0 \<or> io_width r = None")
    case True
    with register_io_no_access [OF u True] u show ?thesis
      by (auto simp: io_width_def Let_def split: if_splits)
  next
    case False
    then obtain w where n: "n = 0" and w: "io_width r = Some w" by auto
    have size: "size r = 1 \<and> w = 1 \<or> size r = 2 \<and> w = 2 \<or> size r = 4 \<and> w = 4"
      using w by (auto simp: io_width_def split: if_splits)
    from register_io_read [OF u [unfolded n] _ w] register_io_write [OF u [unfolded n] _ w] u n size
    show ?thesis
      by (cases "read r")
         (auto simp: Let_def register_addr_def merge_data_def set_data_byte_low
           set_data_word_low)
  qed
qed

section \<open>The card descriptor\<close>

lemma card_descriptor_run:
  assumes "strcpy (card_name (stack_junk K)) (name (descriptor (dev_context s))) = Some nm"
  shows "run_state (ioctl_ACCESIO_PCI_CARD_DESCRIPTOR_GET K arg) s =
    (let copied = card_to_user (uaccess K) arg (filled_descriptor K (dev_context s) nm) (umem s)
     in (Some (if fst copied \<noteq> 0 then - EIO else 0), s\<lparr>umem := snd copied\<rparr>))"
  using assms by (simp add: ioctl_ACCESIO_PCI_CARD_DESCRIPTOR_GET_def Let_def split_beta)

text \<open>
  C28: for a card that probe accepted, with the structure's 64-byte name, the copy of the name
  stays inside the buffer and is a terminated string, and the structure that goes to user space
  describes the card: its id, the start and length of its default BAR, its name and the start of
  every BAR.
\<close>

theorem card_descriptor_get:
  assumes "find_descriptor dev = Some (descriptor (dev_context s))"
    and "length (card_name (stack_junk K)) = 64"
  shows "\<exists>desc.
    run_state (ioctl_ACCESIO_PCI_CARD_DESCRIPTOR_GET K arg) s =
      (let copied = card_to_user (uaccess K) arg desc (umem s)
       in (Some (if fst copied \<noteq> 0 then - EIO else 0), s\<lparr>umem := snd copied\<rparr>))
    \<and> device_id desc = ucast dev
    \<and> length (card_name desc) = 64
    \<and> c_string (card_name desc) = Some (name (descriptor (dev_context s)))
    \<and> name_size desc = of_nat (length (name (descriptor (dev_context s))))
    \<and> port_base desc = pci_resource_start (resources K) (default_bar (dev_context s))
    \<and> port_size desc = pci_resource_len (resources K) (default_bar (dev_context s))
    \<and> bars desc = map (pci_resource_start (resources K)) [0..<6]"
proof -
  let ?d = "descriptor (dev_context s)"
  from found_name_fits [OF assms(1)] have fits: "length (name ?d) < 64" "NUL \<notin> set (name ?d)"
    by auto
  then obtain nm where nm: "strcpy (card_name (stack_junk K)) (name ?d) = Some nm"
    using assms(2) by (simp add: strcpy_def)
  from find_descriptor_SomeD [OF assms(1)] have "pid ?d = dev" by simp
  with length_strcpy [OF nm] c_string_strcpy [OF nm fits(2)] assms(2) show ?thesis
    by (intro exI [of _ "filled_descriptor K (dev_context s) nm"])
      (simp add: card_descriptor_run [OF nm], simp add: filled_descriptor_def)
qed

theorem card_descriptor_get_witness:
  "\<exists>desc :: accesio_pci_card_descriptor. find_descriptor 0x0100 =
      Some (descriptor (sample_context\<lparr>descriptor := accesio_pci_device_descriptors ! 0\<rparr>))
    \<and> device_id desc = 0x0100 \<and> c_string (card_name desc) = Some ''mpcie-dio-24s''"
proof -
  let ?s = "(sample_process blank_request)\<lparr>dev_context :=
      sample_context\<lparr>descriptor := accesio_pci_device_descriptors ! 0\<rparr>\<rparr>"
  have f: "find_descriptor 0x0100 = Some (descriptor (dev_context ?s))"
    by (simp add: find_descriptor_def accesio_pci_device_descriptors_def descriptors_1_def)
  have j: "length (card_name (stack_junk (sample_kernel quiet_card))) = 64"
    by (simp add: process_defs blank_card_descriptor_def)
  from card_descriptor_get [OF f j, of 0] obtain desc :: accesio_pci_card_descriptor where
    "device_id desc = ucast (0x0100 :: u32)"
    "c_string (card_name desc) = Some (name (descriptor (dev_context ?s)))"
    by blast
  with f show ?thesis
    by (auto intro!: exI [of _ desc] simp: accesio_pci_device_descriptors_def descriptors_1_def)
qed

text \<open>
  C29: the bytes of the name buffer after the terminator are the ones that were on the kernel
  stack: the structure is copied out whole and never cleared, so they reach user space.
\<close>

theorem card_descriptor_discloses_stack:
  assumes "strcpy (card_name (stack_junk K)) (name (descriptor (dev_context s))) \<noteq> None"
  shows "\<exists>desc.
    run_state (ioctl_ACCESIO_PCI_CARD_DESCRIPTOR_GET K arg) s =
      (let copied = card_to_user (uaccess K) arg desc (umem s)
       in (Some (if fst copied \<noteq> 0 then - EIO else 0), s\<lparr>umem := snd copied\<rparr>))
    \<and> (\<forall>i. length (name (descriptor (dev_context s))) < i
          \<longrightarrow> i < length (card_name (stack_junk K))
          \<longrightarrow> card_name desc ! i = card_name (stack_junk K) ! i)"
proof -
  from assms obtain nm where nm: "strcpy (card_name (stack_junk K))
      (name (descriptor (dev_context s))) = Some nm" by blast
  then have "card_name (stack_junk K) ! i = nm ! i"
    if "length (name (descriptor (dev_context s))) < i" "i < length (card_name (stack_junk K))" for i
    using that by (auto simp: strcpy_def nth_append nth_Cons' split: if_splits)
  then show ?thesis
    by (intro exI [of _ "filled_descriptor K (dev_context s) nm"])
      (simp add: card_descriptor_run [OF nm], simp add: filled_descriptor_def)
qed

theorem card_descriptor_discloses_stack_witness:
  "\<exists>desc :: accesio_pci_card_descriptor. card_name desc ! 63 = CHR ''S''
     \<and> fst (run_state (ioctl_ACCESIO_PCI_CARD_DESCRIPTOR_GET
         ((sample_kernel quiet_card)\<lparr>stack_junk := blank_card_descriptor\<lparr>card_name :=
            replicate 64 CHR ''S''\<rparr>\<rparr>) 0) (sample_process blank_request)) = Some 0"
proof -
  let ?K = "(sample_kernel quiet_card)\<lparr>stack_junk := blank_card_descriptor\<lparr>card_name :=
            replicate 64 CHR ''S''\<rparr>\<rparr>"
  let ?s = "sample_process blank_request"
  have "strcpy (card_name (stack_junk ?K)) (name (descriptor (dev_context ?s))) \<noteq> None"
    by (simp add: process_defs sample_defs strcpy_def)
  from card_descriptor_discloses_stack [OF this, of 0]
  obtain desc :: accesio_pci_card_descriptor where
    run: "run_state (ioctl_ACCESIO_PCI_CARD_DESCRIPTOR_GET ?K 0) ?s =
      (let copied = card_to_user (uaccess ?K) 0 desc (umem ?s)
       in (Some (if fst copied \<noteq> 0 then - EIO else 0), ?s\<lparr>umem := snd copied\<rparr>))"
    and leak: "\<forall>i. length (name (descriptor (dev_context ?s))) < i
          \<longrightarrow> i < length (card_name (stack_junk ?K))
          \<longrightarrow> card_name desc ! i = card_name (stack_junk ?K) ! i" by blast
  from leak have "card_name desc ! 63 = CHR ''S''"
    by (simp add: process_defs sample_defs)
  moreover from run have "fst (run_state (ioctl_ACCESIO_PCI_CARD_DESCRIPTOR_GET ?K 0) ?s) = Some 0"
    by (simp add: process_defs)
  ultimately show ?thesis by blast
qed

section \<open>Dispatch, wait and cancel\<close>

text \<open>
  Every command other than the four implemented ones, the two IRQ enable and disable commands
  included, returns -1 and changes nothing: no user of the driver can enable or disable the
  interrupts of a card through it.
\<close>

lemma unlocked_ioctl_inert:
  assumes "cmd \<notin> {ACCESIO_PCI_CARD_DESCRIPTOR_GET, ACCESIO_PCI_IRQ_WAIT,
                   ACCESIO_PCI_IRQ_WAIT_CANCEL, ACCESIO_PCI_REGISTER_IO}"
  shows "run_state (accesio_char_driver_unlocked_ioctl K cmd arg) s = (Some (- 1), s)"
  using assms by (simp add: accesio_char_driver_unlocked_ioctl_def)

text \<open>
  The wait ioctl: while another process waits it fails with \<open>-EALREADY\<close> and leaves the flags alone.
  Otherwise it announces the wait under the lock before it sleeps, and its result is decided by the
  cancel flag it finds on waking; the result of \<^verbatim>\<open>wait_event_interruptible\<close>, which tells a signal
  from a wake-up, plays no part. The cancel ioctl: with nobody waiting it fails with \<open>-EALREADY\<close>;
  otherwise it sets the cancel flag and clears the waiting flag under the lock, and wakes the queue
  after releasing it.
\<close>

lemma irq_wait_run:
  "run_state (ioctl_ACCESIO_PCI_IRQ_WAIT K) s =
    (if waiting_for_irq (dev_context s) = 1
     then (- EALREADY, s\<lparr>trace := trace s @ [Spin_lock, Spin_unlock]\<rparr>)
     else let s1 = s\<lparr>trace := trace s @ [Spin_lock, Spin_unlock],
                     dev_context := (dev_context s)\<lparr>waiting_for_irq := 1, irq_cancelled := 0\<rparr>\<rparr>;
              s2 = snd (wait_event_interruptible K s1)
          in (if irq_cancelled (dev_context s2) = 1 then - ECANCELED else 0, s2))"
  by (simp add: ioctl_ACCESIO_PCI_IRQ_WAIT_def io_simps Let_def split_beta)

lemma irq_cancel_run:
  "run_state ioctl_ACCESIO_PCI_IRQ_WAIT_CANCEL s =
    (if waiting_for_irq (dev_context s) = 0
     then (- EALREADY, s\<lparr>trace := trace s @ [Spin_lock, Spin_unlock]\<rparr>)
     else (0, s\<lparr>trace := trace s @ [Spin_lock, Spin_unlock, Wake_up],
                dev_context := (dev_context s)\<lparr>waiting_for_irq := 0, irq_cancelled := 1\<rparr>\<rparr>))"
  by (simp add: ioctl_ACCESIO_PCI_IRQ_WAIT_CANCEL_def io_simps)

end
