(* ===== verification/Transition_Systems.thy ===== *)
theory Transition_Systems
  imports Aio_Prelude
begin

text \<open>
  Labelled transition systems, their runs and invariants, and the contract of a lock: which
  threads are in its critical section, and that only the holder writes what it protects. The
  wait-queue machine of \<^theory_text>\<open>Irq_Wait\<close> is an instance.
\<close>

section \<open>Runs\<close>

inductive run :: "('s \<Rightarrow> 'l \<Rightarrow> 's \<Rightarrow> bool) \<Rightarrow> 's \<Rightarrow> 'l list \<Rightarrow> 's \<Rightarrow> bool"
  for step :: "'s \<Rightarrow> 'l \<Rightarrow> 's \<Rightarrow> bool" where
  run_Nil: "run step s [] s"
| run_snoc: "run step s ls t \<Longrightarrow> step t l u \<Longrightarrow> run step s (ls @ [l]) u"

text \<open>An invariant may use what every label of the run satisfies.\<close>

lemma run_invariant:
  assumes "run step s ls t" and "I s" and "\<forall>l \<in> set ls. Q l"
    and "\<And>a l b. I a \<Longrightarrow> step a l b \<Longrightarrow> Q l \<Longrightarrow> I b"
  shows "I t"
  using assms(1-3)
proof (induction rule: run.induct)
  case (run_Nil s)
  then show ?case by simp
next
  case (run_snoc s ls t l u)
  then show ?case using assms(4) by auto
qed

text \<open>What holds of a state and the number of labels of a kind on the way to it.\<close>

lemma run_counted:
  assumes "run step s ls t" and "J 0 s"
    and "\<And>k a l b. J k a \<Longrightarrow> step a l b \<Longrightarrow> J (k + of_bool (P l)) b"
  shows "J (length (filter P ls)) t"
  using assms(1,2)
proof (induction rule: run.induct)
  case (run_Nil s)
  then show ?case by simp
next
  case (run_snoc s ls t l u)
  then show ?case using assms(3) [of "length (filter P ls)" t l u] by auto
qed

text \<open>A deterministic schedule: the labels of a run, executed by a partial function.\<close>

fun exec_all :: "('l \<Rightarrow> 's \<Rightarrow> 's option) \<Rightarrow> 'l list \<Rightarrow> 's \<Rightarrow> 's option" where
  "exec_all f [] s = Some s"
| "exec_all f (l # ls) s = (case f l s of None \<Rightarrow> None | Some s' \<Rightarrow> exec_all f ls s')"

lemma run_Cons: "step s l t \<Longrightarrow> run step t ls u \<Longrightarrow> run step s (l # ls) u"
proof (induction ls arbitrary: u rule: rev_induct)
  case Nil
  then have "u = t" by (auto elim: run.cases)
  with Nil(1) run_snoc [of step s "[]" s l t] show ?case by (simp add: run_Nil)
next
  case (snoc x xs)
  from snoc.prems(2) obtain v where "run step t xs v" "step v x u"
    by (auto elim: run.cases)
  with snoc.IH [OF snoc.prems(1)] run_snoc [of step s "l # xs" v x u] show ?case by simp
qed

lemma run_ConsE:
  assumes "run step s (l # ls) u"
  obtains t where "step s l t" "run step t ls u"
  using assms
proof (induction ls arbitrary: u thesis rule: rev_induct)
  case Nil
  from Nil.prems(2) obtain v where "run step s [] v" "step v l u" by (auto elim: run.cases)
  then have "step s l u" by (auto elim: run.cases)
  then show ?case by (rule Nil.prems(1)) (rule run_Nil)
next
  case (snoc x xs)
  from snoc.prems(2) obtain v where v: "run step s (l # xs) v" "step v x u"
    by (auto elim: run.cases)
  show ?case
    by (rule snoc.IH [OF _ v(1)]) (blast intro: snoc.prems(1) run_snoc v(2))
qed

lemma exec_all_run:
  assumes "exec_all f ls s = Some t" and "\<And>l a b. f l a = Some b \<Longrightarrow> step a l b"
  shows "run step s ls t"
  using assms(1)
proof (induction ls arbitrary: s)
  case Nil
  then show ?case by (simp add: run_Nil)
next
  case (Cons l ls)
  then show ?case
    by (auto split: option.splits intro: run_Cons assms(2))
qed

lemma run_append: "run step s ls t \<Longrightarrow> run step t ms u \<Longrightarrow> run step s (ls @ ms) u"
proof (induction ms arbitrary: u rule: rev_induct)
  case Nil
  then show ?case by (auto elim: run.cases)
next
  case (snoc m ms)
  from snoc.prems(2) obtain v where "run step t ms v" "step v m u" by (auto elim: run.cases)
  with snoc.IH [OF snoc.prems(1)] run_snoc [of step s "ls @ ms" v m u] show ?case by simp
qed

section \<open>Internal steps that come to an end\<close>

text \<open>
  A measure that every internal step decreases: runs of internal steps are bounded by it, and can
  always be continued to a state that has none.
\<close>

locale terminating_steps =
  fixes step :: "'s \<Rightarrow> 'l \<Rightarrow> 's \<Rightarrow> bool"
    and internal :: "'l \<Rightarrow> bool"
    and good :: "'s \<Rightarrow> bool"
    and work :: "'s \<Rightarrow> nat"
  assumes works: "good s \<Longrightarrow> internal l \<Longrightarrow> step s l t \<Longrightarrow> good t \<and> work t < work s"
begin

lemma run_work:
  assumes "run step s ls t" and "good s" and "\<forall>l \<in> set ls. internal l"
  shows "good t \<and> length ls + work t \<le> work s"
  using assms
proof (induction rule: run.induct)
  case (run_Nil s)
  then show ?case by simp
next
  case (run_snoc s ls t l u)
  then have "good t" "length ls + work t \<le> work s" "internal l" by auto
  with works [OF _ _ run_snoc.hyps(2)] show ?case by auto
qed

lemma run_settles:
  assumes "good s"
  shows "\<exists>ls t. run step s ls t \<and> (\<forall>l \<in> set ls. internal l) \<and> (\<forall>l u. internal l \<longrightarrow> \<not> step t l u)"
  using assms
proof (induction "work s" arbitrary: s rule: less_induct)
  case less
  show ?case
  proof (cases "\<exists>l u. internal l \<and> step s l u")
    case True
    then obtain l u where l: "internal l" "step s l u" by blast
    from works [OF less.prems l] less.hyps [of u] obtain ls t where
      "run step u ls t" "\<forall>l \<in> set ls. internal l" "\<forall>l u. internal l \<longrightarrow> \<not> step t l u" by auto
    with l run_Cons [of step s l u ls t] show ?thesis
      by (intro exI [of _ "l # ls"] exI [of _ t]) auto
  next
    case False
    with run_Nil [of step s] show ?thesis by (intro exI [of _ "[]"] exI [of _ s]) auto
  qed
qed

end

section \<open>Locks\<close>

text \<open>
  A lock client: \<open>holder\<close> is the thread that holds the lock, \<open>at\<close> the program point of a thread and
  \<open>crit\<close> the points inside the critical section. The law is that every step keeps the two in
  agreement.
\<close>

locale lock_client =
  fixes step :: "'s \<Rightarrow> 'l \<Rightarrow> 's \<Rightarrow> bool"
    and holder :: "'s \<Rightarrow> nat option"
    and point :: "'s \<Rightarrow> nat \<Rightarrow> 'pc"
    and crit :: "'pc \<Rightarrow> bool"
  assumes lock_step: "step s l s' \<Longrightarrow> (\<And>t. crit (point s t) \<longleftrightarrow> holder s = Some t) \<Longrightarrow>
      crit (point s' t) \<longleftrightarrow> holder s' = Some t"
begin

definition lock_ok :: "'s \<Rightarrow> bool" where
  "lock_ok s \<longleftrightarrow> (\<forall>t. crit (point s t) \<longleftrightarrow> holder s = Some t)"

lemma lock_ok_step: "lock_ok s \<Longrightarrow> step s l s' \<Longrightarrow> lock_ok s'"
  using lock_step by (simp add: lock_ok_def)

lemma lock_ok_run: "run step s ls t \<Longrightarrow> lock_ok s \<Longrightarrow> lock_ok t"
  by (erule run_invariant [where Q = "\<lambda>_. True" and I = lock_ok]) (auto intro: lock_ok_step)

lemma mutual_exclusion:
  "run step s ls t \<Longrightarrow> lock_ok s \<Longrightarrow> crit (point t i) \<Longrightarrow> crit (point t j) \<Longrightarrow> i = j"
  using lock_ok_run by (fastforce simp: lock_ok_def)

end

text \<open>Data the lock protects: a step that changes it is a step of the holder.\<close>

locale protected_data = lock_client step holder point crit
  for step :: "'s \<Rightarrow> 'l \<Rightarrow> 's \<Rightarrow> bool" and holder and point :: "'s \<Rightarrow> nat \<Rightarrow> 'pc" and crit +
  fixes data :: "'s \<Rightarrow> 'd"
    and actor :: "'l \<Rightarrow> nat"
  assumes write_holds: "step s l s' \<Longrightarrow> data s' \<noteq> data s \<Longrightarrow> crit (point s (actor l))"
begin

lemma writer_is_holder:
  "lock_ok s \<Longrightarrow> step s l s' \<Longrightarrow> data s' \<noteq> data s \<Longrightarrow> holder s = Some (actor l)"
  using write_holds by (auto simp: lock_ok_def)

lemma stable_while_held:
  "lock_ok s \<Longrightarrow> step s l s' \<Longrightarrow> holder s = Some t \<Longrightarrow> actor l \<noteq> t \<Longrightarrow> data s' = data s"
  using writer_is_holder by fastforce

end

end
