(* ===== verification/Irq_Wait.thy ===== *)
theory Irq_Wait
  imports Char_Driver Transition_Systems
begin

text \<open>
  The wait queue under concurrency: any number of processes in \<^verbatim>\<open>IRQ_WAIT\<close> and \<^verbatim>\<open>IRQ_WAIT_CANCEL\<close>
  and of interrupts in \<^verbatim>\<open>accesio_notify_user\<close>, interleaved statement by statement, on one card's
  \<^verbatim>\<open>irq_lock\<close>, \<^verbatim>\<open>waiting_for_irq\<close>, \<^verbatim>\<open>irq_cancelled\<close> and \<^verbatim>\<open>wait_queue\<close>.

  A thread is a program counter; each constructor is the statement the thread executes next. The
  kernel's \<^verbatim>\<open>wait_event_interruptible\<close> is kept to its documented behaviour: it evaluates the
  condition, sleeps if it is false, evaluates it again after each wake-up of the queue, and gives
  up when a signal arrives while it sleeps.
\<close>

section \<open>Threads\<close>

datatype pc =
    Idle
  | W_lock | W_test | W_unlock_busy | W_set_waiting | W_set_cancelled | W_unlock
  | W_eval | W_parked | W_check | W_done int
  | C_lock | C_test | C_unlock_idle | C_set_cancelled | C_set_waiting | C_unlock | C_wake
  | C_done int
  | N_lock | N_test | N_set | N_unlock | N_wake | N_unlock_idle | N_done

record irq_sys =
  lock_holder :: "nat option"
  waiting :: int
  cancelled :: int
  pcs :: "nat \<Rightarrow> pc"

definition irq_init :: irq_sys where
  "irq_init = \<lparr>lock_holder = None, waiting = 0, cancelled = 0, pcs = (\<lambda>t. Idle)\<rparr>"

definition goto :: "nat \<Rightarrow> pc \<Rightarrow> irq_sys \<Rightarrow> irq_sys" where
  "goto t p s = s\<lparr>pcs := (pcs s)(t := p)\<rparr>"

definition lock :: "nat \<Rightarrow> irq_sys \<Rightarrow> irq_sys" where
  "lock t s = s\<lparr>lock_holder := Some t\<rparr>"

definition unlock :: "irq_sys \<Rightarrow> irq_sys" where
  "unlock s = s\<lparr>lock_holder := None\<rparr>"

text \<open>\<^verbatim>\<open>wake_up_interruptible\<close>: every sleeper evaluates its condition again.\<close>

definition wake_all :: "irq_sys \<Rightarrow> irq_sys" where
  "wake_all s = s\<lparr>pcs := (\<lambda>i. if pcs s i = W_parked then W_eval else pcs s i)\<rparr>"

lemmas sys_defs = goto_def lock_def unlock_def wake_all_def

text \<open>
  One statement of thread \<open>t\<close> of the wait ioctl, of the cancel ioctl, and of \<^verbatim>\<open>accesio_notify_user\<close>;
  \<open>None\<close> when it has none to execute or must wait for the lock.
\<close>

definition exec_wait :: "nat \<Rightarrow> irq_sys \<Rightarrow> irq_sys option" where
  "exec_wait t s = (case pcs s t of
     W_lock \<Rightarrow> if lock_holder s = None then Some (goto t W_test (lock t s)) else None
   | W_test \<Rightarrow> Some (goto t (if waiting s = 1 then W_unlock_busy else W_set_waiting) s)
   | W_unlock_busy \<Rightarrow> Some (goto t (W_done (- EALREADY)) (unlock s))
   | W_set_waiting \<Rightarrow> Some (goto t W_set_cancelled (s\<lparr>waiting := 1\<rparr>))
   | W_set_cancelled \<Rightarrow> Some (goto t W_unlock (s\<lparr>cancelled := 0\<rparr>))
   | W_unlock \<Rightarrow> Some (goto t W_eval (unlock s))
   | W_eval \<Rightarrow> Some (goto t (if waiting s = 0 then W_check else W_parked) s)
   | W_check \<Rightarrow> Some (goto t (W_done (if cancelled s = 1 then - ECANCELED else 0)) s)
   | _ \<Rightarrow> None)"

definition exec_cancel :: "nat \<Rightarrow> irq_sys \<Rightarrow> irq_sys option" where
  "exec_cancel t s = (case pcs s t of
     C_lock \<Rightarrow> if lock_holder s = None then Some (goto t C_test (lock t s)) else None
   | C_test \<Rightarrow> Some (goto t (if waiting s = 0 then C_unlock_idle else C_set_cancelled) s)
   | C_unlock_idle \<Rightarrow> Some (goto t (C_done (- EALREADY)) (unlock s))
   | C_set_cancelled \<Rightarrow> Some (goto t C_set_waiting (s\<lparr>cancelled := 1\<rparr>))
   | C_set_waiting \<Rightarrow> Some (goto t C_unlock (s\<lparr>waiting := 0\<rparr>))
   | C_unlock \<Rightarrow> Some (goto t C_wake (unlock s))
   | C_wake \<Rightarrow> Some (goto t (C_done 0) (wake_all s))
   | _ \<Rightarrow> None)"

definition exec_notify :: "nat \<Rightarrow> irq_sys \<Rightarrow> irq_sys option" where
  "exec_notify t s = (case pcs s t of
     N_lock \<Rightarrow> if lock_holder s = None then Some (goto t N_test (lock t s)) else None
   | N_test \<Rightarrow> Some (goto t (if waiting s \<noteq> 0 then N_set else N_unlock_idle) s)
   | N_set \<Rightarrow> Some (goto t N_unlock (s\<lparr>waiting := 0\<rparr>))
   | N_unlock \<Rightarrow> Some (goto t N_wake (unlock s))
   | N_wake \<Rightarrow> Some (goto t N_done (wake_all s))
   | N_unlock_idle \<Rightarrow> Some (goto t N_done (unlock s))
   | _ \<Rightarrow> None)"

definition exec :: "nat \<Rightarrow> irq_sys \<Rightarrow> irq_sys option" where
  "exec t s = (case exec_wait t s of
     Some s' \<Rightarrow> Some s'
   | None \<Rightarrow> (case exec_cancel t s of Some s' \<Rightarrow> Some s' | None \<Rightarrow> exec_notify t s))"

lemmas exec_eq = exec_def exec_wait_def exec_cancel_def exec_notify_def

section \<open>Steps\<close>

text \<open>
  A thread enters the driver (a wait or cancel ioctl, an ADIO16F interrupt that found its status
  bits set), executes a statement, is interrupted by a signal while it sleeps, or leaves.
\<close>

datatype label = Start_wait nat | Start_cancel nat | Interrupt nat | Exec nat | Signal nat | Return nat

fun thread_of :: "label \<Rightarrow> nat" where
  "thread_of (Start_wait t) = t"
| "thread_of (Start_cancel t) = t"
| "thread_of (Interrupt t) = t"
| "thread_of (Exec t) = t"
| "thread_of (Signal t) = t"
| "thread_of (Return t) = t"

fun returned :: "pc \<Rightarrow> bool" where
  "returned (W_done r) = True"
| "returned (C_done r) = True"
| "returned N_done = True"
| "returned p = False"

inductive irq_step :: "irq_sys \<Rightarrow> label \<Rightarrow> irq_sys \<Rightarrow> bool" where
  start_wait: "pcs s t = Idle \<Longrightarrow> irq_step s (Start_wait t) (goto t W_lock s)"
| start_cancel: "pcs s t = Idle \<Longrightarrow> irq_step s (Start_cancel t) (goto t C_lock s)"
| interrupt: "pcs s t = Idle \<Longrightarrow> irq_step s (Interrupt t) (goto t N_lock s)"
| exec: "exec t s = Some s' \<Longrightarrow> irq_step s (Exec t) s'"
| signal: "pcs s t = W_parked \<Longrightarrow> irq_step s (Signal t) (goto t W_check s)"
| leave: "returned (pcs s t) \<Longrightarrow> irq_step s (Return t) (goto t Idle s)"

text \<open>The same steps as a function of the label, to run a given schedule.\<close>

fun perform :: "label \<Rightarrow> irq_sys \<Rightarrow> irq_sys option" where
  "perform (Start_wait t) s = (if pcs s t = Idle then Some (goto t W_lock s) else None)"
| "perform (Start_cancel t) s = (if pcs s t = Idle then Some (goto t C_lock s) else None)"
| "perform (Interrupt t) s = (if pcs s t = Idle then Some (goto t N_lock s) else None)"
| "perform (Exec t) s = exec t s"
| "perform (Signal t) s = (if pcs s t = W_parked then Some (goto t W_check s) else None)"
| "perform (Return t) s = (if returned (pcs s t) then Some (goto t Idle s) else None)"

lemma perform_iff: "irq_step s l s' \<longleftrightarrow> perform l s = Some s'"
  by (cases l) (auto elim: irq_step.cases intro: irq_step.intros split: if_splits)

inductive_cases exec_stepE: "irq_step s (Exec t) s'"

abbreviation irq_run :: "irq_sys \<Rightarrow> label list \<Rightarrow> irq_sys \<Rightarrow> bool" where
  "irq_run \<equiv> run irq_step"

lemma schedule_run: "exec_all perform ls s = Some s' \<Longrightarrow> irq_run s ls s'"
  by (rule exec_all_run) (auto simp: perform_iff)

section \<open>The lock\<close>

text \<open>The statements between \<^verbatim>\<open>spin_lock*\<close> and \<^verbatim>\<open>spin_unlock*\<close>.\<close>

fun critical :: "pc \<Rightarrow> bool" where
  "critical W_test = True" | "critical W_unlock_busy = True" | "critical W_set_waiting = True"
| "critical W_set_cancelled = True" | "critical W_unlock = True"
| "critical C_test = True" | "critical C_unlock_idle = True" | "critical C_set_cancelled = True"
| "critical C_set_waiting = True" | "critical C_unlock = True"
| "critical N_test = True" | "critical N_set = True" | "critical N_unlock = True"
| "critical N_unlock_idle = True"
| "critical p = False"

lemma parked_not_critical: "pcs s t = W_parked \<Longrightarrow> \<not> critical (pcs s t)"
  by simp

lemma returned_not_critical: "returned p \<Longrightarrow> \<not> critical p"
  by (cases p) auto

interpretation irq_lock: lock_client irq_step lock_holder pcs critical
proof
  fix s l s' t
  assume step: "irq_step s l s'" and inv: "\<And>t. critical (pcs s t) \<longleftrightarrow> lock_holder s = Some t"
  from step show "critical (pcs s' t) \<longleftrightarrow> lock_holder s' = Some t"
  proof cases
    case (exec u)
    with inv [of u] inv [of t] show ?thesis
      by (auto simp: exec_eq sys_defs split: pc.splits if_splits)
  qed (use inv [of t] inv [of "thread_of l"] returned_not_critical in \<open>auto simp: sys_defs\<close>)
qed

definition flags :: "irq_sys \<Rightarrow> int \<times> int" where
  "flags s = (waiting s, cancelled s)"

interpretation irq_data: protected_data irq_step lock_holder pcs critical flags thread_of
proof
  fix s l s'
  assume "irq_step s l s'" and "flags s' \<noteq> flags s"
  then show "critical (pcs s (thread_of l))"
    by cases (auto simp: exec_eq sys_defs flags_def split: pc.splits if_splits)
qed

lemma lock_ok_init: "irq_lock.lock_ok irq_init"
  by (simp add: irq_lock.lock_ok_def irq_init_def)

section \<open>The invariant\<close>

text \<open>
  What a thread inside its critical section knows of the flags: the assertion at its next
  statement.
\<close>

fun pc_ok :: "int \<times> int \<Rightarrow> pc \<Rightarrow> bool" where
  "pc_ok (w, c) W_unlock_busy = (w = 1)"
| "pc_ok (w, c) W_set_waiting = (w = 0)"
| "pc_ok (w, c) W_set_cancelled = (w = 1)"
| "pc_ok (w, c) W_unlock = (w = 1 \<and> c = 0)"
| "pc_ok (w, c) C_unlock_idle = (w = 0)"
| "pc_ok (w, c) C_set_cancelled = (w = 1)"
| "pc_ok (w, c) C_set_waiting = (w = 1 \<and> c = 1)"
| "pc_ok (w, c) C_unlock = (w = 0 \<and> c = 1)"
| "pc_ok (w, c) N_set = (w = 1)"
| "pc_ok (w, c) N_unlock = (w = 0)"
| "pc_ok (w, c) N_unlock_idle = (w = 0)"
| "pc_ok (w, c) p = True"

definition irq_inv :: "irq_sys \<Rightarrow> bool" where
  "irq_inv s \<longleftrightarrow> irq_lock.lock_ok s \<and> waiting s \<in> {0, 1} \<and> cancelled s \<in> {0, 1}
     \<and> (\<forall>t. pc_ok (flags s) (pcs s t))"

lemma pc_ok_not_critical: "\<not> critical p \<Longrightarrow> pc_ok f p"
  by (cases f; cases p) auto

lemma irq_inv_init: "irq_inv irq_init"
  using lock_ok_init by (simp add: irq_inv_def irq_init_def flags_def)

lemma other_thread:
  "irq_step s l s' \<Longrightarrow> t \<noteq> thread_of l \<Longrightarrow>
     pcs s' t = pcs s t \<or> (pcs s t = W_parked \<and> pcs s' t = W_eval)"
  by (erule irq_step.cases) (auto simp: exec_eq sys_defs split: pc.splits if_splits)

lemma own_step:
  "irq_step s l s' \<Longrightarrow> pc_ok (flags s) (pcs s (thread_of l)) \<Longrightarrow> waiting s \<in> {0, 1} \<Longrightarrow>
     cancelled s \<in> {0, 1} \<Longrightarrow>
     pc_ok (flags s') (pcs s' (thread_of l)) \<and> waiting s' \<in> {0, 1} \<and> cancelled s' \<in> {0, 1}"
  by (erule irq_step.cases) (auto simp: exec_eq sys_defs flags_def split: pc.splits if_splits)

lemma irq_inv_step: "irq_inv s \<Longrightarrow> irq_step s l s' \<Longrightarrow> irq_inv s'"
proof -
  assume inv: "irq_inv s" and step: "irq_step s l s'"
  then have ok: "irq_lock.lock_ok s" by (simp add: irq_inv_def)
  have "pc_ok (flags s') (pcs s' t)" if "t \<noteq> thread_of l" for t
  proof (cases "critical (pcs s t)")
    case True
    with ok have "lock_holder s = Some t" by (simp add: irq_lock.lock_ok_def)
    with ok step that have "flags s' = flags s"
      by (intro irq_data.stable_while_held) auto
    with inv other_thread [OF step that] True show ?thesis by (auto simp: irq_inv_def)
  next
    case False
    with other_thread [OF step that] show ?thesis by (auto intro: pc_ok_not_critical)
  qed
  with own_step [OF step] inv irq_lock.lock_ok_step [OF ok step] show "irq_inv s'"
    unfolding irq_inv_def by metis
qed

lemma irq_inv_run: "irq_run s ls t \<Longrightarrow> irq_inv s \<Longrightarrow> irq_inv t"
  by (erule run_invariant [where Q = "\<lambda>_. True" and I = irq_inv]) (auto intro: irq_inv_step)

text \<open>
  A sleeper is never forgotten: when the condition it waits for holds, some thread is between
  making it true and waking the queue.
\<close>

definition waking :: "pc \<Rightarrow> bool" where
  "waking p \<longleftrightarrow> p \<in> {C_unlock, C_wake, N_unlock, N_wake}"

definition wake_pending :: "irq_sys \<Rightarrow> bool" where
  "wake_pending s \<longleftrightarrow>
     (\<forall>t. pcs s t = W_parked \<longrightarrow> waiting s = 0 \<longrightarrow> (\<exists>u. waking (pcs s u)))"

lemma parked_back:
  "irq_step s l s' \<Longrightarrow> pcs s' t = W_parked \<Longrightarrow> waiting s' = 0 \<Longrightarrow> \<not> waking (pcs s' (thread_of l)) \<Longrightarrow>
     pcs s t = W_parked \<and> waiting s = 0 \<and> \<not> waking (pcs s (thread_of l))"
  by (erule irq_step.cases) (auto simp: exec_eq sys_defs waking_def split: pc.splits if_splits)

lemma waking_kept:
  "irq_step s l s' \<Longrightarrow> waking (pcs s u) \<Longrightarrow> u \<noteq> thread_of l \<Longrightarrow> waking (pcs s' u)"
  by (drule (1) other_thread) (auto simp: waking_def)

lemma wake_pending_step: "wake_pending s \<Longrightarrow> irq_step s l s' \<Longrightarrow> wake_pending s'"
  unfolding wake_pending_def by (metis parked_back waking_kept)

lemma wake_pending_init: "wake_pending irq_init"
  by (simp add: wake_pending_def irq_init_def)

lemma wake_pending_run: "irq_run s ls t \<Longrightarrow> wake_pending s \<Longrightarrow> wake_pending t"
  by (erule run_invariant [where Q = "\<lambda>_. True" and I = wake_pending]) (auto intro: wake_pending_step)

section \<open>Safety\<close>

text \<open>
  C23: whatever waits, cancels, interrupts and signals are interleaved, a thread holds \<^verbatim>\<open>irq_lock\<close>
  exactly while it is inside one of its critical sections, so that at most one thread is; and in
  every state, whether the lock is held or free, both flags are 0 or 1.
\<close>

theorem irq_lock_mutual_exclusion:
  assumes "irq_run irq_init ls s"
  shows "(lock_holder s = Some t \<longleftrightarrow> critical (pcs s t))
    \<and> (critical (pcs s t) \<and> critical (pcs s u) \<longrightarrow> t = u)
    \<and> waiting s \<in> {0, 1} \<and> cancelled s \<in> {0, 1}"
  using irq_lock.mutual_exclusion [OF assms lock_ok_init, of t u] irq_inv_run [OF assms irq_inv_init]
  by (auto simp: irq_inv_def irq_lock.lock_ok_def)

theorem irq_lock_mutual_exclusion_witness:
  "\<exists>s. irq_run irq_init [Start_wait 0, Interrupt 1, Exec 1] s \<and> critical (pcs s 1)
     \<and> (\<forall>u. critical (pcs s u) \<longleftrightarrow> 1 = u) \<and> waiting s \<in> {0, 1}"
proof -
  obtain s where ex: "exec_all perform [Start_wait 0, Interrupt 1, Exec 1] irq_init = Some s"
    and c: "critical (pcs s 1)"
    by (simp add: irq_init_def sys_defs exec_eq)
  from schedule_run [OF ex] have r: "irq_run irq_init [Start_wait 0, Interrupt 1, Exec 1] s" .
  have "critical (pcs s u) \<longleftrightarrow> 1 = u" for u
    using irq_lock_mutual_exclusion [OF r, of 1 u] c by auto
  with r c irq_lock_mutual_exclusion [OF r, of 1 1] show ?thesis by blast
qed

text \<open>
  C2: no lost wake-up: whenever a process sleeps although \<^verbatim>\<open>waiting_for_irq\<close> is 0, a canceller or an
  interrupt is between clearing the flag and waking the queue; and that thread can always take its
  next step, which wakes the sleeper or brings it there.
\<close>

theorem no_lost_wakeup:
  assumes "irq_run irq_init ls s" and "pcs s t = W_parked" and "waiting s = 0"
  shows "\<exists>u. waking (pcs s u) \<and> exec u s \<noteq> None"
proof -
  from wake_pending_run [OF assms(1) wake_pending_init] assms(2,3)
  obtain u where "waking (pcs s u)" by (auto simp: wake_pending_def)
  then show ?thesis by (auto simp: waking_def exec_eq intro!: exI [of _ u])
qed

theorem no_lost_wakeup_witness:
  "\<exists>s. pcs s 0 = W_parked \<and> waiting s = 0 \<and> (\<exists>u. waking (pcs s u) \<and> exec u s \<noteq> None)"
proof -
  obtain s where ex: "exec_all perform ([Start_wait 0] @ replicate 6 (Exec 0)
      @ [Interrupt 1] @ replicate 3 (Exec 1)) irq_init = Some s"
    and p: "pcs s 0 = W_parked" "waiting s = 0"
    by (simp add: irq_init_def sys_defs exec_eq numeral_eq_Suc)
  from no_lost_wakeup [OF schedule_run [OF ex] p] p show ?thesis by blast
qed

section \<open>What the result of a wait means\<close>

definition cancelling :: "pc \<Rightarrow> bool" where
  "cancelling p \<longleftrightarrow> p \<in> {C_lock, C_test, C_set_cancelled}"

definition notifying :: "pc \<Rightarrow> bool" where
  "notifying p \<longleftrightarrow> p \<in> {N_lock, N_test, N_set}"

definition in_wait :: "pc \<Rightarrow> bool" where
  "in_wait p \<longleftrightarrow> p \<in> {W_lock, W_test, W_unlock_busy, W_set_waiting, W_set_cancelled, W_unlock,
     W_eval, W_parked, W_check}"

text \<open>While nobody cancels, a process that has announced its wait finds the cancel flag clear.\<close>

definition uncancelled_inv :: "nat \<Rightarrow> irq_sys \<Rightarrow> bool" where
  "uncancelled_inv w s \<longleftrightarrow> (\<forall>t. \<not> cancelling (pcs s t))
     \<and> (pcs s w \<in> {W_unlock, W_eval, W_parked, W_check} \<longrightarrow> cancelled s = 0)
     \<and> pcs s w \<noteq> W_done (- ECANCELED)"

lemma quiet_pcs: "\<not> cancelling W_eval" "\<not> notifying W_eval"
  by (simp_all add: cancelling_def notifying_def)

lemma cancelling_own:
  "irq_step s l s' \<Longrightarrow> \<not> cancelling (pcs s (thread_of l)) \<Longrightarrow> l \<noteq> Start_cancel (thread_of l) \<Longrightarrow>
     \<not> cancelling (pcs s' (thread_of l))"
  by (erule irq_step.cases)
    (auto simp: exec_eq sys_defs cancelling_def split: pc.splits if_splits)

lemma notifying_own:
  "irq_step s l s' \<Longrightarrow> \<not> notifying (pcs s (thread_of l)) \<Longrightarrow> l \<noteq> Interrupt (thread_of l) \<Longrightarrow>
     \<not> notifying (pcs s' (thread_of l))"
  by (erule irq_step.cases)
    (auto simp: exec_eq sys_defs notifying_def split: pc.splits if_splits)

lemma cancelling_kept:
  assumes "irq_step s l s'" and "\<forall>t. \<not> cancelling (pcs s t)" and "l \<noteq> Start_cancel (thread_of l)"
  shows "\<not> cancelling (pcs s' t)"
  using cancelling_own [OF assms(1) _ assms(3)] other_thread [OF assms(1), of t] assms(2)
    quiet_pcs by metis

lemma notifying_kept:
  assumes "irq_step s l s'" and "\<forall>t. \<not> notifying (pcs s t)" and "l \<noteq> Interrupt (thread_of l)"
  shows "\<not> notifying (pcs s' t)"
  using notifying_own [OF assms(1) _ assms(3)] other_thread [OF assms(1), of t] assms(2)
    quiet_pcs by metis

lemma cancelled_stays_0:
  "irq_step s l s' \<Longrightarrow> \<not> cancelling (pcs s (thread_of l)) \<Longrightarrow> cancelled s = 0 \<Longrightarrow> cancelled s' = 0"
  by (erule irq_step.cases)
    (auto simp: exec_eq sys_defs cancelling_def split: pc.splits if_splits)

lemma wait_progress:
  "irq_step s l s' \<Longrightarrow> pcs s' w \<in> {W_unlock, W_eval, W_parked, W_check} \<Longrightarrow>
     pcs s w \<in> {W_unlock, W_eval, W_parked, W_check}
     \<or> (pcs s w = W_set_cancelled \<and> cancelled s' = 0)"
  by (erule irq_step.cases) (auto simp: exec_eq sys_defs split: pc.splits if_splits)

lemma wait_done_from:
  "irq_step s l s' \<Longrightarrow> pcs s' w = W_done r \<Longrightarrow> pcs s w = W_done r \<or>
     (pcs s w = W_check \<and> r = (if cancelled s = 1 then - ECANCELED else 0)) \<or> r = - EALREADY"
  by (erule irq_step.cases) (auto simp: exec_eq sys_defs split: pc.splits if_splits)

lemma uncancelled_inv_step:
  assumes "uncancelled_inv w s" and "irq_step s l s'" and "l \<noteq> Start_cancel (thread_of l)"
  shows "uncancelled_inv w s'"
proof -
  have "cancelled s' = 0" if "pcs s' w \<in> {W_unlock, W_eval, W_parked, W_check}"
    using wait_progress [OF assms(2) that] assms(1) cancelled_stays_0 [OF assms(2)]
    by (auto simp: uncancelled_inv_def)
  moreover have "pcs s' w \<noteq> W_done (- ECANCELED)"
    using wait_done_from [OF assms(2), of w "- ECANCELED"] assms(1)
    by (auto simp: uncancelled_inv_def)
  ultimately show ?thesis
    using cancelling_kept [OF assms(2) _ assms(3)] assms(1) unfolding uncancelled_inv_def by blast
qed

text \<open>
  C19: a wait returns \<open>-ECANCELED\<close> only when some process cancelled: if no cancel is under way when
  process \<open>w\<close> calls, and none starts before it returns, its result is not \<open>-ECANCELED\<close>, whatever
  other waits, interrupts and signals happen.
\<close>

theorem ecanceled_needs_cancel:
  assumes "irq_run s0 ls s" and "pcs s0 w = Idle" and "\<forall>t. \<not> cancelling (pcs s0 t)"
    and "\<forall>l \<in> set ls. l \<noteq> Start_cancel (thread_of l)"
  shows "pcs s w \<noteq> W_done (- ECANCELED)"
proof -
  from assms(2,3) have "uncancelled_inv w s0" by (simp add: uncancelled_inv_def)
  from run_invariant [where I = "uncancelled_inv w", OF assms(1) this assms(4)
      uncancelled_inv_step] have "uncancelled_inv w s" .
  then show ?thesis by (simp add: uncancelled_inv_def)
qed

theorem ecanceled_needs_cancel_witness:
  "\<exists>s. irq_run irq_init ([Start_wait 0] @ replicate 6 (Exec 0) @ [Interrupt 1]
         @ replicate 5 (Exec 1) @ replicate 2 (Exec 0)) s
       \<and> pcs s 0 = W_done 0 \<and> pcs s 0 \<noteq> W_done (- ECANCELED)"
proof -
  let ?ls = "[Start_wait 0] @ replicate 6 (Exec 0) @ [Interrupt 1] @ replicate 5 (Exec 1)
         @ replicate 2 (Exec 0)"
  obtain s where ex: "exec_all perform ?ls irq_init = Some s" and d: "pcs s 0 = W_done 0"
    by (simp add: irq_init_def sys_defs exec_eq numeral_eq_Suc)
  have "pcs s 0 \<noteq> W_done (- ECANCELED)"
    by (rule ecanceled_needs_cancel [OF schedule_run [OF ex]])
      (auto simp: irq_init_def cancelling_def)
  with schedule_run [OF ex] d show ?thesis by blast
qed

text \<open>
  While nobody is interrupted or signalled and \<open>w\<close> is the only waiter, the waiting flag can only be
  cleared by a cancel.
\<close>

definition uninterrupted_inv :: "nat \<Rightarrow> irq_sys \<Rightarrow> bool" where
  "uninterrupted_inv w s \<longleftrightarrow> irq_inv s \<and> (\<forall>t. \<not> notifying (pcs s t))
     \<and> (\<forall>t. t \<noteq> w \<longrightarrow> \<not> in_wait (pcs s t))
     \<and> (pcs s w \<in> {W_unlock, W_eval, W_parked} \<longrightarrow> waiting s = 0 \<longrightarrow> cancelled s = 1)
     \<and> (pcs s w = W_check \<longrightarrow> cancelled s = 1)
     \<and> pcs s w \<noteq> W_done 0"

definition waiter_ok :: "pc \<Rightarrow> irq_sys \<Rightarrow> bool" where
  "waiter_ok p s \<longleftrightarrow> (p \<in> {W_unlock, W_eval, W_parked} \<longrightarrow> waiting s = 0 \<longrightarrow> cancelled s = 1)
     \<and> (p = W_check \<longrightarrow> cancelled s = 1) \<and> p \<noteq> W_done 0"

lemma uninterrupted_inv_alt:
  "uninterrupted_inv w s \<longleftrightarrow> irq_inv s \<and> (\<forall>t. \<not> notifying (pcs s t))
     \<and> (\<forall>t. t \<noteq> w \<longrightarrow> \<not> in_wait (pcs s t)) \<and> waiter_ok (pcs s w) s"
  by (auto simp: uninterrupted_inv_def waiter_ok_def)

text \<open>A run of this kind: no interrupt, no signal, and only \<open>w\<close> waits.\<close>

definition quiet_label :: "nat \<Rightarrow> label \<Rightarrow> bool" where
  "quiet_label w l \<longleftrightarrow> (case l of Interrupt t \<Rightarrow> False | Signal t \<Rightarrow> False
     | Start_wait t \<Rightarrow> t = w | _ \<Rightarrow> True)"

lemma waiter_own:
  "irq_step s l s' \<Longrightarrow> quiet_label (thread_of l) l \<Longrightarrow> pc_ok (flags s) (pcs s (thread_of l)) \<Longrightarrow>
     pc_ok (flags s') (pcs s' (thread_of l)) \<Longrightarrow>
     waiter_ok (pcs s (thread_of l)) s \<Longrightarrow> waiter_ok (pcs s' (thread_of l)) s'"
  by (erule irq_step.cases)
    (auto simp: exec_eq sys_defs flags_def quiet_label_def waiter_ok_def
      split: pc.splits if_splits)

lemma flags_other:
  "irq_step s l s' \<Longrightarrow> \<not> in_wait (pcs s (thread_of l)) \<Longrightarrow> \<not> notifying (pcs s (thread_of l)) \<Longrightarrow>
     pc_ok (flags s) (pcs s (thread_of l)) \<Longrightarrow>
     (cancelled s' = cancelled s \<or> cancelled s' = 1)
     \<and> (waiting s' = waiting s \<or> (waiting s' = 0 \<and> cancelled s' = 1))"
  by (erule irq_step.cases)
    (auto simp: exec_eq sys_defs flags_def in_wait_def notifying_def split: pc.splits if_splits)

lemma in_wait_own:
  "irq_step s l s' \<Longrightarrow> \<not> in_wait (pcs s (thread_of l)) \<Longrightarrow> l \<noteq> Start_wait (thread_of l) \<Longrightarrow>
     \<not> in_wait (pcs s' (thread_of l))"
  by (erule irq_step.cases)
    (auto simp: exec_eq sys_defs in_wait_def split: pc.splits if_splits)

lemma in_wait_kept:
  assumes "irq_step s l s'" and "\<forall>t. t \<noteq> w \<longrightarrow> \<not> in_wait (pcs s t)" and "quiet_label w l"
    and "t \<noteq> w"
  shows "\<not> in_wait (pcs s' t)"
proof (cases "t = thread_of l")
  case True
  with assms(3,4) have "l \<noteq> Start_wait (thread_of l)"
    by (cases l) (auto simp: quiet_label_def)
  with in_wait_own [OF assms(1)] assms(2,4) True show ?thesis by blast
next
  case False
  have "\<not> in_wait (pcs s t)" and "in_wait W_parked"
    using assms(2,4) by (simp_all add: in_wait_def)
  with other_thread [OF assms(1) False] show ?thesis by metis
qed

lemma uninterrupted_inv_step:
  assumes "uninterrupted_inv w s" and "irq_step s l s'" and "quiet_label w l"
  shows "uninterrupted_inv w s'"
proof -
  let ?u = "thread_of l"
  from assms(1) have inv: "irq_inv s" and nn: "\<forall>t. \<not> notifying (pcs s t)"
    and nw: "\<forall>t. t \<noteq> w \<longrightarrow> \<not> in_wait (pcs s t)" and ok: "waiter_ok (pcs s w) s"
    by (simp_all add: uninterrupted_inv_alt)
  have inv': "irq_inv s'" using inv assms(2) by (rule irq_inv_step)
  have "waiter_ok (pcs s' w) s'"
  proof (cases "?u = w")
    case True
    with waiter_own [OF assms(2)] assms(3) ok inv inv' show ?thesis
      unfolding irq_inv_def by metis
  next
    case False
    then have nw': "\<not> in_wait (pcs s ?u)" and pc: "pc_ok (flags s) (pcs s ?u)"
      using nw inv by (simp_all add: irq_inv_def)
    have "\<not> notifying (pcs s ?u)" using nn by blast
    note flags = flags_other [OF assms(2) nw' this pc]
    have "pcs s' w = pcs s w \<or> pcs s w = W_parked \<and> pcs s' w = W_eval"
      using other_thread [OF assms(2), of w] False by blast
    then show ?thesis
    proof
      assume "pcs s' w = pcs s w"
      with flags ok show ?thesis by (auto simp: waiter_ok_def)
    next
      assume "pcs s w = W_parked \<and> pcs s' w = W_eval"
      with flags ok show ?thesis by (auto simp: waiter_ok_def)
    qed
  qed
  moreover have "l \<noteq> Interrupt ?u" using assms(3) by (cases l) (auto simp: quiet_label_def)
  ultimately show ?thesis
    using inv' notifying_kept [OF assms(2) nn] in_wait_kept [OF assms(2) nw assms(3)]
    unfolding uninterrupted_inv_alt by blast
qed

text \<open>
  C20: a wait that returns 0 reports an interrupt: if \<open>w\<close> is the only process that waits, no signal
  arrives, no interrupt is being delivered when \<open>w\<close> calls and none arrives before it returns, then
  the wait does not return 0 (it sleeps, or a cancel makes it return \<open>-ECANCELED\<close>).
\<close>

theorem wait_success_needs_interrupt:
  assumes "irq_run irq_init ls0 s0" and "irq_run s0 ls s" and "pcs s0 w = Idle"
    and "\<forall>t. \<not> notifying (pcs s0 t)" and "\<forall>t. t \<noteq> w \<longrightarrow> \<not> in_wait (pcs s0 t)"
    and "\<forall>l \<in> set ls. quiet_label w l"
  shows "pcs s w \<noteq> W_done 0"
proof -
  from assms have "uninterrupted_inv w s0"
    using irq_inv_run [OF assms(1) irq_inv_init] by (simp add: uninterrupted_inv_alt waiter_ok_def)
  from run_invariant [where I = "uninterrupted_inv w", OF assms(2) this assms(6)
      uninterrupted_inv_step] have "uninterrupted_inv w s" .
  then show ?thesis by (simp add: uninterrupted_inv_def)
qed

theorem wait_success_needs_interrupt_witness:
  "\<exists>s. irq_run irq_init ([Start_wait 0] @ replicate 6 (Exec 0) @ [Start_cancel 1]
         @ replicate 6 (Exec 1) @ replicate 2 (Exec 0)) s
       \<and> pcs s 0 = W_done (- ECANCELED) \<and> pcs s 0 \<noteq> W_done 0"
proof -
  let ?ls = "[Start_wait 0] @ replicate 6 (Exec 0) @ [Start_cancel 1] @ replicate 6 (Exec 1)
         @ replicate 2 (Exec 0)"
  obtain s where ex: "exec_all perform ?ls irq_init = Some s" and d: "pcs s 0 = W_done (- ECANCELED)"
    by (simp add: irq_init_def sys_defs exec_eq numeral_eq_Suc)
  have "pcs s 0 \<noteq> W_done 0"
    by (rule wait_success_needs_interrupt [OF run_Nil schedule_run [OF ex]])
      (auto simp: irq_init_def notifying_def in_wait_def quiet_label_def)
  with schedule_run [OF ex] d show ?thesis by blast
qed

end
