(* ===== verification/Irq_Wait_Spec.thy ===== *)
theory Irq_Wait_Spec
  imports Irq_Wait
begin

text \<open>
  The wait queue against two simpler descriptions: the three-state machine the two flags are meant
  to implement, which every interleaving refines, and the sequential handlers of
  \<^theory_text>\<open>Char_Driver\<close> and \<^theory_text>\<open>Irq_Styles\<close>, which a thread that runs alone agrees with. Last, two
  ways in which the result of a wait is wrong, from every state they can start in.
\<close>

section \<open>The abstract machine\<close>

datatype wait_state = Quiet | Armed | Cancelled

datatype wait_op = Arm | Cancel | Fire

text \<open>Arm when not armed; cancel and fire only when armed.\<close>

fun wait_spec :: "wait_op \<Rightarrow> wait_state \<Rightarrow> wait_state option" where
  "wait_spec Arm Quiet = Some Armed"
| "wait_spec Arm Cancelled = Some Armed"
| "wait_spec Cancel Armed = Some Cancelled"
| "wait_spec Fire Armed = Some Quiet"
| "wait_spec p w = None"

text \<open>
  The abstract state of the flags. With both flags set, the lock holder is between its two writes:
  a wait that has yet to clear \<^verbatim>\<open>irq_cancelled\<close>, or a cancel that has yet to clear
  \<^verbatim>\<open>waiting_for_irq\<close>.
\<close>

definition holder_pc :: "irq_sys \<Rightarrow> pc option" where
  "holder_pc s = (case lock_holder s of None \<Rightarrow> None | Some t \<Rightarrow> Some (pcs s t))"

definition wait_abs :: "irq_sys \<Rightarrow> wait_state" where
  "wait_abs s =
     (if waiting s = 0 then (if cancelled s = 0 then Quiet else Cancelled)
      else if cancelled s = 1 \<and> holder_pc s = Some C_set_waiting then Cancelled else Armed)"

text \<open>The statement at which an operation takes effect.\<close>

definition wait_op_of :: "irq_sys \<Rightarrow> label \<Rightarrow> wait_op option" where
  "wait_op_of s l = (case l of
     Exec t \<Rightarrow> (case pcs s t of W_set_waiting \<Rightarrow> Some Arm | C_set_cancelled \<Rightarrow> Some Cancel
       | N_set \<Rightarrow> Some Fire | _ \<Rightarrow> None)
   | _ \<Rightarrow> None)"

text \<open>Both flags are set only while the holder is between its two writes.\<close>

definition between_writes :: "irq_sys \<Rightarrow> bool" where
  "between_writes s \<longleftrightarrow> (waiting s = 1 \<longrightarrow> cancelled s = 1 \<longrightarrow>
     holder_pc s = Some W_set_cancelled \<or> holder_pc s = Some C_set_waiting)"

definition spec_inv :: "irq_sys \<Rightarrow> bool" where
  "spec_inv s \<longleftrightarrow> irq_inv s \<and> between_writes s"

lemmas spec_defs = between_writes_def holder_pc_def wait_abs_def wait_op_of_def

lemma spec_inv_at: "spec_inv s \<Longrightarrow> pc_ok (flags s) (pcs s t)
    \<and> (critical (pcs s t) \<longleftrightarrow> lock_holder s = Some t)
    \<and> waiting s \<in> {0, 1} \<and> cancelled s \<in> {0, 1} \<and> between_writes s"
  by (simp add: spec_inv_def irq_inv_def irq_lock.lock_ok_def)

text \<open>The pieces of a statement, seen through the flags and the lock holder's program point.\<close>

lemma flags_pieces [step_simps]:
  "waiting (goto t p s) = waiting s" "cancelled (goto t p s) = cancelled s"
  "waiting (lock t s) = waiting s" "cancelled (lock t s) = cancelled s"
  "waiting (unlock s) = waiting s" "cancelled (unlock s) = cancelled s"
  "waiting (wake_all s) = waiting s" "cancelled (wake_all s) = cancelled s"
  "lock_holder (goto t p s) = lock_holder s" "lock_holder (lock t s) = Some t"
  "lock_holder (unlock s) = None" "lock_holder (wake_all s) = lock_holder s"
  by (simp_all add: sys_defs)

lemma holder_pc_pieces [step_simps]:
  "holder_pc (goto t p s) = (if lock_holder s = Some t then Some p else holder_pc s)"
  "holder_pc (unlock s) = None"
  "holder_pc (lock t s) = Some (pcs s t)"
  "holder_pc (s\<lparr>waiting := w\<rparr>) = holder_pc s"
  "holder_pc (s\<lparr>cancelled := c\<rparr>) = holder_pc s"
  "holder_pc (wake_all s) = (if holder_pc s = Some W_parked then Some W_eval else holder_pc s)"
  by (auto simp: holder_pc_def sys_defs split: option.splits)

lemma holder_pc_critical: "lock_holder s = Some t \<Longrightarrow> holder_pc s = Some (pcs s t)"
  by (simp add: holder_pc_def)

lemma holder_pc_free: "lock_holder s = None \<Longrightarrow> holder_pc s = None"
  by (simp add: holder_pc_def)

lemmas refine_simps = step_simps between_writes_def wait_abs_def wait_op_of_def exec_eq flags_def
  holder_pc_critical holder_pc_free




lemma exec_refines:
  assumes "spec_inv s" and "exec u s = Some s'"
  shows "between_writes s'
    \<and> (case wait_op_of s (Exec u) of None \<Rightarrow> wait_abs s' = wait_abs s
       | Some p \<Rightarrow> wait_spec p (wait_abs s) = Some (wait_abs s'))"
proof -
  from spec_inv_at [OF assms(1), of u] have
    pc: "pc_ok (waiting s, cancelled s) (pcs s u)" and
    crit: "critical (pcs s u) \<longleftrightarrow> lock_holder s = Some u" and
    bw: "between_writes s" and f: "waiting s \<in> {0, 1}" "cancelled s \<in> {0, 1}"
    by (simp_all add: flags_def)
  have h: "critical (pcs s u) \<Longrightarrow> holder_pc s = Some (pcs s u)"
    using crit holder_pc_critical by blast
  have n: "lock_holder s = None \<Longrightarrow> holder_pc s = None" by (rule holder_pc_free)
  from assms(2) have "s' = the (exec u s)" and "exec u s \<noteq> None" by simp_all
  then show ?thesis
    using pc crit bw f h n
    by (cases "pcs s u")
      (simp_all add: step_simps between_writes_def wait_abs_def wait_op_of_def exec_eq
        split: if_splits, auto)
qed

lemma step_refines:
  assumes "spec_inv s" and "irq_step s l s'"
  shows "between_writes s'
    \<and> (case wait_op_of s l of None \<Rightarrow> wait_abs s' = wait_abs s
       | Some p \<Rightarrow> wait_spec p (wait_abs s) = Some (wait_abs s'))"
  using assms(2)
proof cases
  case (exec u)
  then show ?thesis using exec_refines [OF assms(1)] by simp
qed (use assms(1) spec_inv_at [of s "thread_of l"] returned_not_critical [of "pcs s (thread_of l)"] in
    \<open>auto simp: step_simps between_writes_def wait_abs_def wait_op_of_def\<close>)

lemma spec_inv_step: "spec_inv s \<Longrightarrow> irq_step s l s' \<Longrightarrow> spec_inv s'"
  by (meson spec_inv_def step_refines irq_inv_step)

lemma spec_inv_init: "spec_inv irq_init"
  using irq_inv_init by (simp add: spec_inv_def between_writes_def irq_init_def)

lemma spec_inv_run: "irq_run s ls t \<Longrightarrow> spec_inv s \<Longrightarrow> spec_inv t"
  by (erule run_invariant [where Q = "\<lambda>_. True" and I = spec_inv]) (auto intro: spec_inv_step)

section \<open>Every interleaving refines it\<close>

text \<open>
  C1: every step of every interleaving either leaves the abstract state alone or is one of the
  three operations, taken when the abstract machine allows it: the statements of concurrent waits,
  cancels and interrupts never combine into another transition (a cancel or an interrupt that takes
  effect while nothing is armed, or a second arming).
\<close>

theorem wait_queue_refines_spec:
  assumes "irq_run irq_init ls s" and "irq_step s l s'"
  shows "case wait_op_of s l of
      None \<Rightarrow> wait_abs s' = wait_abs s
    | Some p \<Rightarrow> wait_spec p (wait_abs s) = Some (wait_abs s')"
  using step_refines [OF spec_inv_run [OF assms(1) spec_inv_init] assms(2)] by blast

theorem wait_queue_refines_spec_witness:
  "\<exists>s s'. irq_run irq_init ([Start_wait 0] @ replicate 6 (Exec 0) @ [Interrupt 1]
       @ replicate 2 (Exec 1)) s
     \<and> irq_step s (Exec 1) s' \<and> wait_spec Fire (wait_abs s) = Some (wait_abs s')"
proof -
  let ?ls = "[Start_wait 0] @ replicate 6 (Exec 0) @ [Interrupt 1] @ replicate 2 (Exec 1)"
  obtain s s' where ex: "exec_all perform ?ls irq_init = Some s" and n: "pcs s 1 = N_set"
    and st: "perform (Exec 1) s = Some s'"
    by (simp add: irq_init_def sys_defs exec_eq numeral_eq_Suc)
  from wait_queue_refines_spec [OF schedule_run [OF ex], of "Exec 1" s'] st n
  have "wait_spec Fire (wait_abs s) = Some (wait_abs s')"
    by (simp add: perform_iff wait_op_of_def)
  with schedule_run [OF ex] st show ?thesis by (auto simp: perform_iff)
qed

section \<open>A thread alone is the sequential handler\<close>

text \<open>
  The machine's state agrees with the driver state of the handlers on the two flags, and the lock
  is free.
\<close>

definition same_flags :: "irq_sys \<Rightarrow> 'a driver_state_scheme \<Rightarrow> bool" where
  "same_flags s st \<longleftrightarrow> waiting s = waiting_for_irq (dev_context st)
     \<and> cancelled s = irq_cancelled (dev_context st)"

lemma cancel_alone:
  assumes "lock_holder s = None" and "pcs s t = Idle"
    and "same_flags s (st :: 'u proc_state)"
  shows "\<exists>n s'. exec_all perform (Start_cancel t # replicate n (Exec t)) s = Some s'
    \<and> pcs s' t = C_done (fst (run_state ioctl_ACCESIO_PCI_IRQ_WAIT_CANCEL st))
    \<and> same_flags s' (snd (run_state ioctl_ACCESIO_PCI_IRQ_WAIT_CANCEL st))"
proof (cases "waiting s = 0")
  case True
  with assms show ?thesis
    by (intro exI [of _ 3]) (simp add: exec_eq sys_defs numeral_eq_Suc same_flags_def
        ioctl_ACCESIO_PCI_IRQ_WAIT_CANCEL_def io_simps)
next
  case False
  with assms show ?thesis
    by (intro exI [of _ 6]) (simp add: exec_eq sys_defs numeral_eq_Suc same_flags_def
        ioctl_ACCESIO_PCI_IRQ_WAIT_CANCEL_def io_simps)
qed

lemma notify_alone:
  assumes "lock_holder s = None" and "pcs s t = Idle" and "same_flags s st"
  shows "\<exists>n s'. exec_all perform (Interrupt t # replicate n (Exec t)) s = Some s'
    \<and> pcs s' t = N_done \<and> same_flags s' (snd (run_state accesio_notify_user st))"
proof (cases "waiting s = 0")
  case True
  with assms show ?thesis
    by (intro exI [of _ 3]) (simp add: exec_eq sys_defs numeral_eq_Suc same_flags_def notify_spec)
next
  case False
  with assms show ?thesis
    by (intro exI [of _ 5]) (simp add: exec_eq sys_defs numeral_eq_Suc same_flags_def notify_spec)
qed

text \<open>
  C24: a cancel that runs without interference returns what \<open>ioctl_ACCESIO_PCI_IRQ_WAIT_CANCEL\<close>
  returns and leaves the same flags; a notification that runs without interference leaves the flags
  that \<open>accesio_notify_user\<close> leaves.
\<close>

theorem cancel_and_notify_alone:
  assumes "lock_holder s = None" and "pcs s t = Idle"
    and "same_flags s (st :: 'u proc_state)"
  shows "(\<exists>n s'. exec_all perform (Start_cancel t # replicate n (Exec t)) s = Some s'
      \<and> pcs s' t = C_done (fst (run_state ioctl_ACCESIO_PCI_IRQ_WAIT_CANCEL st))
      \<and> same_flags s' (snd (run_state ioctl_ACCESIO_PCI_IRQ_WAIT_CANCEL st)))
    \<and> (\<exists>n s'. exec_all perform (Interrupt t # replicate n (Exec t)) s = Some s'
      \<and> pcs s' t = N_done \<and> same_flags s' (snd (run_state accesio_notify_user st)))"
  using cancel_alone [OF assms] notify_alone [OF assms] by blast

theorem cancel_and_notify_alone_witness:
  "\<exists>n s'. exec_all perform (Start_cancel 3 # replicate n (Exec 3)) (irq_init\<lparr>waiting := 1\<rparr>) = Some s'
     \<and> pcs s' 3 = C_done 0 \<and> waiting s' = 0 \<and> cancelled s' = 1"
proof -
  have "same_flags (irq_init\<lparr>waiting := 1\<rparr>) (sample_process blank_request)"
    by (simp add: same_flags_def irq_init_def sample_process_def sample_context_def)
  from cancel_and_notify_alone [OF _ _ this, of 3] show ?thesis
    by (simp add: irq_init_def same_flags_def sample_process_def sample_context_def irq_cancel_run)
qed

text \<open>
  C25: a wait that runs without interference, against \<open>ioctl_ACCESIO_PCI_IRQ_WAIT\<close>. While another
  process waits both fail with \<open>-EALREADY\<close> and leave the flags alone. Otherwise the thread sleeps, with
  \<^verbatim>\<open>waiting_for_irq\<close> 1 and \<^verbatim>\<open>irq_cancelled\<close> 0, and the function calls \<^verbatim>\<open>wait_event_interruptible\<close>, whatever
  that does, in a state with the same flags; the function ends in the state in which the sleep ends,
  and a thread let go in a state with that cancel flag returns what the function returns.
\<close>

theorem wait_alone:
  assumes "lock_holder s = None" and "pcs s t = Idle"
    and "same_flags s (st :: 'u proc_state)"
  shows "\<exists>n s'. exec_all perform (Start_wait t # replicate n (Exec t)) s = Some s'
    \<and> (if waiting s = 1
       then pcs s' t = W_done (- EALREADY) \<and> same_flags s' st
         \<and> (\<forall>K. fst (run_state (ioctl_ACCESIO_PCI_IRQ_WAIT K) st) = - EALREADY
              \<and> same_flags s' (snd (run_state (ioctl_ACCESIO_PCI_IRQ_WAIT K) st)))
       else pcs s' t = W_parked \<and> waiting s' = 1 \<and> cancelled s' = 0
         \<and> (\<exists>asleep. same_flags s' asleep \<and>
              (\<forall>K. let awake = snd (wait_event_interruptible K asleep);
                       (result, st') = run_state (ioctl_ACCESIO_PCI_IRQ_WAIT K) st
                   in st' = awake \<and>
                      (\<forall>s2. pcs s2 t = W_check
                         \<longrightarrow> cancelled s2 = irq_cancelled (dev_context awake)
                         \<longrightarrow> map_option (\<lambda>s3. pcs s3 t) (exec t s2) = Some (W_done result)))))"
proof (cases "waiting s = 1")
  case True
  with assms show ?thesis
    by (intro exI [of _ 3]) (simp add: exec_eq sys_defs numeral_eq_Suc same_flags_def irq_wait_run)
next
  case False
  let ?asleep = "st\<lparr>trace := trace st @ [Spin_lock, Spin_unlock],
    dev_context := (dev_context st)\<lparr>waiting_for_irq := 1, irq_cancelled := 0\<rparr>\<rparr>"
  obtain s' where s': "exec_all perform (Start_wait t # replicate 6 (Exec t)) s = Some s'"
    "pcs s' t = W_parked" "waiting s' = 1" "cancelled s' = 0"
    using False assms by (simp add: exec_eq sys_defs numeral_eq_Suc)
  have flags: "same_flags s' ?asleep" using s'(3,4) by (simp add: same_flags_def)
  have seq: "run_state (ioctl_ACCESIO_PCI_IRQ_WAIT K) st =
      (if irq_cancelled (dev_context (snd (wait_event_interruptible K ?asleep))) = 1
       then - ECANCELED else 0, snd (wait_event_interruptible K ?asleep))" for K
    using False assms(3) by (simp add: irq_wait_run same_flags_def Let_def)
  have check: "map_option (\<lambda>s3. pcs s3 t) (exec t s2) =
      Some (W_done (if cancelled s2 = 1 then - ECANCELED else 0))" if "pcs s2 t = W_check" for s2
    using that by (simp add: exec_eq sys_defs)
  have "let awake = snd (wait_event_interruptible K ?asleep);
         (result, st') = run_state (ioctl_ACCESIO_PCI_IRQ_WAIT K) st
       in st' = awake \<and> (\<forall>s2. pcs s2 t = W_check
            \<longrightarrow> cancelled s2 = irq_cancelled (dev_context awake)
            \<longrightarrow> map_option (\<lambda>s3. pcs s3 t) (exec t s2) = Some (W_done result))" for K
    unfolding seq Let_def split_conv by (intro conjI refl allI impI) (simp only: check)
  with flags s' False show ?thesis
    by (intro exI [of _ 6] exI [of _ s']) (simp only: if_False simp_thms, blast)
qed

theorem wait_alone_witness:
  "\<exists>n s'. exec_all perform (Start_wait 3 # replicate n (Exec 3)) irq_init = Some s'
     \<and> pcs s' 3 = W_parked \<and> waiting s' = 1 \<and> cancelled s' = 0"
proof -
  have "same_flags irq_init ((sample_process blank_request)\<lparr>dev_context :=
      sample_context\<lparr>waiting_for_irq := 0\<rparr>\<rparr>)"
    by (simp add: same_flags_def irq_init_def sample_process_def sample_context_def)
  from wait_alone [OF _ _ this, of 3] show ?thesis
    by (auto simp: irq_init_def)
qed

section \<open>Two wrong results\<close>
















end
