(* ===== verification/Irq_Progress.thy ===== *)
theory Irq_Progress
  imports Irq_Wait
begin

text \<open>
  Progress of the wait queue: how many statements the threads inside the driver can still execute,
  and the state they end in when nothing new arrives.
\<close>

section \<open>The work a thread has left\<close>

text \<open>
  \<open>rank\<close> is the most statements a thread can execute before it sleeps or has its result;
  \<open>wakes\<close> says whether it may still wake the queue, which costs every sleeper two statements.
\<close>

fun rank :: "pc \<Rightarrow> nat" where
  "rank W_lock = 7" | "rank W_test = 6" | "rank W_set_waiting = 5" | "rank W_set_cancelled = 4"
| "rank W_unlock = 3" | "rank W_eval = 2" | "rank W_check = 1" | "rank W_unlock_busy = 1"
| "rank C_lock = 6" | "rank C_test = 5" | "rank C_set_cancelled = 4" | "rank C_set_waiting = 3"
| "rank C_unlock = 2" | "rank C_wake = 1" | "rank C_unlock_idle = 1"
| "rank N_lock = 5" | "rank N_test = 4" | "rank N_set = 3" | "rank N_unlock = 2"
| "rank N_wake = 1" | "rank N_unlock_idle = 1"
| "rank p = 0"

fun wakes :: "pc \<Rightarrow> nat" where
  "wakes C_lock = 1" | "wakes C_test = 1" | "wakes C_set_cancelled = 1" | "wakes C_set_waiting = 1"
| "wakes C_unlock = 1" | "wakes C_wake = 1"
| "wakes N_lock = 1" | "wakes N_test = 1" | "wakes N_set = 1" | "wakes N_unlock = 1"
| "wakes N_wake = 1"
| "wakes p = 0"

definition inside :: "irq_sys \<Rightarrow> nat set" where
  "inside s = {t. pcs s t \<noteq> Idle}"

definition thread_work :: "nat \<Rightarrow> pc \<Rightarrow> nat" where
  "thread_work n p = rank p + wakes p * (2 * n)"

definition total_work :: "irq_sys \<Rightarrow> nat" where
  "total_work s = (\<Sum>t \<in> inside s. thread_work (Finite_Set.card (inside s)) (pcs s t))"

lemma thread_work_le: "thread_work n p \<le> 2 * n + 7"
  by (cases p) (simp_all add: thread_work_def)

lemma total_work_le: "total_work s \<le> Finite_Set.card (inside s) * (2 * Finite_Set.card (inside s) + 7)"
  unfolding total_work_def using sum_bounded_above [OF thread_work_le] by simp

text \<open>A statement moves its own thread on; the two that wake the queue move every sleeper back.\<close>

lemma exec_moves:
  assumes "exec t s = Some s'"
  shows "(\<exists>p. pcs s' = (pcs s)(t := p) \<and> pcs s t \<noteq> Idle \<and> p \<noteq> Idle
      \<and> rank p < rank (pcs s t) \<and> wakes p \<le> wakes (pcs s t))
    \<or> (\<exists>p. pcs s' = (\<lambda>i. if pcs s i = W_parked then W_eval else pcs s i)(t := p)
      \<and> p \<noteq> Idle \<and> rank p = 0 \<and> wakes p = 0 \<and> rank (pcs s t) = 1 \<and> wakes (pcs s t) = 1)"
  using assms by (cases "pcs s t") (auto simp: exec_eq sys_defs split: if_splits)

lemma exec_inside:
  assumes "exec t s = Some s'"
  shows "inside s' = inside s \<and> t \<in> inside s"
  using exec_moves [OF assms] by (auto simp: inside_def split: if_splits)

lemma exec_works:
  assumes fin: "finite (inside s)" and ex: "exec t s = Some s'"
  shows "total_work s' < total_work s"
proof -
  let ?A = "inside s" let ?n = "Finite_Set.card ?A"
  let ?f = "\<lambda>i. thread_work ?n (pcs s i)" let ?g = "\<lambda>i. thread_work ?n (pcs s' i)"
  have A: "inside s' = ?A" "t \<in> ?A" using exec_inside [OF ex] by auto
  have split: "sum h ?A = h t + sum h (?A - {t})" for h :: "nat \<Rightarrow> nat"
    using fin A(2) by (simp add: sum.remove)
  from exec_moves [OF ex] have "sum ?g ?A < sum ?f ?A"
  proof
    assume "\<exists>p. pcs s' = (pcs s)(t := p) \<and> pcs s t \<noteq> Idle \<and> p \<noteq> Idle
      \<and> rank p < rank (pcs s t) \<and> wakes p \<le> wakes (pcs s t)"
    then obtain p where p: "pcs s' = (pcs s)(t := p)" "rank p < rank (pcs s t)"
      "wakes p \<le> wakes (pcs s t)" by blast
    then have "?g t < ?f t"
      by (simp add: thread_work_def) (meson add_less_le_mono mult_le_mono1)
    moreover have "sum ?g (?A - {t}) = sum ?f (?A - {t})" using p(1) by (intro sum.cong) auto
    ultimately show ?thesis unfolding split [of ?g] split [of ?f] by simp
  next
    assume "\<exists>p. pcs s' = (\<lambda>i. if pcs s i = W_parked then W_eval else pcs s i)(t := p)
      \<and> p \<noteq> Idle \<and> rank p = 0 \<and> wakes p = 0 \<and> rank (pcs s t) = 1 \<and> wakes (pcs s t) = 1"
    then obtain p where p: "pcs s' = (\<lambda>i. if pcs s i = W_parked then W_eval else pcs s i)(t := p)"
      "rank p = 0" "wakes p = 0" "rank (pcs s t) = 1" "wakes (pcs s t) = 1" by blast
    have "sum ?g (?A - {t}) \<le> (\<Sum>i \<in> ?A - {t}. ?f i + 2)"
      using p(1) by (intro sum_mono) (auto simp: thread_work_def)
    also have "\<dots> = sum ?f (?A - {t}) + 2 * (?n - 1)"
      unfolding sum.distrib using fin A(2) by (simp add: card_Diff_singleton)
    finally have "sum ?g (?A - {t}) \<le> sum ?f (?A - {t}) + 2 * ?n" by simp
    moreover have "?g t = 0" "?f t = 1 + 2 * ?n" using p by (simp_all add: thread_work_def)
    ultimately show ?thesis unfolding split [of ?g] split [of ?f] by simp
  qed
  then show ?thesis by (simp add: total_work_def A)
qed

fun is_exec :: "label \<Rightarrow> bool" where
  "is_exec (Exec t) = True"
| "is_exec l = False"

interpretation irq_work: terminating_steps irq_step is_exec "\<lambda>s. finite (inside s)" total_work
proof
  fix s l s'
  assume "finite (inside s)" "is_exec l" "irq_step s l s'"
  then show "finite (inside s') \<and> total_work s' < total_work s"
    by (cases l) (auto elim!: exec_stepE simp: exec_works exec_inside)
qed

section \<open>Progress\<close>

lemma finite_inside_init: "finite (inside irq_init)"
  by (simp add: inside_def irq_init_def)

lemma finite_inside_step: "irq_step s l s' \<Longrightarrow> finite (inside s) \<Longrightarrow> finite (inside s')"
proof -
  assume step: "irq_step s l s'" and fin: "finite (inside s)"
  have "inside s' \<subseteq> insert (thread_of l) (inside s)"
    using other_thread [OF step] by (force simp: inside_def)
  with fin show ?thesis by (meson finite.insertI finite_subset)
qed

lemma finite_inside_run: "irq_run s ls t \<Longrightarrow> finite (inside s) \<Longrightarrow> finite (inside t)"
  by (erule run_invariant [where Q = "\<lambda>_. True" and I = "\<lambda>s. finite (inside s)"])
     (auto intro: finite_inside_step)

text \<open>The statements that can be blocked are those that take the lock.\<close>

lemma exec_blocked:
  "exec t s = None \<Longrightarrow>
     pcs s t \<in> {Idle, W_parked} \<or> returned (pcs s t) \<or> (\<exists>u. lock_holder s = Some u \<and> pcs s t \<in> {W_lock, C_lock, N_lock})"
  by (cases "pcs s t") (auto simp: exec_eq split: if_splits)

lemma critical_not_blocked: "critical (pcs s t) \<Longrightarrow> exec t s \<noteq> None"
  by (cases "pcs s t") (auto simp: exec_eq)

definition settled :: "irq_sys \<Rightarrow> bool" where
  "settled s \<longleftrightarrow> lock_holder s = None
     \<and> (\<forall>t. pcs s t = Idle \<or> returned (pcs s t) \<or> (pcs s t = W_parked \<and> waiting s = 1))"

lemma settled_blocked: "settled s \<Longrightarrow> exec t s = None"
  by (drule spec [where x = t, OF conjunct2 [OF settled_def [THEN iffD1]]])
     (cases "pcs s t"; auto simp: exec_eq)

lemma blocked_settled:
  assumes "irq_run irq_init ls s" and blocked: "\<And>t. exec t s = None"
  shows "settled s"
proof -
  have inv: "irq_inv s" using irq_inv_run [OF assms(1) irq_inv_init] .
  have free: "lock_holder s = None"
  proof (rule ccontr)
    assume "lock_holder s \<noteq> None"
    then obtain u where "lock_holder s = Some u" by blast
    with inv have "critical (pcs s u)" by (simp add: irq_inv_def irq_lock.lock_ok_def)
    then show False using critical_not_blocked blocked by blast
  qed
  have "waiting s = 1" if "pcs s t = W_parked" for t
  proof (rule ccontr)
    assume "waiting s \<noteq> 1"
    with inv have "waiting s = 0" by (auto simp: irq_inv_def)
    with wake_pending_run [OF assms(1) wake_pending_init] that obtain u where
      "waking (pcs s u)" by (auto simp: wake_pending_def)
    with blocked [of u] show False by (auto simp: waking_def exec_eq)
  qed
  with free exec_blocked [OF blocked] show ?thesis by (fastforce simp: settled_def)
qed

text \<open>
  C4: the driver's own statements come to an end: from any state reached by any interleaving, the
  threads that are inside the driver can execute at most \<open>n * (2 * n + 7)\<close> statements between them,
  \<open>n\<close> being their number, before a new call, interrupt or signal. No loop of wake-ups runs for
  ever, whatever the order of execution.
\<close>

theorem statements_bounded:
  assumes "irq_run irq_init ls0 s" and "irq_run s ls s'" and "\<forall>l \<in> set ls. is_exec l"
  shows "length ls \<le> Finite_Set.card (inside s) * (2 * Finite_Set.card (inside s) + 7)"
proof -
  have "finite (inside s)" using finite_inside_run [OF assms(1) finite_inside_init] .
  from irq_work.run_work [OF assms(2) this assms(3)] total_work_le [of s] show ?thesis by linarith
qed

theorem statements_bounded_witness:
  "\<exists>s s'. irq_run irq_init [Start_wait 0] s \<and> irq_run s (replicate 6 (Exec 0)) s'
     \<and> Finite_Set.card (inside s) = 1 \<and> length (replicate 6 (Exec 0)) \<le> (9 :: nat)"
proof -
  obtain s where ex0: "exec_all perform [Start_wait 0] irq_init = Some s"
    and s: "s = goto 0 W_lock irq_init" by simp (simp add: irq_init_def)
  have i: "inside s = {0}" by (auto simp: s inside_def sys_defs irq_init_def)
  obtain s' where ex: "exec_all perform (replicate 6 (Exec 0)) s = Some s'"
    by (simp add: s irq_init_def sys_defs exec_eq numeral_eq_Suc)
  have "\<forall>l \<in> set (replicate 6 (Exec 0)). is_exec l" by simp
  from statements_bounded [OF schedule_run [OF ex0] schedule_run [OF ex] this]
    schedule_run [OF ex0] schedule_run [OF ex] i show ?thesis by auto
qed

text \<open>
  C3: no call is stuck: from any state reached by any interleaving, the threads inside the driver
  have an execution, without any new call, interrupt or signal, after which the lock is free and
  every one of them has its result or sleeps while \<^verbatim>\<open>waiting_for_irq\<close> is 1, that is, for an event
  that has not happened. And every order of execution ends there: a state in which no thread can
  execute a statement is such a state.
\<close>

theorem calls_settle:
  assumes "irq_run irq_init ls0 s"
  shows "(\<exists>ls s'. irq_run s ls s' \<and> (\<forall>l \<in> set ls. is_exec l) \<and> settled s')
    \<and> (\<forall>ls s'. irq_run s ls s' \<longrightarrow> (\<forall>t. exec t s' = None) \<longrightarrow> settled s')"
proof
  have "finite (inside s)" using finite_inside_run [OF assms finite_inside_init] .
  from irq_work.run_settles [OF this] obtain ls s' where
    r: "irq_run s ls s'" "\<forall>l \<in> set ls. is_exec l" "\<forall>l u. is_exec l \<longrightarrow> \<not> irq_step s' l u"
    by blast
  have "exec t s' = None" for t
    using r(3) irq_step.exec [of t s'] by (cases "exec t s'") force+
  with blocked_settled [OF run_append [OF assms r(1)]] r(1,2)
  show "\<exists>ls s'. irq_run s ls s' \<and> (\<forall>l \<in> set ls. is_exec l) \<and> settled s'" by blast
  show "\<forall>ls s'. irq_run s ls s' \<longrightarrow> (\<forall>t. exec t s' = None) \<longrightarrow> settled s'"
    using blocked_settled run_append [OF assms] by blast
qed

theorem calls_settle_witness:
  "\<exists>s ls s'. irq_run irq_init [Start_wait 0, Start_cancel 1, Interrupt 2] s \<and> irq_run s ls s'
     \<and> settled s'"
proof -
  obtain s where ex: "exec_all perform [Start_wait 0, Start_cancel 1, Interrupt 2] irq_init = Some s"
    by (simp add: irq_init_def sys_defs)
  from calls_settle [OF schedule_run [OF ex]] schedule_run [OF ex] show ?thesis by blast
qed

end
