(* ===== verification/Style_Equivalence.thy ===== *)
theory Style_Equivalence
  imports Irq_Properties Register_Actions
begin

text \<open>
  The functions of the driver against the style table they were written from: which enable, disable
  and acknowledge as the table says of their style, on every card and in every state, and which do
  not. The table's operations are run by the interpreter of \<^theory_text>\<open>Register_Actions\<close>; the old module has no
  interrupt handler to compare with.
\<close>

section \<open>The handlers the table describes\<close>

text \<open>The style of a handler, and the table entry of an enable or disable function, by name.\<close>

fun style_of_isr :: "irq_handler \<Rightarrow> aio_irq_descriptor" where
  "style_of_isr Isr_pci_1 = PCI_1_STYLE"
| "style_of_isr Isr_pci_2 = PCI_2_STYLE"
| "style_of_isr Isr_pci_3 = PCI_3_STYLE"
| "style_of_isr Isr_pci_4 = PCI_4_STYLE"
| "style_of_isr Isr_pci_5 = PCI_5_STYLE"
| "style_of_isr Isr_pci_6 = PCI_6_STYLE"
| "style_of_isr Isr_pci_7 = PCI_7_STYLE"
| "style_of_isr Isr_pci_8 = PCI_8_STYLE"
| "style_of_isr Isr_pci_9 = PCI_9_STYLE"
| "style_of_isr Isr_pci_10 = PCI_10_STYLE"
| "style_of_isr Isr_pci_12 = PCI_12_STYLE"
| "style_of_isr Isr_pci_13 = PCI_13_STYLE"
| "style_of_isr Isr_pcie_1 = PCIE_1_STYLE"
| "style_of_isr Isr_pcie_2 = PCIE_2_STYLE"
| "style_of_isr Isr_pcie_3 = PCIE_3_STYLE"
| "style_of_isr Isr_pcie_4 = PCIE_4_STYLE"
| "style_of_isr Isr_pcie_6 = PCIE_6_STYLE"
| "style_of_isr Isr_pcie_7 = PCIE_7_STYLE"
| "style_of_isr Isr_pcie_8 = PCIE_8_STYLE"
| "style_of_isr Isr_adio16f = NYI"

fun table_operation :: "register_operation_fn \<Rightarrow> register_operation" where
  "table_operation Enable_pci_1 = old_Enable PCI_1_STYLE"
| "table_operation Enable_pci_2 = old_Enable PCI_2_STYLE"
| "table_operation Enable_pci_3 = old_Enable PCI_3_STYLE"
| "table_operation Enable_pci_4 = old_Enable PCI_4_STYLE"
| "table_operation Enable_pci_5 = old_Enable PCI_5_STYLE"
| "table_operation Enable_pci_6 = old_Enable PCI_6_STYLE"
| "table_operation Enable_pci_7 = old_Enable PCI_7_STYLE"
| "table_operation Enable_pci_8 = old_Enable PCI_8_STYLE"
| "table_operation Enable_pci_9 = old_Enable PCI_9_STYLE"
| "table_operation Enable_pci_10 = old_Enable PCI_10_STYLE"
| "table_operation Enable_pci_12 = old_Enable PCI_12_STYLE"
| "table_operation Enable_pci_13 = old_Enable PCI_13_STYLE"
| "table_operation Enable_pcie_1 = old_Enable PCIE_1_STYLE"
| "table_operation Enable_pcie_2 = old_Enable PCIE_2_STYLE"
| "table_operation Enable_pcie_3 = old_Enable PCIE_3_STYLE"
| "table_operation Enable_pcie_4 = old_Enable PCIE_4_STYLE"
| "table_operation Enable_pcie_6 = old_Enable PCIE_6_STYLE"
| "table_operation Enable_pcie_7 = old_Enable PCIE_7_STYLE"
| "table_operation Enable_pcie_8 = old_Enable PCIE_8_STYLE"
| "table_operation Enable_adio16f = old_Enable NYI"
| "table_operation Disable_pci_1 = old_disable PCI_1_STYLE"
| "table_operation Disable_pci_2 = old_disable PCI_2_STYLE"
| "table_operation Disable_pci_3 = old_disable PCI_3_STYLE"
| "table_operation Disable_pci_4 = old_disable PCI_4_STYLE"
| "table_operation Disable_pci_5 = old_disable PCI_5_STYLE"
| "table_operation Disable_pci_6 = old_disable PCI_6_STYLE"
| "table_operation Disable_pci_8 = old_disable PCI_8_STYLE"
| "table_operation Disable_pci_9 = old_disable PCI_9_STYLE"
| "table_operation Disable_pci_10 = old_disable PCI_10_STYLE"
| "table_operation Disable_pci_12 = old_disable PCI_12_STYLE"
| "table_operation Disable_pci_13 = old_disable PCI_13_STYLE"
| "table_operation Disable_pcie_1 = old_disable PCIE_1_STYLE"
| "table_operation Disable_pcie_2 = old_disable PCIE_2_STYLE"
| "table_operation Disable_pcie_3 = old_disable PCIE_3_STYLE"
| "table_operation Disable_pcie_4 = old_disable PCIE_4_STYLE"
| "table_operation Disable_pcie_6 = old_disable PCIE_6_STYLE"
| "table_operation Disable_pcie_8 = old_disable PCIE_8_STYLE"
| "table_operation Disable_pcie_5 = old_disable PCIE_5_STYLE"
| "table_operation Disable_adio16f = old_disable NYI"

text \<open>
  The acknowledgement of a style: its \<open>Clear\<close> operation, or, where it has none, disable and then
  enable (the rule the comment in \<^verbatim>\<open>interrupt_pci_style_2\<close> states).
\<close>

definition table_ack :: "aio_irq_descriptor \<Rightarrow> register_operation list" where
  "table_ack d = (if action (old_Clear d) = REGISTER_ACTION_NONE
                  then [old_disable d, old_Enable d] else [old_Clear d])"

fun run_actions :: "device \<Rightarrow> addr list \<Rightarrow> register_operation list
    \<Rightarrow> ('a driver_state_scheme, unit) state" where
  "run_actions D bases [] = State_Monad.return ()"
| "run_actions D bases (op # ops) = do {
     _ \<leftarrow> aio_driver_register_action D bases op;
     run_actions D bases ops }"

definition run_table_operation :: "device \<Rightarrow> register_operation
    \<Rightarrow> ('a driver_state_scheme, unit) state" where
  "run_table_operation D op = do {
     c \<leftarrow> accesio_handler_ddata;
     run_actions D (bar_bases c) [op] }"

section \<open>Running a table entry\<close>

lemma testbits_bit:
  fixes v :: u8
  shows "(ucast v XOR 0xFF) AND 4 = (0 :: u32) \<longleftrightarrow> v AND 4 \<noteq> 0"
    and "(ucast v XOR 0xFF) AND 0x80 = (0 :: u32) \<longleftrightarrow> v AND 0x80 \<noteq> 0"
  by (simp_all add: and_4_eq_0 and_128_eq_0 bit_simps)

lemmas action_defs = register_action_body_def aio_driver_register_action_def op_addr_def
  op_base_def c_not_def testbits_bit

text \<open>The acknowledgement of an entry, in the vocabulary of the handlers' contract.\<close>

definition table_ops :: "aio_irq_descriptor \<Rightarrow> reg_op list" where
  "table_ops d = map (\<lambda>op. case action op of
       REGISTER_ACTION_READ_8 \<Rightarrow> RegRead8 (ucast (op_offset op))
     | REGISTER_ACTION_WRITE_8 \<Rightarrow> RegWrite8 (ucast (op_offset op)) (ucast (op_value op))
     | _ \<Rightarrow> RegWrite32 (ucast (op_offset op)) (op_value op)) (table_ack d)"

lemma run_table_ack:
  assumes "h \<noteq> Isr_adio16f"
  shows "run_state (run_actions D (bar_bases (dev_context s)) (table_ack (style_of_isr h))) s =
    ((), s\<lparr>trace := trace s @
       reg_ops_events D (bar_bases (dev_context s) ! 2) (trace s) (table_ops (style_of_isr h))\<rparr>)"
  using assms
  by (cases h) (simp_all add: table_defs action_defs table_ack_def table_ops_def io_simps Let_def)

lemma table_ops_style:
  "h \<noteq> Isr_adio16f \<Longrightarrow>
     table_ops (style_of_isr h) = ack_ops h \<longleftrightarrow> h \<notin> {Isr_pci_1, Isr_pci_2, Isr_pci_3, Isr_pci_9}"
  by (cases h) (simp_all add: table_ops_def table_ack_def table_defs)

text \<open>
  The pattern a \<^verbatim>\<open>TESTBITS\<close> operation asks for (\<^verbatim>\<open>register-actions.h\<close>: it is true if the masked bits'
  pattern matches), and where the entries of the two families keep the latch: the same BAR, 1.
\<close>

definition pattern_matches :: "register_operation \<Rightarrow> u8 \<Rightarrow> bool" where
  "pattern_matches op v \<longleftrightarrow> (ucast v XOR op_value op) AND op_mask op = 0"

lemma latch_pattern:
  "h \<noteq> Isr_adio16f \<Longrightarrow> pattern_matches (old_test_latched (style_of_isr h))
       (ucast (D (trace s) 1 (latch_reg_addr h (dev_context s)))) \<longleftrightarrow> latch_set h D s"
  by (cases h) (simp_all add: pattern_matches_def table_defs testbits_bit latch_defs)

lemma table_latch_addr:
  "h \<noteq> Isr_adio16f \<Longrightarrow> op_addr (bar_bases c) (old_test_latched (style_of_isr h)) =
     bar_bases c ! 1 + (if is_pcie h then 0x69 else 0x4c)"
  by (cases h) (simp_all add: table_defs op_addr_def op_base_def)

section \<open>Which functions agree with the table\<close>

text \<open>
  C6: the nineteen handlers that test a latch, against the table entry of their style. (1) The handler
  claims the interrupt exactly when the byte it reads first matches the pattern of the entry. (2) It
  reads that byte from the register the entry names exactly when it is a PCIe handler: the twelve PCI
  handlers read BAR 0 where the entry says BAR 1. (3) When it claims, the accesses it then makes are
  those of the entry's acknowledgement, run by the old module's interpreter, for every style but four:
  PCI styles 1 (claims without clearing), 2 (re-arms at the wrong address), 3 (re-arms, the table
  only clears) and 9 (clears a register the table does not name), which always differ.
\<close>

theorem handler_matches_table_iff:
  assumes "h \<noteq> Isr_adio16f"
  shows "\<exists>a. let d = style_of_isr h; c = dev_context s;
      v = ucast (D (trace s) 1 a); s1 = s\<lparr>trace := trace s @ [Read8 a v]\<rparr>;
      (r, s') = run_state (call_isr h D) s
    in hd (new_events (call_isr h D) s) = Read8 a v
     \<and> (r = IRQ_HANDLED \<longleftrightarrow> pattern_matches (old_test_latched d) v)
     \<and> (bar_bases c ! 0 \<noteq> bar_bases c ! 1 \<longrightarrow>
          (a = op_addr (bar_bases c) (old_test_latched d) \<longleftrightarrow> is_pcie h))
     \<and> (r = IRQ_HANDLED \<longrightarrow>
          (s' = snd (run_state (run_actions D (bar_bases c) (table_ack d)) s1)
            \<longleftrightarrow> h \<notin> {Isr_pci_1, Isr_pci_2, Isr_pci_3, Isr_pci_9}))"
proof -
  let ?c = "dev_context s" let ?a = "latch_reg_addr h ?c"
  let ?s1 = "s\<lparr>trace := trace s @ [Read8 ?a (ucast (D (trace s) 1 ?a))]\<rparr>"
  have upd: "s\<lparr>trace := t\<rparr> = s\<lparr>trace := t'\<rparr> \<longleftrightarrow> t = t'" for t t'
    by (metis driver_state.select_convs(1) driver_state.surjective driver_state.update_convs(1))
  have "run_state (run_actions D (bar_bases ?c) (table_ack (style_of_isr h))) ?s1 =
    ((), s\<lparr>trace := trace ?s1 @ reg_ops_events D (bar_bases ?c ! 2) (trace ?s1) (table_ops (style_of_isr h))\<rparr>)"
    using run_table_ack [OF assms, of D ?s1] by simp
  moreover have "bar_bases ?c ! 0 \<noteq> bar_bases ?c ! 1 \<longrightarrow>
      (?a = op_addr (bar_bases ?c) (old_test_latched (style_of_isr h)) \<longleftrightarrow> is_pcie h)"
    by (simp add: table_latch_addr [OF assms] latch_defs)
  ultimately show ?thesis
    using latch_pattern [OF assms, of D s] table_ops_style [OF assms] assms
    by (intro exI [of _ ?a]) (auto simp: call_isr_spec new_events_def upd Let_def)
qed

theorem handler_matches_table_iff_witness:
  "snd (run_state (call_isr Isr_pci_6 latched_card) sample_state) =
     snd (run_state (run_actions latched_card (bar_bases sample_context) (table_ack PCI_6_STYLE))
       (sample_state\<lparr>trace := [Read8 0x1004c 0xff]\<rparr>))
   \<and> 0x1004c \<noteq> op_addr (bar_bases sample_context) (old_test_latched PCI_6_STYLE)"
proof -
  let ?h = "call_isr Isr_pci_6 latched_card"
  have first: "hd (new_events ?h sample_state) = Read8 0x1004c 0xff"
    by (simp add: style_defs io_simps new_events_def sample_defs)
  have claims: "fst (run_state ?h sample_state) = IRQ_HANDLED"
    by (simp add: style_defs io_simps sample_defs)
  have bars: "bar_bases (dev_context sample_state) = bar_bases sample_context"
    "bar_bases sample_context ! 0 \<noteq> bar_bases sample_context ! 1" "trace sample_state = []"
    by (simp_all add: sample_defs)
  from handler_matches_table_iff [of Isr_pci_6 sample_state latched_card] obtain a where
    a: "hd (new_events ?h sample_state) = Read8 a (ucast (latched_card (trace sample_state) 1 a))"
      "a \<noteq> op_addr (bar_bases sample_context) (old_test_latched PCI_6_STYLE)"
      "snd (run_state ?h sample_state) = snd (run_state
         (run_actions latched_card (bar_bases sample_context) (table_ack PCI_6_STYLE))
         (sample_state\<lparr>trace := trace sample_state @
            [Read8 a (ucast (latched_card (trace sample_state) 1 a))]\<rparr>))"
    using claims bars(1,2) by (auto simp: Let_def split_beta simp del: call_isr.simps)
  from trans [OF a(1) [symmetric] first]
  have "a = 0x1004c \<and> (ucast (latched_card (trace sample_state) 1 a) :: u8) = 0xff"
    by (rule io_event.inject(1) [THEN iffD1])
  note v = conjunct1 [OF this] conjunct2 [OF this]
  from a(2,3) show ?thesis
    unfolding v(2) unfolding v(1) bars(3) by (simp only: append_Nil simp_thms)
qed

text \<open>
  C7: an enable or disable function of a style of the table (not the two ADIO16F stubs, whose style it
  lacks) does exactly the table's operation, with four exceptions that
  always differ from it: enabling PCI style 2 (31 bytes below BAR 2 for 31 above), disabling PCI
  style 8 (nothing), PCI style 9 (another register) and PCIe style 3 (the context's own pointer
  to BAR 2 for the card's register). The hypothesis keeps the context out of the card's registers.
\<close>

theorem operation_matches_table_iff:
  assumes "f \<notin> {Enable_adio16f, Disable_adio16f}"
    and "bar_bases_addr (dev_context s) + 0x10 \<noteq> bar_bases (dev_context s) ! 2 + 0x02"
  shows "run_state (call_register_operation f D) s =
         run_state (run_table_operation D (table_operation f)) s
     \<longleftrightarrow> f \<notin> {Enable_pci_2, Disable_pci_8, Disable_pci_9, Disable_pcie_3}"
proof -
  have upd: "s\<lparr>trace := t\<rparr> = s\<lparr>trace := t'\<rparr> \<longleftrightarrow> t = t'" for t t'
    by (metis driver_state.select_convs(1) driver_state.surjective driver_state.update_convs(1))
  have id: "s = s\<lparr>trace := trace s @ es\<rparr> \<longleftrightarrow> es = []" for es
    by (metis append_self_conv driver_state.select_convs(1) driver_state.surjective
        driver_state.update_convs(1))
  have ctx: "dev_context_update g (s\<lparr>trace := t\<rparr>) = s\<lparr>trace := t'\<rparr>
      \<longleftrightarrow> t = t' \<and> g (dev_context s) = dev_context s" for t t' g
    by (cases s) auto
  show ?thesis using assms
    by (cases f)
      (simp_all add: upd id ctx run_table_operation_def style_defs table_defs action_defs io_simps Let_def)
qed

text \<open>
  What disabling PCIe style 3 does instead: it moves the driver's own pointer to BAR 2 down to a
  multiple of 256, so that every later access of the card goes there.
\<close>

lemma pcie_3_disable_moves_bar_2:
  assumes "2 < length (bar_bases (dev_context s))"
  shows "bar_bases (dev_context (snd (run_state (disable_pcie_style_3 D) s))) ! 2
    = bar_bases (dev_context s) ! 2 AND NOT 0xff"
  using assms by (simp add: style_defs io_simps set_low_byte_def)

theorem operation_matches_table_iff_witness:
  "run_state (call_register_operation Disable_pcie_6 quiet_card) sample_state =
     run_state (run_table_operation quiet_card (old_disable PCIE_6_STYLE)) sample_state
   \<and> run_state (call_register_operation Disable_pcie_3 quiet_card) sample_state \<noteq>
     run_state (run_table_operation quiet_card (old_disable PCIE_3_STYLE)) sample_state"
proof -
  have h: "bar_bases_addr (dev_context sample_state) + 0x10 \<noteq>
      bar_bases (dev_context sample_state) ! 2 + 0x02"
    by (simp add: sample_defs)
  show ?thesis
    using operation_matches_table_iff [OF _ h, of Disable_pcie_6 quiet_card]
      operation_matches_table_iff [OF _ h, of Disable_pcie_3 quiet_card]
    by simp
qed

end
