(* ===== verification/Pci_Driver.thy ===== *)
theory Pci_Driver
  imports Table_Check "HOL-Library.Multiset"
begin

text \<open>
  The pci_driver_ops region of \<^verbatim>\<open>module/accesio_pci.c\<close> and module load and unload: probe, remove,
  init and exit as functions from what the kernel's services answer to a status and the resources
  taken and given back.

  The services are not code of the repository: what each one answers in a call is a field of
  \<open>probe_env\<close> or \<open>init_env\<close>. A successful call that takes or gives back a resource is an entry of a
  log, in the order of the calls, and \<open>held\<close> is what the log leaves outstanding.
\<close>

section \<open>Resources\<close>

datatype resource =
    R_enabled | R_regions | R_context | R_mapping addr | R_irq | R_isr_context
  | R_cdev nat | R_node nat | R_chrdev_region | R_class | R_driver

datatype kcall = Acquire resource | Release resource | Init_irq_lock | Init_wait_queue

fun held :: "kcall list \<Rightarrow> resource multiset" where
  "held [] = {#}"
| "held (Acquire r # cs) = add_mset r (held cs)"
| "held (c # cs) = held cs"

fun released :: "kcall list \<Rightarrow> resource multiset" where
  "released [] = {#}"
| "released (Release r # cs) = add_mset r (released cs)"
| "released (c # cs) = released cs"

definition outstanding :: "kcall list \<Rightarrow> resource multiset" where
  "outstanding cs = held cs - released cs"

lemma held_append [simp]: "held (xs @ ys) = held xs + held ys"
  by (induction xs rule: held.induct) auto

lemma released_append [simp]: "released (xs @ ys) = released xs + released ys"
  by (induction xs rule: released.induct) auto

section \<open>Probe\<close>

abbreviation IORESOURCE_IO :: u64 where "IORESOURCE_IO \<equiv> 0x100"
abbreviation IORESOURCE_MEM :: u64 where "IORESOURCE_MEM \<equiv> 0x200"

text \<open>
  \<^verbatim>\<open>union accesio_pci_isr_context\<close> has one member, the context of the DMA cards. Of its lock it matters
  whether it has been initialised.
\<close>

record dma_isr_context =
  dma_addr :: u64
  dma_virt_addr :: addr
  dma_last_buffer :: int
  dma_first_valid :: int
  dma_num_slots :: int
  dma_slot_size :: u64
  dma_data_discarded :: int
  dma_data_lock :: bool

text \<open>
  What the kernel answers: a status is 0 or a negative error, a pointer is 0 for \<^verbatim>\<open>NULL\<close>.
  \<open>kmalloc_isr_context\<close> is the block of \<^verbatim>\<open>kmalloc\<close>, with whatever it contains, or \<^verbatim>\<open>NULL\<close>.
\<close>

record probe_env =
  pci_enable_device :: int
  pci_request_regions :: int
  kzalloc_context :: bool
  pci_resource_flags :: "nat \<Rightarrow> u64"
  pci_iomap :: "nat \<Rightarrow> addr"
  request_irq :: "irq_handler option \<Rightarrow> int"
  kmalloc_isr_context :: "dma_isr_context option"
  cdev_add :: int
  device_create :: int

text \<open>The fields of the card's context that probe sets; \<^verbatim>\<open>kzalloc\<close> clears them.\<close>

record probe_context =
  ctx_descriptor :: "accesio_pci_device_descriptor option"
  ctx_bar_bases :: "addr list"
  ctx_default_bar :: nat
  ctx_isr_context :: "dma_isr_context option"
  ctx_dev :: nat

definition zeroed_context :: probe_context where
  "zeroed_context = \<lparr>ctx_descriptor = None, ctx_bar_bases = replicate PCI_STD_NUM_BARS 0,
     ctx_default_bar = 0, ctx_isr_context = None, ctx_dev = 0\<rparr>"

text \<open>
  The log, the \<^verbatim>\<open>drvdata\<close> pointer of the PCI device (the context), and the static
  \<^verbatim>\<open>accesio_char_next_minor\<close>.
\<close>

record pci_state =
  calls :: "kcall list"
  drvdata :: "probe_context option"
  next_minor :: nat

definition call :: "kcall \<Rightarrow> pci_state \<Rightarrow> pci_state" where
  "call c s = s\<lparr>calls := calls s @ [c]\<rparr>"

text \<open>One turn of the loop over the BARs, and the loop.\<close>

definition map_bar :: "probe_env \<Rightarrow> nat \<Rightarrow> probe_context \<times> kcall list \<Rightarrow> probe_context \<times> kcall list" where
  "map_bar E i x = (case x of (context, cs) \<Rightarrow>
     let flags = pci_resource_flags E i;
         (context, cs) =
           (if flags AND (IORESOURCE_IO OR IORESOURCE_MEM) \<noteq> 0
            then (context\<lparr>ctx_bar_bases := (ctx_bar_bases context)[i := pci_iomap E i]\<rparr>,
                  if pci_iomap E i = 0 then cs else cs @ [Acquire (R_mapping (pci_iomap E i))])
            else (context, cs))
     in if flags AND IORESOURCE_IO \<noteq> 0 then (context\<lparr>ctx_default_bar := 1\<rparr>, cs)
        else (context, cs))"

definition map_bars :: "probe_env \<Rightarrow> probe_context \<Rightarrow> probe_context \<times> kcall list" where
  "map_bars E context = fold (map_bar E) [0..<PCI_STD_NUM_BARS] (context, [])"

text \<open>The cards whose default BAR is fixed by the device id.\<close>

definition bar_override :: "u32 \<Rightarrow> bool" where
  "bar_override p \<longleftrightarrow> p \<in> {0xc2e8, 0xc2e9, 0xc2ea, 0x82e8, 0x82e9, 0x82ea,
     0xc258, 0xc259, 0xc25a, 0x8258, 0x8259, 0x825a, 0x1100, 0xc2ef}"

text \<open>
  The end of probe, from \<^verbatim>\<open>request_irq\<close> on, for a context whose descriptor is \<open>d\<close>. \<open>None\<close> is a
  dereference of \<^verbatim>\<open>NULL\<close>: the ISR context is used without a check. The labels
  \<^verbatim>\<open>err_request_irq\<close> to \<^verbatim>\<open>err_enable\<close> release nothing.
\<close>

definition probe_tail :: "probe_env \<Rightarrow> accesio_pci_device_descriptor \<Rightarrow> probe_context
    \<Rightarrow> pci_state \<Rightarrow> int option \<times> pci_state" where
  "probe_tail E d context s =
     (let status = request_irq E (isr d);
          s = (if status = 0 then call (Acquire R_irq) s else s);
          s = call Init_wait_queue (call Init_irq_lock s)
      in if status \<noteq> 0 then (Some status, s\<lparr>drvdata := Some context\<rparr>)
         else if has_dma d \<and> kmalloc_isr_context E = None
         then (None, s\<lparr>drvdata := Some context\<rparr>)
         else
           let (context, s) =
                 (if has_dma d
                  then (context\<lparr>ctx_isr_context :=
                          map_option (dma_data_lock_update (\<lambda>_. True)) (kmalloc_isr_context E)\<rparr>,
                        call (Acquire R_isr_context) s)
                  else (context, s));
               context = context\<lparr>ctx_dev := next_minor s\<rparr>;
               s = (if cdev_add E = 0 then call (Acquire (R_cdev (ctx_dev context))) s else s);
               s = s\<lparr>drvdata := Some context\<rparr>
           in if device_create E \<noteq> 0 then (Some status, s)
              else (Some status,
                    (call (Acquire (R_node (ctx_dev context))) s)\<lparr>next_minor := next_minor s + 1\<rparr>))"

definition accesio_pci_driver_probe :: "probe_env \<Rightarrow> u32 \<Rightarrow> pci_state \<Rightarrow> int option \<times> pci_state" where
  "accesio_pci_driver_probe E device s =
     (if pci_enable_device E \<noteq> 0 then (Some (pci_enable_device E), s)
      else let s = call (Acquire R_enabled) s
      in if pci_request_regions E \<noteq> 0 then (Some (pci_request_regions E), s)
      else let s = call (Acquire R_regions) s
      in if \<not> kzalloc_context E then (Some (- ENOMEM), s)
      else let s = (call (Acquire R_context) s)\<lparr>drvdata := Some zeroed_context\<rparr>
      in case find_descriptor device of
           None \<Rightarrow> (Some (- EPERM), s)
         | Some d \<Rightarrow>
             let (context, maps) = map_bars E (zeroed_context\<lparr>ctx_descriptor := Some d\<rparr>);
                 s = s\<lparr>calls := calls s @ maps\<rparr>;
                 context = (if bar_override (pid d) then context\<lparr>ctx_default_bar := 2\<rparr> else context)
             in probe_tail E d context s)"

section \<open>Remove and power management\<close>

text \<open>\<open>present\<close> is whether the \<^verbatim>\<open>struct pci_dev\<close> pointer is not \<^verbatim>\<open>NULL\<close>.\<close>

definition accesio_pci_driver_remove :: "bool \<Rightarrow> pci_state \<Rightarrow> pci_state" where
  "accesio_pci_driver_remove present s =
     (if \<not> present then s
      else case drvdata s of
        None \<Rightarrow> s
      | Some context \<Rightarrow>
          let s = call (Release R_irq) s;
              s = s\<lparr>calls := calls s @
                    map (\<lambda>a. Release (R_mapping a)) (filter (\<lambda>a. a \<noteq> 0) (ctx_bar_bases context))\<rparr>;
              s = call (Release R_regions) s;
              s = call (Release (R_node (ctx_dev context))) s;
              s = call (Release R_context) s
          in s\<lparr>drvdata := None\<rparr>)"

definition accesio_pci_driver_suspend :: "pci_state \<Rightarrow> int \<times> pci_state" where
  "accesio_pci_driver_suspend s = (0, s)"

definition accesio_pci_driver_resume :: "pci_state \<Rightarrow> int \<times> pci_state" where
  "accesio_pci_driver_resume s = (0, s)"

definition accesio_pci_driver_shutdown :: "pci_state \<Rightarrow> pci_state" where
  "accesio_pci_driver_shutdown s = s"

section \<open>Module load and unload\<close>

record init_env =
  alloc_chrdev_region :: "int \<times> nat"
  class_create :: int
  pci_register_driver :: int

record module_state =
  mcalls :: "kcall list"
  accesio_char_major :: nat
  accesio_char_class :: bool

definition mcall :: "kcall \<Rightarrow> module_state \<Rightarrow> module_state" where
  "mcall c s = s\<lparr>mcalls := mcalls s @ [c]\<rparr>"

text \<open>
  \<open>accesio_char_class\<close> is whether the static pointer is not \<^verbatim>\<open>NULL\<close>; a failed \<^verbatim>\<open>class_create\<close> leaves an
  error pointer in it.
\<close>

definition accesio_pci_init :: "init_env \<Rightarrow> accesio_pci_device_descriptor list \<Rightarrow> pci_device_id list
    \<Rightarrow> module_state \<Rightarrow> int \<times> module_state" where
  "accesio_pci_init E descriptors ids s =
     (if check_tables descriptors ids \<noteq> Some True then (- 1, s)
      else if fst (alloc_chrdev_region E) \<noteq> 0 then (- 1, s)
      else let s = (mcall (Acquire R_chrdev_region) s)
                     \<lparr>accesio_char_major := snd (alloc_chrdev_region E), accesio_char_class := True\<rparr>
      in if class_create E \<noteq> 0 then (- 1, s)
      else let s = mcall (Acquire R_class) s
      in if pci_register_driver E \<noteq> 0 then (- 1, s)
      else (0, mcall (Acquire R_driver) s))"

definition accesio_pci_exit :: "module_state \<Rightarrow> module_state" where
  "accesio_pci_exit s =
     (mcall (Release R_class) (mcall (Release R_chrdev_region) (mcall (Release R_driver) s)))
       \<lparr>accesio_char_class := False\<rparr>"

text \<open>The permissions of the device node: the module parameter, when it is set.\<close>

definition accesio_pci_devnode :: "int \<Rightarrow> int option \<Rightarrow> int option" where
  "accesio_pci_devnode dev_mode mode =
     (case mode of None \<Rightarrow> None | Some m \<Rightarrow> Some (if dev_mode \<noteq> 0 then dev_mode else m))"

end
