(* ===== verification/Pci_Properties.thy ===== *)
theory Pci_Properties
  imports Pci_Driver Transition_Systems
begin

text \<open>
  What probe, remove, init and exit guarantee about the resources of a card and of the module: the
  BARs of a bound card, what a binding holds and an unbinding gives back, and when the handler can
  run.
\<close>

section \<open>The loop over the BARs\<close>

definition bars_of :: "probe_env \<Rightarrow> addr list" where
  "bars_of E = map (\<lambda>i. if pci_resource_flags E i AND (IORESOURCE_IO OR IORESOURCE_MEM) \<noteq> 0
     then pci_iomap E i else 0) [0..<PCI_STD_NUM_BARS]"

definition mapped :: "addr list \<Rightarrow> addr list" where
  "mapped bs = filter (\<lambda>a. a \<noteq> 0) bs"

definition maps_of :: "probe_env \<Rightarrow> kcall list" where
  "maps_of E = map (\<lambda>a. Acquire (R_mapping a)) (mapped (bars_of E))"

definition unmaps_of :: "addr list \<Rightarrow> kcall list" where
  "unmaps_of bs = map (\<lambda>a. Release (R_mapping a)) (mapped bs)"

definition has_io_bar :: "probe_env \<Rightarrow> bool" where
  "has_io_bar E \<longleftrightarrow> (\<exists>i<PCI_STD_NUM_BARS. pci_resource_flags E i AND IORESOURCE_IO \<noteq> 0)"

lemma map_bars_upto:
  assumes "n \<le> length (ctx_bar_bases c)"
  shows "fold (map_bar E) [0..<n] (c, cs) =
    (c\<lparr>ctx_bar_bases := map (\<lambda>i. if pci_resource_flags E i AND (IORESOURCE_IO OR IORESOURCE_MEM) \<noteq> 0
         then pci_iomap E i else ctx_bar_bases c ! i) [0..<n] @ drop n (ctx_bar_bases c),
       ctx_default_bar := (if \<exists>i<n. pci_resource_flags E i AND IORESOURCE_IO \<noteq> 0 then 1
         else ctx_default_bar c)\<rparr>,
     cs @ map (\<lambda>a. Acquire (R_mapping a)) (mapped
         (map (\<lambda>i. if pci_resource_flags E i AND (IORESOURCE_IO OR IORESOURCE_MEM) \<noteq> 0
           then pci_iomap E i else 0) [0..<n])))"
  using assms
proof (induction n)
  case 0
  then show ?case by (simp add: mapped_def)
next
  case (Suc n)
  then have d: "drop n (ctx_bar_bases c) = ctx_bar_bases c ! n # drop (Suc n) (ctx_bar_bases c)"
    by (simp add: Cons_nth_drop_Suc)
  from Suc show ?case
    by (auto simp: d map_bar_def mapped_def less_Suc_eq list_update_append nth_append)
qed

lemma map_bars_eq:
  "map_bars E (zeroed_context\<lparr>ctx_descriptor := Some d\<rparr>) =
    (zeroed_context\<lparr>ctx_descriptor := Some d, ctx_bar_bases := bars_of E,
       ctx_default_bar := (if has_io_bar E then 1 else 0)\<rparr>, maps_of E)"
  using map_bars_upto [of 6 "zeroed_context\<lparr>ctx_descriptor := Some d\<rparr>" E "[]"]
  by (simp add: map_bars_def zeroed_context_def bars_of_def maps_of_def has_io_bar_def
      cong: map_cong)

lemma held_maps [simp]: "held (maps_of E) = image_mset R_mapping (mset (mapped (bars_of E)))"
proof -
  have "held (map (\<lambda>a. Acquire (R_mapping a)) xs) = image_mset R_mapping (mset xs)" for xs
    by (induction xs) auto
  then show ?thesis by (simp add: maps_of_def)
qed

lemma released_maps [simp]: "released (maps_of E) = {#}"
proof -
  have "released (map (\<lambda>a. Acquire (R_mapping a)) xs) = {#}" for xs by (induction xs) auto
  then show ?thesis by (simp add: maps_of_def)
qed

lemma released_unmaps [simp]: "released (unmaps_of bs) = image_mset R_mapping (mset (mapped bs))"
proof -
  have "released (map (\<lambda>a. Release (R_mapping a)) xs) = image_mset R_mapping (mset xs)" for xs
    by (induction xs) auto
  then show ?thesis by (simp add: unmaps_of_def)
qed

lemma held_unmaps [simp]: "held (unmaps_of bs) = {#}"
proof -
  have "held (map (\<lambda>a. Release (R_mapping a)) xs) = {#}" for xs by (induction xs) auto
  then show ?thesis by (simp add: unmaps_of_def)
qed

section \<open>The outcomes of probe\<close>

definition ready_isr_context :: "probe_env \<Rightarrow> dma_isr_context option" where
  "ready_isr_context E = map_option (dma_data_lock_update (\<lambda>_. True)) (kmalloc_isr_context E)"

definition bound_context :: "probe_env \<Rightarrow> u32 \<Rightarrow> accesio_pci_device_descriptor \<Rightarrow> nat
    \<Rightarrow> probe_context" where
  "bound_context E device d m =
     \<lparr>ctx_descriptor = Some d, ctx_bar_bases = bars_of E,
      ctx_default_bar = (if bar_override device then 2 else if has_io_bar E then 1 else 0),
      ctx_isr_context = (if has_dma d then ready_isr_context E else None), ctx_dev = m\<rparr>"

definition bind_log :: "probe_env \<Rightarrow> accesio_pci_device_descriptor \<Rightarrow> nat \<Rightarrow> kcall list" where
  "bind_log E d m =
     [Acquire R_enabled, Acquire R_regions, Acquire R_context] @ maps_of E @
     [Acquire R_irq, Init_irq_lock, Init_wait_queue] @
     (if has_dma d then [Acquire R_isr_context] else []) @
     (if cdev_add E = 0 then [Acquire (R_cdev m)] else []) @
     (if device_create E = 0 then [Acquire (R_node m)] else [])"

definition unbind_log :: "addr list \<Rightarrow> nat \<Rightarrow> kcall list" where
  "unbind_log bs m =
     [Release R_irq] @ unmaps_of bs @ [Release R_regions, Release (R_node m), Release R_context]"

lemma probe_tail_bound:
  assumes "probe_tail E d c s = (Some 0, s')"
  shows "s' = s\<lparr>calls := calls s @ [Acquire R_irq, Init_irq_lock, Init_wait_queue] @
     (if has_dma d then [Acquire R_isr_context] else []) @
     (if cdev_add E = 0 then [Acquire (R_cdev (next_minor s))] else []) @
     (if device_create E = 0 then [Acquire (R_node (next_minor s))] else []),
     drvdata := Some (c\<lparr>ctx_isr_context := (if has_dma d then ready_isr_context E
        else ctx_isr_context c), ctx_dev := next_minor s\<rparr>),
     next_minor := (if device_create E = 0 then Suc (next_minor s) else next_minor s)\<rparr>"
  using assms by (auto simp: probe_tail_def Let_def call_def ready_isr_context_def split: if_splits)

definition found_context :: "probe_env \<Rightarrow> u32 \<Rightarrow> accesio_pci_device_descriptor \<Rightarrow> probe_context" where
  "found_context E device d = (bound_context E device d 0)\<lparr>ctx_isr_context := None\<rparr>"

lemma probe_found:
  assumes "find_descriptor device = Some d"
    and "pci_enable_device E = 0" "pci_request_regions E = 0" "kzalloc_context E"
  shows "accesio_pci_driver_probe E device s = probe_tail E d (found_context E device d)
    (s\<lparr>drvdata := Some zeroed_context,
       calls := calls s @ [Acquire R_enabled, Acquire R_regions, Acquire R_context] @ maps_of E\<rparr>)"
proof -
  from assms(1) have p: "pid d = device" using find_descriptor_SomeD by blast
  have c: "zeroed_context\<lparr>ctx_descriptor := Some d, ctx_bar_bases := bars_of E,
       ctx_default_bar := (if bar_override device then 2 else if has_io_bar E then 1 else 0)\<rparr>
     = found_context E device d"
    by (simp add: zeroed_context_def found_context_def bound_context_def)
  show ?thesis
    using assms by (auto simp: accesio_pci_driver_probe_def Let_def call_def map_bars_eq p c [symmetric])
qed

lemma probe_bound:
  assumes "accesio_pci_driver_probe E device s = (Some 0, s')"
  obtains d where "find_descriptor device = Some d"
    "s' = \<lparr>calls = calls s @ bind_log E d (next_minor s),
       drvdata = Some (bound_context E device d (next_minor s)),
       next_minor = (if device_create E = 0 then Suc (next_minor s) else next_minor s)\<rparr>"
proof -
  from assms obtain d where d: "find_descriptor device = Some d"
    and ok: "pci_enable_device E = 0" "pci_request_regions E = 0" "kzalloc_context E"
    by (auto simp: accesio_pci_driver_probe_def Let_def call_def split: if_splits option.splits)
  from probe_tail_bound [OF assms [unfolded probe_found [OF d ok]]] d that [of d] show thesis
    by (simp add: bind_log_def found_context_def bound_context_def)
qed

lemma probe_dma_allocated:
  assumes "accesio_pci_driver_probe E device s = (Some 0, s')" "find_descriptor device = Some d"
    and "has_dma d"
  shows "kmalloc_isr_context E \<noteq> None"
proof -
  from assms(1,2) have "pci_enable_device E = 0" "pci_request_regions E = 0" "kzalloc_context E"
    by (auto simp: accesio_pci_driver_probe_def Let_def call_def split: if_splits)
  from assms(1) [unfolded probe_found [OF assms(2) this]] assms(3) show ?thesis
    by (auto simp: probe_tail_def Let_def split: if_splits)
qed

lemma remove_bound:
  assumes "drvdata s = Some c"
  shows "accesio_pci_driver_remove True s =
    s\<lparr>calls := calls s @ unbind_log (ctx_bar_bases c) (ctx_dev c), drvdata := None\<rparr>"
  using assms
  by (simp add: accesio_pci_driver_remove_def call_def Let_def unbind_log_def unmaps_of_def mapped_def)

text \<open>A probe that does not succeed takes resources and gives none back.\<close>

lemma probe_not_bound:
  assumes "accesio_pci_driver_probe E device s = (Some e, s')" "e \<noteq> 0"
  obtains l where "calls s' = calls s @ l" "next_minor s' = next_minor s" "released l = {#}"
    "held l = (if pci_enable_device E \<noteq> 0 then {#} else add_mset R_enabled
      (if pci_request_regions E \<noteq> 0 then {#} else add_mset R_regions
      (if \<not> kzalloc_context E then {#} else add_mset R_context
      (if find_descriptor device = None then {#}
       else image_mset R_mapping (mset (mapped (bars_of E)))))))"
proof (cases "pci_enable_device E = 0 \<and> pci_request_regions E = 0 \<and> kzalloc_context E
    \<and> find_descriptor device \<noteq> None")
  case True
  then obtain d where d: "find_descriptor device = Some d"
    and ok: "pci_enable_device E = 0" "pci_request_regions E = 0" "kzalloc_context E" by blast
  from assms(1) [unfolded probe_found [OF d ok]] assms(2)
  have "calls s' = calls s @ [Acquire R_enabled, Acquire R_regions, Acquire R_context] @ maps_of E
      @ [Init_irq_lock, Init_wait_queue] \<and> next_minor s' = next_minor s"
    by (auto simp: probe_tail_def Let_def call_def split: if_splits)
  with that [of "[Acquire R_enabled, Acquire R_regions, Acquire R_context] @ maps_of E
      @ [Init_irq_lock, Init_wait_queue]"] True d show ?thesis by simp
next
  case False
  with assms that show ?thesis
    by (auto simp: accesio_pci_driver_probe_def Let_def call_def split: if_splits)
qed

section \<open>Binding a card\<close>

text \<open>
  C30: when probe succeeds, the card's context has the descriptor of the device's id; every I/O or
  memory BAR of the six is mapped and its address recorded at its own index, every other entry is
  \<^verbatim>\<open>NULL\<close>; and the default BAR is 2 for an id with an override, else 1 when the card has an I/O BAR,
  else 0. Of the fourteen ids with an override only 0xc2ef has a descriptor, so that it is the only
  one probe can succeed for. A card with DMA, and no other, has an ISR context, of which only the lock is
  initialised.
\<close>

theorem probe_selects_bars:
  assumes "accesio_pci_driver_probe E device s = (Some 0, s')"
  shows "\<exists>c d. drvdata s' = Some c \<and> find_descriptor device = Some d \<and> ctx_descriptor c = Some d
    \<and> length (ctx_bar_bases c) = PCI_STD_NUM_BARS
    \<and> (\<forall>i<PCI_STD_NUM_BARS. ctx_bar_bases c ! i =
         (if pci_resource_flags E i AND (IORESOURCE_IO OR IORESOURCE_MEM) \<noteq> 0
          then pci_iomap E i else 0))
    \<and> ctx_isr_context c = (if has_dma d
         then map_option (dma_data_lock_update (\<lambda>_. True)) (kmalloc_isr_context E) else None)
    \<and> (has_dma d \<longrightarrow> ctx_isr_context c \<noteq> None)
    \<and> ctx_default_bar c = (if bar_override device then 2
         else if \<exists>i<PCI_STD_NUM_BARS. pci_resource_flags E i AND IORESOURCE_IO \<noteq> 0 then 1 else 0)"
proof (rule probe_bound [OF assms])
qed (use probe_dma_allocated [OF assms] in
  \<open>auto simp: bound_context_def bars_of_def has_io_bar_def ready_isr_context_def\<close>)

definition sample_env :: probe_env where
  "sample_env = \<lparr>pci_enable_device = 0, pci_request_regions = 0, kzalloc_context = True,
     pci_resource_flags = (\<lambda>i. if i = 0 then 0x200 else if i = 2 then 0x101 else 0),
     pci_iomap = (\<lambda>i. if i = 0 then 0xf000 else 0xe000),
     request_irq = (\<lambda>h. case h of None \<Rightarrow> - 22 | Some _ \<Rightarrow> 0),
     kmalloc_isr_context = None, cdev_add = 0, device_create = 0\<rparr>"

definition idle :: pci_state where
  "idle = \<lparr>calls = [], drvdata = None, next_minor = 0\<rparr>"

lemma find_0100: "find_descriptor 0x0100 = Some (hd descriptors_1)"
  by (simp add: find_descriptor_def accesio_pci_device_descriptors_def descriptors_1_def)

lemma find_010C: "\<exists>d. find_descriptor 0x010C = Some d \<and> isr d = None"
  by (simp add: find_descriptor_def accesio_pci_device_descriptors_def descriptors_1_def)

lemma sample_bars: "bars_of sample_env = [0xf000, 0, 0xe000, 0, 0, 0]" "has_io_bar sample_env"
proof -
  show "bars_of sample_env = [0xf000, 0, 0xe000, 0, 0, 0]"
    by (simp add: bars_of_def sample_env_def upt_rec)
  have "pci_resource_flags sample_env 2 AND IORESOURCE_IO \<noteq> 0" by (simp add: sample_env_def)
  then show "has_io_bar sample_env" unfolding has_io_bar_def by (intro exI [of _ 2]) simp
qed

lemma sample_probe:
  "\<exists>s'. accesio_pci_driver_probe sample_env 0x0100 idle = (Some 0, s')"
  using probe_found [OF find_0100, of sample_env idle]
  by (simp add: sample_env_def probe_tail_def descriptors_1_def Let_def)

theorem probe_selects_bars_witness:
  "\<exists>s' c. accesio_pci_driver_probe sample_env 0x0100 idle = (Some 0, s') \<and> drvdata s' = Some c
     \<and> ctx_default_bar c = 1 \<and> ctx_bar_bases c ! 2 = 0xe000 \<and> ctx_bar_bases c ! 1 = 0"
proof -
  from sample_probe obtain s' where
    p: "accesio_pci_driver_probe sample_env 0x0100 idle = (Some 0, s')" by blast
  from probe_selects_bars [OF p] sample_bars(2) p show ?thesis
    by (auto simp: sample_env_def bar_override_def has_io_bar_def)
qed

text \<open>A probe whose services all succeed, written out.\<close>

lemma probe_succeeds:
  assumes "find_descriptor device = Some d"
    and "pci_enable_device E = 0" "pci_request_regions E = 0" "kzalloc_context E"
    and "request_irq E (isr d) = 0" "has_dma d \<longrightarrow> kmalloc_isr_context E \<noteq> None"
  shows "accesio_pci_driver_probe E device s = (Some 0,
    \<lparr>calls = calls s @ bind_log E d (next_minor s),
     drvdata = Some (bound_context E device d (next_minor s)),
     next_minor = (if device_create E = 0 then Suc (next_minor s) else next_minor s)\<rparr>)"
proof -
  have "fst (accesio_pci_driver_probe E device s) = Some 0"
    using probe_found [OF assms(1-4)] assms(5,6) by (simp add: probe_tail_def Let_def)
  then obtain s' where p: "accesio_pci_driver_probe E device s = (Some 0, s')"
    by (metis prod.collapse)
  from p assms(1) show ?thesis by (auto elim!: probe_bound)
qed

text \<open>The ids with an override that are in the table of descriptors.\<close>

lemma find_descriptor_known: "find_descriptor p \<noteq> None \<Longrightarrow> p \<in> set (map pid accesio_pci_device_descriptors)"
  by (auto simp: find_descriptor_def dest: first_index_SomeD split: option.splits)

lemma known_overrides: "find_descriptor p \<noteq> None \<Longrightarrow> bar_override p \<longleftrightarrow> p = 0xc2ef"
proof -
  assume "find_descriptor p \<noteq> None"
  then have "p \<in> set (map pid accesio_pci_device_descriptors)" by (rule find_descriptor_known)
  moreover have "filter bar_override (map pid accesio_pci_device_descriptors) = [0xc2ef]"
    by (simp add: accesio_pci_device_descriptors_def table_rows bar_override_def)
  then have "{q \<in> set (map pid accesio_pci_device_descriptors). bar_override q} = {0xc2ef}"
    by (metis set_filter list.set(1) list.set(2))
  ultimately show ?thesis by blast
qed

text \<open>
  C33: the override of the default BAR acts on one card model of the fourteen it lists. For the other
  thirteen ids probe always fails, since the table has no descriptor for them; on every card that
  probe binds, the default BAR is 2 exactly for the id 0xc2ef, whatever its BARs are, and for the
  others follows the I/O BARs alone.
\<close>

theorem override_of_one_model:
  "(\<forall>p \<in> {0xc2e8, 0xc2e9, 0xc2ea, 0x82e8, 0x82e9, 0x82ea, 0xc258, 0xc259, 0xc25a,
      0x8258, 0x8259, 0x825a, 0x1100}. fst (accesio_pci_driver_probe E p s) \<noteq> Some 0)
   \<and> (\<forall>device s'. accesio_pci_driver_probe E device s = (Some 0, s') \<longrightarrow>
      (\<exists>c. drvdata s' = Some c \<and> ctx_default_bar c = (if device = 0xc2ef then 2
         else if \<exists>i<PCI_STD_NUM_BARS. pci_resource_flags E i AND IORESOURCE_IO \<noteq> 0 then 1 else 0)))"
proof (intro conjI ballI allI impI)
  have bound: "find_descriptor q \<noteq> None \<and> (\<exists>c. drvdata t = Some c \<and> ctx_default_bar c =
      (if bar_override q then 2 else if has_io_bar E then 1 else 0))"
    if "accesio_pci_driver_probe E q s = (Some 0, t)" for q t
    by (rule probe_bound [OF that]) (auto simp: bound_context_def)
  show "fst (accesio_pci_driver_probe E p s) \<noteq> Some 0" if p: "p \<in> {0xc2e8, 0xc2e9, 0xc2ea, 0x82e8,
      0x82e9, 0x82ea, 0xc258, 0xc259, 0xc25a, 0x8258, 0x8259, 0x825a, 0x1100}" for p
  proof
    assume "fst (accesio_pci_driver_probe E p s) = Some 0"
    then have "find_descriptor p \<noteq> None" using bound [of p] by (metis prod.collapse)
    moreover have "bar_override p" "p \<noteq> 0xc2ef" using p by (auto simp: bar_override_def)
    ultimately show False using known_overrides by blast
  qed
  fix device s'
  assume "accesio_pci_driver_probe E device s = (Some 0, s')"
  from bound [OF this] have k: "find_descriptor device \<noteq> None" and
    c: "\<exists>c. drvdata s' = Some c \<and> ctx_default_bar c =
      (if bar_override device then 2 else if has_io_bar E then 1 else 0)" by blast+
  from c show "\<exists>c. drvdata s' = Some c \<and> ctx_default_bar c = (if device = 0xc2ef then 2
       else if \<exists>i<PCI_STD_NUM_BARS. pci_resource_flags E i AND IORESOURCE_IO \<noteq> 0 then 1 else 0)"
    unfolding known_overrides [OF k] has_io_bar_def .
qed

text \<open>The model with the override, on a system whose services succeed.\<close>

lemma find_c2ef: "\<exists>d. find_descriptor 0xc2ef = Some d \<and> isr d = Some Isr_adio16f"
  by (simp add: find_descriptor_def accesio_pci_device_descriptors_def table_rows)

theorem override_of_one_model_witness:
  "\<forall>d. (\<exists>s' c. accesio_pci_driver_probe (sample_env\<lparr>kmalloc_isr_context := Some d\<rparr>) 0xc2ef idle = (Some 0, s')
      \<and> drvdata s' = Some c \<and> ctx_default_bar c = 2)
   \<and> fst (accesio_pci_driver_probe (sample_env\<lparr>kmalloc_isr_context := Some d\<rparr>) 0x1100 idle) \<noteq> Some 0"
proof
  fix d
  let ?E = "sample_env\<lparr>kmalloc_isr_context := Some d\<rparr>"
  from find_c2ef obtain k where k: "find_descriptor 0xc2ef = Some k" "isr k = Some Isr_adio16f" by blast
  have "\<exists>s'. accesio_pci_driver_probe ?E 0xc2ef idle = (Some 0, s')"
    by (rule exI, rule probe_succeeds [OF k(1)]) (simp_all add: sample_env_def k(2))
  then obtain s' where p: "accesio_pci_driver_probe ?E 0xc2ef idle = (Some 0, s')" ..
  note o = override_of_one_model [of ?E idle]
  from conjunct2 [OF o, rule_format, OF p]
  have "\<exists>c. drvdata s' = Some c \<and> ctx_default_bar c = 2" by (simp only: if_True refl)
  moreover have "fst (accesio_pci_driver_probe ?E 0x1100 idle) \<noteq> Some 0"
    by (rule bspec [OF conjunct1 [OF o]]) simp
  ultimately show "(\<exists>s' c. accesio_pci_driver_probe ?E 0xc2ef idle = (Some 0, s')
      \<and> drvdata s' = Some c \<and> ctx_default_bar c = 2)
    \<and> fst (accesio_pci_driver_probe ?E 0x1100 idle) \<noteq> Some 0" using p by blast
qed

section \<open>Unbinding it\<close>

lemma held_bind:
  "held (bind_log E d m) = {#R_enabled, R_regions, R_context, R_irq#}
     + image_mset R_mapping (mset (mapped (bars_of E)))
     + (if has_dma d then {#R_isr_context#} else {#})
     + (if cdev_add E = 0 then {#R_cdev m#} else {#})
     + (if device_create E = 0 then {#R_node m#} else {#})"
  by (simp add: bind_log_def)

lemma released_bind [simp]: "released (bind_log E d m) = {#}"
  by (simp add: bind_log_def)

lemma held_unbind [simp]: "held (unbind_log bs m) = {#}"
  by (simp add: unbind_log_def)

lemma released_unbind:
  "released (unbind_log bs m) = {#R_irq, R_regions, R_node m, R_context#}
     + image_mset R_mapping (mset (mapped bs))"
  by (simp add: unbind_log_def)

lemma remove_after_bind:
  assumes "accesio_pci_driver_probe E device s = (Some 0, s')" "find_descriptor device = Some d"
  shows "calls (accesio_pci_driver_remove True s') =
    calls s @ bind_log E d (next_minor s) @ unbind_log (bars_of E) (next_minor s)"
  using assms by (auto elim!: probe_bound simp: remove_bound bound_context_def)

text \<open>
  C12: a card bound and then unbound gives back its interrupt line, every mapping, its regions, its
  device node and its context; what stays taken is exactly the enabled device, the character device
  that was added for it, and for a DMA card its ISR context.
\<close>

theorem unbind_gives_back:
  assumes "accesio_pci_driver_probe E device s = (Some 0, s')"
    and "find_descriptor device = Some d" and "device_create E = 0"
  shows "\<exists>log. calls (accesio_pci_driver_remove True s') = calls s @ log \<and>
    outstanding log = {#R_enabled#} + (if has_dma d then {#R_isr_context#} else {#})
      + (if cdev_add E = 0 then {#R_cdev (next_minor s)#} else {#})"
  using remove_after_bind [OF assms(1,2)] assms(3)
  by (intro exI [of _ "bind_log E d (next_minor s) @ unbind_log (bars_of E) (next_minor s)"])
     (simp add: outstanding_def held_bind released_unbind)

theorem unbind_gives_back_witness:
  "\<exists>s' log. accesio_pci_driver_probe sample_env 0x0100 idle = (Some 0, s')
     \<and> calls (accesio_pci_driver_remove True s') = log \<and> outstanding log = {#R_enabled, R_cdev 0#}"
proof -
  from sample_probe obtain s' where
    p: "accesio_pci_driver_probe sample_env 0x0100 idle = (Some 0, s')" by blast
  from unbind_gives_back [OF p find_0100] p show ?thesis
    by (auto simp: sample_env_def idle_def descriptors_1_def)
qed

lemma held_prefix: "held (take n xs) \<subseteq># held xs"
  by (metis append_take_drop_id held_append mset_subset_eq_add_left)

lemma released_prefix: "released (take n xs) \<subseteq># released xs"
  by (metis append_take_drop_id released_append mset_subset_eq_add_left)

text \<open>
  When the line is taken once, in the part \<open>B\<close> of a log, and given back at the start of the part \<open>C\<close>,
  it is held only in prefixes that end in \<open>B\<close>.
\<close>

lemma registered_window:
  assumes "R_irq \<in># outstanding (take n (A @ B @ Release R_irq # C))"
    and "R_irq \<notin># held A" and "held C = {#}" and "count (held (A @ B)) R_irq = 1"
  shows "\<exists>k. take n (A @ B @ Release R_irq # C) = A @ take k B"
proof -
  let ?l = "A @ B @ Release R_irq # C"
  have nA: "length A < n"
  proof (rule ccontr)
    assume "\<not> length A < n"
    then have "take n ?l = take n A" by simp
    moreover have "R_irq \<notin># held (take n A)"
      using assms(2) mset_subset_eqD [OF held_prefix] by metis
    ultimately show False using assms(1) unfolding outstanding_def by (metis in_diffD)
  qed
  have nB: "n \<le> length (A @ B)"
  proof (rule ccontr)
    assume "\<not> n \<le> length (A @ B)"
    then obtain k where "n = Suc (length (A @ B) + k)"
      using less_iff_Suc_add not_le by blast
    then have "take n ?l = (A @ B) @ Release R_irq # take k C" by simp
    moreover have "held (take k C) = {#}"
      using held_prefix [of k C] assms(3) by simp
    ultimately have "count (outstanding (take n ?l)) R_irq = 0"
      using assms(4) by (simp add: outstanding_def)
    with assms(1) show False unfolding count_eq_zero_iff by blast
  qed
  from nA nB have "take n ?l = A @ take (n - length A) B" by simp
  then show ?thesis by blast
qed

text \<open>
  C11: from the start of probe to the end of remove, whenever the interrupt handler is registered,
  every BAR the card has mapped is mapped: the handler never runs on a BAR not yet mapped or
  already unmapped.
\<close>

theorem handler_only_while_mapped:
  assumes "accesio_pci_driver_probe E device s = (Some 0, s')"
    and "calls (accesio_pci_driver_remove True s') = calls s @ log"
    and "R_irq \<in># outstanding (take n log)" and "a \<in> set (bars_of E)" and "a \<noteq> 0"
  shows "R_mapping a \<in># outstanding (take n log)"
proof (rule probe_bound [OF assms(1)])
  fix d
  assume d: "find_descriptor device = Some d"
  define A where "A = [Acquire R_enabled, Acquire R_regions, Acquire R_context] @ maps_of E"
  define B where "B = [Acquire R_irq, Init_irq_lock, Init_wait_queue] @
     (if has_dma d then [Acquire R_isr_context] else []) @
     (if cdev_add E = 0 then [Acquire (R_cdev (next_minor s))] else []) @
     (if device_create E = 0 then [Acquire (R_node (next_minor s))] else [])"
  define C where "C = unmaps_of (bars_of E) @
    [Release R_regions, Release (R_node (next_minor s)), Release R_context]"
  have log: "log = A @ B @ Release R_irq # C"
    using assms(2) remove_after_bind [OF assms(1) d]
    by (simp add: bind_log_def unbind_log_def A_def B_def C_def)
  have A: "R_irq \<notin># held A" "released A = {#}" "R_mapping a \<in># held A"
    using assms(4,5) by (auto simp: A_def mapped_def)
  have B: "count (held B) R_irq = 1" "released B = {#}" by (simp_all add: B_def)
  have "count (held (A @ B)) R_irq = 1" using A(1) B(1) by (simp add: not_in_iff)
  then obtain k where k: "take n log = A @ take k B"
    using registered_window [of n A B C] assms(3) A(1) unfolding log by (auto simp: C_def)
  have "released (take k B) = {#}" using released_prefix [of k B] B(2) by simp
  with k A show ?thesis by (simp add: outstanding_def)
qed

theorem handler_only_while_mapped_witness:
  "\<exists>s' log. accesio_pci_driver_probe sample_env 0x0100 idle = (Some 0, s')
     \<and> calls (accesio_pci_driver_remove True s') = log
     \<and> R_irq \<in># outstanding (take 6 log) \<and> R_mapping 0xe000 \<in># outstanding (take 6 log)"
proof -
  from sample_probe obtain s' where
    p: "accesio_pci_driver_probe sample_env 0x0100 idle = (Some 0, s')" by blast
  let ?log = "calls (accesio_pci_driver_remove True s')"
  have l: "?log = calls idle @ ?log" by (simp add: idle_def)
  have m: "maps_of sample_env = [Acquire (R_mapping 0xf000), Acquire (R_mapping 0xe000)]"
    by (simp add: maps_of_def sample_bars mapped_def)
  have irq: "R_irq \<in># outstanding (take 6 ?log)"
    by (simp add: remove_after_bind [OF p find_0100] bind_log_def m idle_def outstanding_def)
  from handler_only_while_mapped [OF p l irq, of "0xe000"] p irq show ?thesis
    by (simp add: sample_bars)
qed

text \<open>
  The line is requested before the lock and the wait queue of the context are initialised: between
  the two calls a shared interrupt runs the handler on an uninitialised lock.
\<close>

lemma handler_before_lock_init:
  assumes "accesio_pci_driver_probe E device s = (Some 0, s')" and "calls s' = calls s @ log"
  shows "\<exists>n. R_irq \<in># outstanding (take n log) \<and> Init_irq_lock \<notin> set (take n log)"
proof (rule probe_bound [OF assms(1)])
  fix d
  assume "s' = \<lparr>calls = calls s @ bind_log E d (next_minor s),
      drvdata = Some (bound_context E device d (next_minor s)),
      next_minor = if device_create E = 0 then Suc (next_minor s) else next_minor s\<rparr>"
  with assms(2) have log: "log = bind_log E d (next_minor s)" by simp
  have "take (4 + length (maps_of E)) log =
      [Acquire R_enabled, Acquire R_regions, Acquire R_context] @ maps_of E @ [Acquire R_irq]"
    by (simp add: log bind_log_def eval_nat_numeral del: if_split)
  moreover have "Init_irq_lock \<notin> set (maps_of E)" by (auto simp: maps_of_def)
  ultimately show ?thesis
    by (intro exI [of _ "4 + length (maps_of E)"]) (auto simp: outstanding_def)
qed

section \<open>A probe that fails\<close>

text \<open>
  C32: an error of probe after the device was enabled gives nothing back: the device stays enabled,
  its regions stay reserved, the context stays allocated and every mapped BAR stays mapped, for
  each of them that probe had reached; and no minor number is used up. The labels of the code's
  error paths are there, the releases are not.
\<close>

theorem failed_probe_leaks:
  assumes "accesio_pci_driver_probe E device s = (Some e, s')" "e \<noteq> 0"
  shows "\<exists>log. calls s' = calls s @ log \<and> next_minor s' = next_minor s \<and>
    outstanding log = (if pci_enable_device E \<noteq> 0 then {#} else add_mset R_enabled
      (if pci_request_regions E \<noteq> 0 then {#} else add_mset R_regions
      (if \<not> kzalloc_context E then {#} else add_mset R_context
      (if find_descriptor device = None then {#}
       else image_mset R_mapping (mset (filter (\<lambda>a. a \<noteq> 0) (bars_of E)))))))"
proof (rule probe_not_bound [OF assms])
  fix l
  assume "calls s' = calls s @ l" "next_minor s' = next_minor s" "released l = {#}"
    "held l = (if pci_enable_device E \<noteq> 0 then {#} else add_mset R_enabled
      (if pci_request_regions E \<noteq> 0 then {#} else add_mset R_regions
      (if \<not> kzalloc_context E then {#} else add_mset R_context
      (if find_descriptor device = None then {#}
       else image_mset R_mapping (mset (mapped (bars_of E)))))))"
  then show ?thesis by (intro exI [of _ l]) (simp only: outstanding_def mapped_def diff_empty)
qed

text \<open>A card without an interrupt handler fails probe, as \<^verbatim>\<open>request_irq\<close> refuses a null handler.\<close>

lemma probe_without_handler:
  assumes "find_descriptor device = Some d" "isr d = None"
    and "pci_enable_device E = 0" "pci_request_regions E = 0" "kzalloc_context E"
    and "request_irq E None \<noteq> 0"
  shows "fst (accesio_pci_driver_probe E device s) = Some (request_irq E None)"
  using probe_found [OF assms(1,3,4,5)] assms(2,6) by (simp add: probe_tail_def Let_def)

theorem failed_probe_leaks_witness:
  "\<exists>s'. accesio_pci_driver_probe sample_env 0x010C idle = (Some (- 22), s') \<and>
    outstanding (calls s') = {#R_enabled, R_regions, R_context, R_mapping 0xf000, R_mapping 0xe000#}"
proof -
  from find_010C obtain d where d: "find_descriptor 0x010C = Some d" "isr d = None" by blast
  have "fst (accesio_pci_driver_probe sample_env 0x010C idle) = Some (- 22)"
    using probe_without_handler [OF d, of sample_env idle] by (simp add: sample_env_def)
  then obtain s' where p: "accesio_pci_driver_probe sample_env 0x010C idle = (Some (- 22), s')"
    by (metis prod.collapse)
  from failed_probe_leaks [OF p] p d(1) sample_bars(1) show ?thesis
    by (auto simp: sample_env_def idle_def)
qed

text \<open>
  When the device node cannot be created, probe still reports success, and the minor number is
  left for the next card.
\<close>

lemma node_failure_reported_as_success:
  assumes "find_descriptor device = Some d"
    and "pci_enable_device E = 0" "pci_request_regions E = 0" "kzalloc_context E"
    and "request_irq E (isr d) = 0" "has_dma d \<longrightarrow> kmalloc_isr_context E \<noteq> None"
    and "device_create E \<noteq> 0"
  shows "\<exists>s'. accesio_pci_driver_probe E device s = (Some 0, s') \<and> next_minor s' = next_minor s"
  using probe_found [OF assms(1-4)] assms(5-7) by (auto simp: probe_tail_def Let_def call_def)

text \<open>
  C34: probe dereferences a null pointer exactly for a DMA card whose ISR context cannot be
  allocated after everything before it succeeded; on no other path does it fault.
\<close>

theorem probe_faults_iff:
  "fst (accesio_pci_driver_probe E device s) = None \<longleftrightarrow>
    pci_enable_device E = 0 \<and> pci_request_regions E = 0 \<and> kzalloc_context E \<and>
    (\<exists>d. find_descriptor device = Some d \<and> request_irq E (isr d) = 0 \<and> has_dma d) \<and>
    kmalloc_isr_context E = None"
proof (cases "pci_enable_device E = 0 \<and> pci_request_regions E = 0 \<and> kzalloc_context E
    \<and> find_descriptor device \<noteq> None")
  case True
  then obtain d where d: "find_descriptor device = Some d"
    and ok: "pci_enable_device E = 0" "pci_request_regions E = 0" "kzalloc_context E" by blast
  show ?thesis by (simp add: probe_found [OF d ok] d ok probe_tail_def Let_def call_def)
next
  case False
  then show ?thesis by (auto simp: accesio_pci_driver_probe_def Let_def call_def)
qed

section \<open>Loading and unloading the module\<close>

lemma shipped_tables_pass:
  "check_tables accesio_pci_device_descriptors acces_pci_id_table = Some True"
  by (auto simp: check_tables_iff ids_are_pids)

text \<open>
  C35: with the shipped tables, the module loads exactly when the kernel gives it a device-number
  region, a class and a registration, and reports \<open>- 1\<close> otherwise, whatever the kernel's error was.
  Loading and then unloading gives everything back; a load that fails keeps the region it had
  reserved, and the class when it got that far.
\<close>

theorem module_load_and_unload:
  "\<exists>log. let (st, s') = accesio_pci_init E accesio_pci_device_descriptors acces_pci_id_table s in
     st = (if fst (alloc_chrdev_region E) = 0 \<and> class_create E = 0 \<and> pci_register_driver E = 0
           then 0 else - 1) \<and>
     mcalls (if st = 0 then accesio_pci_exit s' else s') = mcalls s @ log \<and>
     outstanding log = (if st = 0 then {#} else if fst (alloc_chrdev_region E) \<noteq> 0 then {#}
       else add_mset R_chrdev_region (if class_create E \<noteq> 0 then {#} else {#R_class#}))"
  by (auto simp: accesio_pci_init_def accesio_pci_exit_def mcall_def shipped_tables_pass
      outstanding_def Let_def)

end
