(* ===== verification/Pci_Hotplug.thy ===== *)
theory Pci_Hotplug
  imports Pci_Properties
begin

text \<open>
  Cards that are bound and unbound in any order: the device nodes and the minor numbers that the
  driver hands out, as runs of the transition system of hot-plug events.
\<close>

section \<open>Cards that come and go\<close>

text \<open>
  The driver core calls probe for a slot that is not bound and remove for one that is, and forgets
  the context of a probe that failed; which slot, when, and what the kernel answers is arbitrary.
  The log and the next minor number are shared by all slots.
\<close>

record pci_system =
  bus_state :: pci_state
  bound :: "nat \<Rightarrow> probe_context option"

datatype hotplug_event = Plug nat probe_env u32 | Unplug nat

fun hotplug :: "hotplug_event \<Rightarrow> pci_system \<Rightarrow> pci_system option" where
  "hotplug (Plug n E device) S =
     (if bound S n \<noteq> None then None
      else case accesio_pci_driver_probe E device ((bus_state S)\<lparr>drvdata := None\<rparr>) of
        (None, _) \<Rightarrow> None
      | (Some e, s) \<Rightarrow> Some \<lparr>bus_state = s,
          bound = (bound S)(n := if e = 0 then drvdata s else None)\<rparr>)"
| "hotplug (Unplug n) S =
     (if bound S n = None then None
      else Some \<lparr>bus_state = accesio_pci_driver_remove True ((bus_state S)\<lparr>drvdata := bound S n\<rparr>),
          bound = (bound S)(n := None)\<rparr>)"

definition hotplug_step :: "pci_system \<Rightarrow> hotplug_event \<Rightarrow> pci_system \<Rightarrow> bool" where
  "hotplug_step S l S' \<longleftrightarrow> hotplug l S = Some S'"

definition no_cards :: pci_system where
  "no_cards = \<lparr>bus_state = idle, bound = (\<lambda>_. None)\<rparr>"

fun node_created :: "hotplug_event \<Rightarrow> bool" where
  "node_created (Plug n E device) \<longleftrightarrow> device_create E = 0"
| "node_created (Unplug n) \<longleftrightarrow> True"

definition minors :: "pci_system \<Rightarrow> nat set" where
  "minors S = {ctx_dev c | c n. bound S n = Some c}"

text \<open>
  The minor numbers below the next one have each been given once, and given back exactly when no
  bound card has them.
\<close>

definition minors_inv :: "pci_system \<Rightarrow> bool" where
  "minors_inv S \<longleftrightarrow> minors S \<subseteq> {..<next_minor (bus_state S)}
     \<and> inj_on (\<lambda>n. ctx_dev (the (bound S n))) {n. bound S n \<noteq> None}
     \<and> (\<forall>m. count (held (calls (bus_state S))) (R_node m) = of_bool (m < next_minor (bus_state S)))
     \<and> (\<forall>m. count (released (calls (bus_state S))) (R_node m)
          = of_bool (m < next_minor (bus_state S) \<and> m \<notin> minors S))"

lemma minors_inv_start: "minors_inv no_cards"
  by (simp add: minors_inv_def no_cards_def minors_def idle_def)

lemma minors_unbind:
  assumes "inj_on (\<lambda>n. ctx_dev (the (bound S n))) {n. bound S n \<noteq> None}" "bound S n = Some c"
    and "bound S' = (bound S)(n := None)"
  shows "minors S' = minors S - {ctx_dev c}"
  using assms by (force simp: minors_def inj_on_def split: if_splits)

lemma minors_bind:
  assumes "bound S n = None" "bound S' = (bound S)(n := Some c)"
  shows "minors S' = insert (ctx_dev c) (minors S)"
  using assms by (force simp: minors_def split: if_splits)

lemma held_bind_node:
  "count (held (bind_log E d k)) (R_node m) = of_bool (device_create E = 0 \<and> m = k)"
  by (auto simp: held_bind count_eq_zero_iff)

lemma released_unbind_node:
  "count (released (unbind_log bs k)) (R_node m) = of_bool (m = k)"
  by (auto simp: released_unbind count_eq_zero_iff)

lemma hotplug_Plug:
  assumes "hotplug (Plug n E device) S = Some S'"
  obtains e where "bound S n = None"
    "accesio_pci_driver_probe E device ((bus_state S)\<lparr>drvdata := None\<rparr>) = (Some e, bus_state S')"
    "bound S' = (bound S)(n := if e = 0 then drvdata (bus_state S') else None)"
  using assms by (auto split: if_splits prod.splits option.splits)

lemma hotplug_Unplug:
  assumes "hotplug (Unplug n) S = Some S'"
  obtains c where "bound S n = Some c" "bound S' = (bound S)(n := None)"
    "next_minor (bus_state S') = next_minor (bus_state S)"
    "calls (bus_state S') = calls (bus_state S) @ unbind_log (ctx_bar_bases c) (ctx_dev c)"
  using assms by (auto simp: remove_bound split: if_splits)

lemma inj_bind:
  assumes "inj_on (\<lambda>k. ctx_dev (the (bound S k))) {k. bound S k \<noteq> None}" "bound S n = None"
    and "bound S' = (bound S)(n := Some c)" "ctx_dev c \<notin> minors S"
  shows "inj_on (\<lambda>k. ctx_dev (the (bound S' k))) {k. bound S' k \<noteq> None}"
proof -
  have "{k. bound S' k \<noteq> None} = insert n {k. bound S k \<noteq> None}" using assms(3) by auto
  moreover have "inj_on (\<lambda>k. ctx_dev (the (bound S' k))) {k. bound S k \<noteq> None}"
    using assms(1,2,3) by (auto simp: inj_on_def)
  moreover have "ctx_dev (the (bound S' n)) \<notin>
      (\<lambda>k. ctx_dev (the (bound S' k))) ` ({k. bound S k \<noteq> None} - {n})"
    using assms(3,4) by (auto simp: minors_def)
  ultimately show ?thesis by simp
qed

lemma minors_inv_bind:
  assumes "minors_inv S" "bound S n = None" "bound S' = (bound S)(n := Some c)"
    and "ctx_dev c = next_minor (bus_state S)"
    and "next_minor (bus_state S') = Suc (next_minor (bus_state S))"
    and "calls (bus_state S') = calls (bus_state S) @ bind_log E d (next_minor (bus_state S))"
    and "device_create E = 0"
  shows "minors_inv S'"
proof -
  have new: "next_minor (bus_state S) \<notin> minors S" using assms(1) by (auto simp: minors_inv_def)
  have m: "minors S' = insert (next_minor (bus_state S)) (minors S)"
    using minors_bind [OF assms(2,3)] assms(4) by simp
  have "inj_on (\<lambda>k. ctx_dev (the (bound S' k))) {k. bound S' k \<noteq> None}"
    using inj_bind [OF _ assms(2,3)] assms(1,4) new by (simp add: minors_inv_def)
  moreover have "minors S \<subseteq> {..<next_minor (bus_state S)}" using assms(1) by (simp add: minors_inv_def)
  ultimately show ?thesis
    using assms(1,5,6,7)
    by (auto simp: minors_inv_def m held_bind_node less_Suc_eq of_bool_def)
qed

lemma probe_not_bound_nodes:
  assumes "accesio_pci_driver_probe E device s = (Some e, s')" "e \<noteq> 0"
  obtains l where "calls s' = calls s @ l" "next_minor s' = next_minor s" "released l = {#}"
    "\<And>m. count (held l) (R_node m) = 0"
proof (rule probe_not_bound [OF assms])
  fix l
  assume l: "calls s' = calls s @ l" "next_minor s' = next_minor s" "released l = {#}"
    and h: "held l = (if pci_enable_device E \<noteq> 0 then {#} else add_mset R_enabled
      (if pci_request_regions E \<noteq> 0 then {#} else add_mset R_regions
      (if \<not> kzalloc_context E then {#} else add_mset R_context
      (if find_descriptor device = None then {#}
       else image_mset R_mapping (mset (mapped (bars_of E)))))))"
  have "count (held l) (R_node m) = 0" for m
    unfolding h by (auto simp: count_eq_zero_iff)
  with that [of l] l show thesis by blast
qed

lemma minors_inv_plug:
  assumes "minors_inv S" "hotplug (Plug n E device) S = Some S'" "device_create E = 0"
  shows "minors_inv S'"
proof (rule hotplug_Plug [OF assms(2)])
  fix e
  assume free: "bound S n = None"
    and p: "accesio_pci_driver_probe E device ((bus_state S)\<lparr>drvdata := None\<rparr>) = (Some e, bus_state S')"
    and b: "bound S' = (bound S)(n := if e = 0 then drvdata (bus_state S') else None)"
  show ?thesis
  proof (cases "e = 0")
    case True
    show ?thesis
    proof (rule probe_bound [OF p [unfolded True]])
      fix d
      assume s': "bus_state S' = \<lparr>calls = calls ((bus_state S)\<lparr>drvdata := None\<rparr>)
            @ bind_log E d (next_minor ((bus_state S)\<lparr>drvdata := None\<rparr>)),
          drvdata = Some (bound_context E device d (next_minor ((bus_state S)\<lparr>drvdata := None\<rparr>))),
          next_minor = if device_create E = 0 then Suc (next_minor ((bus_state S)\<lparr>drvdata := None\<rparr>))
            else next_minor ((bus_state S)\<lparr>drvdata := None\<rparr>)\<rparr>"
      show ?thesis
        by (rule minors_inv_bind [OF assms(1) free,
              where c = "bound_context E device d (next_minor (bus_state S))" and d = d])
           (use b True s' assms(3) in \<open>simp_all add: bound_context_def\<close>)
    qed
  next
    case False
    have "bound S' = bound S" using free False b by auto
    then have m: "minors S' = minors S" by (simp add: minors_def)
    from probe_not_bound_nodes [OF p False] obtain l where
      "calls (bus_state S') = calls (bus_state S) @ l" "released l = {#}"
      "next_minor (bus_state S') = next_minor (bus_state S)" "\<And>m. count (held l) (R_node m) = 0"
      by auto
    with assms(1) \<open>bound S' = bound S\<close> show ?thesis
      by (simp add: minors_inv_def m)
  qed
qed

lemma minors_inv_unplug:
  assumes "minors_inv S" "hotplug (Unplug n) S = Some S'"
  shows "minors_inv S'"
proof (rule hotplug_Unplug [OF assms(2)])
  fix c
  assume c: "bound S n = Some c" and b: "bound S' = (bound S)(n := None)"
    and k: "next_minor (bus_state S') = next_minor (bus_state S)"
      "calls (bus_state S') = calls (bus_state S) @ unbind_log (ctx_bar_bases c) (ctx_dev c)"
  have m: "minors S' = minors S - {ctx_dev c}"
    using minors_unbind [OF _ c b] assms(1) by (simp add: minors_inv_def)
  have "ctx_dev c \<in> minors S" using c by (auto simp: minors_def)
  moreover have "inj_on (\<lambda>k. ctx_dev (the (bound S' k))) {k. bound S' k \<noteq> None}"
    using assms(1) by (auto simp: minors_inv_def inj_on_def b split: if_splits)
  moreover have "minors S \<subseteq> {..<next_minor (bus_state S)}" using assms(1) by (simp add: minors_inv_def)
  ultimately show ?thesis using assms(1) k
    by (auto simp: minors_inv_def m released_unbind_node of_bool_def)
qed

text \<open>
  C10: as long as every device node can be created, the minor numbers of the bound cards are
  distinct however cards come and go, and the device nodes that exist are exactly theirs: unbinding
  a card never takes away another card's node.
\<close>

theorem nodes_are_bound_cards:
  assumes "run hotplug_step no_cards ls S" and "\<forall>l \<in> set ls. node_created l"
  shows "inj_on (\<lambda>n. ctx_dev (the (bound S n))) {n. bound S n \<noteq> None} \<and>
    {m. R_node m \<in># outstanding (calls (bus_state S))} = minors S"
proof -
  have step: "minors_inv T" if "minors_inv S" "hotplug_step S l T" "node_created l" for S l T
    using that unfolding hotplug_step_def
    by (cases l) (metis minors_inv_plug node_created.simps(1), metis minors_inv_unplug)
  have inv: "minors_inv S"
    by (rule run_invariant [where I = minors_inv and Q = node_created,
          OF assms(1) minors_inv_start assms(2)]) (rule step)
  have "R_node m \<in># outstanding (calls (bus_state S)) \<longleftrightarrow> m \<in> minors S" for m
    using inv by (auto simp: minors_inv_def outstanding_def in_diff_count of_bool_def)
  with inv show ?thesis by (simp add: minors_inv_def)
qed

lemma hotplug_PlugI:
  assumes "bound S n = None"
    and "accesio_pci_driver_probe E device ((bus_state S)\<lparr>drvdata := None\<rparr>) = (Some 0, s')"
  shows "hotplug (Plug n E device) S = Some \<lparr>bus_state = s', bound = (bound S)(n := drvdata s')\<rparr>"
  using assms by simp

lemma sample_succeeds:
  "accesio_pci_driver_probe (sample_env\<lparr>device_create := c\<rparr>) 0x0100 s = (Some 0,
    \<lparr>calls = calls s @ bind_log (sample_env\<lparr>device_create := c\<rparr>) (hd descriptors_1) (next_minor s),
     drvdata = Some (bound_context (sample_env\<lparr>device_create := c\<rparr>) 0x0100 (hd descriptors_1)
       (next_minor s)),
     next_minor = (if c = 0 then Suc (next_minor s) else next_minor s)\<rparr>)"
  using probe_succeeds [OF find_0100, of "sample_env\<lparr>device_create := c\<rparr>" s]
  by (simp add: sample_env_def descriptors_1_def)

lemma sample_plug:
  "bound S n = None \<Longrightarrow>
   hotplug (Plug n (sample_env\<lparr>device_create := c\<rparr>) 0x0100) S = Some
     \<lparr>bus_state =
       \<lparr>calls = calls (bus_state S) @ bind_log (sample_env\<lparr>device_create := c\<rparr>) (hd descriptors_1)
          (next_minor (bus_state S)),
        drvdata = Some (bound_context (sample_env\<lparr>device_create := c\<rparr>) 0x0100 (hd descriptors_1)
          (next_minor (bus_state S))),
        next_minor = (if c = 0 then Suc (next_minor (bus_state S)) else next_minor (bus_state S))\<rparr>,
      bound = (bound S)(n := Some (bound_context (sample_env\<lparr>device_create := c\<rparr>) 0x0100
        (hd descriptors_1) (next_minor (bus_state S))))\<rparr>"
  by (subst hotplug_PlugI [OF _ sample_succeeds]) simp_all

lemma sample_schedule:
  "\<exists>S. run hotplug_step no_cards
     [Plug 0 (sample_env\<lparr>device_create := c\<rparr>) 0x0100, Plug 1 (sample_env\<lparr>device_create := 0\<rparr>) 0x0100,
      Unplug 0] S
   \<and> bound S 0 = None
   \<and> bound S 1 = Some (bound_context (sample_env\<lparr>device_create := 0\<rparr>) 0x0100 (hd descriptors_1)
       (if c = 0 then 1 else 0))
   \<and> calls (bus_state S) =
       bind_log (sample_env\<lparr>device_create := c\<rparr>) (hd descriptors_1) 0 @
       bind_log (sample_env\<lparr>device_create := 0\<rparr>) (hd descriptors_1) (if c = 0 then 1 else 0) @
       unbind_log (bars_of (sample_env\<lparr>device_create := c\<rparr>)) 0"
proof -
  let ?ls = "[Plug 0 (sample_env\<lparr>device_create := c\<rparr>) 0x0100,
    Plug 1 (sample_env\<lparr>device_create := 0\<rparr>) 0x0100, Unplug 0]"
  obtain S where S: "exec_all hotplug ?ls no_cards = Some S" "bound S 0 = None"
     "bound S 1 = Some (bound_context (sample_env\<lparr>device_create := 0\<rparr>) 0x0100 (hd descriptors_1)
       (if c = 0 then 1 else 0))"
     "calls (bus_state S) =
       bind_log (sample_env\<lparr>device_create := c\<rparr>) (hd descriptors_1) 0 @
       bind_log (sample_env\<lparr>device_create := 0\<rparr>) (hd descriptors_1) (if c = 0 then 1 else 0) @
       unbind_log (bars_of (sample_env\<lparr>device_create := c\<rparr>)) 0"
    by (simp add: sample_plug no_cards_def idle_def remove_bound bound_context_def del: hotplug.simps(1))
  moreover have "run hotplug_step no_cards ?ls S"
    by (rule exec_all_run [OF S(1)]) (simp add: hotplug_step_def)
  ultimately show ?thesis by blast
qed

theorem nodes_are_bound_cards_witness:
  "\<exists>S. run hotplug_step no_cards
      [Plug 0 (sample_env\<lparr>device_create := 0\<rparr>) 0x0100, Plug 1 (sample_env\<lparr>device_create := 0\<rparr>) 0x0100,
       Unplug 0] S
    \<and> bound S 1 \<noteq> None \<and> {m. R_node m \<in># outstanding (calls (bus_state S))} = minors S"
proof -
  let ?E = "sample_env\<lparr>device_create := 0\<rparr>"
  from sample_schedule [of 0] obtain S where
    r: "run hotplug_step no_cards [Plug 0 ?E 0x0100, Plug 1 ?E 0x0100, Unplug 0] S"
    and b: "bound S 1 \<noteq> None" by auto
  have "\<forall>l \<in> set [Plug 0 ?E 0x0100, Plug 1 ?E 0x0100, Unplug 0]. node_created l" by simp
  from nodes_are_bound_cards [OF r this] r b show ?thesis by blast
qed

text \<open>
  When a node cannot be created, the next card gets the same minor number, and unbinding the first
  card destroys the node of the second, which stays bound.
\<close>

lemma failed_node_shares_minor:
  "\<exists>ls S c. run hotplug_step no_cards ls S \<and> bound S 0 = None \<and> bound S 1 = Some c
    \<and> R_node (ctx_dev c) \<in># held (calls (bus_state S))
    \<and> R_node (ctx_dev c) \<notin># outstanding (calls (bus_state S))"
proof -
  from sample_schedule [of "- 12"] obtain ls S where
    "run hotplug_step no_cards ls S" "bound S 0 = None"
    "bound S 1 = Some (bound_context (sample_env\<lparr>device_create := 0\<rparr>) 0x0100 (hd descriptors_1) 0)"
    "calls (bus_state S) =
       bind_log (sample_env\<lparr>device_create := - 12\<rparr>) (hd descriptors_1) 0 @
       bind_log (sample_env\<lparr>device_create := 0\<rparr>) (hd descriptors_1) 0 @
       unbind_log (bars_of (sample_env\<lparr>device_create := - 12\<rparr>)) 0"
    by auto
  moreover from this(4) have "count (held (calls (bus_state S))) (R_node 0) = 1"
    "count (released (calls (bus_state S))) (R_node 0) = 1"
    by (simp_all add: held_bind_node released_unbind_node)
  then have "R_node 0 \<in># held (calls (bus_state S))" "R_node 0 \<notin># outstanding (calls (bus_state S))"
    by (simp_all add: outstanding_def in_diff_count flip: count_greater_zero_iff)
  moreover have "ctx_dev (bound_context E device d 0) = 0" for E device d
    by (simp add: bound_context_def)
  ultimately show ?thesis by metis
qed

section \<open>How far the minor numbers reach\<close>

fun is_plug :: "hotplug_event \<Rightarrow> bool" where
  "is_plug (Plug n E device) \<longleftrightarrow> True"
| "is_plug (Unplug n) \<longleftrightarrow> False"

definition minors_below :: "nat \<Rightarrow> pci_system \<Rightarrow> bool" where
  "minors_below k S \<longleftrightarrow> next_minor (bus_state S) \<le> k \<and> (\<forall>n c. bound S n = Some c \<longrightarrow> ctx_dev c < k)"

lemma minors_below_step:
  assumes "minors_below k S" "hotplug_step S l S'"
  shows "minors_below (k + of_bool (is_plug l)) S'"
proof (cases l)
  case (Unplug n)
  with assms(2) have h: "hotplug (Unplug n) S = Some S'" by (simp add: hotplug_step_def)
  from assms(1) Unplug show ?thesis
    by (rule_tac hotplug_Unplug [OF h]) (auto simp: minors_below_def)
next
  case (Plug n E device)
  with assms(2) have h: "hotplug (Plug n E device) S = Some S'" by (simp add: hotplug_step_def)
  show ?thesis
  proof (rule hotplug_Plug [OF h])
    fix e
    assume p: "accesio_pci_driver_probe E device ((bus_state S)\<lparr>drvdata := None\<rparr>) = (Some e, bus_state S')"
      and b: "bound S' = (bound S)(n := if e = 0 then drvdata (bus_state S') else None)"
    show ?thesis
    proof (cases "e = 0")
      case True
      show ?thesis
        by (rule probe_bound [OF p [unfolded True]])
           (use assms(1) b True Plug in
             \<open>auto simp: minors_below_def bound_context_def less_Suc_eq_le intro: less_imp_le\<close>)
    next
      case False
      from probe_not_bound_nodes [OF p False] have "next_minor (bus_state S') = next_minor (bus_state S)"
        by auto
      with assms(1) b False Plug show ?thesis
        by (auto simp: minors_below_def intro: less_SucI)
    qed
  qed
qed

text \<open>
  C13: the minor number of a bound card is below the number of cards plugged in since the module was
  loaded, whether their probes succeeded or not: the first 32 cards stay inside the region of
  \<^verbatim>\<open>MAX_CHAR_DEVICES\<close> minors that init reserved.
\<close>

theorem minors_in_region:
  assumes "run hotplug_step no_cards ls S" and "bound S n = Some c"
  shows "ctx_dev c < length (filter is_plug ls)"
proof -
  have "minors_below 0 no_cards" by (simp add: minors_below_def no_cards_def idle_def)
  then have "minors_below (length (filter is_plug ls)) S"
    using run_counted [OF assms(1), of minors_below is_plug] minors_below_step by blast
  with assms(2) show ?thesis by (auto simp: minors_below_def)
qed

text \<open>
  The region is not enough for a machine that stays up: a minor number is never used again, so that a
  single card plugged in for the 33rd time is given the number after the last one reserved.
\<close>

lemma one_card_replugged:
  "\<exists>ls S c. run hotplug_step no_cards ls S \<and> length (filter is_plug ls) = Suc k
     \<and> bound S = [0 \<mapsto> c] \<and> ctx_dev c = k \<and> next_minor (bus_state S) = Suc k"
proof (induction k)
  let ?E = "sample_env\<lparr>device_create := 0\<rparr>"
  have ctx: "ctx_dev (bound_context E device d m) = m" for E device d m by (simp add: bound_context_def)
  have plug: "\<exists>S' c. hotplug_step S (Plug 0 ?E 0x0100) S' \<and> bound S' = [0 \<mapsto> c]
      \<and> ctx_dev c = next_minor (bus_state S) \<and> next_minor (bus_state S') = Suc (next_minor (bus_state S))"
    if "bound S = Map.empty" for S
    unfolding hotplug_step_def using that
    by (subst sample_plug) (auto simp: ctx)
  {
    case 0
    from plug [of no_cards] obtain S c where s: "hotplug_step no_cards (Plug 0 ?E 0x0100) S"
      "bound S = [0 \<mapsto> c]" "ctx_dev c = 0" "next_minor (bus_state S) = Suc 0"
      by (auto simp: no_cards_def idle_def)
    have "run hotplug_step no_cards [Plug 0 ?E 0x0100] S"
      by (rule run_Cons, rule s(1), rule run_Nil)
    with s(2-4) show ?case
      by (intro exI [of _ "[Plug 0 ?E 0x0100]"] exI [of _ S] exI [of _ c]) simp
  next
    case (Suc k)
    then obtain ls S c where s: "run hotplug_step no_cards ls S" "length (filter is_plug ls) = Suc k"
      "bound S = [0 \<mapsto> c]" "next_minor (bus_state S) = Suc k" by blast
    obtain T where t: "hotplug_step S (Unplug 0) T" "bound T = Map.empty"
      "next_minor (bus_state T) = Suc k"
      using s(3,4) by (auto simp: hotplug_step_def remove_bound)
    from plug [OF t(2)] obtain U c' where u: "hotplug_step T (Plug 0 ?E 0x0100) U"
      "bound U = [0 \<mapsto> c']" "ctx_dev c' = Suc k" "next_minor (bus_state U) = Suc (Suc k)"
      using t(3) by auto
    have "run hotplug_step no_cards ((ls @ [Unplug 0]) @ [Plug 0 ?E 0x0100]) U"
      using s(1) t(1) u(1) by (blast intro: run_snoc)
    with s(2) u(2-4) show ?case
      by (intro exI [of _ "(ls @ [Unplug 0]) @ [Plug 0 ?E 0x0100]"] exI [of _ U] exI [of _ c']) simp
  }
qed

theorem minors_in_region_witness:
  "\<exists>ls S c. run hotplug_step no_cards ls S \<and> bound S = [0 \<mapsto> c] \<and> ctx_dev c = 32
     \<and> ctx_dev c < length (filter is_plug ls)"
proof -
  from one_card_replugged [of 32] obtain ls S c where s: "run hotplug_step no_cards ls S"
    "bound S = [0 \<mapsto> c]" "ctx_dev c = 32" by blast
  from s(2) have "bound S 0 = Some c" by simp
  from minors_in_region [OF s(1) this] s show ?thesis by blast
qed

end
