(* ===== verification/Aiowdm.thy ===== *)
theory Aiowdm
  imports Char_Driver
begin

text \<open>
  The user library, \<^verbatim>\<open>aiowdm/aiowdm.cpp\<close>: the table of cards its constructor fills, and the calls of
  \<^verbatim>\<open>aiowdm.h\<close>.

  \<^verbatim>\<open>open\<close>, \<^verbatim>\<open>ioctl\<close> and \<^verbatim>\<open>malloc\<close> are the C library's and the kernel's: they are a parameter of type
  \<open>libc\<close> over a type of worlds. What the calls rely on is stated as the locale \<open>register_card\<close>,
  which \<^theory_text>\<open>Aiowdm_Driver\<close> interprets on the model of the driver. Results are \<open>None\<close> where the code
  reads or writes past its arrays or dereferences \<^verbatim>\<open>NULL\<close>.
\<close>

section \<open>The C library\<close>

text \<open>The structure an ioctl's pointer argument points to.\<close>

datatype user_buffer =
    Reg accesio_pci_register_io_context
  | Card accesio_pci_card_descriptor
  | No_buffer

text \<open>
  \<open>open_file\<close> and \<open>ioctl\<close> return the C result; \<open>malloc_card\<close> is the block \<^verbatim>\<open>malloc\<close> returns, with
  whatever it contains, or \<^verbatim>\<open>NULL\<close>.
\<close>

record 'w libc =
  open_file :: "string \<Rightarrow> 'w \<Rightarrow> int \<times> 'w"
  ioctl :: "int \<Rightarrow> ioctl_code \<Rightarrow> user_buffer \<Rightarrow> 'w \<Rightarrow> (int \<times> user_buffer \<times> 'w) option"
  malloc_card :: "accesio_pci_card_descriptor option"

section \<open>State\<close>

record lib_card =
  fd :: int
  card_descriptor :: "accesio_pci_card_descriptor option"

record 'w lib_state =
  cards :: "lib_card list"
  num_cards :: u32
  init_complete :: bool
  world :: 'w

abbreviation MAX_CARDS :: nat where "MAX_CARDS \<equiv> 32"

text \<open>Static storage before the constructor runs.\<close>

definition lib_start :: "'w \<Rightarrow> 'w lib_state" where
  "lib_start w = \<lparr>cards = replicate MAX_CARDS \<lparr>fd = 0, card_descriptor = None\<rparr>, num_cards = 0,
     init_complete = False, world = w\<rparr>"

section \<open>The constructor\<close>

definition dev_path :: "string \<Rightarrow> string" where
  "dev_path entry = ''/dev/accesio_pci/'' @ entry"

text \<open>
  The two stores into the entry at \<open>num_cards\<close>. A store past the last entry writes to whatever
  lies behind the array: that is undefined behaviour, and has no value here.
\<close>

definition set_fd :: "int \<Rightarrow> 'w lib_state \<Rightarrow> 'w lib_state option" where
  "set_fd h s = (if unat (num_cards s) < length (cards s)
     then Some (s\<lparr>cards := (cards s)[unat (num_cards s) :=
       (cards s ! unat (num_cards s))\<lparr>fd := h\<rparr>]\<rparr>)
     else None)"

definition set_descriptor :: "accesio_pci_card_descriptor option \<Rightarrow> 'w lib_state
    \<Rightarrow> 'w lib_state option" where
  "set_descriptor d s = (if unat (num_cards s) < length (cards s)
     then Some (s\<lparr>cards := (cards s)[unat (num_cards s) :=
       (cards s ! unat (num_cards s))\<lparr>card_descriptor := d\<rparr>]\<rparr>)
     else None)"

text \<open>The pointer argument for a block of \<^verbatim>\<open>malloc\<close>, and the block afterwards.\<close>

definition card_arg :: "accesio_pci_card_descriptor option \<Rightarrow> user_buffer" where
  "card_arg d = (case d of None \<Rightarrow> No_buffer | Some d \<Rightarrow> Card d)"

fun card_of :: "user_buffer \<Rightarrow> accesio_pci_card_descriptor option" where
  "card_of (Card d) = Some d"
| "card_of _ = None"

text \<open>
  One directory entry, and the loop of \<^verbatim>\<open>AiowdmInit\<close> over the directory. A file that cannot be
  opened, or does not answer the descriptor ioctl, is skipped; the slot it used is used again. The
  code compares \<open>num_cards\<close> with nothing: the store of the file is where it leaves the table.
\<close>

definition add_entry :: "'w libc \<Rightarrow> string \<Rightarrow> 'w lib_state \<Rightarrow> 'w lib_state option" where
  "add_entry L entry s =
     (if \<not> strstr entry ''pci'' then Some s
      else
        let (h, w) = open_file L (dev_path entry) (world s) in
        case set_fd h (s\<lparr>world := w\<rparr>) of
          None \<Rightarrow> None
        | Some s \<Rightarrow>
            if h < 0 then Some s
            else case ioctl L h ACCESIO_PCI_CARD_DESCRIPTOR_GET (card_arg (malloc_card L)) (world s) of
              None \<Rightarrow> None
            | Some (status, b, w) \<Rightarrow>
                (case set_descriptor (card_of b) (s\<lparr>world := w\<rparr>) of
                   None \<Rightarrow> None
                 | Some s \<Rightarrow>
                     if status \<noteq> 0 then Some s else Some (s\<lparr>num_cards := num_cards s + 1\<rparr>)))"

fun add_entries :: "'w libc \<Rightarrow> string list \<Rightarrow> 'w lib_state \<Rightarrow> 'w lib_state option" where
  "add_entries L [] s = Some s"
| "add_entries L (e # es) s =
     (case add_entry L e s of None \<Rightarrow> None | Some s' \<Rightarrow> add_entries L es s')"

text \<open>The directory is \<open>None\<close> when \<^verbatim>\<open>opendir\<close> fails.\<close>

definition AiowdmInit :: "'w libc \<Rightarrow> string list option \<Rightarrow> 'w lib_state \<Rightarrow> 'w lib_state option" where
  "AiowdmInit L dir s =
     (case dir of
        None \<Rightarrow> Some s
      | Some entries \<Rightarrow> map_option (init_complete_update (\<lambda>_. True)) (add_entries L entries s))"

section \<open>Queries\<close>

definition GetNumCards :: "'w lib_state \<Rightarrow> int" where
  "GetNumCards s = uint (num_cards s)"

text \<open>
  What \<^verbatim>\<open>QueryCardInfo\<close> leaves behind its four pointers; \<open>None\<close> is a null pointer. The status is
  returned as an unsigned number.
\<close>

record card_info =
  q_status :: u32
  q_device_id :: "u64 option"
  q_base :: "u64 option"
  q_name_size :: "u64 option"
  q_name :: "char list option"

text \<open>
  The source of the copy is the name array: a string if it is terminated, else at most its 64
  bytes are read.
\<close>

definition copy_name :: "char list \<Rightarrow> char list \<Rightarrow> nat \<Rightarrow> char list option" where
  "copy_name buf nm n =
     (case c_string nm of
        Some str \<Rightarrow> strncpy buf str n
      | None \<Rightarrow> if n \<le> length nm then strncpy buf nm n else None)"

definition QueryCardInfo :: "u32 \<Rightarrow> card_info \<Rightarrow> 'w lib_state \<Rightarrow> card_info option" where
  "QueryCardInfo CardNum q s =
     (if num_cards s \<le> CardNum then Some (q\<lparr>q_status := word_of_int (- EINVAL)\<rparr>)
      else if length (cards s) \<le> unat CardNum then None
      else case card_descriptor (cards s ! unat CardNum) of
        None \<Rightarrow> None
      | Some d \<Rightarrow>
          let q = q\<lparr>q_device_id := map_option (\<lambda>_. ucast (device_id d)) (q_device_id q)\<rparr>;
              q = q\<lparr>q_base := map_option (\<lambda>_. port_base d) (q_base q)\<rparr>
          in if q_name_size q = None \<and> q_name q \<noteq> None
             then Some (q\<lparr>q_status := word_of_int (- EINVAL)\<rparr>)
             else
               let q = q\<lparr>q_name_size := map_option (\<lambda>n. if n = 0 then name_size d else n)
                           (q_name_size q)\<rparr>
               in case (q_name q, q_name_size q) of
                    (Some buf, Some n) \<Rightarrow>
                      map_option (\<lambda>buf'. q\<lparr>q_name := Some buf', q_status := 0\<rparr>)
                        (copy_name buf (card_name d) (unat n))
                  | _ \<Rightarrow> Some (q\<lparr>q_status := 0\<rparr>))"

section \<open>Calls that go to the driver\<close>

text \<open>\<^verbatim>\<open>ioctl(cards[CardNum].fd, cmd, ...)\<close>: the card number is not checked.\<close>

definition call_ioctl :: "'w libc \<Rightarrow> u32 \<Rightarrow> ioctl_code \<Rightarrow> user_buffer \<Rightarrow> 'w lib_state
    \<Rightarrow> (int \<times> user_buffer \<times> 'w lib_state) option" where
  "call_ioctl L CardNum cmd b s =
     (if length (cards s) \<le> unat CardNum then None
      else case ioctl L (fd (cards s ! unat CardNum)) cmd b (world s) of
        None \<Rightarrow> None
      | Some (status, b', w) \<Rightarrow> Some (status, b', s\<lparr>world := w\<rparr>))"

text \<open>The union of the structure after the call.\<close>

fun data_of :: "user_buffer \<Rightarrow> u32 option" where
  "data_of (Reg r) = Some (data r)"
| "data_of _ = None"

text \<open>The reads return the union's member whatever the status; a failure is only printed.\<close>

definition RelInPortB :: "'w libc \<Rightarrow> u32 \<Rightarrow> u32 \<Rightarrow> 'w lib_state \<Rightarrow> (u8 \<times> 'w lib_state) option" where
  "RelInPortB L CardNum Register s =
     (case call_ioctl L CardNum ACCESIO_PCI_REGISTER_IO
            (Reg \<lparr>read = True, offset = Register, size = 1, data = 0\<rparr>) s of
        None \<Rightarrow> None
      | Some (status, b, s') \<Rightarrow> map_option (\<lambda>d. (data_byte d, s')) (data_of b))"

definition RelInPort :: "'w libc \<Rightarrow> u32 \<Rightarrow> u32 \<Rightarrow> 'w lib_state \<Rightarrow> (u16 \<times> 'w lib_state) option" where
  "RelInPort L CardNum Register s =
     (case call_ioctl L CardNum ACCESIO_PCI_REGISTER_IO
            (Reg \<lparr>read = True, offset = Register, size = 2, data = 0\<rparr>) s of
        None \<Rightarrow> None
      | Some (status, b, s') \<Rightarrow> map_option (\<lambda>d. (data_word d, s')) (data_of b))"

definition RelInPortL :: "'w libc \<Rightarrow> u32 \<Rightarrow> u32 \<Rightarrow> 'w lib_state \<Rightarrow> (u32 \<times> 'w lib_state) option" where
  "RelInPortL L CardNum Register s =
     (case call_ioctl L CardNum ACCESIO_PCI_REGISTER_IO
            (Reg \<lparr>read = True, offset = Register, size = 4, data = 0\<rparr>) s of
        None \<Rightarrow> None
      | Some (status, b, s') \<Rightarrow> map_option (\<lambda>d. (d, s')) (data_of b))"

definition RelOutPortB :: "'w libc \<Rightarrow> u32 \<Rightarrow> u32 \<Rightarrow> u8 \<Rightarrow> 'w lib_state \<Rightarrow> (int \<times> 'w lib_state) option" where
  "RelOutPortB L CardNum Register Value s =
     map_option (\<lambda>(status, b, s'). (status, s')) (call_ioctl L CardNum ACCESIO_PCI_REGISTER_IO
       (Reg \<lparr>read = False, offset = Register, size = 1, data = set_data_byte Value 0\<rparr>) s)"

definition RelOutPort :: "'w libc \<Rightarrow> u32 \<Rightarrow> u32 \<Rightarrow> u16 \<Rightarrow> 'w lib_state \<Rightarrow> (int \<times> 'w lib_state) option" where
  "RelOutPort L CardNum Register Value s =
     map_option (\<lambda>(status, b, s'). (status, s')) (call_ioctl L CardNum ACCESIO_PCI_REGISTER_IO
       (Reg \<lparr>read = False, offset = Register, size = 2, data = set_data_word Value 0\<rparr>) s)"

definition RelOutPortL :: "'w libc \<Rightarrow> u32 \<Rightarrow> u32 \<Rightarrow> u32 \<Rightarrow> 'w lib_state \<Rightarrow> (int \<times> 'w lib_state) option" where
  "RelOutPortL L CardNum Register Value s =
     map_option (\<lambda>(status, b, s'). (status, s')) (call_ioctl L CardNum ACCESIO_PCI_REGISTER_IO
       (Reg \<lparr>read = False, offset = Register, size = 4, data = Value\<rparr>) s)"

definition WaitForIRQ :: "'w libc \<Rightarrow> u32 \<Rightarrow> 'w lib_state \<Rightarrow> (int \<times> 'w lib_state) option" where
  "WaitForIRQ L CardNum s =
     map_option (\<lambda>(status, b, s'). (status, s')) (call_ioctl L CardNum ACCESIO_PCI_IRQ_WAIT No_buffer s)"

definition AbortRequest :: "'w libc \<Rightarrow> u32 \<Rightarrow> 'w lib_state \<Rightarrow> (int \<times> 'w lib_state) option" where
  "AbortRequest L CardNum s =
     map_option (\<lambda>(status, b, s'). (status, s'))
       (call_ioctl L CardNum ACCESIO_PCI_IRQ_WAIT_CANCEL No_buffer s)"

definition COSWaitForIRQ :: "u32 \<Rightarrow> u32 \<Rightarrow> 'w lib_state \<Rightarrow> int \<times> 'w lib_state" where
  "COSWaitForIRQ CardNum PPIs s = (- 1, s)"

section \<open>The contract of the register ioctl\<close>

text \<open>
  What the register calls need of a file \<open>h\<close> in a world that is \<open>ready\<close>: a request of a valid size
  succeeds, makes one access to the register of the card, answers a read with what the card
  returned, changes nothing else (\<open>rest\<close>) and leaves the world ready.
\<close>

definition one_access :: "device \<Rightarrow> addr \<Rightarrow> nat \<Rightarrow> accesio_pci_register_io_context \<Rightarrow> io_event list
    \<Rightarrow> io_event" where
  "one_access D base n r t =
     (if read r then read_event n (base + scast (offset r)) (D t n (base + scast (offset r)))
      else write_event n (base + scast (offset r)) (data r))"

definition answered :: "device \<Rightarrow> addr \<Rightarrow> nat \<Rightarrow> accesio_pci_register_io_context \<Rightarrow> io_event list
    \<Rightarrow> accesio_pci_register_io_context" where
  "answered D base n r t =
     (if read r then r\<lparr>data := merge_data n (D t n (base + scast (offset r))) (data r)\<rparr> else r)"

locale register_card =
  fixes L :: "'w libc"
    and h :: int
    and D :: device
    and base :: addr
    and ready :: "'w \<Rightarrow> bool"
    and accesses :: "'w \<Rightarrow> io_event list"
    and rest :: "'w \<Rightarrow> 'r"
  assumes register_io:
    "ready w \<Longrightarrow> io_width r = Some n \<Longrightarrow>
      \<exists>w'. ioctl L h ACCESIO_PCI_REGISTER_IO (Reg r) w = Some (0, Reg (answered D base n r (accesses w)), w')
        \<and> ready w' \<and> rest w' = rest w
        \<and> accesses w' = accesses w @ [one_access D base n r (accesses w)]"
begin

definition selects :: "u32 \<Rightarrow> 'w lib_state \<Rightarrow> bool" where
  "selects CardNum s \<longleftrightarrow> unat CardNum < length (cards s) \<and> fd (cards s ! unat CardNum) = h
     \<and> ready (world s)"

lemma call_register_io:
  assumes "selects CardNum s" "io_width r = Some n"
  shows "\<exists>w'. call_ioctl L CardNum ACCESIO_PCI_REGISTER_IO (Reg r) s =
      Some (0, Reg (answered D base n r (accesses (world s))), s\<lparr>world := w'\<rparr>)
    \<and> ready w' \<and> rest w' = rest (world s)
    \<and> accesses w' = accesses (world s) @ [one_access D base n r (accesses (world s))]"
  using register_io [OF _ assms(2), of "world s"] assms(1)
  by (auto simp: call_ioctl_def selects_def)

lemma in_ports:
  fixes Register :: u32
  assumes "selects CardNum s"
  defines "t \<equiv> accesses (world s)" and "a \<equiv> base + scast Register"
  shows
   "\<exists>w'. RelInPortB L CardNum Register s = Some (ucast (D t 1 a), s\<lparr>world := w'\<rparr>)
      \<and> accesses w' = t @ [Read8 a (ucast (D t 1 a))] \<and> rest w' = rest (world s)"
   "\<exists>w'. RelInPort L CardNum Register s = Some (ucast (D t 2 a), s\<lparr>world := w'\<rparr>)
      \<and> accesses w' = t @ [Read16 a (ucast (D t 2 a))] \<and> rest w' = rest (world s)"
   "\<exists>w'. RelInPortL L CardNum Register s = Some (D t 4 a, s\<lparr>world := w'\<rparr>)
      \<and> accesses w' = t @ [Read32 a (D t 4 a)] \<and> rest w' = rest (world s)"
  using call_register_io [OF assms(1), of "\<lparr>read = True, offset = Register, size = 1, data = 0\<rparr>" 1]
    call_register_io [OF assms(1), of "\<lparr>read = True, offset = Register, size = 2, data = 0\<rparr>" 2]
    call_register_io [OF assms(1), of "\<lparr>read = True, offset = Register, size = 4, data = 0\<rparr>" 4]
  by (auto simp: RelInPortB_def RelInPort_def RelInPortL_def io_width_def answered_def
      one_access_def merge_data_def t_def a_def)

lemma out_ports:
  fixes Register :: u32
  assumes "selects CardNum s"
  defines "t \<equiv> accesses (world s)" and "a \<equiv> base + scast Register"
  shows
   "\<exists>w'. RelOutPortB L CardNum Register b s = Some (0, s\<lparr>world := w'\<rparr>)
      \<and> accesses w' = t @ [Write8 a b] \<and> rest w' = rest (world s)"
   "\<exists>w'. RelOutPort L CardNum Register v s = Some (0, s\<lparr>world := w'\<rparr>)
      \<and> accesses w' = t @ [Write16 a v] \<and> rest w' = rest (world s)"
   "\<exists>w'. RelOutPortL L CardNum Register d s = Some (0, s\<lparr>world := w'\<rparr>)
      \<and> accesses w' = t @ [Write32 a d] \<and> rest w' = rest (world s)"
  using call_register_io [OF assms(1),
      of "\<lparr>read = False, offset = Register, size = 1, data = set_data_byte b 0\<rparr>" 1]
    call_register_io [OF assms(1),
      of "\<lparr>read = False, offset = Register, size = 2, data = set_data_word v 0\<rparr>" 2]
    call_register_io [OF assms(1), of "\<lparr>read = False, offset = Register, size = 4, data = d\<rparr>" 4]
  by (auto simp: RelOutPortB_def RelOutPort_def RelOutPortL_def io_width_def
      one_access_def set_data_byte_0 set_data_word_0 t_def a_def)

end

section \<open>The card's name\<close>

lemma c_string_no_NUL: "c_string buf = Some str \<Longrightarrow> NUL \<notin> set str"
  by (auto simp: c_string_def dest: set_takeWhileD split: if_splits)

text \<open>
  C39: a query for a valid card number, with pointers to a name size and to a buffer at least that
  large, returns 0, the card's id and base where the caller wants them, and a name size that is the
  caller's, or the card's when the caller's is 0. It writes that many bytes of the caller's buffer
  and none after them: the name with its terminator when the size exceeds the name's length, else
  the name cut to the size, without a terminator.
\<close>

theorem query_card_info:
  assumes "CardNum < num_cards s" and "unat CardNum < length (cards s)"
    and "card_descriptor (cards s ! unat CardNum) = Some d" and "c_string (card_name d) = Some nm"
    and "q_name_size q = Some n" and "q_name q = Some buf"
    and "m = (if n = 0 then name_size d else n)" and "unat m \<le> length buf"
  shows "\<exists>buf'. QueryCardInfo CardNum q s =
      Some \<lparr>q_status = 0, q_device_id = map_option (\<lambda>_. ucast (device_id d)) (q_device_id q),
        q_base = map_option (\<lambda>_. port_base d) (q_base q), q_name_size = Some m, q_name = Some buf'\<rparr>
    \<and> length buf' = length buf \<and> drop (unat m) buf' = drop (unat m) buf
    \<and> (if length nm < unat m then c_string buf' = Some nm else take (unat m) buf' = take (unat m) nm)"
proof -
  from assms(8) obtain buf' where b: "strncpy buf nm (unat m) = Some buf'" by (simp add: strncpy_def)
  from b assms(8) have "drop (unat m) buf' = drop (unat m) buf"
    "unat m \<le> length nm \<Longrightarrow> take (unat m) buf' = take (unat m) nm"
    by (auto simp: strncpy_def)
  moreover from assms(1) have "\<not> num_cards s \<le> CardNum" by simp
  ultimately show ?thesis
    using assms(2-8) b length_strncpy [OF b] c_string_strncpy [OF b c_string_no_NUL [OF assms(4)]]
    by (cases q) (simp add: QueryCardInfo_def copy_name_def Let_def)
qed

theorem query_card_info_witness:
  "\<exists>buf'. QueryCardInfo 0
      \<lparr>q_status = 7, q_device_id = Some 0, q_base = None, q_name_size = Some 0,
        q_name = Some ''xxxxx''\<rparr>
      \<lparr>cards = [\<lparr>fd = 3, card_descriptor = Some \<lparr>device_id = 0x100, port_base = 0x40, port_size = 8,
          name_size = 3, card_name = ''pci'' @ [NUL] @ ''junk'', bars = []\<rparr>\<rparr>],
       num_cards = 1, init_complete = True, world = ()\<rparr> =
      Some \<lparr>q_status = 0, q_device_id = Some 0x100, q_base = None, q_name_size = Some 3,
        q_name = Some buf'\<rparr> \<and> take 3 buf' = ''pci'' \<and> drop 3 buf' = ''xx''"
proof -
  let ?d = "\<lparr>device_id = 0x100, port_base = 0x40, port_size = 8,
    name_size = 3, card_name = ''pci'' @ [NUL] @ ''junk'', bars = []\<rparr> :: accesio_pci_card_descriptor"
  let ?s = "\<lparr>cards = [\<lparr>fd = 3, card_descriptor = Some ?d\<rparr>],
       num_cards = 1, init_complete = True, world = ()\<rparr> :: unit lib_state"
  let ?q = "\<lparr>q_status = 7, q_device_id = Some 0, q_base = None, q_name_size = Some 0,
        q_name = Some ''xxxxx''\<rparr>"
  have "0 < num_cards ?s" "unat (0 :: u32) < length (cards ?s)"
    "card_descriptor (cards ?s ! unat (0 :: u32)) = Some ?d" "c_string (card_name ?d) = Some ''pci''"
    "q_name_size ?q = Some 0" "q_name ?q = Some ''xxxxx''"
    by (simp_all add: c_string_def)
  from query_card_info [OF this, of 3] show ?thesis by auto
qed

end
