(* ===== verification/Aiowdm_Table.thy ===== *)
theory Aiowdm_Table
  imports Aiowdm Transition_Systems
begin

text \<open>
  The table of cards of the user library: when the constructor writes past its 32 entries, which it
  never checks, and what is true of the table after any calls that stayed inside it.
\<close>

section \<open>The calls of the library\<close>

text \<open>The constructor and the functions of \<^verbatim>\<open>aiowdm.h\<close>, with their arguments.\<close>

datatype lib_op =
    Op_init "string list option"
  | Op_num_cards
  | Op_query u32 card_info
  | Op_in_byte u32 u32 | Op_in_word u32 u32 | Op_in_long u32 u32
  | Op_out_byte u32 u32 u8 | Op_out_word u32 u32 u16 | Op_out_long u32 u32 u32
  | Op_wait u32 | Op_abort u32 | Op_cos_wait u32 u32

text \<open>The state after a call that returns; the queries leave it alone.\<close>

fun lib_call :: "'w libc \<Rightarrow> lib_op \<Rightarrow> 'w lib_state \<Rightarrow> 'w lib_state option" where
  "lib_call L (Op_init dir) s = AiowdmInit L dir s"
| "lib_call L Op_num_cards s = Some s"
| "lib_call L (Op_query c q) s = map_option (\<lambda>_. s) (QueryCardInfo c q s)"
| "lib_call L (Op_in_byte c r) s = map_option snd (RelInPortB L c r s)"
| "lib_call L (Op_in_word c r) s = map_option snd (RelInPort L c r s)"
| "lib_call L (Op_in_long c r) s = map_option snd (RelInPortL L c r s)"
| "lib_call L (Op_out_byte c r v) s = map_option snd (RelOutPortB L c r v s)"
| "lib_call L (Op_out_word c r v) s = map_option snd (RelOutPort L c r v s)"
| "lib_call L (Op_out_long c r v) s = map_option snd (RelOutPortL L c r v s)"
| "lib_call L (Op_wait c) s = map_option snd (WaitForIRQ L c s)"
| "lib_call L (Op_abort c) s = map_option snd (AbortRequest L c s)"
| "lib_call L (Op_cos_wait c p) s = Some (snd (COSWaitForIRQ c p s))"

definition lib_step :: "'w libc \<Rightarrow> 'w lib_state \<Rightarrow> lib_op \<Rightarrow> 'w lib_state \<Rightarrow> bool" where
  "lib_step L s op s' \<longleftrightarrow> lib_call L op s = Some s'"

fun is_init :: "lib_op \<Rightarrow> bool" where
  "is_init (Op_init dir) \<longleftrightarrow> True"
| "is_init _ \<longleftrightarrow> False"

section \<open>Only the constructor changes the table\<close>

lemma call_ioctl_table:
  assumes "call_ioctl L c cmd b s = Some (status, b', s')"
  shows "\<exists>w. s' = s\<lparr>world := w\<rparr>"
  using assms by (auto simp: call_ioctl_def split: if_splits option.splits prod.splits)

lemmas port_defs = RelInPortB_def RelInPort_def RelInPortL_def RelOutPortB_def RelOutPort_def
  RelOutPortL_def WaitForIRQ_def AbortRequest_def COSWaitForIRQ_def

lemma world_update_same: "\<exists>w. s = s\<lparr>world := w\<rparr>"
  by (rule exI [of _ "world s"]) simp

lemma lib_call_table:
  assumes "lib_call L op s = Some s'" "\<not> is_init op"
  shows "\<exists>w. s' = s\<lparr>world := w\<rparr>"
  using assms
  by (cases op) (auto simp: port_defs intro: world_update_same split: option.splits prod.splits
      dest: call_ioctl_table)

section \<open>One entry of the directory\<close>

lemma add_entry_skips: "\<not> strstr e ''pci'' \<Longrightarrow> add_entry L e s = Some s"
  by (simp add: add_entry_def)

text \<open>Only the entry at \<open>num_cards\<close> changes, and it is counted only with a file that is open.\<close>

lemma add_entry_cases:
  assumes "add_entry L e s = Some s'" and "strstr e ''pci''"
  obtains lc where "unat (num_cards s) < length (cards s)"
    "cards s' = (cards s)[unat (num_cards s) := lc]" "num_cards s' = num_cards s"
  | lc where "unat (num_cards s) < length (cards s)"
    "cards s' = (cards s)[unat (num_cards s) := lc]" "num_cards s' = num_cards s + 1" "0 \<le> fd lc"
proof -
  have "unat (num_cards s) < length (cards s) \<and>
      (\<exists>lc. cards s' = (cards s)[unat (num_cards s) := lc] \<and>
        (num_cards s' = num_cards s \<or> num_cards s' = num_cards s + 1 \<and> 0 \<le> fd lc))"
    using assms
    by (auto simp: add_entry_def set_fd_def set_descriptor_def Let_def
        split: if_splits option.splits prod.splits intro: exI)
  with that show thesis by blast
qed

lemma unat_next_card: "unat (n :: u32) < MAX_CARDS \<Longrightarrow> unat (n + 1) = Suc (unat n)"
  by (subst unat_add_lem [THEN iffD1]) simp_all

section \<open>How many cards the constructor can find\<close>

text \<open>
  The outcome of the constructor on a C library whose files answer by their path: \<open>answers\<close> says of
  which paths \<^verbatim>\<open>open\<close> succeeds and the descriptor ioctl on the new file returns 0.
\<close>

definition answers_by_path :: "'w libc \<Rightarrow> (string \<Rightarrow> bool) \<Rightarrow> bool" where
  "answers_by_path L answers \<longleftrightarrow> (\<forall>path w h w'. open_file L path w = (h, w') \<longrightarrow>
     (let reply = ioctl L h ACCESIO_PCI_CARD_DESCRIPTOR_GET (card_arg (malloc_card L)) w' in
      (answers path \<longleftrightarrow> 0 \<le> h \<and> (\<exists>b w''. reply = Some (0, b, w''))) \<and> (0 \<le> h \<longrightarrow> reply \<noteq> None)))"

lemma add_entry_overrun:
  assumes "strstr e ''pci''" and "length (cards s) \<le> unat (num_cards s)"
  shows "add_entry L e s = None"
  using assms by (simp add: add_entry_def set_fd_def split_beta)

lemma add_entry_counts:
  assumes L: "answers_by_path L answers" and pci: "strstr e ''pci''"
    and room: "unat (num_cards s) < length (cards s)"
  shows "\<exists>s'. add_entry L e s = Some s' \<and> length (cards s') = length (cards s)
    \<and> num_cards s' = num_cards s + of_bool (answers (dev_path e))"
proof -
  obtain h w where o: "open_file L (dev_path e) (world s) = (h, w)" by fastforce
  let ?reply = "ioctl L h ACCESIO_PCI_CARD_DESCRIPTOR_GET (card_arg (malloc_card L)) w"
  have a: "answers (dev_path e) \<longleftrightarrow> 0 \<le> h \<and> (\<exists>b w''. ?reply = Some (0, b, w''))"
    and r: "0 \<le> h \<longrightarrow> ?reply \<noteq> None"
    using L o by (simp_all add: answers_by_path_def Let_def)
  show ?thesis
  proof (cases "h < 0")
    case True
    with o pci room a show ?thesis by (simp add: add_entry_def set_fd_def)
  next
    case False
    with r obtain status b w'' where s: "?reply = Some (status, b, w'')" by auto
    with False o pci room a show ?thesis
      by (simp add: add_entry_def set_fd_def set_descriptor_def)
  qed
qed

definition pci_names :: "string list \<Rightarrow> string list" where
  "pci_names es = filter (\<lambda>e. strstr e ''pci'') es"

lemma pci_names_simps [simp]:
  "pci_names [] = []"
  "strstr e ''pci'' \<Longrightarrow> pci_names (e # es) = e # pci_names es"
  "\<not> strstr e ''pci'' \<Longrightarrow> pci_names (e # es) = pci_names es"
  by (simp_all add: pci_names_def)

lemma add_entries_counts:
  assumes "answers_by_path L answers" and "length (cards s) = MAX_CARDS"
    and "unat (num_cards s) \<le> MAX_CARDS"
  shows "if pci_names es \<noteq> [] \<and> MAX_CARDS \<le> unat (num_cards s) +
           length (filter (\<lambda>e. answers (dev_path e)) (butlast (pci_names es)))
    then add_entries L es s = None
    else \<exists>s'. add_entries L es s = Some s' \<and> length (cards s') = MAX_CARDS
      \<and> unat (num_cards s') = unat (num_cards s) +
           length (filter (\<lambda>e. answers (dev_path e)) (pci_names es))
      \<and> unat (num_cards s') \<le> MAX_CARDS"
  using assms(2,3)
proof (induction es arbitrary: s)
  case Nil
  then show ?case by simp
next
  case (Cons e es)
  show ?case
  proof (cases "strstr e ''pci''")
    case False
    with Cons.IH [OF Cons.prems] show ?thesis by (simp add: add_entry_skips del: if_split)
  next
    case pci: True
    show ?thesis
    proof (cases "unat (num_cards s) < MAX_CARDS")
      case False
      with pci Cons.prems show ?thesis by (simp add: add_entry_overrun)
    next
      case room: True
      from add_entry_counts [OF assms(1) pci, of s] room Cons.prems(1) obtain s1 where
        s1: "add_entry L e s = Some s1" "length (cards s1) = MAX_CARDS"
          "num_cards s1 = num_cards s + of_bool (answers (dev_path e))" by auto
      have n1: "unat (num_cards s1) = unat (num_cards s) + of_bool (answers (dev_path e))"
        using s1(3) unat_next_card [OF room] by simp
      with room have le: "unat (num_cards s1) \<le> MAX_CARDS" by (simp split: if_splits)
      show ?thesis
      proof (cases "pci_names es = []")
        case True
        with Cons.IH [OF s1(2) le] s1(1,2) n1 pci room show ?thesis
          by (cases "answers (dev_path e)") simp_all
      next
        case False
        with Cons.IH [OF s1(2) le] s1(1) n1 pci show ?thesis
          by (cases "answers (dev_path e)") (auto split: if_splits)
      qed
    qed
  qed
qed

text \<open>
  C15: the constructor never compares the number of cards with the 32 entries of its table. On any
  directory, on a C library whose files answer the descriptor ioctl or not by their path, it writes
  past the table exactly when an entry whose name contains "pci" follows 32 such entries that
  answered, whether that last one answers or not. Otherwise it completes, having counted every
  entry that answered, which are at most 32.
\<close>

theorem constructor_overruns_iff:
  assumes "\<forall>path w h w'. open_file L path w = (h, w') \<longrightarrow>
     (let reply = ioctl L h ACCESIO_PCI_CARD_DESCRIPTOR_GET (card_arg (malloc_card L)) w' in
      (answers path \<longleftrightarrow> 0 \<le> h \<and> (\<exists>b w''. reply = Some (0, b, w''))) \<and> (0 \<le> h \<longrightarrow> reply \<noteq> None))"
  shows "let pci = filter (\<lambda>e. strstr e ''pci'') entries;
      answering = filter (\<lambda>e. answers (''/dev/accesio_pci/'' @ e)) in
    (AiowdmInit L (Some entries) (lib_start w) = None \<longleftrightarrow> 32 \<le> length (answering (butlast pci))) \<and>
    (\<forall>s. AiowdmInit L (Some entries) (lib_start w) = Some s \<longrightarrow>
       init_complete s \<and> GetNumCards s = int (length (answering pci)) \<and> GetNumCards s \<le> 32)"
proof -
  define n where "n = length (filter (\<lambda>e. answers (dev_path e)) (butlast (pci_names entries)))"
  define m where "m = length (filter (\<lambda>e. answers (dev_path e)) (pci_names entries))"
  have L: "answers_by_path L answers" using assms by (simp add: answers_by_path_def)
  have start: "length (cards (lib_start w)) = MAX_CARDS" "num_cards (lib_start w) = 0"
    by (simp_all add: lib_start_def)
  have ne: "pci_names entries \<noteq> []" if "32 \<le> n" using that by (auto simp: n_def)
  have counts: "if pci_names entries \<noteq> [] \<and> 32 \<le> n then add_entries L entries (lib_start w) = None
    else \<exists>s. add_entries L entries (lib_start w) = Some s \<and> length (cards s) = 32
      \<and> unat (num_cards s) = m \<and> unat (num_cards s) \<le> 32"
    using add_entries_counts [OF L start(1), of entries]
    unfolding start(2) unsigned_0 add_0 n_def [symmetric] m_def [symmetric] by simp
  have "(AiowdmInit L (Some entries) (lib_start w) = None \<longleftrightarrow> 32 \<le> n) \<and>
    (\<forall>s. AiowdmInit L (Some entries) (lib_start w) = Some s \<longrightarrow>
       init_complete s \<and> GetNumCards s = int m \<and> GetNumCards s \<le> 32)"
  proof (cases "32 \<le> n")
    case True
    with counts ne have "add_entries L entries (lib_start w) = None" by simp
    with True show ?thesis by (simp add: AiowdmInit_def)
  next
    case False
    then have "\<not> (pci_names entries \<noteq> [] \<and> 32 \<le> n)" by blast
    from counts [unfolded if_not_P [OF this]] obtain s where
      s: "add_entries L entries (lib_start w) = Some s" "unat (num_cards s) = m" "m \<le> 32" by blast
    from s(2) have "uint (num_cards s) = int m" by (simp only: uint_nat)
    with False s(1,3) show ?thesis by (simp add: AiowdmInit_def GetNumCards_def)
  qed
  then show ?thesis unfolding Let_def n_def m_def pci_names_def dev_path_def .
qed

text \<open>A C library on which everything answers.\<close>

definition obliging_libc :: "unit libc" where
  "obliging_libc = \<lparr>open_file = (\<lambda>p w. (3, w)), ioctl = (\<lambda>h c b w. Some (0, b, w)),
     malloc_card = None\<rparr>"

theorem constructor_overruns_iff_witness:
  "AiowdmInit obliging_libc (Some (replicate 33 ''pci'')) (lib_start ()) = None \<and>
   (\<exists>s. AiowdmInit obliging_libc (Some (replicate 32 ''pci'')) (lib_start ()) = Some s
     \<and> GetNumCards s = 32)"
proof -
  have L: "\<forall>path w h w'. open_file obliging_libc path w = (h, w') \<longrightarrow>
     (let reply = ioctl obliging_libc h ACCESIO_PCI_CARD_DESCRIPTOR_GET
            (card_arg (malloc_card obliging_libc)) w' in
      ((\<lambda>_. True) path \<longleftrightarrow> 0 \<le> h \<and> (\<exists>b w''. reply = Some (0, b, w''))) \<and> (0 \<le> h \<longrightarrow> reply \<noteq> None))"
    by (simp add: obliging_libc_def)
  have pci: "filter (\<lambda>e. strstr e ''pci'') (replicate n ''pci'') = replicate n ''pci''" for n
    by (induction n) simp_all
  from constructor_overruns_iff [OF L, of "replicate 33 ''pci''" "()"]
  have "AiowdmInit obliging_libc (Some (replicate 33 ''pci'')) (lib_start ()) = None"
    by (simp add: pci Let_def)
  moreover from constructor_overruns_iff [OF L, of "replicate 32 ''pci''" "()"]
  have "\<exists>s. AiowdmInit obliging_libc (Some (replicate 32 ''pci'')) (lib_start ()) = Some s
     \<and> GetNumCards s = 32"
    unfolding pci Let_def
    by (cases "AiowdmInit obliging_libc (Some (replicate 32 ''pci'')) (lib_start ())") auto
  ultimately show ?thesis ..
qed

section \<open>The table as an invariant\<close>

definition unused_card :: lib_card where
  "unused_card = \<lparr>fd = 0, card_descriptor = None\<rparr>"

definition table_ok :: "'w lib_state \<Rightarrow> bool" where
  "table_ok s \<longleftrightarrow> length (cards s) = MAX_CARDS \<and> unat (num_cards s) \<le> MAX_CARDS
     \<and> (\<forall>i < unat (num_cards s). 0 \<le> fd (cards s ! i))
     \<and> (\<forall>i. unat (num_cards s) < i \<longrightarrow> i < MAX_CARDS \<longrightarrow> cards s ! i = unused_card)"

lemma table_ok_start: "table_ok (lib_start w)"
  by (simp add: table_ok_def lib_start_def unused_card_def)

lemma add_entry_table:
  assumes "add_entry L e s = Some s'" "table_ok s"
  shows "table_ok s'"
proof (cases "strstr e ''pci''")
  case False
  with assms show ?thesis by (simp add: add_entry_skips)
next
  case True
  from assms(1) True show ?thesis
  proof (cases rule: add_entry_cases)
    case (1 lc)
    with assms(2) show ?thesis by (auto simp: table_ok_def nth_list_update)
  next
    case (2 lc)
    with assms(2) have "unat (num_cards s') = Suc (unat (num_cards s))"
      by (simp add: table_ok_def unat_next_card)
    with 2 assms(2) show ?thesis by (auto simp: table_ok_def nth_list_update less_Suc_eq)
  qed
qed

lemma add_entries_table: "add_entries L es s = Some s' \<Longrightarrow> table_ok s \<Longrightarrow> table_ok s'"
  by (induction es arbitrary: s) (auto split: option.splits dest: add_entry_table)

lemma lib_call_table_ok:
  assumes "lib_call L op s = Some s'" "table_ok s"
  shows "table_ok s'"
proof (cases "is_init op")
  case True
  then obtain dir where op: "op = Op_init dir" by (cases op) auto
  show ?thesis
  proof (cases dir)
    case None
    with assms op show ?thesis by (simp add: AiowdmInit_def)
  next
    case (Some es)
    with assms(1) op obtain t where "add_entries L es s = Some t"
      "s' = init_complete_update (\<lambda>_. True) t"
      by (auto simp: AiowdmInit_def)
    with add_entries_table [OF _ assms(2)] show ?thesis by (auto simp: table_ok_def)
  qed
next
  case False
  with lib_call_table [OF assms(1)] assms(2) show ?thesis by (auto simp: table_ok_def)
qed

text \<open>
  C31: the table of the library in every program, over any calls in any order, the constructor
  included, that did not leave the table, and on any answers of the C library and the kernel: every
  listed card has a file that was opened, and every entry past the next free one is as the static
  storage was, so that a call with such a card number, which nothing refuses, is an ioctl on file 0
  of the process. The next free entry itself may hold what a card that was skipped left.
\<close>

theorem library_table_well_formed:
  assumes "run (lib_step L) (lib_start w) ops s"
  shows "length (cards s) = 32 \<and> 0 \<le> GetNumCards s \<and> GetNumCards s \<le> 32
    \<and> (\<forall>CardNum. CardNum < num_cards s \<longrightarrow> 0 \<le> fd (cards s ! unat CardNum))
    \<and> (\<forall>CardNum cmd b. num_cards s < CardNum \<longrightarrow> CardNum < 32 \<longrightarrow>
         card_descriptor (cards s ! unat CardNum) = None \<and>
         call_ioctl L CardNum cmd b s =
           map_option (\<lambda>(status, b', w). (status, b', s\<lparr>world := w\<rparr>)) (ioctl L 0 cmd b (world s)))"
proof -
  have ok: "table_ok s"
    by (rule run_invariant [where I = table_ok and Q = "\<lambda>_. True", OF assms table_ok_start])
       (use lib_call_table_ok in \<open>auto simp: lib_step_def\<close>)
  have g: "GetNumCards s = int (unat (num_cards s))"
    by (simp add: GetNumCards_def)
  have listed: "0 \<le> fd (cards s ! unat c)" if "c < num_cards s" for c
    using ok that by (simp add: table_ok_def word_less_nat_alt)
  have unused: "cards s ! unat c = unused_card \<and> unat c < length (cards s)"
    if "num_cards s < c" "c < 32" for c
    using ok that by (simp add: table_ok_def word_less_nat_alt)
  have "call_ioctl L c cmd b s =
      map_option (\<lambda>(status, b', w). (status, b', s\<lparr>world := w\<rparr>)) (ioctl L 0 cmd b (world s))"
    if "num_cards s < c" "c < 32" for c cmd b
    using unused [OF that] by (auto simp: call_ioctl_def unused_card_def split: option.split)
  moreover have "card_descriptor (cards s ! unat c) = None" if "num_cards s < c" "c < 32" for c
    using unused [OF that] by (simp add: unused_card_def)
  moreover have "length (cards s) = 32" "GetNumCards s \<le> 32" "0 \<le> GetNumCards s"
    using ok unfolding g table_ok_def by linarith+
  ultimately show ?thesis using listed by blast
qed

theorem library_table_well_formed_witness:
  "\<exists>s. run (lib_step obliging_libc) (lib_start ())
      [Op_init (Some [''pci0'', ''pci1'']), Op_wait 1] s
    \<and> GetNumCards s = 2 \<and> 0 \<le> fd (cards s ! 1)
    \<and> call_ioctl obliging_libc 7 ACCESIO_PCI_IRQ_WAIT No_buffer s = Some (0, No_buffer, s)"
proof -
  let ?ops = "[Op_init (Some [''pci0'', ''pci1'']), Op_wait 1]"
  obtain s where s: "exec_all (lib_call obliging_libc) ?ops (lib_start ()) = Some s" "num_cards s = 2"
    by (simp add: AiowdmInit_def add_entry_def lib_start_def set_fd_def set_descriptor_def card_arg_def
        WaitForIRQ_def call_ioctl_def obliging_libc_def)
  have r: "run (lib_step obliging_libc) (lib_start ()) ?ops s"
    by (rule exec_all_run [OF s(1)]) (simp add: lib_step_def)
  note t = library_table_well_formed [OF r]
  have "(1 :: u32) < num_cards s" "num_cards s < (7 :: u32)" "(7 :: u32) < 32" using s(2) by simp_all
  with t have "0 \<le> fd (cards s ! unat (1 :: u32))"
    "call_ioctl obliging_libc 7 ACCESIO_PCI_IRQ_WAIT No_buffer s =
      map_option (\<lambda>(status, b', w). (status, b', s\<lparr>world := w\<rparr>))
        (ioctl obliging_libc 0 ACCESIO_PCI_IRQ_WAIT No_buffer (world s))"
    by blast+
  with r s(2) show ?thesis by (auto simp: GetNumCards_def obliging_libc_def)
qed

end
