(* ===== verification/Aiowdm_Driver.thy ===== *)
theory Aiowdm_Driver
  imports Aiowdm
begin

text \<open>
  The library on top of the driver: the C library's calls as a process sees them when the files
  under \<^verbatim>\<open>/dev/accesio_pci\<close> are the driver's. The wait, the PCI resources, the cards and the stack
  contents stay parameters; copies between a process and the kernel are whole, as they are for a
  mapped buffer. A status below zero becomes \<open>- 1\<close>, the number itself going to \<^verbatim>\<open>errno\<close>.
\<close>

section \<open>The world\<close>

record sys_world =
  devices :: "nat \<Rightarrow> driver_state"
  files :: "int \<Rightarrow> char_file option"

definition whole_buffer :: "user_buffer user_access" where
  "whole_buffer =
     \<lparr>reg_from_user = (\<lambda>arg u. case u of Reg r \<Rightarrow> (0, r) | _ \<Rightarrow> (16, blank_request)),
      reg_to_user = (\<lambda>arg r u. case u of Reg _ \<Rightarrow> (0, Reg r) | _ \<Rightarrow> (16, u)),
      card_to_user = (\<lambda>arg d u. case u of Card _ \<Rightarrow> (0, Card d) | _ \<Rightarrow> (152, u))\<rparr>"

definition syscall_result :: "int \<Rightarrow> int" where
  "syscall_result status = (if status < 0 then - 1 else status)"

text \<open>An ioctl of a file: on a card's file, the driver's handler on that card.\<close>

definition driver_ioctl :: "(nat \<Rightarrow> user_buffer kernel) \<Rightarrow> int \<Rightarrow> ioctl_code \<Rightarrow> user_buffer \<Rightarrow> sys_world
    \<Rightarrow> (int \<times> user_buffer \<times> sys_world) option" where
  "driver_ioctl K h cmd b w =
     (case files w h of
        None \<Rightarrow> Some (- 1, b, w)
      | Some f \<Rightarrow>
          (case private_data f of
             None \<Rightarrow> None
           | Some c \<Rightarrow>
               let (st, p) = run_state (accesio_char_driver_unlocked_ioctl
                     ((K c)\<lparr>uaccess := whole_buffer\<rparr>) cmd 0)
                     \<lparr>trace = trace (devices w c), dev_context = dev_context (devices w c), umem = b\<rparr>
               in map_option (\<lambda>status. (syscall_result status, umem p,
                    w\<lparr>devices := (devices w)(c := \<lparr>trace = trace p, dev_context = dev_context p\<rparr>)\<rparr>)) st))"

text \<open>
  Opening a path: \<open>nodes\<close> are the device nodes, by the card each belongs to; \<open>unopenable\<close> are the paths
  the kernel does not open, for want of permission, file numbers or memory; \<open>new_fd\<close> is the number
  it gives a file it opens. Allocation of a descriptor succeeds for every card or for none.
\<close>

definition driver_open :: "(string \<Rightarrow> nat option) \<Rightarrow> (string \<Rightarrow> bool) \<Rightarrow> (sys_world \<Rightarrow> int) \<Rightarrow> string
    \<Rightarrow> sys_world \<Rightarrow> int \<times> sys_world" where
  "driver_open nodes unopenable new_fd path w =
     (case nodes path of
        None \<Rightarrow> (- 1, w)
      | Some c \<Rightarrow>
          let (status, f) = accesio_char_driver_open c \<lparr>private_data = None\<rparr>
          in if status < 0 \<or> unopenable path then (- 1, w)
             else (new_fd w, w\<lparr>files := (files w)(new_fd w := Some f)\<rparr>))"

definition driver_libc :: "(nat \<Rightarrow> user_buffer kernel) \<Rightarrow> (string \<Rightarrow> nat option) \<Rightarrow> (string \<Rightarrow> bool)
    \<Rightarrow> (sys_world \<Rightarrow> int) \<Rightarrow> accesio_pci_card_descriptor option \<Rightarrow> sys_world libc" where
  "driver_libc K nodes unopenable new_fd block =
     \<lparr>open_file = driver_open nodes unopenable new_fd, ioctl = driver_ioctl K, malloc_card = block\<rparr>"

section \<open>The driver meets the contract\<close>

definition card_window :: "nat \<Rightarrow> sys_world \<Rightarrow> addr" where
  "card_window c w = bar_bases (dev_context (devices w c)) ! default_bar (dev_context (devices w c))"

text \<open>Everything of a world but the accesses of card \<open>c\<close>.\<close>

definition world_rest :: "nat \<Rightarrow> sys_world \<Rightarrow> sys_world" where
  "world_rest c w = w\<lparr>devices := (devices w)(c := (devices w c)\<lparr>trace := []\<rparr>)\<rparr>"

definition opened_on :: "int \<Rightarrow> nat \<Rightarrow> sys_world \<Rightarrow> bool" where
  "opened_on h c w \<longleftrightarrow> files w h = Some \<lparr>private_data = Some c\<rparr>"

lemma set_trace: "(x :: driver_state)\<lparr>trace := t\<rparr> = \<lparr>trace = t, dev_context = dev_context x\<rparr>"
  by (cases x) simp

lemma driver_register_io:
  assumes "opened_on h c w" and "io_width r = Some n"
  shows "driver_ioctl K h ACCESIO_PCI_REGISTER_IO (Reg r) w =
    Some (0, Reg (answered (card (K c)) (card_window c w) n r (trace (devices w c))),
      w\<lparr>devices := (devices w)(c := (devices w c)\<lparr>trace := trace (devices w c) @
        [one_access (card (K c)) (card_window c w) n r (trace (devices w c))]\<rparr>)\<rparr>)"
  using assms
  by (simp add: driver_ioctl_def opened_on_def accesio_char_driver_unlocked_ioctl_def ioctl_codes
      ioctl_ACCESIO_PCI_REGISTER_IO_def whole_buffer_def register_read_spec register_write_spec
      answered_def one_access_def card_window_def register_addr_def syscall_result_def Let_def set_trace)

interpretation driver: register_card "driver_libc K nodes unopenable new_fd block" h "card (K c)" base
    "\<lambda>w. opened_on h c w \<and> card_window c w = base" "\<lambda>w. trace (devices w c)" "world_rest c"
  for K nodes unopenable new_fd block h c base
proof
  fix w r n
  assume w: "opened_on h c w \<and> card_window c w = base" and r: "io_width r = Some n"
  from driver_register_io [OF _ r, of h c w K] w
  show "\<exists>w'. ioctl (driver_libc K nodes unopenable new_fd block) h ACCESIO_PCI_REGISTER_IO (Reg r) w =
      Some (0, Reg (answered (card (K c)) base n r (trace (devices w c))), w')
    \<and> (opened_on h c w' \<and> card_window c w' = base) \<and> world_rest c w' = world_rest c w
    \<and> trace (devices w' c) = trace (devices w c) @
        [one_access (card (K c)) base n r (trace (devices w c))]"
    by (simp add: driver_libc_def world_rest_def opened_on_def card_window_def)
qed

section \<open>Register calls reach the card\<close>

lemma driver_selects:
  assumes "unat CardNum < length (cards s)" and "opened_on (fd (cards s ! unat CardNum)) c (world s)"
  shows "driver.selects (fd (cards s ! unat CardNum)) c (card_window c (world s)) CardNum s"
  using assms by (simp add: driver.selects_def)

text \<open>
  C9: a write call of the library on a card it has open makes exactly one bus access: a write of
  the call's width and value at the card's default BAR plus the register, taken as a signed 32-bit
  offset. It returns 0 and changes nothing else, on that card or on another.
\<close>

theorem out_port_reaches_card:
  fixes Register :: u32
  assumes "unat CardNum < length (cards s)"
    and "files (world s) (fd (cards s ! unat CardNum)) = Some \<lparr>private_data = Some c\<rparr>"
  shows
   "let L = driver_libc K nodes unopenable new_fd block;
        t = trace (devices (world s) c); a = card_window c (world s) + scast Register in
    (\<exists>w. RelOutPortB L CardNum Register b s = Some (0, s\<lparr>world := w\<rparr>)
       \<and> trace (devices w c) = t @ [Write8 a b] \<and> world_rest c w = world_rest c (world s)) \<and>
    (\<exists>w. RelOutPort L CardNum Register v s = Some (0, s\<lparr>world := w\<rparr>)
       \<and> trace (devices w c) = t @ [Write16 a v] \<and> world_rest c w = world_rest c (world s)) \<and>
    (\<exists>w. RelOutPortL L CardNum Register d s = Some (0, s\<lparr>world := w\<rparr>)
       \<and> trace (devices w c) = t @ [Write32 a d] \<and> world_rest c w = world_rest c (world s))"
  using driver.out_ports [OF driver_selects, of CardNum s c K nodes unopenable new_fd block] assms(1,2)
  unfolding Let_def opened_on_def by blast

text \<open>
  C8: a read call of the library on a card it has open makes exactly one bus access, a read of the
  call's width at that address, and returns what the card answered. It changes nothing else.
\<close>

theorem in_port_returns_answer:
  fixes Register :: u32
  assumes "unat CardNum < length (cards s)"
    and "files (world s) (fd (cards s ! unat CardNum)) = Some \<lparr>private_data = Some c\<rparr>"
  shows
   "let L = driver_libc K nodes unopenable new_fd block; D = card (K c);
        t = trace (devices (world s) c); a = card_window c (world s) + scast Register in
    (\<exists>w. RelInPortB L CardNum Register s = Some (ucast (D t 1 a), s\<lparr>world := w\<rparr>)
       \<and> trace (devices w c) = t @ [Read8 a (ucast (D t 1 a))] \<and> world_rest c w = world_rest c (world s)) \<and>
    (\<exists>w. RelInPort L CardNum Register s = Some (ucast (D t 2 a), s\<lparr>world := w\<rparr>)
       \<and> trace (devices w c) = t @ [Read16 a (ucast (D t 2 a))] \<and> world_rest c w = world_rest c (world s)) \<and>
    (\<exists>w. RelInPortL L CardNum Register s = Some (D t 4 a, s\<lparr>world := w\<rparr>)
       \<and> trace (devices w c) = t @ [Read32 a (D t 4 a)] \<and> world_rest c w = world_rest c (world s))"
  using driver.in_ports [OF driver_selects, of CardNum s c K nodes unopenable new_fd block] assms(1,2)
  unfolding Let_def opened_on_def by blast

text \<open>A failed read is only printed: the caller gets 0.\<close>

lemma in_port_hides_failure:
  assumes "unat CardNum < length (cards s)" "files (world s) (fd (cards s ! unat CardNum)) = None"
  shows "RelInPortB (driver_libc K nodes unopenable new_fd block) CardNum Register s = Some (0, s)"
  using assms by (simp add: RelInPortB_def call_ioctl_def driver_libc_def driver_ioctl_def data_byte_def)

section \<open>Discovery\<close>

lemma same_device: "(f :: nat \<Rightarrow> driver_state)(c := \<lparr>trace = trace (f c), dev_context = dev_context (f c)\<rparr>) = f"
  by (simp add: fun_upd_idem)

text \<open>
  What is true of a card of the world that probe bound, and of the kernel's buffers: the descriptor
  is one of the table, and the stack variable has the structure's name array.
\<close>

definition known_card :: "(nat \<Rightarrow> user_buffer kernel) \<Rightarrow> nat \<Rightarrow> sys_world \<Rightarrow> bool" where
  "known_card K c w \<longleftrightarrow>
     (\<exists>device. find_descriptor device = Some (descriptor (dev_context (devices w c))))
     \<and> length (card_name (stack_junk (K c))) = 64"

text \<open>An entry of the library's table that describes card \<open>c\<close>.\<close>

definition listed :: "(nat \<Rightarrow> user_buffer kernel) \<Rightarrow> nat \<Rightarrow> sys_world \<Rightarrow> lib_card \<Rightarrow> bool" where
  "listed K c w lc \<longleftrightarrow> opened_on (fd lc) c w \<and>
     (\<exists>d :: accesio_pci_card_descriptor. card_descriptor lc = Some d
       \<and> device_id d = ucast (pid (descriptor (dev_context (devices w c))))
       \<and> port_base d = pci_resource_start (resources (K c)) (default_bar (dev_context (devices w c)))
       \<and> c_string (card_name d) = Some (name (descriptor (dev_context (devices w c)))))"

lemma driver_descriptor:
  assumes "opened_on h c w" and "known_card K c w"
  shows "\<exists>d. driver_ioctl K h ACCESIO_PCI_CARD_DESCRIPTOR_GET (Card blk) w = Some (0, Card d, w)
    \<and> device_id d = ucast (pid (descriptor (dev_context (devices w c))))
    \<and> port_base d = pci_resource_start (resources (K c)) (default_bar (dev_context (devices w c)))
    \<and> c_string (card_name d) = Some (name (descriptor (dev_context (devices w c))))"
proof -
  let ?d = "descriptor (dev_context (devices w c))"
  from assms(2) obtain device where "find_descriptor device = Some ?d" by (auto simp: known_card_def)
  from found_name_fits [OF this] have fits: "length (name ?d) < 64" "NUL \<notin> set (name ?d)" by auto
  then obtain nm where nm: "strcpy (card_name (stack_junk (K c))) (name ?d) = Some nm"
    using assms(2) by (simp add: strcpy_def known_card_def)
  have "driver_ioctl K h ACCESIO_PCI_CARD_DESCRIPTOR_GET (Card blk) w = Some (0,
      Card (filled_descriptor ((K c)\<lparr>uaccess := whole_buffer\<rparr>) (dev_context (devices w c)) nm), w)"
    using assms(1) nm card_descriptor_run [of "(K c)\<lparr>uaccess := whole_buffer\<rparr>"
        "\<lparr>trace = trace (devices w c), dev_context = dev_context (devices w c), umem = Card blk\<rparr>" nm 0]
    by (simp add: driver_ioctl_def opened_on_def accesio_char_driver_unlocked_ioctl_def ioctl_codes
        whole_buffer_def syscall_result_def Let_def same_device)
  with c_string_strcpy [OF nm fits(2)] show ?thesis
    by (auto simp: filled_descriptor_def)
qed

text \<open>Without memory for the descriptor, the copy to the null pointer fails.\<close>

lemma driver_descriptor_null:
  assumes "opened_on h c w" and "known_card K c w"
  shows "driver_ioctl K h ACCESIO_PCI_CARD_DESCRIPTOR_GET No_buffer w = Some (- 1, No_buffer, w)"
proof -
  let ?d = "descriptor (dev_context (devices w c))"
  from assms(2) obtain device where "find_descriptor device = Some ?d" by (auto simp: known_card_def)
  from found_name_fits [OF this] obtain nm where nm: "strcpy (card_name (stack_junk (K c))) (name ?d) = Some nm"
    using assms(2) by (auto simp: strcpy_def known_card_def)
  show ?thesis
    using assms(1) nm card_descriptor_run [of "(K c)\<lparr>uaccess := whole_buffer\<rparr>"
        "\<lparr>trace = trace (devices w c), dev_context = dev_context (devices w c), umem = No_buffer\<rparr>" nm 0]
    by (simp add: driver_ioctl_def opened_on_def accesio_char_driver_unlocked_ioctl_def ioctl_codes
        whole_buffer_def syscall_result_def Let_def same_device)
qed

text \<open>The table after the entries \<open>found\<close> were added.\<close>

definition filled :: "(nat \<Rightarrow> user_buffer kernel) \<Rightarrow> (string \<Rightarrow> nat option) \<Rightarrow> (nat \<Rightarrow> driver_state)
    \<Rightarrow> string list \<Rightarrow> sys_world lib_state \<Rightarrow> bool" where
  "filled K nodes D found s \<longleftrightarrow> length (cards s) = MAX_CARDS \<and> length found \<le> MAX_CARDS
     \<and> num_cards s = of_nat (length found) \<and> devices (world s) = D
     \<and> finite {h. files (world s) h \<noteq> None}
     \<and> (\<forall>i < length found. \<exists>c. nodes (dev_path (found ! i)) = Some c \<and> listed K c (world s) (cards s ! i))"

lemma num_cards_filled:
  "filled K nodes D found s \<Longrightarrow> unat (num_cards s) = length found"
  by (auto simp: filled_def unat_of_nat)

text \<open>
  The numbers of the files \<^verbatim>\<open>open\<close> does open: not negative and not in use, as long as finitely many
  files are open. That \<^verbatim>\<open>open\<close> may fail is \<open>unopenable\<close>.
\<close>

definition fresh_fds :: "(sys_world \<Rightarrow> int) \<Rightarrow> bool" where
  "fresh_fds new_fd \<longleftrightarrow> (\<forall>w. finite {h. files w h \<noteq> None} \<longrightarrow> 0 \<le> new_fd w \<and> files w (new_fd w) = None)"

lemma listed_other_file:
  assumes "listed K c w lc" and "files w h = None"
  shows "listed K c (w\<lparr>files := (files w)(h := f)\<rparr>) lc"
  using assms by (auto simp: listed_def opened_on_def)

text \<open>The entries the constructor lists.\<close>

definition listable :: "(string \<Rightarrow> nat option) \<Rightarrow> (string \<Rightarrow> bool) \<Rightarrow> accesio_pci_card_descriptor option
    \<Rightarrow> string \<Rightarrow> bool" where
  "listable nodes unopenable block e \<longleftrightarrow> strstr e ''pci'' \<and> nodes (dev_path e) \<noteq> None
     \<and> \<not> unopenable (dev_path e) \<and> block \<noteq> None"

lemma filled_slot:
  "filled K nodes D found s \<Longrightarrow> filled K nodes D found (s\<lparr>cards := (cards s)[length found := lc]\<rparr>)"
  by (simp add: filled_def nth_list_update)

lemma filled_opened:
  assumes "filled K nodes D found s" and "files (world s) h = None"
  shows "filled K nodes D found (s\<lparr>world := (world s)\<lparr>files := (files (world s))(h := f)\<rparr>\<rparr>)"
proof -
  let ?s = "s\<lparr>world := (world s)\<lparr>files := (files (world s))(h := f)\<rparr>\<rparr>"
  have "{k. files (world ?s) k \<noteq> None} \<subseteq> insert h {k. files (world s) k \<noteq> None}" by auto
  moreover have "finite (insert h {k. files (world s) k \<noteq> None})"
    using assms(1) by (simp add: filled_def)
  ultimately have fin: "finite {k. files (world ?s) k \<noteq> None}" by (rule finite_subset)
  have "\<exists>c. nodes (dev_path (found ! i)) = Some c \<and> listed K c (world ?s) (cards ?s ! i)"
    if i: "i < length found" for i
  proof -
    from assms(1) i obtain c where "nodes (dev_path (found ! i)) = Some c" "listed K c (world s) (cards s ! i)"
      by (auto simp: filled_def)
    with listed_other_file [OF this(2) assms(2)] show ?thesis by auto
  qed
  with fin assms(1) show ?thesis by (simp add: filled_def)
qed

lemma filled_append:
  assumes "filled K nodes D found s" and "length found < MAX_CARDS"
    and "nodes (dev_path e) = Some c" and "listed K c (world s) lc"
  shows "filled K nodes D (found @ [e])
    (s\<lparr>cards := (cards s)[length found := lc], num_cards := num_cards s + 1\<rparr>)"
  using assms by (auto simp: filled_def nth_append nth_list_update less_Suc_eq)

lemma add_entry_filled:
  assumes inv: "filled K nodes D found s" and room: "length found < MAX_CARDS"
    and fresh: "fresh_fds new_fd" and known: "\<And>c. nodes (dev_path e) = Some c \<Longrightarrow> known_card K c (world s)"
  shows "\<exists>s'. add_entry (driver_libc K nodes unopenable new_fd block) e s = Some s' \<and>
    init_complete s' = init_complete s \<and>
    filled K nodes D (if listable nodes unopenable block e then found @ [e] else found) s'"
proof -
  let ?L = "driver_libc K nodes unopenable new_fd block"
  have n: "unat (num_cards s) = length found" by (rule num_cards_filled [OF inv])
  have len: "length (cards s) = MAX_CARDS" using inv by (simp add: filled_def)
  consider "\<not> strstr e ''pci''"
    | "strstr e ''pci''" "nodes (dev_path e) = None \<or> unopenable (dev_path e)"
    | c where "strstr e ''pci''" "nodes (dev_path e) = Some c" "\<not> unopenable (dev_path e)" by fastforce
  then show ?thesis
  proof cases
    case 1
    with inv show ?thesis by (simp add: add_entry_def listable_def)
  next
    case 2
    then have no: "\<not> listable nodes unopenable block e" by (auto simp: listable_def)
    from 2 have "open_file ?L (dev_path e) (world s) = (- 1, world s)"
      by (auto simp: driver_libc_def driver_open_def split: option.split prod.split)
    with 2(1) len room n have "add_entry ?L e s = Some (s\<lparr>cards := (cards s)[length found :=
        (cards s ! length found)\<lparr>fd := - 1\<rparr>]\<rparr>)"
      by (simp add: add_entry_def set_fd_def)
    with no filled_slot [OF inv] show ?thesis by simp
  next
    case 3
    let ?w = "world s"
    let ?h = "new_fd ?w"
    let ?w' = "?w\<lparr>files := (files ?w)(?h := Some \<lparr>private_data = Some c\<rparr>)\<rparr>"
    from inv fresh have h: "0 \<le> ?h" "files ?w ?h = None" by (auto simp: filled_def fresh_fds_def)
    have op: "open_file ?L (dev_path e) ?w = (?h, ?w')"
      using 3 by (simp add: driver_libc_def driver_open_def accesio_char_driver_open_def Let_def)
    have open_h: "opened_on ?h c ?w'" by (simp add: opened_on_def)
    have kn: "known_card K c ?w'" using known [OF 3(2)] by (simp add: known_card_def)
    have lc: "(x :: lib_card)\<lparr>fd := ?h, card_descriptor := d\<rparr> = \<lparr>fd = ?h, card_descriptor = d\<rparr>" for x d
      by (cases x) simp
    have inv': "filled K nodes D found (s\<lparr>world := ?w'\<rparr>)" by (rule filled_opened [OF inv h(2)])
    show ?thesis
    proof (cases block)
      case None
      then have no: "\<not> listable nodes unopenable block e" by (simp add: listable_def)
      from None 3(1) op driver_descriptor_null [OF open_h kn] len room n h(1)
      have "add_entry ?L e s = Some ((s\<lparr>world := ?w'\<rparr>)\<lparr>cards := (cards s)[length found :=
          \<lparr>fd = ?h, card_descriptor = None\<rparr>]\<rparr>)"
        by (simp add: add_entry_def set_fd_def set_descriptor_def card_arg_def driver_libc_def lc)
      with no filled_slot [OF inv'] show ?thesis by simp
    next
      case (Some blk)
      with 3 have yes: "listable nodes unopenable block e" by (simp add: listable_def)
      from driver_descriptor [OF open_h kn, of blk] obtain d :: accesio_pci_card_descriptor where
        d: "driver_ioctl K ?h ACCESIO_PCI_CARD_DESCRIPTOR_GET (Card blk) ?w' = Some (0, Card d, ?w')"
          "device_id d = ucast (pid (descriptor (dev_context (devices ?w c))))"
          "port_base d = pci_resource_start (resources (K c)) (default_bar (dev_context (devices ?w c)))"
          "c_string (card_name d) = Some (name (descriptor (dev_context (devices ?w c))))" by auto
      let ?lc = "\<lparr>fd = ?h, card_descriptor = Some d\<rparr>"
      from Some 3(1) op d(1) len room n h(1)
      have run: "add_entry ?L e s = Some ((s\<lparr>world := ?w'\<rparr>)\<lparr>cards := (cards s)[length found := ?lc],
          num_cards := num_cards s + 1\<rparr>)"
        by (simp add: add_entry_def set_fd_def set_descriptor_def card_arg_def driver_libc_def lc)
      have "listed K c (world (s\<lparr>world := ?w'\<rparr>)) ?lc" using d open_h by (simp add: listed_def)
      from filled_append [OF inv' room 3(2) this] run yes show ?thesis by simp
    qed
  qed
qed

lemma add_entries_filled:
  assumes "filled K nodes D found s" and "fresh_fds new_fd"
    and "\<forall>path c. nodes path = Some c \<longrightarrow> known_card K c (world s)"
    and "length found + length (filter (\<lambda>e. strstr e ''pci'') es) \<le> MAX_CARDS"
  shows "\<exists>s'. add_entries (driver_libc K nodes unopenable new_fd block) es s = Some s' \<and>
    init_complete s' = init_complete s \<and>
    filled K nodes D (found @ filter (listable nodes unopenable block) es) s'"
  using assms
proof (induction es arbitrary: found s)
  case Nil
  then show ?case by simp
next
  case (Cons e es)
  let ?f = "if listable nodes unopenable block e then found @ [e] else found"
  let ?L = "driver_libc K nodes unopenable new_fd block"
  obtain s1 where s1: "add_entry ?L e s = Some s1" "init_complete s1 = init_complete s"
    "filled K nodes D ?f s1"
  proof (cases "strstr e ''pci''")
    case True
    then have "length found < MAX_CARDS" using Cons.prems(4) by simp
    from add_entry_filled [OF Cons.prems(1) this Cons.prems(2), of e unopenable block] Cons.prems(3) that
    show thesis by blast
  next
    case False
    with Cons.prems(1) that [of s] show thesis by (simp add: add_entry_def listable_def)
  qed
  have "devices (world s1) = devices (world s)" using s1(3) Cons.prems(1) by (simp add: filled_def)
  then have known: "\<forall>path c. nodes path = Some c \<longrightarrow> known_card K c (world s1)"
    using Cons.prems(3) by (simp add: known_card_def)
  have "length ?f + length (filter (\<lambda>e. strstr e ''pci'') es) \<le> MAX_CARDS"
    using Cons.prems(4) by (auto simp: listable_def split: if_splits)
  from Cons.IH [OF s1(3) Cons.prems(2) known this] s1(1,2) show ?case
    by (auto split: if_splits)
qed

text \<open>
  C14: on a directory of at most 32 entries whose names contain "pci", the constructor stays inside
  its table and lists, in the order of the directory, exactly those of them that are device nodes of
  cards probe bound and that the kernel does not refuse to open, when there is memory for the
  descriptors; without memory it lists none. Each entry holds a file open on its card and a
  descriptor with the card's id, base and name. An entry that cannot be opened, or whose name lacks
  "pci", is skipped and leaves no gap. The numbers of the files that do open are the kernel's, of
  which only that they are not negative and not in use is assumed.
\<close>

theorem discovery:
  assumes "fresh_fds new_fd" and "finite {h. files w h \<noteq> None}"
    and "\<forall>path c. nodes path = Some c \<longrightarrow> known_card K c w"
    and "length (filter (\<lambda>e. strstr e ''pci'') entries) \<le> MAX_CARDS"
  shows "\<exists>s. AiowdmInit (driver_libc K nodes unopenable new_fd block) (Some entries) (lib_start w) = Some s
    \<and> init_complete s
    \<and> (let found = (if block = None then [] else filter (\<lambda>e. strstr e ''pci''
           \<and> nodes (''/dev/accesio_pci/'' @ e) \<noteq> None \<and> \<not> unopenable (''/dev/accesio_pci/'' @ e)) entries) in
        GetNumCards s = int (length found) \<and>
        (\<forall>i < length found. listed K (the (nodes (''/dev/accesio_pci/'' @ found ! i))) (world s) (cards s ! i)))"
proof -
  let ?found = "filter (listable nodes unopenable block) entries"
  have found: "(if block = None then [] else filter (\<lambda>e. strstr e ''pci''
      \<and> nodes (''/dev/accesio_pci/'' @ e) \<noteq> None \<and> \<not> unopenable (''/dev/accesio_pci/'' @ e)) entries) = ?found"
    by (auto simp: listable_def dev_path_def filter_empty_conv intro!: filter_cong)
  have start: "filled K nodes (devices w) [] (lib_start w)"
    using assms(2) by (simp add: filled_def lib_start_def)
  have known: "\<forall>path c. nodes path = Some c \<longrightarrow> known_card K c (world (lib_start w))"
    using assms(3) by (simp add: lib_start_def)
  have "length ([] :: string list) + length (filter (\<lambda>e. strstr e ''pci'') entries) \<le> MAX_CARDS"
    using assms(4) by simp
  from add_entries_filled [OF start assms(1) known this, where unopenable = unopenable and block = block]
  obtain s where
    s: "add_entries (driver_libc K nodes unopenable new_fd block) entries (lib_start w) = Some s"
      "filled K nodes (devices w) ?found s" by auto
  from num_cards_filled [OF s(2)] have "GetNumCards s = int (length ?found)"
    by (simp add: GetNumCards_def uint_nat)
  moreover have "\<forall>i < length ?found. listed K (the (nodes (dev_path (?found ! i)))) (world s) (cards s ! i)"
    using s(2) unfolding filled_def by fastforce
  moreover have "listed K c (world (init_complete_update f s)) = listed K c (world s)" for K c f by simp
  ultimately show ?thesis
    using s(1) unfolding found by (auto simp: AiowdmInit_def GetNumCards_def Let_def dev_path_def)
qed

section \<open>A sample system\<close>

text \<open>One card, whose name is the name of its node; files are numbered above the ones open.\<close>

definition sample_devices :: "nat \<Rightarrow> driver_state" where
  "sample_devices = (\<lambda>_. \<lparr>trace = [], dev_context = sample_context\<lparr>descriptor := hd descriptors_1\<rparr>\<rparr>)"

definition sample_world :: sys_world where
  "sample_world = \<lparr>devices = sample_devices, files = (\<lambda>_. None)\<rparr>"

definition sample_kernels :: "nat \<Rightarrow> user_buffer kernel" where
  "sample_kernels = (\<lambda>_. \<lparr>card = latched_card, uaccess = whole_buffer,
     resources = \<lparr>pci_resource_start = (\<lambda>i. 0x1000 * of_nat i), pci_resource_len = (\<lambda>i. 0x100)\<rparr>,
     wait_event_interruptible = (\<lambda>s. (0, s)), stack_junk = blank_card_descriptor\<rparr>)"

definition sample_nodes :: "string \<Rightarrow> nat option" where
  "sample_nodes = [dev_path ''mpcie-dio-24s'' \<mapsto> 0]"

definition next_fd :: "sys_world \<Rightarrow> int" where
  "next_fd w = Max (insert 2 {h. files w h \<noteq> None}) + 1"

lemma fresh_next_fd: "fresh_fds next_fd"
proof -
  have "0 \<le> next_fd w \<and> files w (next_fd w) = None" if "finite {h. files w h \<noteq> None}" for w
  proof -
    let ?A = "insert 2 {h. files w h \<noteq> None}"
    have fin: "finite ?A" using that by simp
    have "2 \<le> Max ?A" using fin by simp
    then have "0 \<le> next_fd w" by (simp add: next_fd_def)
    moreover have "next_fd w \<notin> ?A"
    proof
      assume "next_fd w \<in> ?A"
      from Max_ge [OF fin this] show False unfolding next_fd_def by linarith
    qed
    ultimately show ?thesis by auto
  qed
  then show ?thesis by (simp add: fresh_fds_def)
qed

lemma find_mpcie: "find_descriptor 0x0100 = Some (hd descriptors_1)"
  by (simp add: find_descriptor_def accesio_pci_device_descriptors_def descriptors_1_def)

text \<open>Two nodes, of which the kernel opens the first.\<close>

theorem discovery_witness:
  "\<exists>s. AiowdmInit (driver_libc sample_kernels (sample_nodes(dev_path ''pci-x'' \<mapsto> 1))
        (\<lambda>path. path = dev_path ''pci-x'') next_fd (Some blank_card_descriptor))
      (Some [''.'', ''pci-x'', ''mpcie-dio-24s'', ''old-pci'']) (lib_start sample_world) = Some s
    \<and> GetNumCards s = 1 \<and> listed sample_kernels 0 (world s) (cards s ! 0)"
proof -
  let ?nodes = "sample_nodes(dev_path ''pci-x'' \<mapsto> 1)"
  have k: "\<forall>path c. ?nodes path = Some c \<longrightarrow> known_card sample_kernels c sample_world"
    using find_mpcie
    by (auto simp: known_card_def sample_world_def sample_devices_def sample_kernels_def
        blank_card_descriptor_def)
  have f: "finite {h. files sample_world h \<noteq> None}" by (simp add: sample_world_def)
  have n: "length (filter (\<lambda>e. strstr e ''pci'')
      [''.'', ''pci-x'', ''mpcie-dio-24s'', ''old-pci'']) \<le> MAX_CARDS" by simp
  have "filter (\<lambda>e. strstr e ''pci'' \<and> ?nodes (''/dev/accesio_pci/'' @ e) \<noteq> None
      \<and> ''/dev/accesio_pci/'' @ e \<noteq> dev_path ''pci-x'')
      [''.'', ''pci-x'', ''mpcie-dio-24s'', ''old-pci''] = [''mpcie-dio-24s'']"
    "?nodes (''/dev/accesio_pci/'' @ ''mpcie-dio-24s'') = Some 0"
    by (simp_all add: sample_nodes_def dev_path_def)
  with discovery [OF fresh_next_fd f k n, of "\<lambda>path. path = dev_path ''pci-x''"
      "Some blank_card_descriptor"] show ?thesis
    by (auto simp only: Let_def list.size nth_Cons_0 option.sel option.distinct if_False) auto
qed

text \<open>A library that has the card open as number 3 in its first slot.\<close>

definition sample_lib :: "sys_world lib_state" where
  "sample_lib = (lib_start (sample_world\<lparr>files := [3 \<mapsto> \<lparr>private_data = Some 0\<rparr>]\<rparr>))
     \<lparr>cards := replicate MAX_CARDS \<lparr>fd = 3, card_descriptor = None\<rparr>, num_cards := 1\<rparr>"

lemmas sample_lib_defs = sample_lib_def lib_start_def sample_world_def sample_devices_def
  card_window_def sample_defs

theorem out_port_reaches_card_witness:
  "\<exists>w. RelOutPort (driver_libc sample_kernels sample_nodes (\<lambda>_. False) next_fd None) 0 0x10 0xabcd sample_lib
      = Some (0, sample_lib\<lparr>world := w\<rparr>) \<and> trace (devices w 0) = [Write16 0x30010 0xabcd]"
proof -
  have "unat (0 :: u32) < length (cards sample_lib)"
    "files (world sample_lib) (fd (cards sample_lib ! unat (0 :: u32))) = Some \<lparr>private_data = Some 0\<rparr>"
    by (simp_all add: sample_lib_def lib_start_def)
  from out_port_reaches_card [OF this, where K = sample_kernels and nodes = sample_nodes
      and unopenable = "\<lambda>_. False" and new_fd = next_fd and block = None and Register = "0x10" and v = "0xabcd"]
  show ?thesis by (auto simp: Let_def sample_lib_defs)
qed

theorem in_port_returns_answer_witness:
  "\<exists>w. RelInPortB (driver_libc sample_kernels sample_nodes (\<lambda>_. False) next_fd None) 0 0x10 sample_lib
      = Some (0xff, sample_lib\<lparr>world := w\<rparr>) \<and> trace (devices w 0) = [Read8 0x30010 0xff]"
proof -
  have "unat (0 :: u32) < length (cards sample_lib)"
    "files (world sample_lib) (fd (cards sample_lib ! unat (0 :: u32))) = Some \<lparr>private_data = Some 0\<rparr>"
    by (simp_all add: sample_lib_def lib_start_def)
  from in_port_returns_answer [OF this, where K = sample_kernels and nodes = sample_nodes
      and unopenable = "\<lambda>_. False" and new_fd = next_fd and block = None and Register = "0x10"]
  show ?thesis by (auto simp: Let_def sample_lib_defs sample_kernels_def)
qed

section \<open>Names\<close>

text \<open>
  The driver binds ten cards the library cannot list, as their names lack "pci"; and one name has a
  slash, so that its node is not an entry of the directory.
\<close>

lemma undiscoverable_names:
  "filter (\<lambda>n. \<not> strstr n ''pci'') (map name accesio_pci_device_descriptors) =
     [''mod-tbd'', ''mod-tbd'', ''mod-tbd'', ''mod-tbd'', ''p104-dio-48'', ''p104-dio-96'',
      ''p104-dio-48s'', ''p104-wdg-e'', ''p104-wdg-csm'', ''p104-wdg-csma'']"
  by (simp add: accesio_pci_device_descriptors_def table_rows)

end
