(* ===== verification/Spec2Isabelle.thy ===== *)
theory Spec2Isabelle
  imports Irq_Wait_Spec Irq_Progress Style_Equivalence Pci_Hotplug Aiowdm_Table
    Aiowdm_Driver
begin

text \<open>
  A verification of the ACCES I/O PCI driver for Linux (\<^verbatim>\<open>module/accesio_pci.c\<close> with the tables of
  \<^verbatim>\<open>include/accesio_pci_ids.h\<close> and the interface of \<^verbatim>\<open>include/accesio_pci_ioctl.h\<close>), of the user
  library on top of it (\<^verbatim>\<open>aiowdm/aiowdm.cpp\<close>), and of how the driver compares with the tables of the
  module it replaces (\<^verbatim>\<open>module_old\<close>).

  \<^bold>\<open>The program.\<close> The module registers a PCI driver for 121 device ids. Probe looks up the card's
  descriptor, maps its BARs, requests its interrupt line with the handler the descriptor names and
  creates a character device and its node. The handler tests the card's latch, acknowledges the
  interrupt by register accesses that vary by style, and may wake a waiting process. Through the
  node a process gets the card's descriptor, reads and writes registers, waits for an interrupt and
  cancels a wait. The library lists the nodes at start and offers these calls by card number.

  \<^bold>\<open>Theories, bottom up.\<close>
  \<^item> \<open>Aio_Prelude\<close>: machine types, error numbers, rule collections, table search, C strings.
  \<^item> \<open>Driver_Types\<close>: the structures and the names of handlers and register operations; a struct is
    a record, a function pointer a datatype of names, the union of the register request its four
    bytes as one word.
  \<^item> \<open>Bus\<close>: register access, lock and wake-up primitives as state computations that extend a trace.
    The card is a parameter that answers each read from the whole history.
  \<^item> \<open>Irq_Styles\<close>: the macros and every enable, disable and interrupt function of the irq_ops region,
    one definition per function, with the function's name; \<open>call_isr\<close> and
    \<open>call_register_operation\<close> are calls through the descriptor's pointers.
  \<^item> \<open>Irq_Contract\<close>: the locale \<open>latched_isr\<close>, what a handler that tests a latch promises,
    interpreted on each of the nineteen, with the accesses each makes (\<open>ack_ops\<close>, what the code does).
    \<open>Irq_Properties\<close>: the accesses the comments beside the code prescribe (\<open>commented_ack\<close>), the two
    handlers that depart from them, and the promises for all handlers: decline, acknowledge, wake,
    confinement.
  \<^item> \<open>Register_Actions\<close>, \<open>Style_Equivalence\<close>: the old module's table of styles, the interpreter of its
    operations, and which current functions do what the table says. The interpreter is inside a C
    comment and nothing runs the table: they serve as the written description of the styles, not as
    code of the program.
  \<^item> \<open>Device_Table\<close>, \<open>Old_Device_Table\<close>, \<open>Table_Check\<close>: the rows of the current and old tables, the
    check at load, the search of probe, and the agreement of the tables.
  \<^item> \<open>Char_Driver\<close>: the ioctls and file operations, one definition per function.
  \<^item> \<open>Transition_Systems\<close>, \<open>Irq_Wait\<close>, \<open>Irq_Wait_Spec\<close>, \<open>Irq_Progress\<close>: runs and the locales
    \<open>lock_client\<close>, \<open>protected_data\<close> and \<open>terminating_steps\<close>; the wait, cancel and notify code as threads
    of a step relation, one statement a step (\<open>exec\<close>), in which threads, signals and returns interleave
    freely; its invariants; its refinement to a specification with three states, with the two places
    where the code departs from what its callers expect; and its progress: a bound on the statements
    the threads inside the driver can execute, and that all of them can reach their result or a
    justified sleep.
  \<^item> \<open>Pci_Driver\<close>, \<open>Pci_Properties\<close>, \<open>Pci_Hotplug\<close>: probe, remove, load and unload over what the
    kernel's services answer, with a log of resources; what is held when, what is given back, what an
    error leaks; and the device nodes and minor numbers of cards that come and go.
  \<^item> \<open>Aiowdm\<close>, \<open>Aiowdm_Table\<close>, \<open>Aiowdm_Driver\<close>: the library over \<^verbatim>\<open>open\<close>, \<^verbatim>\<open>ioctl\<close> and \<^verbatim>\<open>malloc\<close> as parameters; the
    locale \<open>register_card\<close>, what its register calls need of an ioctl, interpreted on \<open>Char_Driver\<close>;
    discovery of the cards, the effect of each call on the bus, when the constructor writes past its
    table of 32 cards, and what is true of the table after any calls that stayed inside it.
  \<^item> This theory: what holds from probe to the library.

  \<^bold>\<open>Parameters.\<close> Not code of the repository, hence arguments: the card's answers, the copies to and
  from user space, PCI resources, the contents of uninitialised memory, the status of each kernel
  service probe and init call (\<open>probe_env\<close>, \<open>init_env\<close>), the sleep in the sequential wait, the device
  nodes, the paths the kernel refuses to open, whether \<^verbatim>\<open>malloc\<close> has memory, and the numbers of opened
  files. Hypotheses about them are stated in each property and are documented behaviour: a file that
  is opened gets a number that is not negative and not in use, a mapped buffer is copied whole.

  \<^bold>\<open>Bounds.\<close> There is no fuel: loops run over tables, BARs or directory entries and are folds or
  structural recursions. The wait is a step relation, so a sleep that never ends is a run that goes
  on without it. An access past the end of an array, a string copy past its buffer and a null
  dereference are undefined behaviour and \<open>None\<close>; that is the only place such a bound appears, and
  the code's own tests are the only guards of its operations.

  \<^bold>\<open>Simplifications.\<close> In the sequential handlers the lock is an event of the trace; its exclusion is
  the subject of \<open>Irq_Wait\<close>, whose memory is sequentially consistent. The write of
  \<open>disable_pcie_style_3\<close> into the context is an access at its address and clears the low byte of the
  pointer \<open>bar_bases[2]\<close>, as on a little-endian machine. In \<open>Aiowdm_Driver\<close> a path is refused or not
  whatever was opened before it, and memory is there for every descriptor or for none; the
  constructor tries each path once. A command code is kept as its parts, since the \<^verbatim>\<open>_IO\<close> macros are injective.

  \<^bold>\<open>Not modelled.\<close> Debug printing; the driver functions of \<^verbatim>\<open>module_old/aiowdm.c\<close> and their ioctl
  header, which are commented out and built by nothing (only the interpreter of register actions
  is kept, as the meaning of the style table); the test programs, which only parse arguments, print and call the
  library; the build files.
\<close>

section \<open>From probe to the library\<close>

text \<open>The context the handlers use, when it is the one probe set up.\<close>

definition context_from_probe :: "probe_context \<Rightarrow> accesio_pci_device_context \<Rightarrow> bool" where
  "context_from_probe c dc \<longleftrightarrow> ctx_descriptor c = Some (descriptor dc)
     \<and> bar_bases dc = ctx_bar_bases c \<and> default_bar dc = ctx_default_bar c"

definition selected_bar :: "probe_env \<Rightarrow> u32 \<Rightarrow> nat" where
  "selected_bar E device = (if bar_override device then 2
     else if \<exists>i<PCI_STD_NUM_BARS. pci_resource_flags E i AND IORESOURCE_IO \<noteq> 0 then 1 else 0)"

lemma probe_window:
  assumes "accesio_pci_driver_probe E device ps = (Some 0, ps')"
    and "drvdata ps' = Some pc" and "context_from_probe pc (dev_context (devices w c))"
  shows "card_window c w =
    (if pci_resource_flags E (selected_bar E device) AND (IORESOURCE_IO OR IORESOURCE_MEM) \<noteq> 0
     then pci_iomap E (selected_bar E device) else 0)"
proof -
  have "selected_bar E device < PCI_STD_NUM_BARS" by (simp add: selected_bar_def)
  then have "bars_of E ! selected_bar E device =
      (if pci_resource_flags E (selected_bar E device) AND (IORESOURCE_IO OR IORESOURCE_MEM) \<noteq> 0
       then pci_iomap E (selected_bar E device) else 0)"
    unfolding bars_of_def by (subst nth_map) simp_all
  moreover have "card_window c w = bars_of E ! selected_bar E device"
  proof (rule probe_bound [OF assms(1)])
    fix d
    assume "ps' = \<lparr>calls = calls ps @ bind_log E d (next_minor ps),
       drvdata = Some (bound_context E device d (next_minor ps)),
       next_minor = if device_create E = 0 then Suc (next_minor ps) else next_minor ps\<rparr>"
    with assms(2,3) show ?thesis
      by (simp only: card_window_def context_from_probe_def bound_context_def selected_bar_def
          has_io_bar_def pci_state.simps probe_context.simps option.inject)
         (auto simp only: probe_context.simps)
  qed
  ultimately show ?thesis by simp
qed

text \<open>
  C26: on a card that probe bound, and whose selected BAR is an I/O or memory BAR, so that probe
  mapped it, a 32-bit write of the library goes to the address the kernel mapped for the BAR probe
  selected, plus the register: BAR 2 for an id with an override, else BAR 1 when the card has an I/O
  BAR, else BAR 0. It is the only access. (Of the ids with an override only 0xc2ef can be bound; a
  selected BAR that is neither I/O nor memory leaves the address 0.)
\<close>

theorem out_port_at_selected_bar:
  fixes Register :: u32
  assumes "accesio_pci_driver_probe E device ps = (Some 0, ps')"
    and "drvdata ps' = Some pc" and "context_from_probe pc (dev_context (devices (world s) c))"
    and "pci_resource_flags E (selected_bar E device) AND (IORESOURCE_IO OR IORESOURCE_MEM) \<noteq> 0"
    and "unat CardNum < length (cards s)"
    and "files (world s) (fd (cards s ! unat CardNum)) = Some \<lparr>private_data = Some c\<rparr>"
  shows "\<exists>w. RelOutPortL (driver_libc K nodes unopenable new_fd block) CardNum Register d s = Some (0, s\<lparr>world := w\<rparr>)
    \<and> trace (devices w c) = trace (devices (world s) c) @
        [Write32 (pci_iomap E (selected_bar E device) + scast Register) d]"
proof -
  have sel: "driver.selects (fd (cards s ! unat CardNum)) c (card_window c (world s)) CardNum s"
    using assms(5,6) by (intro driver_selects) (simp_all add: opened_on_def)
  have "card_window c (world s) = pci_iomap E (selected_bar E device)"
    using probe_window [OF assms(1-3)] assms(4) by simp
  with driver.out_ports(3) [OF sel, of K nodes unopenable new_fd block Register d] show ?thesis by auto
qed

text \<open>A card with its registers in BAR 1.\<close>

definition io_card_env :: probe_env where
  "io_card_env = sample_env\<lparr>pci_resource_flags := (\<lambda>i. if i = 1 then 0x101 else 0),
     pci_iomap := (\<lambda>i. 0x30000)\<rparr>"

lemma io_card_selects: "selected_bar io_card_env 0x0100 = 1"
proof -
  have "pci_resource_flags io_card_env 1 AND IORESOURCE_IO \<noteq> 0" by (simp add: io_card_env_def)
  then have "\<exists>i<PCI_STD_NUM_BARS. pci_resource_flags io_card_env i AND IORESOURCE_IO \<noteq> 0"
    by (intro exI [of _ 1]) simp
  then show ?thesis by (simp add: selected_bar_def bar_override_def)
qed

lemma io_card_probe:
  "\<exists>ps' pc. accesio_pci_driver_probe io_card_env 0x0100 idle = (Some 0, ps') \<and> drvdata ps' = Some pc
     \<and> ctx_descriptor pc = Some (hd descriptors_1)"
proof -
  have "accesio_pci_driver_probe io_card_env 0x0100 idle = (Some 0,
    \<lparr>calls = calls idle @ bind_log io_card_env (hd descriptors_1) (next_minor idle),
     drvdata = Some (bound_context io_card_env 0x0100 (hd descriptors_1) (next_minor idle)),
     next_minor = (if device_create io_card_env = 0 then Suc (next_minor idle) else next_minor idle)\<rparr>)"
    by (rule probe_succeeds [OF find_0100])
       (simp_all add: io_card_env_def sample_env_def descriptors_1_def)
  then show ?thesis by (simp add: bound_context_def)
qed

theorem out_port_at_selected_bar_witness:
  "\<exists>(s :: sys_world lib_state) w. RelOutPortL (driver_libc sample_kernels sample_nodes (\<lambda>_. False) next_fd None)
      0 8 0x1234 s = Some (0, s\<lparr>world := w\<rparr>) \<and> trace (devices w 0) = [Write32 0x30008 0x1234]"
proof -
  from io_card_probe obtain ps' pc where
    p: "accesio_pci_driver_probe io_card_env 0x0100 idle = (Some 0, ps')" "drvdata ps' = Some pc"
      "ctx_descriptor pc = Some (hd descriptors_1)" by blast
  let ?dc = "sample_context\<lparr>descriptor := hd descriptors_1, bar_bases := ctx_bar_bases pc,
    default_bar := ctx_default_bar pc\<rparr>"
  let ?s = "sample_lib\<lparr>world := (world sample_lib)\<lparr>devices := (\<lambda>_. \<lparr>trace = [], dev_context = ?dc\<rparr>)\<rparr>\<rparr>"
  have c: "context_from_probe pc (dev_context (devices (world ?s) 0))"
    by (simp add: context_from_probe_def p(3))
  have f: "pci_resource_flags io_card_env (selected_bar io_card_env 0x0100)
      AND (IORESOURCE_IO OR IORESOURCE_MEM) \<noteq> 0"
    unfolding io_card_selects by (simp add: io_card_env_def)
  have o: "unat (0 :: u32) < length (cards ?s)"
    "files (world ?s) (fd (cards ?s ! unat (0 :: u32))) = Some \<lparr>private_data = Some 0\<rparr>"
    by (simp_all add: sample_lib_def lib_start_def)
  from out_port_at_selected_bar [OF p(1,2) c f o, where K = sample_kernels
      and nodes = sample_nodes and unopenable = "\<lambda>_. False" and new_fd = next_fd and block = None and Register = 8 and d = "0x1234"]
  obtain w where "RelOutPortL (driver_libc sample_kernels sample_nodes (\<lambda>_. False) next_fd None) 0 8 0x1234 ?s
      = Some (0, ?s\<lparr>world := w\<rparr>)" "trace (devices w 0) = [Write32 0x30008 0x1234]"
    unfolding io_card_selects by (auto simp: io_card_env_def)
  then show ?thesis by blast
qed

text \<open>
  An I/O BAR anywhere selects BAR 1, also when BAR 1 is not there: the library's register calls then
  go to addresses near 0.
\<close>

lemma selected_bar_may_be_unmapped:
  "selected_bar sample_env 0x0100 = 1 \<and> bars_of sample_env ! 1 = 0 \<and> bars_of sample_env ! 2 \<noteq> 0"
  using sample_bars by (simp add: selected_bar_def bar_override_def has_io_bar_def)

end
